(* ===== verification/Prelude.thy ===== *)
theory Prelude
  imports Complex_Main "HOL-Library.Word"
begin

unbundle bit_operations_syntax

text \<open>
  Shared vocabulary of the development.

  \<^item> Machine integers: \<open>uint8_t\<close> \dots \<open>uint64_t\<close> are words of that width, so
    addition and subtraction wrap as in C.
  \<^item> Tables: the program keeps almost all of its state in a fixed array together with a
    count of live entries, searched from index 0 with a linear loop. Such a pair is the list of
    the live entries (the count is its length); a loop that changes the first matching entry and
    returns is \<open>upd_first\<close>, a \<open>memmove\<close> that closes the gap after the first matching
    entry is \<open>del_first\<close>.
  \<^item> \<open>bounded_table\<close>: the contract of an "update the entry with this key, or append one
    while there is room" operation. Four operations of the master implement it.
  \<^item> \<open>snapshot_ring\<close>: the contract of the ring of four reference-counted snapshot slots
    that two components of the master keep.
  \<^item> \<open>simulation\<close>: the contract of a component that refines an abstract specification, event by event.
  \<^item> Strings: a \<open>char[N]\<close> buffer that always keeps a zero in its last byte is the
    \<open>string\<close> before its first zero; \<open>strncpy(dst, src, N - 1)\<close> stores
    \<open>c_strncpy (N - 1) src\<close>.
  \<^item> Floating point: \<open>fp\<close> has the finite values as rationals, the infinities and the
    not-a-number value. Every arithmetic operation takes the rounding function of the platform as
    its first argument, so what is proved holds for every rounding mode and precision.
\<close>

named_theorems vom_simps
named_theorems vom_frame

type_synonym u8 = "8 word"
type_synonym u16 = "16 word"
type_synonym u32 = "32 word"
type_synonym u64 = "64 word"

section \<open>Linear tables\<close>

fun upd_first :: "('a \<Rightarrow> bool) \<Rightarrow> ('a \<Rightarrow> 'a) \<Rightarrow> 'a list \<Rightarrow> 'a list" where
  "upd_first P f [] = []"
| "upd_first P f (x # xs) = (if P x then f x # xs else x # upd_first P f xs)"

fun del_first :: "('a \<Rightarrow> bool) \<Rightarrow> 'a list \<Rightarrow> 'a list" where
  "del_first P [] = []"
| "del_first P (x # xs) = (if P x then xs else x # del_first P xs)"

definition lookup_by :: "('r \<Rightarrow> 'k) \<Rightarrow> 'k \<Rightarrow> 'r list \<Rightarrow> 'r option" where
  "lookup_by key k xs = List.find (\<lambda>r. key r = k) xs"

definition table_ok :: "('r \<Rightarrow> 'k) \<Rightarrow> nat \<Rightarrow> 'r list \<Rightarrow> bool" where
  "table_ok key cap xs \<longleftrightarrow> distinct (map key xs) \<and> length xs \<le> cap"

subsection \<open>Laws of the loops\<close>

lemma length_upd_first [simp]: "length (upd_first P f xs) = length xs"
  by (induction xs) auto

lemma upd_first_none: "\<not> list_ex P xs \<Longrightarrow> upd_first P f xs = xs"
  by (induction xs) auto

lemma upd_first_split:
  "list_ex P xs \<Longrightarrow>
    \<exists>ys x zs. xs = ys @ x # zs \<and> P x \<and> \<not> list_ex P ys \<and> upd_first P f xs = ys @ f x # zs"
proof (induction xs)
  case Nil
  then show ?case by simp
next
  case (Cons a xs)
  show ?case
  proof (cases "P a")
    case True
    then have "a # xs = [] @ a # xs \<and> P a \<and> \<not> list_ex P [] \<and> upd_first P f (a # xs) = [] @ f a # xs"
      by simp
    then show ?thesis by blast
  next
    case False
    with Cons obtain ys x zs where "xs = ys @ x # zs" "P x" "\<not> list_ex P ys"
      "upd_first P f xs = ys @ f x # zs" by auto
    with False have "a # xs = (a # ys) @ x # zs \<and> P x \<and> \<not> list_ex P (a # ys)
      \<and> upd_first P f (a # xs) = (a # ys) @ f x # zs" by simp
    then show ?thesis by blast
  qed
qed

lemma upd_first_snoc:
  "\<not> list_ex P xs \<Longrightarrow> upd_first P f (xs @ [x]) = xs @ upd_first P f [x]"
  by (induction xs) auto

lemma map_upd_first:
  "(\<And>x. x \<in> set xs \<Longrightarrow> P x \<Longrightarrow> g (f x) = g x) \<Longrightarrow> map g (upd_first P f xs) = map g xs"
  by (induction xs) auto

lemma set_upd_first_subset: "set (upd_first P f xs) \<subseteq> set xs \<union> f ` {x \<in> set xs. P x}"
  by (induction xs) auto

lemma upd_first_ball:
  "(\<And>x. x \<in> set xs \<Longrightarrow> Q x) \<Longrightarrow> (\<And>x. x \<in> set xs \<Longrightarrow> P x \<Longrightarrow> Q (f x)) \<Longrightarrow>
    y \<in> set (upd_first P f xs) \<Longrightarrow> Q y"
  using set_upd_first_subset [of P f xs] by blast

lemma upd_first_map:
  "distinct (map key xs) \<Longrightarrow>
    upd_first (\<lambda>r. key r = k) f xs = map (\<lambda>r. if key r = k then f r else r) xs"
proof (induction xs)
  case (Cons a xs)
  have "map (\<lambda>r. if key r = k then f r else r) xs = xs" if "key a = k"
    using that Cons.prems by (intro map_idI) (auto intro: rev_image_eqI split: if_splits)
  with Cons show ?case by auto
qed simp

lemma set_del_first_subset: "set (del_first P xs) \<subseteq> set xs"
  by (induction xs) auto

lemma del_first_none: "\<not> list_ex P xs \<Longrightarrow> del_first P xs = xs"
  by (induction xs) auto

lemma length_del_first: "list_ex P xs \<Longrightarrow> length (del_first P xs) = length xs - 1"
proof (induction xs)
  case (Cons a xs)
  then show ?case by (cases xs) auto
qed simp

lemma length_del_first_le: "length (del_first P xs) \<le> length xs"
  by (induction xs) auto

lemma distinct_map_del_first: "distinct (map g xs) \<Longrightarrow> distinct (map g (del_first P xs))"
  by (induction xs) (auto dest: subsetD [OF set_del_first_subset])

lemma del_first_filter:
  "distinct (map key xs) \<Longrightarrow> del_first (\<lambda>r. key r = k) xs = filter (\<lambda>r. key r \<noteq> k) xs"
proof (induction xs)
  case (Cons a xs)
  have "filter (\<lambda>r. key r \<noteq> k) xs = xs" if "key a = k"
    using that Cons.prems by (auto intro!: filter_True rev_image_eqI)
  with Cons show ?case by auto
qed simp

lemma del_first_append_absent: "x \<notin> set xs \<Longrightarrow> del_first (\<lambda>y. y = x) (xs @ [x]) = xs"
  by (induction xs) auto

subsection \<open>Lookup by key\<close>

lemma lookup_by_Nil [simp]: "lookup_by key k [] = None"
  by (simp add: lookup_by_def)

lemma lookup_by_Cons [simp]:
  "lookup_by key k (x # xs) = (if key x = k then Some x else lookup_by key k xs)"
  by (simp add: lookup_by_def)

lemma lookup_by_None: "lookup_by key k xs = None \<longleftrightarrow> k \<notin> key ` set xs"
  by (induction xs) auto

lemma lookup_by_ex: "list_ex (\<lambda>r. key r = k) xs \<longleftrightarrow> lookup_by key k xs \<noteq> None"
  by (induction xs) auto

lemma lookup_by_SomeD: "lookup_by key k xs = Some r \<Longrightarrow> r \<in> set xs \<and> key r = k"
  by (induction xs) (auto split: if_splits)

lemma lookup_by_Some_iff:
  "distinct (map key xs) \<Longrightarrow> lookup_by key k xs = Some r \<longleftrightarrow> r \<in> set xs \<and> key r = k"
  by (induction xs) (auto simp: image_iff)

lemma lookup_by_append:
  "lookup_by key k (xs @ ys) =
    (case lookup_by key k xs of None \<Rightarrow> lookup_by key k ys | Some r \<Rightarrow> Some r)"
  by (induction xs) auto

lemma lookup_by_upd_first:
  "(\<And>r. key r = k \<Longrightarrow> key (f r) = k) \<Longrightarrow>
    lookup_by key k (upd_first (\<lambda>r. key r = k) f xs) = map_option f (lookup_by key k xs)"
  by (induction xs) auto

lemma lookup_by_upd_first_other:
  "k' \<noteq> k \<Longrightarrow> (\<And>r. key r = k \<Longrightarrow> key (f r) = k) \<Longrightarrow>
    lookup_by key k' (upd_first (\<lambda>r. key r = k) f xs) = lookup_by key k' xs"
  by (induction xs) auto

lemma lookup_by_map:
  "(\<And>r. key (f r) = key r) \<Longrightarrow> lookup_by key k (map f xs) = map_option f (lookup_by key k xs)"
  by (induction xs) auto

lemma lookup_by_del_first:
  "k' \<noteq> k \<Longrightarrow> lookup_by key k' (del_first (\<lambda>r. key r = k) xs) = lookup_by key k' xs"
  by (induction xs) auto

lemma dom_lookup_by: "dom (\<lambda>k. lookup_by key k xs) = key ` set xs"
  by (auto simp: dom_def lookup_by_None)

lemma card_dom_lookup_by: "distinct (map key xs) \<Longrightarrow> card (dom (\<lambda>k. lookup_by key k xs)) = length xs"
  using distinct_card [of "map key xs"] by (simp add: dom_lookup_by)

lemma table_ok_Nil [simp]: "table_ok key cap []"
  by (simp add: table_ok_def)

lemma table_ok_upd_first:
  "table_ok key cap xs \<Longrightarrow> (\<And>r. r \<in> set xs \<Longrightarrow> P r \<Longrightarrow> key (f r) = key r) \<Longrightarrow>
    table_ok key cap (upd_first P f xs)"
  by (simp add: table_ok_def map_upd_first)

lemma table_ok_snoc:
  "table_ok key cap xs \<Longrightarrow> length xs < cap \<Longrightarrow> key r \<notin> key ` set xs \<Longrightarrow> table_ok key cap (xs @ [r])"
  by (auto simp: table_ok_def)

lemma table_ok_del_first: "table_ok key cap xs \<Longrightarrow> table_ok key cap (del_first P xs)"
  using length_del_first_le [of P xs] by (auto simp: table_ok_def distinct_map_del_first)

section \<open>Sums over tables\<close>

lemma sum_upd_first:
  "List.find P xs = Some x \<Longrightarrow>
    sum_list (map g (upd_first P f xs)) + g x = sum_list (map g xs) + (g (f x) :: nat)"
  by (induction xs) (auto split: if_splits)

lemma find_ex: "list_ex P xs \<longleftrightarrow> (\<exists>x. List.find P xs = Some x)"
  by (induction xs) auto

lemma find_SomeD: "List.find P xs = Some x \<Longrightarrow> x \<in> set xs \<and> P x"
  by (induction xs) (auto split: if_splits)

lemma unat_sum_list:
  "unat (sum_list (map f xs) :: 'a::len word) = (\<Sum>x\<leftarrow>xs. unat (f x)) mod 2 ^ LENGTH('a)"
proof (induction xs)
  case (Cons x xs)
  then show ?case by (simp add: unat_word_ariths mod_add_right_eq)
qed simp

section \<open>The contract of an update-or-append table\<close>

text \<open>
  \<open>put a s\<close> updates the row with key \<open>akey a\<close> by \<open>merge a\<close>, or appends
  \<open>fresh a\<close> while the table has fewer than \<open>cap\<close> rows, or refuses. \<open>valid a\<close>
  is what the caller must respect for the key to be stored as given (identifiers that fit their
  buffer).
\<close>

locale bounded_table =
  fixes rows :: "'s \<Rightarrow> 'r list"
    and key :: "'r \<Rightarrow> 'k"
    and cap :: nat
    and akey :: "'a \<Rightarrow> 'k"
    and valid :: "'a \<Rightarrow> bool"
    and put :: "'a \<Rightarrow> 's \<Rightarrow> 's"
    and accepted :: "'a \<Rightarrow> 's \<Rightarrow> bool"
    and merge :: "'a \<Rightarrow> 'r \<Rightarrow> 'r"
    and fresh :: "'a \<Rightarrow> 'r"
  assumes put_hit: "lookup_by key (akey a) (rows s) = Some r \<Longrightarrow>
      accepted a s \<and> rows (put a s) = upd_first (\<lambda>x. key x = akey a) (merge a) (rows s)"
    and put_room: "lookup_by key (akey a) (rows s) = None \<Longrightarrow> length (rows s) < cap \<Longrightarrow>
      accepted a s \<and> rows (put a s) = rows s @ [fresh a]"
    and put_full: "lookup_by key (akey a) (rows s) = None \<Longrightarrow> cap \<le> length (rows s) \<Longrightarrow>
      \<not> accepted a s \<and> put a s = s"
    and key_merge: "key r = akey a \<Longrightarrow> key (merge a r) = akey a"
    and key_fresh: "valid a \<Longrightarrow> key (fresh a) = akey a"
begin

lemma accepted_iff:
  "accepted a s \<longleftrightarrow> akey a \<in> key ` set (rows s) \<or> length (rows s) < cap"
proof (cases "lookup_by key (akey a) (rows s)")
  case None
  then have "akey a \<notin> key ` set (rows s)" by (simp add: lookup_by_None)
  with None show ?thesis using put_room [OF None] put_full [OF None] by fastforce
next
  case (Some r)
  then have "akey a \<in> key ` set (rows s)" by (metis lookup_by_None option.distinct(1))
  with Some show ?thesis using put_hit by blast
qed

lemma rejected_unchanged: "\<not> accepted a s \<Longrightarrow> put a s = s"
  by (metis accepted_iff lookup_by_None not_le put_full)

lemma put_table_ok:
  assumes "valid a" "table_ok key cap (rows s)"
  shows "table_ok key cap (rows (put a s))"
proof (cases "lookup_by key (akey a) (rows s)")
  case None
  show ?thesis
  proof (cases "length (rows s) < cap")
    case True
    with None assms show ?thesis
      by (simp add: put_room table_ok_snoc key_fresh lookup_by_None)
  next
    case False
    with None assms show ?thesis by (simp add: put_full)
  qed
next
  case (Some r)
  with assms show ?thesis
    by (auto simp: put_hit [OF Some] key_merge intro!: table_ok_upd_first)
qed

lemma put_lookup_same:
  assumes "valid a" "accepted a s"
  shows "lookup_by key (akey a) (rows (put a s)) =
    Some (case lookup_by key (akey a) (rows s) of None \<Rightarrow> fresh a | Some r \<Rightarrow> merge a r)"
proof (cases "lookup_by key (akey a) (rows s)")
  case None
  with assms have "length (rows s) < cap"
    using put_full [OF None] by (meson not_le)
  with None assms show ?thesis by (simp add: put_room lookup_by_append key_fresh)
next
  case (Some r)
  then show ?thesis by (simp add: put_hit [OF Some] lookup_by_upd_first key_merge)
qed

lemma put_lookup_other:
  assumes "valid a" "k \<noteq> akey a"
  shows "lookup_by key k (rows (put a s)) = lookup_by key k (rows s)"
proof (cases "lookup_by key (akey a) (rows s)")
  case None
  show ?thesis
  proof (cases "length (rows s) < cap")
    case True
    with None assms show ?thesis
      by (simp add: put_room lookup_by_append key_fresh split: option.splits)
  next
    case False
    with None show ?thesis by (simp add: put_full)
  qed
next
  case (Some r)
  with assms show ?thesis
    by (simp add: put_hit [OF Some] lookup_by_upd_first_other key_merge)
qed

lemma put_keys:
  assumes "valid a"
  shows "key ` set (rows (put a s)) =
    (if accepted a s then insert (akey a) (key ` set (rows s)) else key ` set (rows s))"
proof (intro set_eqI)
  fix k
  have "k \<in> key ` set (rows (put a s)) \<longleftrightarrow> lookup_by key k (rows (put a s)) \<noteq> None"
    by (simp add: lookup_by_None)
  also have "\<dots> \<longleftrightarrow> (k = akey a \<and> accepted a s) \<or> lookup_by key k (rows s) \<noteq> None"
    using assms put_lookup_same [of a s] put_lookup_other [of a k s] rejected_unchanged [of a s]
    by (cases "k = akey a"; cases "accepted a s") auto
  finally show "k \<in> key ` set (rows (put a s)) \<longleftrightarrow>
      k \<in> (if accepted a s then insert (akey a) (key ` set (rows s)) else key ` set (rows s))"
    by (auto simp: lookup_by_None)
qed

lemma puts_table_ok:
  "(\<And>a. a \<in> set as \<Longrightarrow> valid a) \<Longrightarrow> table_ok key cap (rows s) \<Longrightarrow>
    table_ok key cap (rows (fold put as s))"
  by (induction as arbitrary: s) (auto intro: put_table_ok)

lemma puts_keep_keys:
  "(\<And>a. a \<in> set as \<Longrightarrow> valid a) \<Longrightarrow> key ` set (rows s) \<subseteq> key ` set (rows (fold put as s))"
proof (induction as arbitrary: s)
  case (Cons a as)
  have "key ` set (rows s) \<subseteq> key ` set (rows (put a s))"
    using Cons.prems by (auto simp: put_keys)
  also have "\<dots> \<subseteq> key ` set (rows (fold put as (put a s)))"
    using Cons.prems by (intro Cons.IH) simp
  finally show ?case by simp
qed simp

end

section \<open>The contract of a snapshot ring\<close>

text \<open>
  A ring of \<open>n\<close> slots holds copies of the authoritative state. \<open>pick\<close> is the slot
  search of the code, \<open>acquire\<close> returns the slot whose address is handed out.
\<close>

definition ring_shape :: "nat \<Rightarrow> 'v list \<Rightarrow> u32 list \<Rightarrow> nat \<Rightarrow> bool" where
  "ring_shape n slots counts t \<longleftrightarrow> length counts = n \<and> length slots = n \<and> t < n"

locale snapshot_ring =
  fixes n :: nat
    and pick :: "u32 list \<Rightarrow> nat \<Rightarrow> nat"
    and current :: "'c \<Rightarrow> 'v"
    and pool :: "'c \<Rightarrow> 'v list"
    and refs :: "'c \<Rightarrow> u32 list"
    and tail :: "'c \<Rightarrow> nat"
    and acquire :: "'c \<Rightarrow> nat \<times> 'c"
    and release :: "nat \<Rightarrow> 'c \<Rightarrow> 'c"
  assumes n_pos: "0 < n"
    and pick_less: "length rs = n \<Longrightarrow> t < n \<Longrightarrow> pick rs t < n"
    and pick_free: "length rs = n \<Longrightarrow> t < n \<Longrightarrow> 0 \<in> set rs \<Longrightarrow> rs ! pick rs t = 0"
    and pick_busy: "length rs = n \<Longrightarrow> t < n \<Longrightarrow> 0 \<notin> set rs \<Longrightarrow> pick rs t = t"
    and acquire_slot: "fst (acquire c) = pick (refs c) (tail c)"
    and acquire_current: "current (snd (acquire c)) = current c"
    and acquire_pool: "pool (snd (acquire c)) = (pool c)[fst (acquire c) := current c]"
    and acquire_refs: "refs (snd (acquire c)) =
        (refs c)[fst (acquire c) := refs c ! fst (acquire c) + 1]"
    and acquire_tail: "tail (snd (acquire c)) = (fst (acquire c) + 1) mod n"
    and release_current: "current (release i c) = current c"
    and release_pool: "pool (release i c) = pool c"
    and release_tail: "tail (release i c) = tail c"
    and release_refs: "refs (release i c) =
        (if i < n \<and> refs c ! i > 0 then (refs c)[i := refs c ! i - 1] else refs c)"
begin

lemma acquire_ring_ok: "ring_shape n (pool c) (refs c) (tail c) \<Longrightarrow> ring_shape n (pool (snd (acquire c))) (refs (snd (acquire c))) (tail (snd (acquire c)))"
  using n_pos by (simp add: ring_shape_def acquire_pool acquire_refs acquire_tail)

lemma release_ring_ok: "ring_shape n (pool c) (refs c) (tail c) \<Longrightarrow> ring_shape n (pool (release i c)) (refs (release i c)) (tail (release i c))"
  by (simp add: ring_shape_def release_pool release_refs release_tail)

lemma acquire_less: "ring_shape n (pool c) (refs c) (tail c) \<Longrightarrow> fst (acquire c) < n"
  by (simp add: ring_shape_def acquire_slot pick_less)

lemma acquire_copies: "ring_shape n (pool c) (refs c) (tail c) \<Longrightarrow> pool (snd (acquire c)) ! fst (acquire c) = current c"
  by (simp add: acquire_pool acquire_less [unfolded ring_shape_def] ring_shape_def)

lemma acquire_keeps_live:
  assumes "ring_shape n (pool c) (refs c) (tail c)" "0 \<in> set (refs c)" "i < n" "refs c ! i > 0"
  shows "pool (snd (acquire c)) ! i = pool c ! i \<and> refs (snd (acquire c)) ! i = refs c ! i"
proof -
  have "refs c ! fst (acquire c) = 0"
    using assms by (simp add: ring_shape_def acquire_slot pick_free)
  with assms have "i \<noteq> fst (acquire c)" by auto
  then show ?thesis by (simp add: acquire_pool acquire_refs)
qed

lemma acquire_release:
  assumes "ring_shape n (pool c) (refs c) (tail c)" "0 \<in> set (refs c)"
  shows "refs (release (fst (acquire c)) (snd (acquire c))) = refs c"
proof -
  let ?i = "fst (acquire c)"
  have i: "?i < n" "refs c ! ?i = 0"
    using assms acquire_less [OF assms(1)] by (auto simp: ring_shape_def acquire_slot pick_free)
  have "length (refs c) = n" using assms by (simp add: ring_shape_def)
  with i show ?thesis
    by (simp add: release_refs acquire_refs list_update_same_conv)
qed

lemma acquire_clobbers:
  assumes "ring_shape n (pool c) (refs c) (tail c)" "0 \<notin> set (refs c)"
  shows "fst (acquire c) = tail c" "refs c ! tail c > 0"
    "pool (snd (acquire c)) ! tail c = current c"
proof -
  show slot: "fst (acquire c) = tail c"
    using assms by (simp add: ring_shape_def acquire_slot pick_busy)
  show "refs c ! tail c > 0"
    using assms by (metis nth_mem ring_shape_def word_neq_0_conv)
  show "pool (snd (acquire c)) ! tail c = current c"
    using acquire_copies [OF assms(1)] slot by simp
qed

end

subsection \<open>Scanning a ring from a start slot\<close>

text \<open>
  \<open>ring_scan n rs k s\<close> looks for a zero count among the \<open>k\<close> slots from \<open>s\<close>
  on, cyclically, and gives the slot after them when there is none.
\<close>

fun ring_scan :: "nat \<Rightarrow> u32 list \<Rightarrow> nat \<Rightarrow> nat \<Rightarrow> nat" where
  "ring_scan n rs 0 s = s"
| "ring_scan n rs (Suc k) s = (if rs ! s = 0 then s else ring_scan n rs k ((s + 1) mod n))"

lemma ring_scan_less: "s < n \<Longrightarrow> ring_scan n rs k s < n"
  by (induction n rs k s rule: ring_scan.induct) auto

lemma ring_scan_hit:
  "s < n \<Longrightarrow> i < k \<Longrightarrow> rs ! ((s + i) mod n) = 0 \<Longrightarrow> rs ! ring_scan n rs k s = 0"
proof (induction n rs k s arbitrary: i rule: ring_scan.induct)
  case (2 n rs k s)
  show ?case
  proof (cases "rs ! s = 0")
    case False
    with 2 obtain j where "i = Suc j" by (cases i) auto
    with 2 False show ?thesis by (auto simp: mod_Suc_eq mod_add_left_eq elim!: "2.IH")
  qed simp
qed simp

lemma ring_scan_miss:
  "s < n \<Longrightarrow> (\<And>i. i < k \<Longrightarrow> rs ! ((s + i) mod n) \<noteq> 0) \<Longrightarrow> ring_scan n rs k s = (s + k) mod n"
proof (induction n rs k s rule: ring_scan.induct)
  case (2 n rs k s)
  have "rs ! s \<noteq> 0" using "2.prems"(1) "2.prems"(2) [of 0] by simp
  moreover have "rs ! (((s + 1) mod n + i) mod n) \<noteq> 0" if "i < k" for i
    using "2.prems"(2) [of "Suc i"] that by (simp add: mod_Suc_eq mod_add_left_eq)
  ultimately show ?case using 2 by (simp add: mod_Suc_eq mod_add_left_eq)
qed simp

lemma ring_scan_free:
  assumes "length rs = n" "s < n" "0 \<in> set rs"
  shows "rs ! ring_scan n rs n s = 0"
proof -
  obtain j where j: "j < n" "rs ! j = 0" using assms by (metis in_set_conv_nth)
  have "(s + (j + n - s) mod n) mod n = j"
    using assms(2) j(1) by (simp add: mod_add_right_eq)
  with assms j show ?thesis by (intro ring_scan_hit [where i = "(j + n - s) mod n"]) auto
qed

lemma ring_scan_busy:
  assumes "length rs = n" "s < n" "0 \<notin> set rs"
  shows "ring_scan n rs n s = s"
proof -
  have "ring_scan n rs n s = (s + n) mod n"
    using assms by (intro ring_scan_miss) (auto simp: in_set_conv_nth)
  with assms show ?thesis by simp
qed

section \<open>C strings\<close>

definition c_strncpy :: "nat \<Rightarrow> string \<Rightarrow> string" where
  "c_strncpy n s = take n s"

lemma c_strncpy_id [simp]: "length s \<le> n \<Longrightarrow> c_strncpy n s = s"
  by (simp add: c_strncpy_def)

lemma length_c_strncpy: "length (c_strncpy n s) \<le> n"
  by (simp add: c_strncpy_def)

text \<open>
  \<open>atoi\<close>: leading white space, an optional sign, then decimal digits up to the first other
  character. The value is not bounded here; callers convert it to the width of their variable.
\<close>

definition c_isspace :: "char \<Rightarrow> bool" where
  "c_isspace c \<longleftrightarrow> of_char c \<in> ({32, 9, 10, 11, 12, 13} :: nat set)"

definition c_isdigit :: "char \<Rightarrow> bool" where
  "c_isdigit c \<longleftrightarrow> (48::nat) \<le> of_char c \<and> of_char c \<le> (57::nat)"

fun c_digits :: "int \<Rightarrow> string \<Rightarrow> int" where
  "c_digits acc [] = acc"
| "c_digits acc (c # cs) =
     (if c_isdigit c then c_digits (10 * acc + (of_char c - 48)) cs else acc)"

definition c_atoi :: "string \<Rightarrow> int" where
  "c_atoi s =
     (case dropWhile c_isspace s of
        [] \<Rightarrow> 0
      | c # cs \<Rightarrow> if c = CHR ''-'' then - c_digits 0 cs
                  else if c = CHR ''+'' then c_digits 0 cs
                  else c_digits 0 (c # cs))"

text \<open>
  \<open>strtoul\<close> and \<open>strtoull\<close> in base 10 on a 64-bit platform: the value saturates at the largest one,
  and a minus sign negates it modulo 2^64.
\<close>

definition c_saturate :: "int \<Rightarrow> u64" where
  "c_saturate v = (if v > 2 ^ 64 - 1 then - 1 else word_of_int v)"

definition c_strtoul :: "string \<Rightarrow> u64" where
  "c_strtoul s =
     (case dropWhile c_isspace s of
        [] \<Rightarrow> 0
      | c # cs \<Rightarrow> if c = CHR ''-'' then (if c_digits 0 cs > 2 ^ 64 - 1 then - 1 else - c_saturate (c_digits 0 cs))
                  else if c = CHR ''+'' then c_saturate (c_digits 0 cs)
                  else c_saturate (c_digits 0 (c # cs)))"

text \<open>\<open>strchr\<close> as the index of the first occurrence.\<close>

fun c_strchr :: "char \<Rightarrow> string \<Rightarrow> nat option" where
  "c_strchr c [] = None"
| "c_strchr c (x # xs) = (if x = c then Some 0 else map_option Suc (c_strchr c xs))"

lemma c_strchr_None: "c_strchr c s = None \<longleftrightarrow> c \<notin> set s"
  by (induction s) auto

lemma c_strchr_append: "c \<notin> set xs \<Longrightarrow> c_strchr c (xs @ c # ys) = Some (length xs)"
  by (induction xs) auto

lemma c_strchr_take: "c_strchr c s = Some i \<Longrightarrow> take i s = takeWhile (\<lambda>x. x \<noteq> c) s"
  by (induction s arbitrary: i) (auto split: if_splits)

text \<open>The decimal digits that \<open>%u\<close> and \<open>%d\<close> print for a non-negative value, and the sixteen
  hexadecimal digits of \<open>%016llx\<close>.\<close>

definition digit_char :: "nat \<Rightarrow> char" where
  "digit_char d = ''0123456789abcdef'' ! d"

fun c_decimal :: "nat \<Rightarrow> string" where
  "c_decimal n = (if n < 10 then [digit_char n] else c_decimal (n div 10) @ [digit_char (n mod 10)])"

declare c_decimal.simps [simp del]

lemma c_digits_append:
  "list_all c_isdigit xs \<Longrightarrow> c_digits acc (xs @ ys) = c_digits (c_digits acc xs) ys"
  by (induction xs arbitrary: acc) simp_all

lemma digit_char_value:
  assumes "d < 10"
  shows "c_isdigit (digit_char d) \<and> of_char (digit_char d) = (int d + 48)"
proof -
  have "d \<in> {0, 1, 2, 3, 4, 5, 6, 7, 8, 9}" using assms by auto
  then show ?thesis by (auto simp: digit_char_def c_isdigit_def)
qed

lemma c_decimal_digits: "list_all c_isdigit (c_decimal n)"
proof (induction n rule: c_decimal.induct)
  case (1 n)
  then show ?case by (subst c_decimal.simps) (simp add: digit_char_value)
qed

lemma c_digits_decimal: "c_digits 0 (c_decimal n) = int n"
proof (induction n rule: c_decimal.induct)
  case (1 n)
  show ?case
  proof (cases "n < 10")
    case True
    then show ?thesis by (subst c_decimal.simps) (simp add: digit_char_value)
  next
    case False
    then have "c_digits 0 (c_decimal (n div 10) @ [digit_char (n mod 10)]) =
        c_digits (int (n div 10)) [digit_char (n mod 10)]"
      using 1 by (simp add: c_digits_append c_decimal_digits)
    also have "\<dots> = 10 * int (n div 10) + int (n mod 10)" by (simp add: digit_char_value)
    also have "\<dots> = int n" by (simp add: zdiv_int zmod_int)
    finally show ?thesis using False by (subst c_decimal.simps) simp
  qed
qed

lemma c_decimal_not_Nil: "c_decimal n \<noteq> []"
  by (subst c_decimal.simps) simp

lemma digit_no_sign: "c_isdigit c \<Longrightarrow> \<not> c_isspace c \<and> c \<noteq> CHR ''-'' \<and> c \<noteq> CHR ''+''"
  by (auto simp: c_isdigit_def c_isspace_def)

lemma c_atoi_decimal: "c_atoi (c_decimal n) = int n"
proof -
  obtain c cs where c: "c_decimal n = c # cs" using c_decimal_not_Nil by (meson list.exhaust)
  then have d: "c_isdigit c" using c_decimal_digits [of n] by simp
  have "c_atoi (c # cs) = c_digits 0 (c # cs)" using digit_no_sign [OF d] by (simp add: c_atoi_def)
  then show ?thesis using c_digits_decimal [of n] by (simp only: c)
qed

lemma c_strtoul_decimal: "n < 2 ^ 64 \<Longrightarrow> c_strtoul (c_decimal n) = of_nat n"
proof -
  assume n: "n < 2 ^ 64"
  obtain c cs where c: "c_decimal n = c # cs" using c_decimal_not_Nil by (meson list.exhaust)
  then have d: "c_isdigit c" using c_decimal_digits [of n] by simp
  have "c_strtoul (c # cs) = c_saturate (c_digits 0 (c # cs))"
    using digit_no_sign [OF d] by (simp add: c_strtoul_def)
  then show ?thesis using c_digits_decimal [of n] n by (simp only: c) (simp add: c_saturate_def)
qed

definition hex16 :: "u64 \<Rightarrow> string" where
  "hex16 h = map (\<lambda>i. digit_char (unat (drop_bit (4 * (15 - i)) h AND 15))) [0..<16]"

lemma length_hex16 [simp]: "length (hex16 h) = 16"
  by (simp add: hex16_def)

section \<open>Simulation\<close>

text \<open>
  The contract between a component and its specification: an abstraction that commutes with every event and explains its
  answer, on states that satisfy an invariant the events keep. It then explains whole histories. In the guarded form only the
  events that satisfy \<open>valid\<close> have to be explained.
\<close>

fun answers_of :: "('e \<Rightarrow> 's \<Rightarrow> 'r) \<Rightarrow> ('e \<Rightarrow> 's \<Rightarrow> 's) \<Rightarrow> 'e list \<Rightarrow> 's \<Rightarrow> 'r list" where
  "answers_of answer exec [] s = []"
| "answers_of answer exec (e # es) s = answer e s # answers_of answer exec es (exec e s)"

locale guarded_simulation =
  fixes inv :: "'s \<Rightarrow> bool" and valid :: "'e \<Rightarrow> bool" and abstr :: "'s \<Rightarrow> 'a"
    and exec :: "'e \<Rightarrow> 's \<Rightarrow> 's" and answer :: "'e \<Rightarrow> 's \<Rightarrow> 'r"
    and spec_exec :: "'e \<Rightarrow> 'a \<Rightarrow> 'a" and spec_answer :: "'e \<Rightarrow> 'a \<Rightarrow> 'r"
  assumes inv_exec: "inv s \<Longrightarrow> valid e \<Longrightarrow> inv (exec e s)"
    and exec_sim: "inv s \<Longrightarrow> valid e \<Longrightarrow> abstr (exec e s) = spec_exec e (abstr s)"
    and answer_sim: "inv s \<Longrightarrow> valid e \<Longrightarrow> answer e s = spec_answer e (abstr s)"
begin

lemma valid_run_inv: "inv s \<Longrightarrow> list_all valid es \<Longrightarrow> inv (fold exec es s)"
  by (induction es arbitrary: s) (simp_all add: inv_exec)

lemma valid_run_sim:
  "inv s \<Longrightarrow> list_all valid es \<Longrightarrow> abstr (fold exec es s) = fold spec_exec es (abstr s)"
  by (induction es arbitrary: s) (simp_all add: inv_exec exec_sim)

lemma valid_run_answers:
  "inv s \<Longrightarrow> list_all valid es \<Longrightarrow>
     answers_of answer exec es s = answers_of spec_answer spec_exec es (abstr s)"
  by (induction es arbitrary: s) (simp_all add: inv_exec exec_sim answer_sim)

end

text \<open>The contract of a component that accepts every event.\<close>

locale simulation =
  fixes inv :: "'s \<Rightarrow> bool" and abstr :: "'s \<Rightarrow> 'a"
    and exec :: "'e \<Rightarrow> 's \<Rightarrow> 's" and answer :: "'e \<Rightarrow> 's \<Rightarrow> 'r"
    and spec_exec :: "'e \<Rightarrow> 'a \<Rightarrow> 'a" and spec_answer :: "'e \<Rightarrow> 'a \<Rightarrow> 'r"
  assumes inv_step: "inv s \<Longrightarrow> inv (exec e s)"
    and step_sim: "inv s \<Longrightarrow> abstr (exec e s) = spec_exec e (abstr s)"
    and step_answer: "inv s \<Longrightarrow> answer e s = spec_answer e (abstr s)"

sublocale simulation \<subseteq> guarded_simulation inv "\<lambda>_. True" abstr exec answer spec_exec spec_answer
  by unfold_locales (simp_all add: inv_step step_sim step_answer)

context simulation
begin

lemma run_inv: "inv s \<Longrightarrow> inv (fold exec es s)"
  by (rule valid_run_inv) (simp_all add: list_all_iff)

lemma run_sim: "inv s \<Longrightarrow> abstr (fold exec es s) = fold spec_exec es (abstr s)"
  by (rule valid_run_sim) (simp_all add: list_all_iff)

lemma run_answers: "inv s \<Longrightarrow> answers_of answer exec es s = answers_of spec_answer spec_exec es (abstr s)"
  by (rule valid_run_answers) (simp_all add: list_all_iff)

end

section \<open>Floating point\<close>

datatype fp = Fin rat | PInf | NInf | NaN

type_synonym rounding = "rat \<Rightarrow> fp"

definition fp_inf :: "bool \<Rightarrow> fp" where
  "fp_inf positive = (if positive then PInf else NInf)"

fun fp_add :: "rounding \<Rightarrow> fp \<Rightarrow> fp \<Rightarrow> fp" where
  "fp_add rnd (Fin a) (Fin b) = rnd (a + b)"
| "fp_add rnd NaN y = NaN"
| "fp_add rnd x NaN = NaN"
| "fp_add rnd PInf NInf = NaN"
| "fp_add rnd NInf PInf = NaN"
| "fp_add rnd PInf y = PInf"
| "fp_add rnd NInf y = NInf"
| "fp_add rnd x PInf = PInf"
| "fp_add rnd x NInf = NInf"

fun fp_mul :: "rounding \<Rightarrow> fp \<Rightarrow> fp \<Rightarrow> fp" where
  "fp_mul rnd (Fin a) (Fin b) = rnd (a * b)"
| "fp_mul rnd NaN y = NaN"
| "fp_mul rnd x NaN = NaN"
| "fp_mul rnd (Fin a) PInf = (if a = 0 then NaN else fp_inf (a > 0))"
| "fp_mul rnd (Fin a) NInf = (if a = 0 then NaN else fp_inf (a < 0))"
| "fp_mul rnd PInf (Fin b) = (if b = 0 then NaN else fp_inf (b > 0))"
| "fp_mul rnd NInf (Fin b) = (if b = 0 then NaN else fp_inf (b < 0))"
| "fp_mul rnd PInf PInf = PInf"
| "fp_mul rnd NInf NInf = PInf"
| "fp_mul rnd PInf NInf = NInf"
| "fp_mul rnd NInf PInf = NInf"

text \<open>
  Division: every divisor of the program is a conversion of an unsigned integer or a positive
  constant, so a zero divisor is the positive zero.
\<close>

fun fp_div :: "rounding \<Rightarrow> fp \<Rightarrow> fp \<Rightarrow> fp" where
  "fp_div rnd (Fin a) (Fin b) =
     (if b = 0 then (if a = 0 then NaN else fp_inf (a > 0)) else rnd (a / b))"
| "fp_div rnd NaN y = NaN"
| "fp_div rnd x NaN = NaN"
| "fp_div rnd (Fin a) PInf = Fin 0"
| "fp_div rnd (Fin a) NInf = Fin 0"
| "fp_div rnd PInf (Fin b) = fp_inf (b \<ge> 0)"
| "fp_div rnd NInf (Fin b) = fp_inf (b < 0)"
| "fp_div rnd _ _ = NaN"

fun fp_gt :: "fp \<Rightarrow> fp \<Rightarrow> bool" where
  "fp_gt (Fin a) (Fin b) = (a > b)"
| "fp_gt NaN y = False"
| "fp_gt x NaN = False"
| "fp_gt PInf y = (y \<noteq> PInf)"
| "fp_gt NInf y = False"
| "fp_gt x NInf = True"
| "fp_gt x PInf = False"

definition fp_ge :: "fp \<Rightarrow> fp \<Rightarrow> bool" where
  "fp_ge x y \<longleftrightarrow> fp_gt x y \<or> (x = y \<and> x \<noteq> NaN)"

lemma fp_gt_NaN [simp]: "\<not> fp_gt NaN y" "\<not> fp_gt x NaN"
  by (cases x; simp)+

lemma fp_gt_irrefl [simp]: "\<not> fp_gt x x"
  by (cases x) auto

lemma fp_gt_trans: "fp_gt x y \<Longrightarrow> fp_gt y z \<Longrightarrow> fp_gt x z"
  by (cases x; cases y; cases z) auto

lemma fp_not_gt_trans: "y \<noteq> NaN \<Longrightarrow> \<not> fp_gt x y \<Longrightarrow> \<not> fp_gt y z \<Longrightarrow> z \<noteq> NaN \<Longrightarrow> \<not> fp_gt x z"
  by (cases x; cases y; cases z) auto

subsection \<open>Roundings of real formats\<close>

text \<open>
  What the percentages of the program need of a floating-point format: in the range of the values that
  occur, rounding is finite, monotone, and exact on small integers. Single and double precision have
  this in every rounding mode.
\<close>

definition monotone_rounding :: "rounding \<Rightarrow> bool" where
  "monotone_rounding rnd \<longleftrightarrow> (\<exists>f. (\<forall>x. 0 \<le> x \<longrightarrow> x \<le> 2 ^ 64 \<longrightarrow> rnd x = Fin (f x)) \<and> mono f
     \<and> f 0 = 0 \<and> f 1 = 1 \<and> f 100 = 100)"

lemma exact_rounding: "monotone_rounding Fin"
  unfolding monotone_rounding_def by (rule exI [of _ "\<lambda>x. x"]) (simp add: mono_def)

definition fp_of_word :: "rounding \<Rightarrow> 'a::len word \<Rightarrow> fp" where
  "fp_of_word rnd w = rnd (of_nat (unat w))"

fun fp_between :: "rat \<Rightarrow> fp \<Rightarrow> rat \<Rightarrow> bool" where
  "fp_between a (Fin x) b \<longleftrightarrow> a \<le> x \<and> x \<le> b"
| "fp_between a _ b \<longleftrightarrow> False"

lemma percentage_bounds:
  fixes a b :: "'a::len word"
  assumes rnd: "monotone_rounding rnd" and ab: "a \<le> b" "0 < b" and small: "LENGTH('a) \<le> 64"
  shows "fp_between 0 (fp_mul rnd (fp_div rnd (fp_of_word rnd a) (fp_of_word rnd b)) (Fin 100)) 100"
proof -
  obtain f where f: "\<And>x. 0 \<le> x \<Longrightarrow> x \<le> 2 ^ 64 \<Longrightarrow> rnd x = Fin (f x)" "mono f" "f 0 = 0" "f 1 = 1" "f 100 = 100"
    using rnd unfolding monotone_rounding_def by blast
  have range: "(of_nat (unat w) :: rat) \<le> 2 ^ 64" for w :: "'a word"
  proof -
    have "unat w < 2 ^ LENGTH('a)" by (rule unsigned_less)
    also have "(2 :: nat) ^ LENGTH('a) \<le> 2 ^ 64" using small by (intro power_increasing) simp_all
    finally show ?thesis by (metis less_imp_le of_nat_le_iff of_nat_numeral of_nat_power)
  qed
  have n: "unat a \<le> unat b" "1 \<le> unat b" using ab by (simp_all add: word_le_nat_alt word_less_nat_alt)
  have le: "(of_nat (unat a) :: rat) \<le> of_nat (unat b)" by (rule of_nat_mono [OF n(1)])
  have le1: "(1 :: rat) \<le> of_nat (unat b)" using of_nat_mono [OF n(2), where ?'a = rat] by (simp only: of_nat_1)
  define x y where "x = f (of_nat (unat a))" and "y = f (of_nat (unat b))"
  have "0 \<le> x" "x \<le> y" "1 \<le> y"
    using monoD [OF f(2), OF of_nat_0_le_iff [of "unat a"]] monoD [OF f(2), OF le] monoD [OF f(2), OF le1] f(3,4)
    by (simp_all add: x_def y_def)
  then have q: "0 \<le> x / y" "x / y \<le> 1" "y \<noteq> 0" by (simp_all add: divide_le_eq)
  then have q1: "x / y \<le> 2 ^ 64" by simp
  have r: "0 \<le> f (x / y)" "f (x / y) \<le> 1"
    using monoD [OF f(2) q(1)] monoD [OF f(2) q(2)] f(3,4) by simp_all
  then have p: "0 \<le> f (x / y) * 100" "f (x / y) * 100 \<le> 100" by simp_all
  then have p1: "f (x / y) * 100 \<le> 2 ^ 64" by simp
  have "fp_mul rnd (fp_div rnd (fp_of_word rnd a) (fp_of_word rnd b)) (Fin 100) = Fin (f (f (x / y) * 100))"
    using f(1) [OF of_nat_0_le_iff range, of a] f(1) [OF of_nat_0_le_iff range, of b] f(1) [OF q(1) q1] f(1) [OF p(1) p1] q(3)
    by (simp add: fp_of_word_def x_def y_def)
  then show ?thesis
    using monoD [OF f(2) p(1)] monoD [OF f(2) p(2)] f(3,5) by simp
qed

end
