(* ===== verification/Config.thy ===== *)
theory Config
  imports Prelude
begin

text \<open>
  The configuration file (\<^verbatim>\<open>common/src/config.c\<close>): defaults, and the line-based parser with
  sections, comments and key/value pairs.

  The file is the string of its characters, or \<open>None\<close> when it cannot be opened. The caller's structure is
  an argument with whatever it held before. A line buffer is the
  string before its first zero; pointers into it are indices.

  Proved: the two in-place helpers compute what their names say; the loader always returns, and every
  stored text fits its buffer; writing a configuration in the documented format and loading it gives
  it back; the defaults remain when the file is missing; a comment longer than the line buffer is not
  a comment any more.
\<close>

section \<open>Data\<close>

definition MAX_LINE_LEN :: nat where "MAX_LINE_LEN = 256"
definition MAX_NAME_LEN :: nat where "MAX_NAME_LEN = 64"
definition CONFIG_STR_MAX :: nat where "CONFIG_STR_MAX = 128"

lemmas config_sizes = MAX_LINE_LEN_def MAX_NAME_LEN_def CONFIG_STR_MAX_def

record vom_config_t =
  cluster_name :: string
  master_endpoint :: string
  worker_id :: string
  heartbeat_interval_sec :: u32
  advertised_capabilities :: string
  log_level :: string

section \<open>Lines\<close>

definition newline :: char where "newline = CHR 0x0A"

fun trim_end :: "string \<Rightarrow> nat \<Rightarrow> nat" where
  "trim_end s 0 = 0"
| "trim_end s (Suc e) = (if c_isspace (s ! Suc e) then trim_end s e else Suc e)"

definition trim_whitespace :: "string \<Rightarrow> string" where
  "trim_whitespace str =
     (let s = dropWhile c_isspace str
      in if s = [] then s else take (trim_end s (length s - 1) + 1) s)"

definition strip_comment :: "string \<Rightarrow> string" where
  "strip_comment str =
     (case (c_strchr (CHR ''#'') str, c_strchr (CHR '';'') str) of
        (Some hash, Some semi) \<Rightarrow> take (if hash < semi then hash else semi) str
      | (Some hash, None) \<Rightarrow> take hash str
      | (None, Some semi) \<Rightarrow> take semi str
      | (None, None) \<Rightarrow> str)"

definition set_config_entry :: "string \<Rightarrow> string \<Rightarrow> string \<Rightarrow> vom_config_t \<Rightarrow> vom_config_t" where
  "set_config_entry section key val config =
     (if section = ''cluster'' \<and> key = ''name'' then config\<lparr>cluster_name := c_strncpy (CONFIG_STR_MAX - 1) val\<rparr>
      else if section = ''master'' \<and> key = ''endpoint''
      then config\<lparr>master_endpoint := c_strncpy (CONFIG_STR_MAX - 1) val\<rparr>
      else if section = ''worker'' \<and> key = ''id'' then config\<lparr>worker_id := c_strncpy (CONFIG_STR_MAX - 1) val\<rparr>
      else if section = ''worker'' \<and> key = ''heartbeat_interval''
      then config\<lparr>heartbeat_interval_sec := ucast (c_strtoul val)\<rparr>
      else if section = ''worker'' \<and> key = ''capabilities''
      then config\<lparr>advertised_capabilities := c_strncpy (CONFIG_STR_MAX - 1) val\<rparr>
      else if section = ''logging'' \<and> key = ''level''
      then config\<lparr>log_level := c_strncpy (CONFIG_STR_MAX - 1) val\<rparr>
      else config)"

text \<open>\<open>out\<close> is what the caller's structure held; \<open>memset\<close> clears all of it first.\<close>

definition config_cleared :: "vom_config_t \<Rightarrow> vom_config_t" where
  "config_cleared out = out\<lparr>cluster_name := [], master_endpoint := [], worker_id := [], heartbeat_interval_sec := 0,
     advertised_capabilities := [], log_level := []\<rparr>"

definition vom_config_defaults :: "vom_config_t \<Rightarrow> vom_config_t" where
  "vom_config_defaults out =
     (let z = config_cleared out
      in z\<lparr>cluster_name := c_strncpy (CONFIG_STR_MAX - 1) ''vom-default-cluster'',
           master_endpoint := c_strncpy (CONFIG_STR_MAX - 1) ''tcp://127.0.0.1:5555'',
           worker_id := c_strncpy (CONFIG_STR_MAX - 1) ''worker-default'', heartbeat_interval_sec := 5,
           log_level := c_strncpy (CONFIG_STR_MAX - 1) ''info''\<rparr>)"

section \<open>Loader\<close>

text \<open>\<open>fgets\<close> with a buffer of \<open>n + 1\<close> bytes: the characters stored and the rest of the file.\<close>

fun c_fgets :: "nat \<Rightarrow> string \<Rightarrow> string \<times> string" where
  "c_fgets 0 s = ([], s)"
| "c_fgets (Suc n) [] = ([], [])"
| "c_fgets (Suc n) (c # cs) =
     (if c = newline then ([c], cs) else (let (l, r) = c_fgets n cs in (c # l, r)))"

definition config_line :: "string \<Rightarrow> string \<times> vom_config_t \<Rightarrow> string \<times> vom_config_t" where
  "config_line line st =
     (case st of (current_section, out) \<Rightarrow>
        (let s = trim_whitespace (strip_comment line) in
         if s = [] then st
         else if s ! 0 = CHR ''[''
         then (case c_strchr (CHR '']'') s of
                 None \<Rightarrow> st
               | Some e \<Rightarrow> (c_strncpy (MAX_NAME_LEN - 1) (trim_whitespace (drop 1 (take e s))), out))
         else (case c_strchr (CHR ''='') s of
                 None \<Rightarrow> st
               | Some eq \<Rightarrow>
                   (current_section,
                    set_config_entry current_section (trim_whitespace (take eq s))
                      (trim_whitespace (drop (eq + 1) s)) out))))"

definition c_line :: "string \<Rightarrow> string" where
  "c_line piece = takeWhile (\<lambda>c. c \<noteq> CHR 0x00) piece"

lemma c_fgets_append: "fst (c_fgets n s) @ snd (c_fgets n s) = s"
  by (induction n s rule: c_fgets.induct) (auto simp: split_def Let_def)

lemma c_fgets_decreases: "s \<noteq> [] \<Longrightarrow> length (snd (c_fgets (Suc n) s)) < length s"
proof (cases s)
  case (Cons c cs)
  have "length (snd (c_fgets n cs)) \<le> length cs"
    using arg_cong [OF c_fgets_append [of n cs], of length] by simp
  then show ?thesis using Cons by (simp add: split_def Let_def)
qed simp

function config_loop :: "string \<Rightarrow> string \<times> vom_config_t \<Rightarrow> string \<times> vom_config_t" where
  "config_loop inp st =
     (if inp = [] then st
      else (let (piece, rest) = c_fgets (MAX_LINE_LEN - 1) inp in config_loop rest (config_line (c_line piece) st)))"
  by pat_completeness auto

termination
proof (relation "measure (\<lambda>(inp, st). length inp)")
  fix inp :: string and st :: "string \<times> vom_config_t" and p piece rest
  assume "inp \<noteq> []" "p = c_fgets (MAX_LINE_LEN - 1) inp" "(piece, rest) = p"
  then show "((rest, config_line (c_line piece) st), inp, st) \<in> measure (\<lambda>(inp, st). length inp)"
    using c_fgets_decreases [of inp 254] by (simp add: config_sizes numeral_eq_Suc) (metis snd_conv)
qed simp

declare config_loop.simps [simp del]

text \<open>\<open>files\<close> gives the contents of the files that can be opened; \<open>None\<close> for \<open>filename\<close> or \<open>out\<close> is NULL.\<close>

definition vom_config_load ::
  "(string \<rightharpoonup> string) \<Rightarrow> string option \<Rightarrow> vom_config_t option \<Rightarrow> bool \<times> vom_config_t option" where
  "vom_config_load files filename out =
     (case (filename, out) of
        (Some name, Some prev) \<Rightarrow>
          (let d = vom_config_defaults prev
           in case files name of
                None \<Rightarrow> (False, Some d)
              | Some f \<Rightarrow> (True, Some (snd (config_loop f ([], d)))))
      | _ \<Rightarrow> (False, out))"

section \<open>Lemmas\<close>

subsection \<open>The helpers\<close>

lemma strip_comment_spec: "strip_comment s = takeWhile (\<lambda>c. c \<noteq> CHR ''#'' \<and> c \<noteq> CHR '';'') s"
proof (induction s)
  case (Cons c s)
  then show ?case
    by (cases "c_strchr (CHR ''#'') s"; cases "c_strchr (CHR '';'') s")
      (auto simp: strip_comment_def split: option.splits if_splits)
qed (simp add: strip_comment_def)

lemma trim_end_spec:
  "e < length s \<Longrightarrow> \<not> c_isspace (s ! 0) \<Longrightarrow>
    take (trim_end s e + 1) s = rev (dropWhile c_isspace (rev (take (e + 1) s)))"
proof (induction e)
  case (Suc e)
  then show ?case by (simp add: take_Suc_conv_app_nth [of "Suc e"])
next
  case 0
  then show ?case by (cases s) simp_all
qed

lemma trim_whitespace_spec:
  "trim_whitespace s = rev (dropWhile c_isspace (rev (dropWhile c_isspace s)))"
proof (cases "dropWhile c_isspace s")
  case (Cons c cs)
  then have "\<not> c_isspace c" by (metis dropWhile_eq_Cons_conv)
  then show ?thesis
    using Cons trim_end_spec [of "length (c # cs) - 1" "c # cs"] by (simp add: trim_whitespace_def Let_def)
next
  case Nil
  then show ?thesis unfolding trim_whitespace_def Nil by simp
qed

definition rtrim :: "string \<Rightarrow> string" where
  "rtrim s = rev (dropWhile c_isspace (rev s))"

lemma rtrim_simps [simp]:
  "rtrim [] = []" "c_isspace c \<Longrightarrow> rtrim (s @ [c]) = rtrim s" "\<not> c_isspace c \<Longrightarrow> rtrim (s @ [c]) = s @ [c]"
  by (simp_all add: rtrim_def)

lemma trim_rtrim: "trim_whitespace s = rtrim (dropWhile c_isspace s)"
  by (simp add: trim_whitespace_spec rtrim_def)

lemma trim_shorter: "length (trim_whitespace s) \<le> length s"
  unfolding trim_whitespace_spec
  by (metis length_dropWhile_le length_rev order_trans)

subsection \<open>Every text fits\<close>

definition config_ok :: "vom_config_t \<Rightarrow> bool" where
  "config_ok c \<longleftrightarrow> length (cluster_name c) < CONFIG_STR_MAX \<and> length (master_endpoint c) < CONFIG_STR_MAX
     \<and> length (worker_id c) < CONFIG_STR_MAX \<and> length (advertised_capabilities c) < CONFIG_STR_MAX
     \<and> length (log_level c) < CONFIG_STR_MAX"

lemma defaults_simp:
  "vom_config_defaults out = \<lparr>cluster_name = ''vom-default-cluster'', master_endpoint = ''tcp://127.0.0.1:5555'',
     worker_id = ''worker-default'', heartbeat_interval_sec = 5, advertised_capabilities = [], log_level = ''info''\<rparr>"
  by (cases out) (simp add: vom_config_defaults_def config_cleared_def config_sizes)

lemma defaults_ok: "config_ok (vom_config_defaults out)"
  by (simp add: config_ok_def defaults_simp config_sizes)

lemma config_ok_updates:
  assumes "config_ok c"
  shows "config_ok (c\<lparr>cluster_name := c_strncpy (CONFIG_STR_MAX - 1) v\<rparr>)"
    "config_ok (c\<lparr>master_endpoint := c_strncpy (CONFIG_STR_MAX - 1) v\<rparr>)"
    "config_ok (c\<lparr>worker_id := c_strncpy (CONFIG_STR_MAX - 1) v\<rparr>)"
    "config_ok (c\<lparr>heartbeat_interval_sec := n\<rparr>)"
    "config_ok (c\<lparr>advertised_capabilities := c_strncpy (CONFIG_STR_MAX - 1) v\<rparr>)"
    "config_ok (c\<lparr>log_level := c_strncpy (CONFIG_STR_MAX - 1) v\<rparr>)"
  using assms by (simp_all add: config_ok_def c_strncpy_def config_sizes)

lemma set_config_entry_ok: "config_ok c \<Longrightarrow> config_ok (set_config_entry sec k v c)"
  by (simp add: set_config_entry_def if_distrib [of config_ok] config_ok_updates [unfolded One_nat_def])

definition loader_ok :: "string \<times> vom_config_t \<Rightarrow> bool" where
  "loader_ok st \<longleftrightarrow> length (fst st) < MAX_NAME_LEN \<and> config_ok (snd st)"

lemma config_line_ok: "loader_ok st \<Longrightarrow> loader_ok (config_line l st)"
  by (auto simp: loader_ok_def config_line_def Let_def set_config_entry_ok config_sizes c_strncpy_def
      split: prod.splits option.splits)

lemma config_loop_ok: "loader_ok st \<Longrightarrow> loader_ok (config_loop inp st)"
proof (induction inp st rule: config_loop.induct)
  case (1 inp st)
  show ?case
  proof (cases "inp = []")
    case True
    then show ?thesis using 1 by (subst config_loop.simps) simp
  next
    case False
    let ?p = "c_fgets (MAX_LINE_LEN - 1) inp"
    have "loader_ok (config_loop (snd ?p) (config_line (c_line (fst ?p)) st))"
      by (rule "1.IH" [OF False refl]) (simp_all add: config_line_ok "1.prems")
    then show ?thesis using False by (subst config_loop.simps) (simp add: split_def Let_def)
  qed
qed

subsection \<open>Files in the documented format\<close>

definition config_pair :: "string \<Rightarrow> string \<Rightarrow> string" where
  "config_pair k v = k @ '' = '' @ v @ [newline]"

definition config_section :: "string \<Rightarrow> string" where
  "config_section s = ''['' @ s @ '']'' @ [newline]"

definition config_text :: "vom_config_t \<Rightarrow> string" where
  "config_text c =
     config_section ''cluster'' @ config_pair ''name'' (cluster_name c)
   @ config_section ''master'' @ config_pair ''endpoint'' (master_endpoint c)
   @ config_section ''worker'' @ config_pair ''id'' (worker_id c)
   @ config_pair ''heartbeat_interval'' (c_decimal (unat (heartbeat_interval_sec c)))
   @ config_pair ''capabilities'' (advertised_capabilities c)
   @ config_section ''logging'' @ config_pair ''level'' (log_level c)"

definition plain_value :: "string \<Rightarrow> bool" where
  "plain_value v \<longleftrightarrow> length v < CONFIG_STR_MAX
     \<and> (v = [] \<or> \<not> c_isspace (hd v) \<and> \<not> c_isspace (last v))
     \<and> list_all (\<lambda>c. c \<noteq> newline \<and> c \<noteq> CHR ''#'' \<and> c \<noteq> CHR '';'' \<and> c \<noteq> CHR 0x00) v"

definition plain_config :: "vom_config_t \<Rightarrow> bool" where
  "plain_config c \<longleftrightarrow> plain_value (cluster_name c) \<and> plain_value (master_endpoint c) \<and> plain_value (worker_id c)
     \<and> plain_value (advertised_capabilities c) \<and> plain_value (log_level c)"

definition plain_key :: "string \<Rightarrow> bool" where
  "plain_key k \<longleftrightarrow> k \<noteq> [] \<and> length k < 64 \<and> list_all (\<lambda>c. \<not> c_isspace c \<and> c \<noteq> newline \<and> c \<noteq> CHR ''#''
     \<and> c \<noteq> CHR '';'' \<and> c \<noteq> CHR 0x00 \<and> c \<noteq> CHR ''='' \<and> c \<noteq> CHR ''['') k"

lemma c_fgets_line:
  "newline \<notin> set l \<Longrightarrow> length l < n \<Longrightarrow> c_fgets n (l @ newline # rest) = (l @ [newline], rest)"
proof (induction l arbitrary: n)
  case Nil
  then show ?case by (cases n) simp_all
next
  case (Cons c l)
  then obtain m where "n = Suc m" by (cases n) auto
  with Cons show ?case by auto
qed

lemma c_line_id: "CHR 0x00 \<notin> set l \<Longrightarrow> c_line (l @ [newline]) = l @ [newline]"
  by (auto simp: c_line_def newline_def takeWhile_eq_all_conv)

lemma config_loop_line:
  assumes "newline \<notin> set l" "CHR 0x00 \<notin> set l" "length l < 255"
  shows "config_loop (l @ newline # rest) st = config_loop rest (config_line (l @ [newline]) st)"
  using assms c_fgets_line [of l 255 rest]
  by (subst config_loop.simps) (simp add: config_sizes c_line_id)

lemma isspace_chars [simp]: "c_isspace newline" "c_isspace (CHR '' '')"
  by (simp_all add: c_isspace_def newline_def)

lemma brackets_nonspace: "\<not> c_isspace (CHR ''['')" "\<not> c_isspace (CHR '']'')"
  by (simp_all add: c_isspace_def)

lemma nonspace_head: "k \<noteq> [] \<Longrightarrow> list_all (\<lambda>c. \<not> c_isspace c) k \<Longrightarrow> dropWhile c_isspace (k @ xs) = k @ xs"
  by (cases k) simp_all

lemma rtrim_snoc_space: "xs \<noteq> [] \<Longrightarrow> \<not> c_isspace (last xs) \<Longrightarrow> c_isspace c \<Longrightarrow> rtrim (xs @ [c]) = xs"
  by (cases xs rule: rev_cases) (simp_all only: rtrim_simps last_snoc simp_thms not_False_eq_True)

lemma rtrim_last: "xs \<noteq> [] \<Longrightarrow> \<not> c_isspace (last xs) \<Longrightarrow> rtrim xs = xs"
  by (cases xs rule: rev_cases) simp_all

lemma trim_key:
  assumes "k \<noteq> []" "list_all (\<lambda>c. \<not> c_isspace c) k"
  shows "trim_whitespace (k @ '' '') = k"
proof -
  have "\<not> c_isspace (last k)" using assms by (simp add: list_all_iff)
  then show ?thesis using assms by (simp add: trim_rtrim nonspace_head rtrim_last)
qed

lemma trim_padded:
  assumes "v = [] \<or> \<not> c_isspace (hd v) \<and> \<not> c_isspace (last v)"
  shows "trim_whitespace ('' '' @ v) = v" "trim_whitespace v = v"
proof -
  have "dropWhile c_isspace v = v" using assms by (cases v) auto
  moreover have "rtrim v = v" using assms by (cases "v = []") (simp_all add: rtrim_last)
  ultimately show "trim_whitespace ('' '' @ v) = v" "trim_whitespace v = v" by (simp_all add: trim_rtrim)
qed

lemma trim_pair:
  assumes k: "k \<noteq> []" "list_all (\<lambda>c. \<not> c_isspace c) k"
    and v: "v = [] \<or> \<not> c_isspace (hd v) \<and> \<not> c_isspace (last v)"
  shows "trim_whitespace (config_pair k v) = (if v = [] then k @ '' ='' else k @ '' = '' @ v)"
proof (cases "v = []")
  case True
  have "rtrim ((k @ '' ='') @ [CHR '' '', newline]) = k @ '' =''"
  proof -
    have eq: "\<not> c_isspace (CHR ''='')" by (simp add: c_isspace_def)
    have "rtrim ((k @ '' ='') @ [CHR '' '', newline]) = rtrim (((k @ '' ='') @ '' '') @ [newline])" by simp
    also have "\<dots> = rtrim (k @ '' ='')" by (simp only: rtrim_simps(2) isspace_chars)
    also have "\<dots> = k @ '' =''" using eq by (intro rtrim_last) simp_all
    finally show ?thesis .
  qed
  then show ?thesis using True k by (simp add: trim_rtrim config_pair_def nonspace_head)
next
  case False
  then have "rtrim ((k @ '' = '' @ v) @ [newline]) = k @ '' = '' @ v"
    using v by (intro rtrim_snoc_space) auto
  then show ?thesis using False k by (simp add: trim_rtrim config_pair_def nonspace_head)
qed

lemma config_line_pair:
  assumes k: "plain_key k" and v: "plain_value v"
  shows "config_line (config_pair k v) (sec, c) = (sec, set_config_entry sec k v c)"
proof -
  have k1: "k \<noteq> []" "list_all (\<lambda>c. \<not> c_isspace c) k" "CHR ''='' \<notin> set k" "hd k \<noteq> CHR ''[''"
    using k by (auto simp: plain_key_def list_all_iff)
  have v1: "v = [] \<or> \<not> c_isspace (hd v) \<and> \<not> c_isspace (last v)" using v by (simp add: plain_value_def)
  have "list_all (\<lambda>c. c \<noteq> CHR ''#'' \<and> c \<noteq> CHR '';'') (config_pair k v)"
    using k v by (auto simp: config_pair_def plain_key_def plain_value_def list_all_iff newline_def)
  then have strip: "strip_comment (config_pair k v) = config_pair k v"
    by (simp add: strip_comment_spec takeWhile_eq_all_conv list_all_iff)
  let ?s = "trim_whitespace (config_pair k v)"
  obtain w where w: "?s = (k @ '' '') @ CHR ''='' # w" "trim_whitespace w = v"
  proof (cases "v = []")
    case True
    then show thesis using that [of "[]"] trim_pair [OF k1(1,2) v1] trim_padded(2) [of "[]"] by simp
  next
    case False
    then show thesis using that [of "'' '' @ v"] trim_pair [OF k1(1,2) v1] trim_padded(1) [OF v1] by simp
  qed
  have head: "?s ! 0 \<noteq> CHR ''[''" "?s \<noteq> []" using k1 w(1) by (cases k; simp)+
  have eq: "c_strchr (CHR ''='') ?s = Some (length k + 1)"
    unfolding w(1) using k1(3) by (subst c_strchr_append) simp_all
  have "take (length k + 1) ?s = k @ '' ''" "drop (length k + 1 + 1) ?s = w" by (simp_all add: w(1))
  with head eq show ?thesis by (simp add: config_line_def strip Let_def trim_key [OF k1(1,2)] w(2))
qed

lemma config_loop_pair:
  assumes "plain_key k" "plain_value v"
  shows "config_loop (config_pair k v @ rest) (sec, c) = config_loop rest (sec, set_config_entry sec k v c)"
proof -
  have "config_loop ((k @ '' = '' @ v) @ newline # rest) (sec, c) =
      config_loop rest (config_line ((k @ '' = '' @ v) @ [newline]) (sec, c))"
    using assms
    by (intro config_loop_line)
      (auto simp: plain_key_def plain_value_def list_all_iff newline_def config_sizes)
  then show ?thesis using config_line_pair [OF assms, of sec c] by (simp add: config_pair_def)
qed

lemma config_loop_section:
  assumes "plain_key n" "CHR '']'' \<notin> set n"
  shows "config_loop (config_section n @ rest) (sec, c) = config_loop rest (n, c)"
proof -
  have n: "n \<noteq> []" "list_all (\<lambda>c. \<not> c_isspace c) n" using assms(1) by (auto simp: plain_key_def list_all_iff)
  let ?l = "''['' @ n @ '']''"
  have "list_all (\<lambda>c. c \<noteq> CHR ''#'' \<and> c \<noteq> CHR '';'') (?l @ [newline])"
    using assms(1) by (auto simp: plain_key_def list_all_iff newline_def)
  then have strip: "strip_comment (?l @ [newline]) = ?l @ [newline]"
    by (simp add: strip_comment_spec takeWhile_eq_all_conv list_all_iff)
  have trim: "trim_whitespace (?l @ [newline]) = ?l"
    using rtrim_snoc_space [of ?l newline] brackets_nonspace by (simp add: trim_rtrim)
  have "c_strchr (CHR '']'') ?l = Some (length n + 1)"
    using c_strchr_append [of "CHR '']''" "''['' @ n" "[]"] assms(2) by simp
  moreover have "trim_whitespace n = n"
    by (rule trim_padded) (use n in \<open>auto simp: list_all_iff\<close>)
  ultimately have line: "config_line (?l @ [newline]) (sec, c) = (n, c)"
    using assms(1) unfolding config_line_def strip trim
    by (simp add: Let_def plain_key_def config_sizes del: c_strchr.simps)
  have "config_loop (?l @ newline # rest) (sec, c) = config_loop rest (config_line (?l @ [newline]) (sec, c))"
    using assms(1)
    by (intro config_loop_line) (auto simp: plain_key_def list_all_iff newline_def)
  then show ?thesis using line by (simp add: config_section_def)
qed

lemma length_c_decimal: "n < 10 ^ Suc k \<Longrightarrow> length (c_decimal n) \<le> Suc k"
proof (induction k arbitrary: n)
  case (Suc k)
  show ?case
  proof (cases "n < 10")
    case False
    have "n div 10 < 10 ^ Suc k" using Suc.prems by (simp add: less_mult_imp_div_less)
    then show ?thesis using Suc.IH [of "n div 10"] False by (subst c_decimal.simps) simp
  qed (subst c_decimal.simps, simp)
qed (subst c_decimal.simps, simp)

lemma plain_decimal: "plain_value (c_decimal (unat (w :: u32)))"
proof -
  have "unat w < 2 ^ 32" using unsigned_less [of w] by simp
  then have len: "length (c_decimal (unat w)) \<le> 10" using length_c_decimal [of "unat w" 9] by simp
  have dig: "c_isdigit c" if "c \<in> set (c_decimal (unat w))" for c
    using that c_decimal_digits [of "unat w"] by (simp add: list_all_iff)
  have sep: "\<not> c_isspace c \<and> c \<noteq> newline \<and> c \<noteq> CHR ''#'' \<and> c \<noteq> CHR '';'' \<and> c \<noteq> CHR 0x00" if "c_isdigit c" for c
    using that by (auto simp: c_isdigit_def c_isspace_def newline_def)
  show ?thesis
    using len dig sep c_decimal_not_Nil [of "unat w"]
    by (simp add: plain_value_def config_sizes list_all_iff)
qed

lemma plain_keys:
  "plain_key ''cluster''" "plain_key ''name''" "plain_key ''master''" "plain_key ''endpoint''"
  "plain_key ''worker''" "plain_key ''id''" "plain_key ''heartbeat_interval''" "plain_key ''capabilities''"
  "plain_key ''logging''" "plain_key ''level''"
  by (simp_all add: plain_key_def c_isspace_def newline_def)

lemma section_names:
  "(CHR '']'' \<in> set ''cluster'') = False" "(CHR '']'' \<in> set ''master'') = False" "(CHR '']'' \<in> set ''worker'') = False"
  "(CHR '']'' \<in> set ''logging'') = False"
  by simp_all

lemma c_fgets_full: "newline \<notin> set l \<Longrightarrow> c_fgets (length l) (l @ rest) = (l, rest)"
  by (induction l) auto

section \<open>Properties\<close>

text \<open>
  Loading any file at all returns, and every text of the result is shorter than its buffer of 128
  characters, so that it ends with a zero; when the file cannot be opened the result is false and the
  defaults; with a NULL argument nothing is written.
\<close>

theorem config_load_fits:
  "\<exists>c. vom_config_load files (Some name) (Some out) = (files name \<noteq> None, Some c) \<and> config_ok c
     \<and> (files name = None \<longrightarrow> c = vom_config_defaults out)"
  "vom_config_load files None out' = (False, out')" "vom_config_load files filename None = (False, None)"
  using config_loop_ok [of "([], vom_config_defaults out)"]
  by (auto simp: vom_config_load_def defaults_ok loader_ok_def config_sizes Let_def split: option.splits)

text \<open>
  C37: A configuration written in the documented format (sections with key = value lines) is read back exactly,
  whatever the caller's structure held before, provided each of its texts is shorter than 128 characters, has no blank
  at either end and contains no line end, zero, '#' or ';'. And whatever file is loaded, nothing of the structure's
  earlier contents remains.
\<close>

theorem config_roundtrip:
  assumes "plain_config c" "files name = Some (config_text c)"
  shows "vom_config_load files (Some name) (Some out) = (True, Some c)
    \<and> vom_config_load files' (Some name') (Some out) = vom_config_load files' (Some name') (Some out')"
proof -
  have len: "length v \<le> 127" if "plain_value v" for v using that by (simp add: plain_value_def config_sizes)
  have v: "plain_value (cluster_name c)" "plain_value (master_endpoint c)" "plain_value (worker_id c)"
    "plain_value (advertised_capabilities c)" "plain_value (log_level c)"
    using assms by (simp_all add: plain_config_def)
  have hb: "ucast (c_strtoul (c_decimal (unat (heartbeat_interval_sec c)))) = heartbeat_interval_sec c"
  proof -
    have "unat (heartbeat_interval_sec c) < 2 ^ 32" using unsigned_less [of "heartbeat_interval_sec c"] by simp
    then have "c_strtoul (c_decimal (unat (heartbeat_interval_sec c))) = ucast (heartbeat_interval_sec c)"
      by (subst c_strtoul_decimal) simp_all
    moreover have "ucast (ucast w :: u64) = w" for w :: u32 by (rule bit_word_eqI) (simp add: bit_simps)
    ultimately show ?thesis by simp
  qed
  have same: "\<lparr>cluster_name = cluster_name c, master_endpoint = master_endpoint c, worker_id = worker_id c,
      heartbeat_interval_sec = heartbeat_interval_sec c, advertised_capabilities = advertised_capabilities c,
      log_level = log_level c\<rparr> = c"
    by (cases c) simp
  have "config_loop (config_text c @ []) ([], vom_config_defaults out) = config_loop [] (''logging'', c)"
    unfolding config_text_def append_assoc
    by (simp only: config_loop_section config_loop_pair plain_keys section_names v plain_decimal
        not_False_eq_True)
      (simp add: set_config_entry_def hb len v config_sizes defaults_simp same)
  then show ?thesis using assms(2) by (simp add: vom_config_load_def config_loop.simps defaults_simp)
qed

definition demo_config :: vom_config_t where
  "demo_config = \<lparr>cluster_name = ''lab'', master_endpoint = ''tcp://10.0.0.1:6000'', worker_id = ''node 7'',
     heartbeat_interval_sec = 30, advertised_capabilities = ''gpu,touch'', log_level = ''debug''\<rparr>"

theorem config_roundtrip_witness:
  "vom_config_load [''vom.conf'' \<mapsto> config_text demo_config] (Some ''vom.conf'')
     (Some (demo_config\<lparr>worker_id := ''node 8'', heartbeat_interval_sec := 1\<rparr>)) = (True, Some demo_config)"
proof -
  have "plain_config demo_config"
    by (simp add: plain_config_def plain_value_def demo_config_def config_sizes c_isspace_def newline_def)
  from config_roundtrip [OF this, of "[''vom.conf'' \<mapsto> config_text demo_config]" "''vom.conf''"] show ?thesis
    by simp
qed

text \<open>
  A comment longer than the line buffer is not ignored: after its first 255 characters the rest of the
  comment is read as a line of its own, and a key = value text there changes the configuration.
\<close>

theorem long_comment_is_parsed:
  assumes "length comment = 254" "newline \<notin> set comment" "CHR 0x00 \<notin> set comment"
    and "plain_key k" "plain_value v"
  shows "config_loop (''#'' @ comment @ config_pair k v @ rest) (sec, c) =
    config_loop rest (sec, set_config_entry sec k v c)"
proof -
  let ?l = "''#'' @ comment"
  have "c_fgets (length ?l) (?l @ config_pair k v @ rest) = (?l, config_pair k v @ rest)"
    using assms(2) by (intro c_fgets_full) (simp add: newline_def)
  then have f: "c_fgets (MAX_LINE_LEN - 1) (?l @ config_pair k v @ rest) = (?l, config_pair k v @ rest)"
    using assms(1) by (simp add: config_sizes)
  have "config_line (c_line ?l) (sec, c) = (sec, c)"
    by (simp add: config_line_def c_line_def strip_comment_spec trim_whitespace_def Let_def)
  then have "config_loop (?l @ config_pair k v @ rest) (sec, c) = config_loop (config_pair k v @ rest) (sec, c)"
    by (subst config_loop.simps) (simp only: f, simp)
  then show ?thesis using config_loop_pair [OF assms(4,5)] by simp
qed

theorem long_comment_is_parsed_witness:
  "cluster_name (snd (config_loop (''#'' @ replicate 254 (CHR ''x'') @ config_pair ''name'' ''other'' @ [])
      (''cluster'', vom_config_defaults demo_config))) = ''other''"
proof -
  have "plain_value ''other''" by (simp add: plain_value_def config_sizes c_isspace_def newline_def)
  from long_comment_is_parsed [OF _ _ _ plain_keys(2) this, of "replicate 254 (CHR ''x'')" "[]" "''cluster''"
      "vom_config_defaults demo_config"]
  show ?thesis by (simp add: newline_def set_config_entry_def config_sizes config_loop.simps)
qed

end
