(* ===== verification/Sys_Info.thy ===== *)
theory Sys_Info
  imports C_Scan
begin

text \<open>
  Hardware discovery (\<^verbatim>\<open>common/src/sys_info.c\<close>).

  What the platform answers is a parameter: the compile-time target (\<open>target_cpu\<close>, \<open>is_linux\<close>), the
  two \<open>sysconf\<close> values, the text of a readable file and whether \<open>stat\<close> finds a path. The source opens and
  stats each path at most a few times in one call; the parameter gives the same answer each time. A NULL
  output pointer, for which the code only returns false, is the option type's \<open>None\<close>.

  Proved: the probe of \<^verbatim>\<open>/proc/meminfo\<close> computes, for every file in the kernel's format, the last
  total and the last free or available figure in mebibytes; and what a collected record promises.
\<close>

section \<open>Data\<close>

definition VOM_CPU_FEAT_AVX2 :: u32 where "VOM_CPU_FEAT_AVX2 = push_bit 0 1"
definition VOM_CPU_FEAT_NEON :: u32 where "VOM_CPU_FEAT_NEON = push_bit 1 1"
definition VOM_CPU_FEAT_AES_NI :: u32 where "VOM_CPU_FEAT_AES_NI = push_bit 2 1"

datatype VomCpuArch = VOM_ARCH_X86_64 | VOM_ARCH_AARCH64 | VOM_ARCH_ARMV7 | VOM_ARCH_UNKNOWN

datatype VomLinkType = VOM_LINK_ETH | VOM_LINK_WIFI | VOM_LINK_CELLULAR | VOM_LINK_UNKNOWN

record vom_worker_capabilities =
  arch :: VomCpuArch
  cores_online :: u32
  cores_total :: u32
  feature_bitmap :: u32
  ram_total_mb :: u64
  ram_free_mb :: u64
  battery_percent :: int
  is_charging :: bool
  is_ac_online :: bool
  display_attached :: bool
  display_width :: u32
  display_height :: u32
  touch_supported :: bool
  network_link_type :: VomLinkType
  network_bandwidth_kbps :: u64

datatype target_cpu = Target_X86_64 | Target_AArch64 | Target_Arm | Target_Other

record platform =
  cpu :: target_cpu
  is_linux :: bool
  nprocessors_onln :: int
  nprocessors_conf :: int
  contents :: "string \<Rightarrow> string option"
  stat_ok :: "string \<Rightarrow> bool"

section \<open>Reading the system files\<close>

definition read_sysfs_int :: "platform \<Rightarrow> string \<Rightarrow> int \<Rightarrow> int" where
  "read_sysfs_int pf path default_val =
     (case contents pf path of
        None \<Rightarrow> default_val
      | Some s \<Rightarrow> (case scan_d s of None \<Rightarrow> default_val | Some (v, _) \<Rightarrow> v))"

definition read_sysfs_str_match :: "platform \<Rightarrow> string \<Rightarrow> string \<Rightarrow> bool" where
  "read_sysfs_str_match pf path target =
     (case contents pf path of
        None \<Rightarrow> False
      | Some s \<Rightarrow> (case scan_str 63 s of None \<Rightarrow> False | Some (buf, _) \<Rightarrow> strcasecmp_eq buf target))"

definition meminfo_entry :: "string \<Rightarrow> u64 \<Rightarrow> u64 \<times> u64 \<Rightarrow> u64 \<times> u64" where
  "meminfo_entry key val m =
     (if key = ''MemTotal:'' then (val div 1024, snd m)
      else if key = ''MemAvailable:'' \<or> key = ''MemFree:'' then (fst m, val div 1024)
      else m)"

function meminfo_loop :: "string \<Rightarrow> u64 \<times> u64 \<Rightarrow> u64 \<times> u64" where
  "meminfo_loop f m =
     (case scan_str 63 f of
        None \<Rightarrow> m
      | Some (key, r) \<Rightarrow>
          (case scan_llu r of
             None \<Rightarrow> m
           | Some (val, r') \<Rightarrow> meminfo_loop (scan_lit ''kB'' (skip_space r')) (meminfo_entry key val m)))"
  by pat_completeness auto
termination
proof (relation "measure (\<lambda>(f, m). length f)")
  fix f :: string and m :: "u64 \<times> u64" and p key r q and val :: u64 and r'
  assume "scan_str 63 f = Some p" "(key, r) = p" "scan_llu r = Some q" "(val, r') = q"
  then have "length r' < length f" using scan_str_shorter [of 63 f key r] scan_llu_shorter [of r val r'] by simp
  then show "((scan_lit ''kB'' (skip_space r'), meminfo_entry key val m), f, m) \<in> measure (\<lambda>(f, m). length f)"
    using length_scan_lit [of "''kB''" "skip_space r'"] length_skip_space [of r'] by simp
qed simp

declare meminfo_loop.simps [simp del]

definition linux_probe_memory :: "platform \<Rightarrow> u64 \<times> u64 \<Rightarrow> u64 \<times> u64" where
  "linux_probe_memory pf m = (case contents pf ''/proc/meminfo'' of None \<Rightarrow> m | Some f \<Rightarrow> meminfo_loop f m)"

section \<open>Collecting\<close>

definition probe_arch :: "target_cpu \<Rightarrow> VomCpuArch \<times> u32" where
  "probe_arch t =
     (case t of
        Target_X86_64 \<Rightarrow> (VOM_ARCH_X86_64, VOM_CPU_FEAT_AVX2 OR VOM_CPU_FEAT_AES_NI)
      | Target_AArch64 \<Rightarrow> (VOM_ARCH_AARCH64, VOM_CPU_FEAT_NEON)
      | Target_Arm \<Rightarrow> (VOM_ARCH_ARMV7, 0)
      | Target_Other \<Rightarrow> (VOM_ARCH_UNKNOWN, 0))"

definition probe_online :: "platform \<Rightarrow> u32" where
  "probe_online pf = (if nprocessors_onln pf > 0 then word_of_int (nprocessors_onln pf) else 1)"

definition probe_total :: "platform \<Rightarrow> u32" where
  "probe_total pf = (if nprocessors_conf pf > 0 then word_of_int (nprocessors_conf pf) else probe_online pf)"

definition probe_memory :: "platform \<Rightarrow> u64 \<times> u64" where
  "probe_memory pf = (if is_linux pf then linux_probe_memory pf (0, 0) else (4096, 2048))"

definition bat_path :: "platform \<Rightarrow> string option" where
  "bat_path pf =
     (if stat_ok pf ''/sys/class/power_supply/BAT0'' \<or> stat_ok pf ''/sys/class/power_supply/battery''
      then Some (if stat_ok pf ''/sys/class/power_supply/BAT0''
                 then ''/sys/class/power_supply/BAT0'' else ''/sys/class/power_supply/battery'')
      else None)"

definition probe_battery :: "platform \<Rightarrow> int \<times> bool" where
  "probe_battery pf =
     (if is_linux pf
      then (case bat_path pf of
              Some p \<Rightarrow> (read_sysfs_int pf (p @ ''/capacity'') (-1), read_sysfs_str_match pf (p @ ''/status'') ''Charging'')
            | None \<Rightarrow> (-1, False))
      else (-1, False))"

definition probe_ac :: "platform \<Rightarrow> bool" where
  "probe_ac pf =
     (if is_linux pf
      then read_sysfs_int pf ''/sys/class/power_supply/AC/online'' 0 = 1
         \<or> read_sysfs_int pf ''/sys/class/power_supply/ACAD/online'' 0 = 1
      else True)"

definition probe_display :: "platform \<Rightarrow> bool \<times> u32 \<times> u32 \<times> bool" where
  "probe_display pf =
     (if is_linux pf
      then (let att = (stat_ok pf ''/sys/class/graphics/fb0'' \<or> stat_ok pf ''/dev/fb0'')
            in (att, if att then 1920 else 0, if att then 1080 else 0, stat_ok pf ''/dev/input/event0''))
      else (True, 1024, 768, False))"

definition vom_sys_info_collect :: "platform \<Rightarrow> vom_worker_capabilities" where
  "vom_sys_info_collect pf =
     (let (a, feat) = probe_arch (cpu pf); (tot, free) = probe_memory pf; (bat, chg) = probe_battery pf;
          (att, w, h, touch) = probe_display pf
      in \<lparr> arch = a, cores_online = probe_online pf, cores_total = probe_total pf, feature_bitmap = feat,
           ram_total_mb = tot, ram_free_mb = free, battery_percent = bat, is_charging = chg,
           is_ac_online = probe_ac pf, display_attached = att, display_width = w, display_height = h,
           touch_supported = touch, network_link_type = VOM_LINK_ETH, network_bandwidth_kbps = 1000000 \<rparr>)"

definition vom_sys_info_to_capnp :: "vom_worker_capabilities option \<Rightarrow> bool \<Rightarrow> string" where
  "vom_sys_info_to_capnp in_caps out_null =
     (case in_caps of
        None \<Rightarrow> []
      | Some c \<Rightarrow> if out_null then []
          else ''[PROTO SERIALIZER] Packing Worker Capability: Core Count = '' @ c_decimal (unat (cores_online c))
             @ '' | Free RAM = '' @ c_decimal (unat (ram_free_mb c)) @ '' MB'' @ [CHR 0x0A])"

section \<open>The memory file\<close>

text \<open>
  A line of \<^verbatim>\<open>/proc/meminfo\<close>: a key that ends in a colon, padding, the amount and, for most lines, the
  unit. The literal \<open>kB\<close> of the directive also skips the line break of a line without a unit, so a key that
  began with a lower-case k would lose it; the kernel prints none.
\<close>

record meminfo_line =
  key :: string
  padding :: nat
  amount :: nat
  unit :: bool

definition line_ok :: "meminfo_line \<Rightarrow> bool" where
  "line_ok l \<longleftrightarrow> key l \<noteq> [] \<and> length (key l) \<le> 63 \<and> list_all (\<lambda>c. \<not> c_isspace c) (key l)
     \<and> hd (key l) \<noteq> CHR ''k'' \<and> 0 < padding l \<and> amount l < 2 ^ 64"

definition line_text :: "meminfo_line \<Rightarrow> string" where
  "line_text l = key l @ replicate (padding l) CHR '' '' @ c_decimal (amount l)
     @ (if unit l then '' kB'' else []) @ [CHR 0x0A]"

definition last_amount :: "string set \<Rightarrow> u64 \<Rightarrow> meminfo_line list \<Rightarrow> u64" where
  "last_amount ks d ls =
     (case filter (\<lambda>l. key l \<in> ks) ls of [] \<Rightarrow> d | x # xs \<Rightarrow> of_nat (amount (last (x # xs))) div 1024)"

lemma blank_chars [simp]: "c_isspace CHR '' ''" "c_isspace CHR 0x0A" "\<not> c_isdigit CHR '' ''" "\<not> c_isdigit CHR 0x0A"
  by (simp_all add: c_isspace_def c_isdigit_def)

lemma not_blank_k [simp]: "\<not> c_isspace CHR ''k''" "\<not> c_isspace CHR ''B''"
  by (simp_all add: c_isspace_def)

text \<open>What is left when the directive stops behind a line: the following lines, perhaps after the line break.\<close>

lemma after_line:
  assumes "list_all line_ok ls"
  shows "scan_lit ''kB'' (skip_space ((if u then '' kB'' else []) @ CHR 0x0A # concat (map line_text ls)))
     = (if u then CHR 0x0A # concat (map line_text ls) else concat (map line_text ls))"
proof (cases u)
  case True
  then show ?thesis by (simp add: skip_space_def)
next
  case False
  show ?thesis
  proof (cases ls)
    case Nil
    with False show ?thesis by (simp add: skip_space_def)
  next
    case (Cons l ls')
    with assms obtain c cs where k: "key l = c # cs" "\<not> c_isspace c" "c \<noteq> CHR ''k''"
      by (cases "key l") (auto simp: line_ok_def)
    with Cons False show ?thesis by (simp add: skip_space_def line_text_def)
  qed
qed

lemma meminfo_loop_line:
  assumes "line_ok l" "list_all line_ok ls" "list_all c_isspace b"
  shows "meminfo_loop (b @ concat (map line_text (l # ls))) m
     = meminfo_loop ((if unit l then [CHR 0x0A] else []) @ concat (map line_text ls))
         (meminfo_entry (key l) (of_nat (amount l)) m)"
proof -
  let ?rest = "(if unit l then '' kB'' else []) @ CHR 0x0A # concat (map line_text ls)"
  let ?t = "replicate (padding l) CHR '' '' @ c_decimal (amount l) @ ?rest"
  have pad: "list_all c_isspace (replicate (padding l) CHR '' '')" "?t \<noteq> []" "c_isspace (hd ?t)"
    using assms(1) by (auto simp: list_all_iff line_ok_def neq0_conv gr0_conv_Suc)
  have 1: "scan_str 63 (b @ key l @ ?t) = Some (key l, ?t)"
    by (rule scan_str_word) (use assms pad in \<open>auto simp: line_ok_def\<close>)
  have 2: "scan_llu ?t = Some (of_nat (amount l), ?rest)"
    by (rule scan_llu_decimal) (use assms(1) pad(1) in \<open>auto simp: line_ok_def\<close>)
  have full: "b @ concat (map line_text (l # ls)) = b @ key l @ ?t" by (simp add: line_text_def)
  show ?thesis
    unfolding full by (subst meminfo_loop.simps) (simp add: 1 2 after_line [OF assms(2)])
qed

lemma meminfo_loop_lines:
  "list_all line_ok ls \<Longrightarrow> list_all c_isspace b \<Longrightarrow>
    meminfo_loop (b @ concat (map line_text ls)) m
      = fold (\<lambda>l. meminfo_entry (key l) (of_nat (amount l))) ls m"
proof (induction ls arbitrary: b m)
  case Nil
  then have "skip_space b = []" by (simp add: skip_space_def list_all_iff)
  then have "scan_str 63 b = None" by (simp add: scan_str_def)
  then show ?case by (subst meminfo_loop.simps) simp
next
  case (Cons l ls)
  then have ok: "line_ok l" "list_all line_ok ls" by simp_all
  have "list_all c_isspace (if unit l then [CHR 0x0A] else [])" by simp
  from Cons.IH [OF ok(2) this] show ?case
    using meminfo_loop_line [OF ok Cons.prems(2)] by simp
qed

lemma last_amount_Nil [simp]: "last_amount ks d [] = d"
  by (simp add: last_amount_def)

lemma last_amount_Cons [simp]:
  "last_amount ks d (l # ls) = last_amount ks (if key l \<in> ks then of_nat (amount l) div 1024 else d) ls"
  by (auto simp: last_amount_def split: list.splits)

lemma fold_entries:
  "fold (\<lambda>l. meminfo_entry (key l) (of_nat (amount l))) ls m
     = (last_amount {''MemTotal:''} (fst m) ls, last_amount {''MemAvailable:'', ''MemFree:''} (snd m) ls)"
  by (induction ls arbitrary: m) (simp_all add: meminfo_entry_def)

text \<open>
  C40: For every memory file in the kernel's format (lines of a key of 1 to 63 characters without blanks and not starting with k,
  blanks, a decimal number below 2^64 and an optional kB), whatever lines it has and in whatever order, the
  probe ends and stores the last total and the last of the free and available figures, in mebibytes; a
  figure that the file does not have keeps its old value.
\<close>

theorem memory_probe_reads_file:
  assumes "contents pf ''/proc/meminfo'' = Some (concat (map line_text ls))" and "list_all line_ok ls"
  shows "linux_probe_memory pf m
     = (last_amount {''MemTotal:''} (fst m) ls, last_amount {''MemAvailable:'', ''MemFree:''} (snd m) ls)"
  using meminfo_loop_lines [OF assms(2), of "[]" m] by (simp add: linux_probe_memory_def assms(1) fold_entries)

definition sample_meminfo :: "meminfo_line list" where
  "sample_meminfo =
     [\<lparr> key = ''MemTotal:'', padding = 3, amount = 16384000, unit = True \<rparr>,
      \<lparr> key = ''MemFree:'', padding = 4, amount = 2048000, unit = True \<rparr>,
      \<lparr> key = ''HugePages_Total:'', padding = 2, amount = 0, unit = False \<rparr>,
      \<lparr> key = ''MemAvailable:'', padding = 1, amount = 8192000, unit = True \<rparr>]"

definition sample_platform :: platform where
  "sample_platform =
     \<lparr> cpu = Target_X86_64, is_linux = True, nprocessors_onln = 8, nprocessors_conf = 8,
       contents = (\<lambda>p. if p = ''/proc/meminfo'' then Some (concat (map line_text sample_meminfo)) else None),
       stat_ok = (\<lambda>p. False) \<rparr>"

theorem memory_probe_reads_file_witness:
  "list_all line_ok sample_meminfo \<and> linux_probe_memory sample_platform (0, 0) = (16000, 8000)"
proof -
  have ok: "list_all line_ok sample_meminfo"
    by (simp add: sample_meminfo_def line_ok_def c_isspace_def)
  have "contents sample_platform ''/proc/meminfo'' = Some (concat (map line_text sample_meminfo))"
    by (simp add: sample_platform_def)
  from memory_probe_reads_file [OF this ok, of "(0, 0)"] ok show ?thesis
    by (simp add: sample_meminfo_def)
qed

text \<open>What every record of a platform with a sane processor count promises.\<close>

lemma collect_promises:
  assumes "nprocessors_onln pf < 2 ^ 32" "nprocessors_conf pf < 2 ^ 32"
  shows "0 < cores_online (vom_sys_info_collect pf) \<and> 0 < cores_total (vom_sys_info_collect pf)
    \<and> (display_attached (vom_sys_info_collect pf) \<longleftrightarrow> 0 < display_width (vom_sys_info_collect pf))
    \<and> (bat_path pf = None \<longrightarrow> battery_percent (vom_sys_info_collect pf) = -1
         \<and> \<not> is_charging (vom_sys_info_collect pf))"
proof -
  have pos: "0 < (word_of_int n :: u32)" if "0 < n" "n < 2 ^ 32" for n
    using that by (simp add: word_less_nat_alt unat_eq_nat_uint uint_word_of_int)
  have "0 < probe_online pf" "0 < probe_total pf"
    using assms by (auto simp: probe_online_def probe_total_def pos)
  then show ?thesis
    by (auto simp: vom_sys_info_collect_def probe_display_def probe_battery_def Let_def split: prod.splits)
qed

end
