(* ===== verification/Agent.thy ===== *)
theory Agent
  imports C_Scan "HOL-Library.Signed_Division"
begin

text \<open>
  The stand-alone agent (\<^verbatim>\<open>agent/src/heartbeat.c\<close>, whose capability cache is also
  \<^verbatim>\<open>agent/src/capabilities.c\<close>): the cached capability record shared by the main thread and the
  refresh thread, the processor-load samples and the event loop.

  The two threads are a transition system. A structure copy under the mutex is one transition for each
  field, so a reader that did not hold the mutex could see a half-written record. A thread that waits for
  the mutex, or for the refresh thread to end, has no transition. Memory is sequentially consistent. The
  bytes of an uninitialised local are an argument. The main thread's choice between a heartbeat and leaving
  its event loop is an argument too; the loop itself is the function \<open>agent_loop\<close> on what the system
  calls return.

  Proved: mutual exclusion and that no heartbeat ever reports a half-written record; that shutdown always completes
  within a fixed number of transitions; that reported loads are percentages when the counters grow; that the
  poll timeout stays in range; and that a standard input at its end silences the agent.
\<close>

section \<open>Data\<close>

definition VOM_HEARTBEAT_INTERVAL_MS :: int where "VOM_HEARTBEAT_INTERVAL_MS = 5000"

datatype VomCpuArch = VOM_ARCH_X86_64 | VOM_ARCH_AARCH64 | VOM_ARCH_ARMV7 | VOM_ARCH_UNKNOWN

datatype VomLinkType = VOM_LINK_ETH | VOM_LINK_WIFI | VOM_LINK_CELLULAR | VOM_LINK_UNKNOWN

record vom_worker_capabilities =
  arch :: VomCpuArch
  cores_online :: u32
  cores_total :: u32
  feature_bitmap :: u32
  ram_total_mb :: u64
  ram_free_mb :: u64
  battery_percent :: int
  is_charging :: bool
  is_ac_online :: bool
  display_attached :: bool
  display_width :: u32
  display_height :: u32
  touch_supported :: bool
  network_link_type :: VomLinkType
  network_bandwidth_kbps :: u64

record CpuTicks =
  user :: u64
  nice :: u64
  system :: u64
  idle :: u64
  iowait :: u64
  irq :: u64
  softirq :: u64
  steal :: u64

text \<open>The collector leaves \<open>feature_bitmap\<close> as it was.\<close>

definition vom_sys_info_collect :: "vom_worker_capabilities \<Rightarrow> vom_worker_capabilities" where
  "vom_sys_info_collect out = out\<lparr> arch := VOM_ARCH_X86_64, cores_online := 8, cores_total := 8,
     ram_total_mb := 16384, ram_free_mb := 8192, battery_percent := 95, is_charging := True,
     is_ac_online := True, display_attached := True, display_width := 1920, display_height := 1080,
     touch_supported := True, network_link_type := VOM_LINK_ETH, network_bandwidth_kbps := 1000000 \<rparr>"

section \<open>The capability cache\<close>

datatype thread = Main_Thread | Probe_Thread

datatype probe_pc = P_None | P_Test | P_Collect | P_Lock | P_Copy nat | P_Unlock | P_Sleep nat | P_Done

datatype main_pc = M_InitLock | M_Init | M_InitUnlock bool | M_Create | M_Loop | M_SnapLock | M_SnapCopy nat
  | M_SnapUnlock | M_Deinit | M_Join | M_Exit int

record agent =
  g_cached_caps :: vom_worker_capabilities
  g_caps_mutex :: "thread option"
  g_probe_thread_active :: bool
  main_pc :: main_pc
  probe_pc :: probe_pc
  fresh_caps :: vom_worker_capabilities
  snapshot :: vom_worker_capabilities
  reported :: "vom_worker_capabilities list"

definition zero_caps :: vom_worker_capabilities where
  "zero_caps = \<lparr> arch = VOM_ARCH_X86_64, cores_online = 0, cores_total = 0, feature_bitmap = 0,
     ram_total_mb = 0, ram_free_mb = 0, battery_percent = 0, is_charging = False, is_ac_online = False,
     display_attached = False, display_width = 0, display_height = 0, touch_supported = False,
     network_link_type = VOM_LINK_ETH, network_bandwidth_kbps = 0 \<rparr>"

definition agent_initial :: agent where
  "agent_initial = \<lparr> g_cached_caps = zero_caps, g_caps_mutex = None, g_probe_thread_active = False,
     main_pc = M_InitLock, probe_pc = P_None, fresh_caps = zero_caps, snapshot = zero_caps, reported = [] \<rparr>"

text \<open>A structure assignment, field by field.\<close>

definition copy_field :: "nat \<Rightarrow> vom_worker_capabilities \<Rightarrow> vom_worker_capabilities \<Rightarrow> vom_worker_capabilities" where
  "copy_field i s d =
     ([d\<lparr>arch := arch s\<rparr>, d\<lparr>cores_online := cores_online s\<rparr>, d\<lparr>cores_total := cores_total s\<rparr>,
       d\<lparr>feature_bitmap := feature_bitmap s\<rparr>, d\<lparr>ram_total_mb := ram_total_mb s\<rparr>, d\<lparr>ram_free_mb := ram_free_mb s\<rparr>,
       d\<lparr>battery_percent := battery_percent s\<rparr>, d\<lparr>is_charging := is_charging s\<rparr>, d\<lparr>is_ac_online := is_ac_online s\<rparr>,
       d\<lparr>display_attached := display_attached s\<rparr>, d\<lparr>display_width := display_width s\<rparr>,
       d\<lparr>display_height := display_height s\<rparr>, d\<lparr>touch_supported := touch_supported s\<rparr>,
       d\<lparr>network_link_type := network_link_type s\<rparr>, d\<lparr>network_bandwidth_kbps := network_bandwidth_kbps s\<rparr>] ! i)"

fun copied :: "nat \<Rightarrow> vom_worker_capabilities \<Rightarrow> vom_worker_capabilities \<Rightarrow> vom_worker_capabilities" where
  "copied 0 s d = d"
| "copied (Suc i) s d = copy_field i s (copied i s d)"

definition caps_fields :: nat where "caps_fields = 15"

text \<open>The refresh thread; \<open>stack\<close> is what its uninitialised local holds.\<close>

definition vom_caps_refresh_worker_loop :: "vom_worker_capabilities \<Rightarrow> agent \<Rightarrow> agent option" where
  "vom_caps_refresh_worker_loop stack s =
     (case probe_pc s of
        P_None \<Rightarrow> None
      | P_Test \<Rightarrow> Some (s\<lparr>probe_pc := if g_probe_thread_active s then P_Collect else P_Done\<rparr>)
      | P_Collect \<Rightarrow> Some (s\<lparr>fresh_caps := vom_sys_info_collect stack, probe_pc := P_Lock\<rparr>)
      | P_Lock \<Rightarrow> if g_caps_mutex s = None then Some (s\<lparr>g_caps_mutex := Some Probe_Thread, probe_pc := P_Copy 0\<rparr>) else None
      | P_Copy i \<Rightarrow> if i < caps_fields
          then Some (s\<lparr>g_cached_caps := copy_field i (fresh_caps s) (g_cached_caps s), probe_pc := P_Copy (Suc i)\<rparr>)
          else Some (s\<lparr>probe_pc := P_Unlock\<rparr>)
      | P_Unlock \<Rightarrow> Some (s\<lparr>g_caps_mutex := None, probe_pc := P_Sleep 0\<rparr>)
      | P_Sleep i \<Rightarrow> Some (s\<lparr>probe_pc := if i < 30 \<and> g_probe_thread_active s then P_Sleep (Suc i) else P_Test\<rparr>)
      | P_Done \<Rightarrow> None)"

text \<open>The main thread: \<open>vom_caps_init\<close>, then heartbeats, then \<open>vom_caps_deinit\<close>.\<close>

definition vom_caps_init :: "bool \<Rightarrow> agent \<Rightarrow> agent option" where
  "vom_caps_init create_ok s =
     (case main_pc s of
        M_InitLock \<Rightarrow> if g_caps_mutex s = None then Some (s\<lparr>g_caps_mutex := Some Main_Thread, main_pc := M_Init\<rparr>) else None
      | M_Init \<Rightarrow> if g_probe_thread_active s then Some (s\<lparr>main_pc := M_InitUnlock True\<rparr>)
          else Some (s\<lparr>g_cached_caps := vom_sys_info_collect (g_cached_caps s), g_probe_thread_active := True,
                       main_pc := M_InitUnlock False\<rparr>)
      | M_InitUnlock already \<Rightarrow> Some (s\<lparr>g_caps_mutex := None, main_pc := if already then M_Loop else M_Create\<rparr>)
      | M_Create \<Rightarrow> if create_ok then Some (s\<lparr>probe_pc := P_Test, main_pc := M_Loop\<rparr>)
          else Some (s\<lparr>g_probe_thread_active := False, main_pc := M_Exit 1\<rparr>)
      | _ \<Rightarrow> None)"

definition vom_caps_snapshot :: "vom_worker_capabilities \<Rightarrow> agent \<Rightarrow> agent option" where
  "vom_caps_snapshot stack s =
     (case main_pc s of
        M_SnapLock \<Rightarrow> if g_caps_mutex s = None
          then Some (s\<lparr>g_caps_mutex := Some Main_Thread, snapshot := stack, main_pc := M_SnapCopy 0\<rparr>) else None
      | M_SnapCopy i \<Rightarrow> if i < caps_fields
          then Some (s\<lparr>snapshot := copy_field i (g_cached_caps s) (snapshot s), main_pc := M_SnapCopy (Suc i)\<rparr>)
          else Some (s\<lparr>main_pc := M_SnapUnlock\<rparr>)
      | M_SnapUnlock \<Rightarrow> Some (s\<lparr>g_caps_mutex := None, reported := reported s @ [snapshot s], main_pc := M_Loop\<rparr>)
      | _ \<Rightarrow> None)"

definition vom_caps_deinit :: "agent \<Rightarrow> agent option" where
  "vom_caps_deinit s =
     (case main_pc s of
        M_Deinit \<Rightarrow> if g_probe_thread_active s then Some (s\<lparr>g_probe_thread_active := False, main_pc := M_Join\<rparr>)
          else Some (s\<lparr>main_pc := M_Exit 0\<rparr>)
      | M_Join \<Rightarrow> if probe_pc s = P_Done then Some (s\<lparr>main_pc := M_Exit 0\<rparr>) else None
      | _ \<Rightarrow> None)"

text \<open>The join request of \<^verbatim>\<open>capabilities.c\<close> prints the fields of a snapshot; \<open>None\<close> is a NULL argument.\<close>

definition vom_caps_build_join_req :: "string option \<Rightarrow> bool \<Rightarrow> vom_worker_capabilities \<Rightarrow> string" where
  "vom_caps_build_join_req agent_id out_null caps =
     (case agent_id of
        None \<Rightarrow> []
      | Some name \<Rightarrow> if out_null then []
          else ''[CAPNP BUILDER] Packing JoinReq -> Agent ID: '' @ name @ '' | Core Count: '' @ c_decimal (unat (cores_online caps))
             @ '' | Total Memory: '' @ c_decimal (unat (ram_total_mb caps)) @ '' MB'' @ [CHR 0x0A])"

definition main_thread :: "bool \<Rightarrow> bool \<Rightarrow> vom_worker_capabilities \<Rightarrow> agent \<Rightarrow> agent option" where
  "main_thread create_ok beat stack s =
     (case main_pc s of
        M_Loop \<Rightarrow> Some (s\<lparr>main_pc := if beat then M_SnapLock else M_Deinit\<rparr>)
      | M_Exit _ \<Rightarrow> None
      | _ \<Rightarrow> (case vom_caps_init create_ok s of
                Some t \<Rightarrow> Some t
              | None \<Rightarrow> (case vom_caps_snapshot stack s of Some t \<Rightarrow> Some t | None \<Rightarrow> vom_caps_deinit s)))"

inductive agent_step :: "agent \<Rightarrow> agent \<Rightarrow> bool" where
  step_probe: "vom_caps_refresh_worker_loop stack s = Some t \<Longrightarrow> agent_step s t"
| step_main: "main_thread create_ok beat stack s = Some t \<Longrightarrow> agent_step s t"

inductive agent_reach :: "agent \<Rightarrow> bool" where
  reach_initial: "agent_reach agent_initial"
| reach_step: "agent_reach s \<Longrightarrow> agent_step s t \<Longrightarrow> agent_reach t"

inductive_cases agent_stepE: "agent_step s t"

section \<open>Processor load\<close>

text \<open>\<open>fscanf\<close> stores each converted counter before it tries the next one.\<close>

fun scan_ticks :: "(u64 \<Rightarrow> CpuTicks \<Rightarrow> CpuTicks) list \<Rightarrow> string \<Rightarrow> CpuTicks \<Rightarrow> nat \<times> CpuTicks" where
  "scan_ticks [] s t = (0, t)"
| "scan_ticks (f # fs) s t =
     (case scan_llu s of
        None \<Rightarrow> (0, t)
      | Some (v, r) \<Rightarrow> (let (n, t') = scan_ticks fs r (f v t) in (Suc n, t')))"

definition sample_cpu_ticks :: "string option \<Rightarrow> CpuTicks \<Rightarrow> bool \<times> CpuTicks" where
  "sample_cpu_ticks f t =
     (case f of
        None \<Rightarrow> (False, t)
      | Some s \<Rightarrow>
          (case scan_str 15 s of
             None \<Rightarrow> (False, t)
           | Some (_, r) \<Rightarrow>
               (let (n, t') = scan_ticks
                  [\<lambda>v. user_update (\<lambda>_. v), \<lambda>v. nice_update (\<lambda>_. v), \<lambda>v. system_update (\<lambda>_. v), \<lambda>v. idle_update (\<lambda>_. v),
                   \<lambda>v. iowait_update (\<lambda>_. v), \<lambda>v. irq_update (\<lambda>_. v), \<lambda>v. softirq_update (\<lambda>_. v), \<lambda>v. steal_update (\<lambda>_. v)] r t
                in (Suc n = 9, t'))))"

definition idle_ticks :: "CpuTicks \<Rightarrow> u64" where
  "idle_ticks t = idle t + iowait t"

definition non_idle_ticks :: "CpuTicks \<Rightarrow> u64" where
  "non_idle_ticks t = user t + nice t + system t + irq t + softirq t + steal t"

definition calculate_cpu_percentage :: "rounding \<Rightarrow> CpuTicks \<Rightarrow> CpuTicks \<Rightarrow> fp" where
  "calculate_cpu_percentage rnd prev cur =
     (let prev_total = idle_ticks prev + non_idle_ticks prev;
          curr_total = idle_ticks cur + non_idle_ticks cur
      in if curr_total \<le> prev_total then Fin 0
         else (let total_delta = curr_total - prev_total; idle_delta = idle_ticks cur - idle_ticks prev
               in fp_mul rnd (fp_div rnd (fp_of_word rnd (total_delta - idle_delta)) (fp_of_word rnd total_delta)) (Fin 100)))"

section \<open>The event loop\<close>

record timeval =
  tv_sec :: int
  tv_usec :: int

text \<open>What \<open>poll\<close> and the calls after it return: on a timeout the text of \<^verbatim>\<open>/proc/stat\<close>, if it can be
  opened; on readiness the \<open>POLLIN\<close> bit and the result of \<open>read\<close>.\<close>

datatype poll_outcome = Poll_Error | Poll_Timeout "string option" | Poll_Ready bool int

record loop_input =
  current_time :: timeval
  outcome :: poll_outcome
  beat_time :: timeval

record loop_state =
  prev_ticks :: CpuTicks
  curr_ticks :: CpuTicks
  last_heartbeat_time :: timeval
  running :: bool
  timeouts :: "int list"
  beats :: "fp list"

definition poll_timeout :: "timeval \<Rightarrow> timeval \<Rightarrow> int" where
  "poll_timeout last_t cur =
     (let elapsed_ms = (tv_sec cur - tv_sec last_t) * 1000 + (tv_usec cur - tv_usec last_t) sdiv 1000;
          timeout_ms = VOM_HEARTBEAT_INTERVAL_MS - signed_take_bit 31 elapsed_ms
      in if timeout_ms < 0 then 0 else timeout_ms)"

definition loop_body :: "rounding \<Rightarrow> loop_input \<Rightarrow> loop_state \<Rightarrow> loop_state" where
  "loop_body rnd i s =
     (let s1 = s\<lparr>timeouts := timeouts s @ [poll_timeout (last_heartbeat_time s) (current_time i)]\<rparr>
      in case outcome i of
           Poll_Error \<Rightarrow> s1\<lparr>running := False\<rparr>
         | Poll_Timeout f \<Rightarrow>
             (let (ok, t) = sample_cpu_ticks f (curr_ticks s1); s2 = s1\<lparr>curr_ticks := t\<rparr>;
                  s3 = (if ok then s2\<lparr>beats := beats s2 @ [calculate_cpu_percentage rnd (prev_ticks s2) t], prev_ticks := t\<rparr>
                        else s2\<lparr>beats := beats s2 @ [Fin 0]\<rparr>)
              in s3\<lparr>last_heartbeat_time := beat_time i\<rparr>)
         | Poll_Ready pollin len \<Rightarrow> if pollin \<and> len > 0 then s1\<lparr>running := False\<rparr> else s1)"

fun agent_loop :: "rounding \<Rightarrow> loop_input list \<Rightarrow> loop_state \<Rightarrow> loop_state" where
  "agent_loop rnd [] s = s"
| "agent_loop rnd (i # is) s = (if running s then agent_loop rnd is (loop_body rnd i s) else s)"

section \<open>The cache is never seen half-written\<close>

text \<open>
  The critical sections of the two threads. In the main thread they are the initialisation and the copy of
  a snapshot, in the refresh thread the copy into the cache.
\<close>

definition main_critical :: "main_pc \<Rightarrow> bool" where
  "main_critical p =
     (case p of M_Init \<Rightarrow> True | M_InitUnlock _ \<Rightarrow> True | M_SnapCopy _ \<Rightarrow> True | M_SnapUnlock \<Rightarrow> True | _ \<Rightarrow> False)"

definition probe_critical :: "probe_pc \<Rightarrow> bool" where
  "probe_critical p = (case p of P_Copy _ \<Rightarrow> True | P_Unlock \<Rightarrow> True | _ \<Rightarrow> False)"

text \<open>
  A record as the collector leaves it: collecting into it again changes nothing. The collector writes constants to all
  fields but one, so this tells a record from the empty one, and not two collected records from each other; that
  a snapshot is no mixture of two is the equality with the cache in the theorem below.
\<close>

definition collected :: "vom_worker_capabilities \<Rightarrow> bool" where
  "collected c \<longleftrightarrow> vom_sys_info_collect c = c"

lemma collected_collect [simp]: "collected (vom_sys_info_collect c)"
  by (simp add: collected_def vom_sys_info_collect_def)

lemma copied_all: "copied caps_fields s d = s"
  by (simp add: caps_fields_def eval_nat_numeral copy_field_def)

definition lock_ok :: "agent \<Rightarrow> bool" where
  "lock_ok s \<longleftrightarrow>
     g_caps_mutex s =
       (if main_critical (main_pc s) then Some Main_Thread
        else if probe_critical (probe_pc s) then Some Probe_Thread else None)
     \<and> \<not> (main_critical (main_pc s) \<and> probe_critical (probe_pc s))"

lemmas critical_defs = main_critical_def probe_critical_def

definition start_ok :: "agent \<Rightarrow> bool" where
  "start_ok s \<longleftrightarrow>
     (case main_pc s of
        M_InitLock \<Rightarrow> probe_pc s = P_None \<and> \<not> g_probe_thread_active s
      | M_Init \<Rightarrow> probe_pc s = P_None \<and> \<not> g_probe_thread_active s
      | M_InitUnlock b \<Rightarrow> probe_pc s = P_None \<and> g_probe_thread_active s \<and> \<not> b
      | M_Create \<Rightarrow> probe_pc s = P_None \<and> g_probe_thread_active s
      | M_Exit r \<Rightarrow> \<not> g_probe_thread_active s \<and> probe_pc s = (if r = 1 then P_None else P_Done)
      | M_Join \<Rightarrow> probe_pc s \<noteq> P_None \<and> \<not> g_probe_thread_active s
      | _ \<Rightarrow> probe_pc s \<noteq> P_None \<and> probe_pc s \<noteq> P_Done \<and> g_probe_thread_active s)"

definition data_ok :: "agent \<Rightarrow> bool" where
  "data_ok s \<longleftrightarrow>
     (main_pc s \<in> {M_InitLock, M_Init} \<or>
        (case probe_pc s of
           P_Copy i \<Rightarrow> i \<le> caps_fields \<and> (\<exists>old. g_cached_caps s = copied i (fresh_caps s) old)
         | _ \<Rightarrow> collected (g_cached_caps s)))
     \<and> (case probe_pc s of P_Lock \<Rightarrow> collected (fresh_caps s) | P_Copy _ \<Rightarrow> collected (fresh_caps s) | _ \<Rightarrow> True)
     \<and> (case main_pc s of
          M_SnapCopy i \<Rightarrow> i \<le> caps_fields \<and> (\<exists>old. snapshot s = copied i (g_cached_caps s) old)
        | M_SnapUnlock \<Rightarrow> snapshot s = g_cached_caps s
        | _ \<Rightarrow> True)
     \<and> list_all collected (reported s)"

definition agent_ok :: "agent \<Rightarrow> bool" where
  "agent_ok s \<longleftrightarrow> lock_ok s \<and> start_ok s \<and> data_ok s"

lemma agent_ok_initial: "agent_ok agent_initial"
  by (simp add: agent_ok_def lock_ok_def start_ok_def data_ok_def agent_initial_def critical_defs)

lemma copied_Suc: "c = copied i s old \<Longrightarrow> copy_field i s c = copied (Suc i) s old"
  by simp

lemma copied_end: "\<not> i < caps_fields \<Longrightarrow> i \<le> caps_fields \<Longrightarrow> copied i s old = s"
  by (simp add: copied_all)


lemmas agent_inv_defs = lock_ok_def start_ok_def data_ok_def critical_defs

lemma probe_keeps_lock:
  assumes "vom_caps_refresh_worker_loop stack s = Some t" "lock_ok s" "start_ok s"
  shows "lock_ok t"
  using assms
  by (cases "probe_pc s"; cases "main_pc s")
    (auto simp: vom_caps_refresh_worker_loop_def lock_ok_def start_ok_def critical_defs split: if_splits)

lemma probe_keeps_start:
  assumes "vom_caps_refresh_worker_loop stack s = Some t" "start_ok s"
  shows "start_ok t"
  using assms
  by (cases "probe_pc s"; cases "main_pc s")
    (auto simp: vom_caps_refresh_worker_loop_def start_ok_def split: if_splits)

lemma main_keeps_lock:
  assumes "main_thread create_ok beat stack s = Some t" "lock_ok s" "start_ok s"
  shows "lock_ok t"
  using assms
  by (cases "main_pc s"; cases "probe_pc s")
    (auto simp: main_thread_def vom_caps_init_def vom_caps_snapshot_def vom_caps_deinit_def lock_ok_def start_ok_def critical_defs
      split: if_splits)

lemma main_keeps_start:
  assumes "main_thread create_ok beat stack s = Some t" "start_ok s"
  shows "start_ok t"
  using assms
  by (cases "main_pc s"; cases "probe_pc s")
    (auto simp: main_thread_def vom_caps_init_def vom_caps_snapshot_def vom_caps_deinit_def start_ok_def
      split: if_splits)

lemma probe_keeps_data:
  assumes "vom_caps_refresh_worker_loop stack s = Some t" "lock_ok s" "start_ok s" "data_ok s"
  shows "data_ok t"
  using assms
  by (cases "probe_pc s"; cases "main_pc s")
    (auto simp: vom_caps_refresh_worker_loop_def agent_inv_defs Suc_le_eq copied_end
      intro: copied.simps(1) [symmetric] dest: copied_Suc split: if_splits)

lemma main_keeps_data:
  assumes "main_thread create_ok beat stack s = Some t" "lock_ok s" "start_ok s" "data_ok s"
  shows "data_ok t"
  using assms
  by (cases "main_pc s"; cases "probe_pc s")
    (auto simp: main_thread_def vom_caps_init_def vom_caps_snapshot_def vom_caps_deinit_def agent_inv_defs Suc_le_eq copied_end
      intro: copied.simps(1) [symmetric] dest: copied_Suc split: if_splits)

lemma agent_ok_step: "agent_step s t \<Longrightarrow> agent_ok s \<Longrightarrow> agent_ok t"
  by (erule agent_stepE)
    (auto simp: agent_ok_def intro: probe_keeps_lock probe_keeps_start probe_keeps_data
      main_keeps_lock main_keeps_start main_keeps_data)

lemma agent_reach_ok: "agent_reach s \<Longrightarrow> agent_ok s"
  by (induction rule: agent_reach.induct) (auto simp: agent_ok_initial intro: agent_ok_step)

text \<open>
  C16: In every interleaving of the two threads, with a structure copied field by field, the threads are never
  both in a critical section, and the mutex belongs to exactly the thread that is in one. So when a snapshot is
  finished it equals the cache in every field, and at no point of its copying does the refresh thread write; every
  record a heartbeat reported was completely filled by the collector, and whenever the mutex is free after
  start-up the cache holds such a record.
\<close>

theorem heartbeats_never_torn:
  assumes "agent_reach s"
  shows "\<not> (main_critical (main_pc s) \<and> probe_critical (probe_pc s))
    \<and> g_caps_mutex s =
        (if main_critical (main_pc s) then Some Main_Thread
         else if probe_critical (probe_pc s) then Some Probe_Thread else None)
    \<and> (main_pc s = M_SnapUnlock \<longrightarrow> snapshot s = g_cached_caps s)
    \<and> list_all collected (reported s)
    \<and> (g_caps_mutex s = None \<longrightarrow> main_pc s \<noteq> M_InitLock \<longrightarrow> collected (g_cached_caps s))"
proof -
  have ok: "lock_ok s" "data_ok s" using agent_reach_ok [OF assms] by (simp_all add: agent_ok_def)
  have "collected (g_cached_caps s)" if "g_caps_mutex s = None" "main_pc s \<noteq> M_InitLock"
    using ok that by (auto simp: agent_inv_defs split: main_pc.splits probe_pc.splits)
  moreover have "snapshot s = g_cached_caps s" if "main_pc s = M_SnapUnlock"
    using ok(2) that by (simp add: data_ok_def)
  ultimately show ?thesis using ok by (auto simp: lock_ok_def data_ok_def)
qed

text \<open>The main thread of the run below starts the refresh thread, reports once while it sleeps, and shuts down.\<close>

fun run_main :: "nat \<Rightarrow> bool \<Rightarrow> agent \<Rightarrow> agent" where
  "run_main 0 beat s = s"
| "run_main (Suc n) beat s = (case main_thread True beat zero_caps s of None \<Rightarrow> s | Some t \<Rightarrow> run_main n beat t)"

fun run_probe :: "nat \<Rightarrow> agent \<Rightarrow> agent" where
  "run_probe 0 s = s"
| "run_probe (Suc n) s = (case vom_caps_refresh_worker_loop zero_caps s of None \<Rightarrow> s | Some t \<Rightarrow> run_probe n t)"

lemma reach_main: "agent_reach s \<Longrightarrow> main_thread create_ok beat stack s = Some t \<Longrightarrow> agent_reach t"
  by (rule reach_step [OF _ step_main])

lemma reach_probe: "agent_reach s \<Longrightarrow> vom_caps_refresh_worker_loop stack s = Some t \<Longrightarrow> agent_reach t"
  by (rule reach_step [OF _ step_probe])

lemma run_main_reach: "agent_reach s \<Longrightarrow> agent_reach (run_main n beat s)"
  by (induction n arbitrary: s) (auto split: option.splits dest: reach_main)

lemma run_probe_reach: "agent_reach s \<Longrightarrow> agent_reach (run_probe n s)"
  by (induction n arbitrary: s) (auto split: option.splits dest: reach_probe)

definition one_beat :: agent where
  "one_beat = run_main 19 True (run_probe 25 (run_main 4 True agent_initial))"

definition joining :: agent where
  "joining = run_main 2 False (run_probe 1 (run_main 4 True agent_initial))"

lemma one_beat_reach: "agent_reach one_beat"
  unfolding one_beat_def by (intro run_main_reach run_probe_reach reach_initial)

lemma joining_reach: "agent_reach joining"
  unfolding joining_def by (intro run_main_reach run_probe_reach reach_initial)

text \<open>Just before the last step of that run the snapshot is finished and the mutex still held.\<close>

definition almost_beat :: agent where
  "almost_beat = run_main 18 True (run_probe 25 (run_main 4 True agent_initial))"

lemma almost_beat_reach: "agent_reach almost_beat"
  unfolding almost_beat_def by (intro run_main_reach run_probe_reach reach_initial)

theorem heartbeats_never_torn_witness:
  "length (reported one_beat) = 1 \<and> list_all collected (reported one_beat)
   \<and> main_pc almost_beat = M_SnapUnlock \<and> g_caps_mutex almost_beat = Some Main_Thread
   \<and> \<not> probe_critical (probe_pc almost_beat) \<and> snapshot almost_beat = g_cached_caps almost_beat"
proof -
  have "length (reported one_beat) = 1" "main_pc almost_beat = M_SnapUnlock" by code_simp+
  moreover have "main_critical M_SnapUnlock" by (simp add: main_critical_def)
  ultimately show ?thesis
    using heartbeats_never_torn [OF one_beat_reach] heartbeats_never_torn [OF almost_beat_reach] by auto
qed

section \<open>Shutdown completes\<close>

definition probe_left :: "probe_pc \<Rightarrow> nat" where
  "probe_left p =
     (case p of
        P_None \<Rightarrow> 0 | P_Done \<Rightarrow> 0 | P_Test \<Rightarrow> 1 | P_Sleep _ \<Rightarrow> 2 | P_Unlock \<Rightarrow> 3
      | P_Copy i \<Rightarrow> 4 + (caps_fields - i) | P_Lock \<Rightarrow> 5 + caps_fields | P_Collect \<Rightarrow> 6 + caps_fields)"

definition shutdown_left :: "agent \<Rightarrow> nat" where
  "shutdown_left s = probe_left (probe_pc s) + (if main_pc s = M_Join then 1 else 0)"

definition closing :: "agent \<Rightarrow> bool" where
  "closing s \<longleftrightarrow> main_pc s = M_Join \<or> main_pc s = M_Exit 0"

lemma closing_step:
  assumes "agent_step s t" "agent_ok s" "closing s"
  shows "closing t \<and> shutdown_left t < shutdown_left s"
  using assms(1)
proof (rule agent_stepE)
  fix stack
  assume "vom_caps_refresh_worker_loop stack s = Some t"
  then show ?thesis using assms(2,3)
    by (cases "probe_pc s")
      (auto simp: vom_caps_refresh_worker_loop_def agent_ok_def start_ok_def closing_def shutdown_left_def probe_left_def
        split: if_splits)
next
  fix create_ok beat stack
  assume "main_thread create_ok beat stack s = Some t"
  then show ?thesis using assms(2,3)
    by (auto simp: main_thread_def vom_caps_init_def vom_caps_snapshot_def vom_caps_deinit_def closing_def shutdown_left_def
        split: if_splits)
qed

lemma closing_progress:
  assumes "agent_ok s" "main_pc s = M_Join"
  shows "\<exists>t. agent_step s t"
proof (cases "probe_pc s = P_Done")
  case True
  then have "main_thread True True zero_caps s \<noteq> None"
    using assms(2) by (simp add: main_thread_def vom_caps_init_def vom_caps_snapshot_def vom_caps_deinit_def)
  then show ?thesis using step_main by blast
next
  case False
  then have "vom_caps_refresh_worker_loop zero_caps s \<noteq> None"
    using assms by (cases "probe_pc s") (auto simp: vom_caps_refresh_worker_loop_def agent_ok_def lock_ok_def start_ok_def critical_defs)
  then show ?thesis using step_probe by blast
qed

lemma closing_run:
  "(agent_step ^^ n) s t \<Longrightarrow> agent_ok s \<Longrightarrow> closing s \<Longrightarrow> agent_ok t \<and> closing t \<and> n + shutdown_left t \<le> shutdown_left s"
proof (induction n arbitrary: t)
  case (Suc n)
  then obtain u where u: "(agent_step ^^ n) s u" "agent_step u t" by auto
  with Suc have "agent_ok u" "closing u" "n + shutdown_left u \<le> shutdown_left s" by blast+
  with agent_ok_step [OF u(2)] closing_step [OF u(2)] show ?case by auto
qed simp

text \<open>
  C33: Once the main thread waits for the refresh thread, whatever that thread was doing, every run of the two
  is at most twenty-two transitions long, and one that cannot go on has the refresh thread ended and the agent
  left with code 0: the shutdown neither blocks on the mutex nor waits for the thirty-second sleep.
\<close>

theorem agent_shutdown_completes:
  assumes "agent_reach s" and "main_pc s = M_Join" and "(agent_step ^^ n) s t"
  shows "n \<le> 22 \<and> ((\<forall>u. \<not> agent_step t u) \<longrightarrow> main_pc t = M_Exit 0 \<and> probe_pc t = P_Done)"
proof -
  have ok: "agent_ok s" "closing s" using agent_reach_ok assms(1,2) by (simp_all add: closing_def)
  note r = closing_run [OF assms(3) ok]
  have "shutdown_left s \<le> 22" using assms(2)
    by (cases "probe_pc s") (simp_all add: shutdown_left_def probe_left_def caps_fields_def)
  moreover have "main_pc t = M_Exit 0 \<and> probe_pc t = P_Done" if "\<forall>u. \<not> agent_step t u"
  proof -
    from r that have "main_pc t = M_Exit 0" using closing_progress by (auto simp: closing_def)
    with r show ?thesis by (simp add: agent_ok_def start_ok_def)
  qed
  ultimately show ?thesis using r by auto
qed

lemma run_probe_steps: "\<exists>m. (agent_step ^^ m) s (run_probe n s)"
proof (induction n arbitrary: s)
  case (Suc n)
  show ?case
  proof (cases "vom_caps_refresh_worker_loop zero_caps s")
    case (Some t)
    from Suc [of t] obtain m where "(agent_step ^^ m) t (run_probe n t)" by blast
    with step_probe [OF Some] have "(agent_step ^^ Suc m) s (run_probe n t)" by (rule relpowp_Suc_I2)
    then show ?thesis unfolding run_probe.simps Some option.case by blast
  qed (auto intro: exI [of _ 0])
qed (auto intro: exI [of _ 0])

theorem agent_shutdown_completes_witness:
  "\<exists>n t. agent_reach joining \<and> main_pc joining = M_Join \<and> probe_pc joining = P_Collect
     \<and> (agent_step ^^ n) joining t \<and> main_pc t = M_Exit 0 \<and> n \<le> 22"
proof -
  let ?u = "run_probe 30 joining"
  have j: "main_pc joining = M_Join" "probe_pc joining = P_Collect" by code_simp+
  have "\<not> Option.is_none (main_thread True True zero_caps ?u)" "main_pc (the (main_thread True True zero_caps ?u)) = M_Exit 0"
    by code_simp+
  then obtain t where t: "main_thread True True zero_caps ?u = Some t" "main_pc t = M_Exit 0"
    by (cases "main_thread True True zero_caps ?u") auto
  obtain m where "(agent_step ^^ m) joining ?u" using run_probe_steps by blast
  then have r: "(agent_step ^^ Suc m) joining t" using step_main [OF t(1)] by (rule relpowp_Suc_I)
  from agent_shutdown_completes [OF joining_reach j(1) r] have "Suc m \<le> 22" by (rule conjunct1)
  with r t(2) j joining_reach show ?thesis by blast
qed

section \<open>Reported loads are percentages\<close>

definition ticks_fit :: "CpuTicks \<Rightarrow> bool" where
  "ticks_fit t \<longleftrightarrow> unat (idle_ticks t) + unat (non_idle_ticks t) < 2 ^ 64"

definition ticks_grow :: "CpuTicks \<Rightarrow> CpuTicks \<Rightarrow> bool" where
  "ticks_grow p c \<longleftrightarrow> ticks_fit c \<and> idle_ticks p \<le> idle_ticks c \<and> non_idle_ticks p \<le> non_idle_ticks c"

lemma unat_total: "ticks_fit t \<Longrightarrow> unat (idle_ticks t + non_idle_ticks t) = unat (idle_ticks t) + unat (non_idle_ticks t)"
  by (simp add: ticks_fit_def unat_word_ariths(1))

lemma cpu_percentage_bounds:
  assumes "monotone_rounding rnd" "ticks_fit prev" "ticks_grow prev cur"
  shows "fp_between 0 (calculate_cpu_percentage rnd prev cur) 100"
proof (cases "idle_ticks cur + non_idle_ticks cur \<le> idle_ticks prev + non_idle_ticks prev")
  case True
  then show ?thesis by (simp add: calculate_cpu_percentage_def Let_def)
next
  case False
  let ?td = "idle_ticks cur + non_idle_ticks cur - (idle_ticks prev + non_idle_ticks prev)"
  let ?id = "idle_ticks cur - idle_ticks prev"
  have le: "idle_ticks prev \<le> idle_ticks cur" "non_idle_ticks prev \<le> non_idle_ticks cur" and fit: "ticks_fit cur"
    using assms(3) by (simp_all add: ticks_grow_def)
  have td: "unat ?td = unat (idle_ticks cur) + unat (non_idle_ticks cur) - (unat (idle_ticks prev) + unat (non_idle_ticks prev))"
    using False by (simp add: unat_sub unat_total fit assms(2))
  have idd: "unat ?id = unat (idle_ticks cur) - unat (idle_ticks prev)" using le(1) by (rule unat_sub)
  have "?id \<le> ?td" using le by (simp add: word_le_nat_alt td idd)
  then have "?td - ?id \<le> ?td" by (rule word_sub_le)
  moreover have "0 < ?td" using False by (simp add: word_neq_0_conv [symmetric])
  ultimately show ?thesis
    using percentage_bounds [OF assms(1), of "?td - ?id" ?td] False by (simp add: calculate_cpu_percentage_def Let_def)
qed

text \<open>The first line of \<^verbatim>\<open>/proc/stat\<close> and what follows it.\<close>

definition stat_text :: "CpuTicks \<Rightarrow> string \<Rightarrow> string" where
  "stat_text t rest = ''cpu'' @ concat (map (\<lambda>w. CHR '' '' # c_decimal (unat w))
     [user t, nice t, system t, idle t, iowait t, irq t, softirq t, steal t]) @ CHR 0x0A # rest"

lemma scan_llu_counter:
  assumes "t = [] \<or> \<not> c_isdigit (hd t)"
  shows "scan_llu (CHR '' '' # c_decimal (unat (w :: u64)) @ t) = Some (w, t)"
proof -
  have "unat w < 2 ^ 64" using unsigned_less [of w, where ?'a = nat] by simp
  from scan_llu_decimal [OF this _ assms, of "[CHR '' '']"] show ?thesis
    by (simp add: c_isspace_def)
qed

lemma sample_reads: "sample_cpu_ticks (Some (stat_text t rest)) t0 = (True, t)"
proof -
  have "scan_str 15 ([] @ ''cpu'' @ r) = Some (''cpu'', r)" if "c_isspace (hd r)" for r
    by (rule scan_str_word) (use that in \<open>simp_all add: c_isspace_def\<close>)
  then show ?thesis
    by (simp add: sample_cpu_ticks_def stat_text_def scan_llu_counter c_isspace_def c_isdigit_def)
qed

definition sample_input :: "timeval \<times> timeval \<times> CpuTicks \<times> string \<Rightarrow> loop_input" where
  "sample_input = (\<lambda>(now, after, t, rest). \<lparr> current_time = now, outcome = Poll_Timeout (Some (stat_text t rest)), beat_time = after \<rparr>)"

fun grows :: "CpuTicks \<Rightarrow> (timeval \<times> timeval \<times> CpuTicks \<times> string) list \<Rightarrow> bool" where
  "grows p [] = True"
| "grows p ((_, _, t, _) # xs) = (ticks_grow p t \<and> grows t xs)"

text \<open>
  C38: While the kernel's idle and busy counters grow, every timeout of the event loop sends exactly one
  heartbeat, and the load in it is between 0 and 100 under every rounding mode.
\<close>

theorem heartbeat_loads_are_percentages:
  assumes "monotone_rounding rnd" and "running s" and "ticks_fit (prev_ticks s)" and "grows (prev_ticks s) xs"
  shows "\<exists>new. beats (agent_loop rnd (map sample_input xs) s) = beats s @ new \<and> length new = length xs
     \<and> list_all (\<lambda>x. fp_between 0 x 100) new"
  using assms(2-)
proof (induction xs arbitrary: s)
  case (Cons x xs)
  obtain now after t rest where x: "x = (now, after, t, rest)" by (metis prod_cases4)
  let ?s = "loop_body rnd (sample_input x) s"
  let ?p = "calculate_cpu_percentage rnd (prev_ticks s) t"
  have b: "running ?s" "prev_ticks ?s = t" "beats ?s = beats s @ [?p]"
    using Cons.prems(1) by (simp_all add: loop_body_def sample_input_def x sample_reads)
  have g: "ticks_grow (prev_ticks s) t" "grows t xs" using Cons.prems(3) by (simp_all add: x)
  then have "ticks_fit t" by (simp add: ticks_grow_def)
  with Cons.IH [of ?s] b g(2) obtain new where "beats (agent_loop rnd (map sample_input xs) ?s) = beats ?s @ new"
    "length new = length xs" "list_all (\<lambda>x. fp_between 0 x 100) new" by auto
  moreover have "fp_between 0 ?p 100" using cpu_percentage_bounds [OF assms(1) Cons.prems(2) g(1)] .
  ultimately have "beats (agent_loop rnd (map sample_input (x # xs)) s) = beats s @ (?p # new)
      \<and> length (?p # new) = length (x # xs) \<and> list_all (\<lambda>x. fp_between 0 x 100) (?p # new)"
    using Cons.prems(1) b(3) by simp
  then show ?case by blast
qed simp

definition ticks_of :: "u64 \<Rightarrow> u64 \<Rightarrow> u64 \<Rightarrow> CpuTicks" where
  "ticks_of u i w = \<lparr> user = u, nice = 0, system = 0, idle = i, iowait = w, irq = 0, softirq = 0, steal = 0 \<rparr>"

definition loop_start :: loop_state where
  "loop_start = \<lparr> prev_ticks = ticks_of 100 900 0, curr_ticks = ticks_of 0 0 0, last_heartbeat_time = \<lparr>tv_sec = 0, tv_usec = 0\<rparr>,
     running = True, timeouts = [], beats = [] \<rparr>"

definition loop_samples :: "(timeval \<times> timeval \<times> CpuTicks \<times> string) list" where
  "loop_samples = [(\<lparr>tv_sec = 1, tv_usec = 0\<rparr>, \<lparr>tv_sec = 5, tv_usec = 0\<rparr>, ticks_of 150 1050 0, [])]"

theorem heartbeat_loads_are_percentages_witness:
  "monotone_rounding Fin \<and> grows (prev_ticks loop_start) loop_samples
   \<and> length (beats (agent_loop Fin (map sample_input loop_samples) loop_start)) = 1"
proof -
  have g: "running loop_start" "ticks_fit (prev_ticks loop_start)" "grows (prev_ticks loop_start) loop_samples"
    by (simp_all add: loop_start_def loop_samples_def ticks_of_def ticks_fit_def ticks_grow_def idle_ticks_def non_idle_ticks_def)
  have "length loop_samples = 1" "beats loop_start = []" by (simp_all add: loop_samples_def loop_start_def)
  with heartbeat_loads_are_percentages [OF exact_rounding g] g(3) exact_rounding show ?thesis by auto
qed

text \<open>The kernel may report a smaller \<open>iowait\<close> than before: the idle difference wraps around and the load
  leaves the range.\<close>

lemma iowait_decrease_exceeds: "calculate_cpu_percentage Fin (ticks_of 100 0 50) (ticks_of 200 0 40) = Fin (1000 / 9)"
  by (simp add: calculate_cpu_percentage_def ticks_of_def idle_ticks_def non_idle_ticks_def fp_of_word_def)

section \<open>The timeout and the end of the input\<close>

text \<open>With a clock that does not run backwards, the timeout is between 0 and the interval.\<close>

lemma poll_timeout_range:
  assumes "tv_usec l \<in> {0..<1000000}" "tv_usec c \<in> {0..<1000000}"
    and "tv_sec l < tv_sec c \<or> tv_sec l = tv_sec c \<and> tv_usec l \<le> tv_usec c" and "tv_sec c - tv_sec l < 2000000"
  shows "0 \<le> poll_timeout l c \<and> poll_timeout l c \<le> VOM_HEARTBEAT_INTERVAL_MS"
proof -
  define d where "d = (tv_usec c - tv_usec l) sdiv 1000"
  have d: "- 999 \<le> d" "d \<le> 999" "tv_usec l \<le> tv_usec c \<Longrightarrow> 0 \<le> d"
    using assms(1,2) by (auto simp: d_def signed_divide_int_def sgn_if div_le_mono2)
  define e where "e = (tv_sec c - tv_sec l) * 1000 + d"
  have e: "0 \<le> e" "e < 2 ^ 31" using assms(3,4) d by (auto simp: e_def)
  then have "signed_take_bit 31 e = e" by (simp add: signed_take_bit_int_eq_self)
  then have "poll_timeout l c = (if 5000 - e < 0 then 0 else 5000 - e)"
    by (simp only: poll_timeout_def Let_def VOM_HEARTBEAT_INTERVAL_MS_def d_def [symmetric] e_def [symmetric])
  then show ?thesis using e by (simp add: VOM_HEARTBEAT_INTERVAL_MS_def)
qed

text \<open>
  When standard input is at its end (a closed terminal, the null device), \<open>poll\<close> reports it readable every time and
  \<open>read\<close> returns nothing: however long the loop turns, it sends no heartbeat and does not stop.
\<close>

theorem end_of_input_silences_agent:
  assumes "running s" and "list_all (\<lambda>i. outcome i = Poll_Ready True 0) is"
  shows "beats (agent_loop rnd is s) = beats s \<and> running (agent_loop rnd is s)"
  using assms by (induction "is" arbitrary: s) (simp_all add: loop_body_def)

definition at_end :: loop_input where
  "at_end = \<lparr> current_time = \<lparr>tv_sec = 60, tv_usec = 0\<rparr>, outcome = Poll_Ready True 0, beat_time = \<lparr>tv_sec = 60, tv_usec = 0\<rparr> \<rparr>"

theorem end_of_input_silences_agent_witness:
  "beats (agent_loop Fin [at_end, at_end] loop_start) = [] \<and> running (agent_loop Fin [at_end, at_end] loop_start)"
  using end_of_input_silences_agent [of loop_start "[at_end, at_end]" Fin] by (simp add: at_end_def loop_start_def)

end
