(* ===== verification/Capabilities.thy ===== *)
theory Capabilities
  imports Prelude
begin

text \<open>
  The worker's capability manager (\<^verbatim>\<open>worker/src/capabilities.c\<close>): three hardware fixtures and the two
  payloads built from them.

  A payload is the bytes of a structure; it is the structure here, and the size of its C layout is a
  parameter. Decimal constants of type \<open>float\<close> are the rounding of their value. A NULL
  context, on which the code returns -1 or does nothing, is \<open>None\<close>.

  Proved: in every fixture the free resources are within the installed ones, an unknown fixture yields
  an empty device, and a join request refreshes the cache and never writes more than the caller's buffer holds.
\<close>

section \<open>Data\<close>

definition CAP_STRING_MAX :: nat where "CAP_STRING_MAX = 64"

datatype VomCapArchitecture = CAP_ARCH_X86_64 | CAP_ARCH_AARCH64 | CAP_ARCH_ARMV7 | CAP_ARCH_RISCV64

datatype VomCapAbi = CAP_ABI_SYSV | CAP_ABI_EABI | CAP_ABI_MUSL | CAP_ABI_WIN64

datatype VomCapRuntime = CAP_RUN_NATIVE | CAP_RUN_WASM | CAP_RUN_CONTAINER

fun runtime_bit :: "VomCapRuntime \<Rightarrow> u32" where
  "runtime_bit CAP_RUN_NATIVE = 1"
| "runtime_bit CAP_RUN_WASM = 2"
| "runtime_bit CAP_RUN_CONTAINER = 4"

datatype VomCapAccelerator = CAP_ACCEL_NONE | CAP_ACCEL_CUDA | CAP_ACCEL_OPENCL | CAP_ACCEL_METAL | CAP_ACCEL_NPU

datatype VomCapThermal = CAP_THERMAL_NOMINAL | CAP_THERMAL_THROTTLED | CAP_THERMAL_CRITICAL

record vom_cpu_features_t =
  instruction_set_extensions_bitmask :: u32
  has_hardware_virtualization :: bool
  has_secure_sandbox_support :: bool

record vom_peripheral_spec_t =
  resolution_width :: u32
  resolution_height :: u32
  refresh_rate_hz :: u32
  touch_input_supported :: bool
  keyboard_attached :: bool
  pointer_attached :: bool

record vom_worker_static_capabilities_t =
  capability_protocol_version :: u16
  architecture :: VomCapArchitecture
  abi :: VomCapAbi
  supported_runtimes_bitmask :: u32
  cpu_extensions :: vom_cpu_features_t
  physical_cores_total :: u32
  physical_ram_bytes_total :: u64
  storage_capacity_bytes_total :: u64
  accelerator_type :: VomCapAccelerator
  accelerator_memory_bytes_total :: u64
  display_count :: u32
  primary_display :: vom_peripheral_spec_t
  hardware_model_fingerprint :: string

record vom_worker_dynamic_resources_t =
  timestamp_ms :: u64
  physical_cores_currently_online :: u32
  physical_ram_bytes_currently_free :: u64
  storage_bytes_currently_free :: u64
  accelerator_memory_bytes_currently_free :: u64
  current_network_link_bandwidth_bps :: u64
  current_network_latency_us :: u32
  battery_charge_percentage :: fp
  is_charging :: bool
  is_docked :: bool
  thermal_state :: VomCapThermal
  active_local_reservations_count :: u32

definition zero_cpu :: vom_cpu_features_t where
  "zero_cpu = \<lparr> instruction_set_extensions_bitmask = 0, has_hardware_virtualization = False, has_secure_sandbox_support = False \<rparr>"

definition zero_peripheral :: vom_peripheral_spec_t where
  "zero_peripheral = \<lparr> resolution_width = 0, resolution_height = 0, refresh_rate_hz = 0, touch_input_supported = False,
     keyboard_attached = False, pointer_attached = False \<rparr>"

definition zero_static :: vom_worker_static_capabilities_t where
  "zero_static = \<lparr> capability_protocol_version = 0, architecture = CAP_ARCH_X86_64, abi = CAP_ABI_SYSV,
     supported_runtimes_bitmask = 0, cpu_extensions = zero_cpu, physical_cores_total = 0, physical_ram_bytes_total = 0,
     storage_capacity_bytes_total = 0, accelerator_type = CAP_ACCEL_NONE, accelerator_memory_bytes_total = 0,
     display_count = 0, primary_display = zero_peripheral, hardware_model_fingerprint = [] \<rparr>"

definition zero_dynamic :: vom_worker_dynamic_resources_t where
  "zero_dynamic = \<lparr> timestamp_ms = 0, physical_cores_currently_online = 0, physical_ram_bytes_currently_free = 0,
     storage_bytes_currently_free = 0, accelerator_memory_bytes_currently_free = 0, current_network_link_bandwidth_bps = 0,
     current_network_latency_us = 0, battery_charge_percentage = Fin 0, is_charging = False, is_docked = False,
     thermal_state = CAP_THERMAL_NOMINAL, active_local_reservations_count = 0 \<rparr>"

record vom_capabilities_manager =
  platform_fixture_id :: int
  cached_static :: vom_worker_static_capabilities_t

section \<open>Operations\<close>

definition vom_capabilities_manager_create :: "vom_capabilities_manager" where
  "vom_capabilities_manager_create = \<lparr> platform_fixture_id = 0, cached_static = zero_static \<rparr>"

definition vom_capabilities_manager_set_fixture :: "vom_capabilities_manager option \<Rightarrow> int \<Rightarrow> vom_capabilities_manager option" where
  "vom_capabilities_manager_set_fixture ctx fixture_id = map_option (\<lambda>c. c\<lparr>platform_fixture_id := fixture_id\<rparr>) ctx"

definition static_fixture :: "int \<Rightarrow> vom_worker_static_capabilities_t" where
  "static_fixture f =
     (let z = zero_static\<lparr>capability_protocol_version := 1\<rparr>
      in if f = 0 then z\<lparr> architecture := CAP_ARCH_X86_64, abi := CAP_ABI_SYSV,
           supported_runtimes_bitmask := runtime_bit CAP_RUN_NATIVE OR runtime_bit CAP_RUN_WASM OR runtime_bit CAP_RUN_CONTAINER,
           physical_cores_total := 16, physical_ram_bytes_total := 34359738368, storage_capacity_bytes_total := 1000204886016,
           accelerator_type := CAP_ACCEL_CUDA, accelerator_memory_bytes_total := 17179869184, display_count := 2,
           primary_display := (primary_display z)\<lparr> resolution_width := 3840, resolution_height := 2160,
             refresh_rate_hz := 144, touch_input_supported := False \<rparr>,
           hardware_model_fingerprint := c_strncpy (CAP_STRING_MAX - 1) ''linux-workstation-x86_64'' \<rparr>
         else if f = 1 then z\<lparr> architecture := CAP_ARCH_AARCH64, abi := CAP_ABI_EABI,
           supported_runtimes_bitmask := runtime_bit CAP_RUN_NATIVE OR runtime_bit CAP_RUN_WASM,
           physical_cores_total := 8, physical_ram_bytes_total := 8589934592, storage_capacity_bytes_total := 256102424576,
           accelerator_type := CAP_ACCEL_NPU, accelerator_memory_bytes_total := 2147483648, display_count := 1,
           primary_display := (primary_display z)\<lparr> resolution_width := 2400, resolution_height := 1080,
             refresh_rate_hz := 120, touch_input_supported := True \<rparr>,
           hardware_model_fingerprint := c_strncpy (CAP_STRING_MAX - 1) ''android-mobile-arm64'' \<rparr>
         else if f = 2 then z\<lparr> architecture := CAP_ARCH_ARMV7, abi := CAP_ABI_EABI,
           supported_runtimes_bitmask := runtime_bit CAP_RUN_WASM,
           physical_cores_total := 2, physical_ram_bytes_total := 536870912, storage_capacity_bytes_total := 16106127360,
           accelerator_type := CAP_ACCEL_NONE, accelerator_memory_bytes_total := 0, display_count := 0,
           hardware_model_fingerprint := c_strncpy (CAP_STRING_MAX - 1) ''lowpower-iot-displayless'' \<rparr>
         else z)"

definition vom_capabilities_collect_static ::
  "vom_capabilities_manager \<Rightarrow> vom_worker_static_capabilities_t \<times> vom_capabilities_manager" where
  "vom_capabilities_collect_static ctx =
     (let s = static_fixture (platform_fixture_id ctx) in (s, ctx\<lparr>cached_static := s\<rparr>))"

definition vom_capabilities_collect_dynamic :: "rounding \<Rightarrow> vom_capabilities_manager \<Rightarrow> vom_worker_dynamic_resources_t" where
  "vom_capabilities_collect_dynamic rnd ctx =
     (let f = platform_fixture_id ctx; z = zero_dynamic\<lparr>timestamp_ms := 1718900000\<rparr>
      in if f = 0 then z\<lparr> physical_cores_currently_online := 16, physical_ram_bytes_currently_free := 17179869184,
           storage_bytes_currently_free := 500102443008, accelerator_memory_bytes_currently_free := 8589934592,
           current_network_link_bandwidth_bps := 1000000000, current_network_latency_us := 150,
           battery_charge_percentage := rnd 100, is_charging := True, is_docked := True, thermal_state := CAP_THERMAL_NOMINAL \<rparr>
         else if f = 1 then z\<lparr> physical_cores_currently_online := 8, physical_ram_bytes_currently_free := 3221225472,
           storage_bytes_currently_free := 64424509440, accelerator_memory_bytes_currently_free := 1073741824,
           current_network_link_bandwidth_bps := 150000000, current_network_latency_us := 45000,
           battery_charge_percentage := rnd (745 / 10), is_charging := False, is_docked := False, thermal_state := CAP_THERMAL_THROTTLED \<rparr>
         else if f = 2 then z\<lparr> physical_cores_currently_online := 2, physical_ram_bytes_currently_free := 134217728,
           storage_bytes_currently_free := 4294967296, accelerator_memory_bytes_currently_free := 0,
           current_network_link_bandwidth_bps := 10000000, current_network_latency_us := 12000,
           battery_charge_percentage := rnd (152 / 10), is_charging := False, is_docked := False, thermal_state := CAP_THERMAL_CRITICAL \<rparr>
         else z)"

text \<open>A payload built into a buffer of \<open>max_bytes\<close>: the return code, the bytes written and the manager.\<close>

definition vom_capabilities_build_join_request ::
  "nat \<Rightarrow> nat \<Rightarrow> vom_capabilities_manager option \<Rightarrow> int \<times> vom_worker_static_capabilities_t option \<times> vom_capabilities_manager option" where
  "vom_capabilities_build_join_request sizeof_static max_bytes ctx =
     (case ctx of
        None \<Rightarrow> (-1, None, None)
      | Some c \<Rightarrow> if max_bytes < sizeof_static then (-1, None, Some c)
          else (let (s, c') = vom_capabilities_collect_static c in (int sizeof_static, Some s, Some c')))"

definition vom_capabilities_build_heartbeat ::
  "rounding \<Rightarrow> nat \<Rightarrow> nat \<Rightarrow> vom_capabilities_manager option \<Rightarrow> int \<times> vom_worker_dynamic_resources_t option" where
  "vom_capabilities_build_heartbeat rnd sizeof_dynamic max_bytes ctx =
     (case ctx of
        None \<Rightarrow> (-1, None)
      | Some c \<Rightarrow> if max_bytes < sizeof_dynamic then (-1, None)
          else (int sizeof_dynamic, Some (vom_capabilities_collect_dynamic rnd c)))"

text \<open>The test suite, as the conjunction of its assertions.\<close>

definition execute_capabilities_test_suite :: "rounding \<Rightarrow> nat \<Rightarrow> bool" where
  "execute_capabilities_test_suite rnd sizeof_static =
     (let m0 = vom_capabilities_manager_set_fixture (Some vom_capabilities_manager_create) 0;
          (size_static_0, _, m1) = vom_capabilities_build_join_request sizeof_static sizeof_static m0;
          m2 = vom_capabilities_manager_set_fixture m1 1
      in size_static_0 = int sizeof_static
         \<and> (case m2 of None \<Rightarrow> False
            | Some c \<Rightarrow> thermal_state (vom_capabilities_collect_dynamic rnd c) = CAP_THERMAL_THROTTLED))"

section \<open>What the fixtures promise\<close>

definition within_static :: "vom_worker_static_capabilities_t \<Rightarrow> vom_worker_dynamic_resources_t \<Rightarrow> bool" where
  "within_static s d \<longleftrightarrow>
     physical_cores_currently_online d \<le> physical_cores_total s
   \<and> physical_ram_bytes_currently_free d \<le> physical_ram_bytes_total s
   \<and> storage_bytes_currently_free d \<le> storage_capacity_bytes_total s
   \<and> accelerator_memory_bytes_currently_free d \<le> accelerator_memory_bytes_total s"

lemmas capabilities_defs = static_fixture_def vom_capabilities_collect_static_def vom_capabilities_collect_dynamic_def
  zero_static_def zero_dynamic_def Let_def

lemma collected_within: "within_static (fst (vom_capabilities_collect_static c)) (vom_capabilities_collect_dynamic rnd c)"
  by (auto simp: within_static_def capabilities_defs)

text \<open>
  For every fixture, known or not, the heartbeat's free resources are within what the join request of the
  same manager announced, and announcing leaves the manager's cache equal to what was announced.
\<close>

theorem heartbeat_within_join:
  assumes "vom_capabilities_build_join_request ss n (Some c) = (r, Some s, Some c')"
    and "vom_capabilities_build_heartbeat rnd sd k (Some c') = (q, Some d)"
  shows "within_static s d \<and> cached_static c' = s \<and> 0 \<le> r \<and> r \<le> int n \<and> 0 \<le> q \<and> q \<le> int k"
proof -
  have 1: "\<not> n < ss" "r = int ss" "s = fst (vom_capabilities_collect_static c)" "c' = snd (vom_capabilities_collect_static c)"
    using assms(1) by (auto simp: vom_capabilities_build_join_request_def split: if_splits prod.splits)
  have 2: "\<not> k < sd" "q = int sd" "d = vom_capabilities_collect_dynamic rnd c'"
    using assms(2) by (auto simp: vom_capabilities_build_heartbeat_def split: if_splits)
  have "platform_fixture_id c' = platform_fixture_id c" "cached_static c' = s"
    by (simp_all add: 1 vom_capabilities_collect_static_def Let_def)
  moreover from this have "d = vom_capabilities_collect_dynamic rnd c"
    by (simp add: 2 vom_capabilities_collect_dynamic_def)
  ultimately show ?thesis using 1 2 collected_within [of c rnd] by simp
qed

theorem heartbeat_within_join_witness:
  "\<exists>s c' d. vom_capabilities_build_join_request 168 200 (Some vom_capabilities_manager_create) = (168, Some s, Some c')
     \<and> vom_capabilities_build_heartbeat Fin 80 80 (Some c') = (80, Some d) \<and> within_static s d"
proof -
  let ?c = vom_capabilities_manager_create
  obtain s c' where 1: "vom_capabilities_build_join_request 168 200 (Some ?c) = (168, Some s, Some c')"
    by (simp add: vom_capabilities_build_join_request_def vom_capabilities_collect_static_def Let_def)
  obtain d where 2: "vom_capabilities_build_heartbeat Fin 80 80 (Some c') = (80, Some d)"
    by (simp add: vom_capabilities_build_heartbeat_def)
  from heartbeat_within_join [OF 1 2] 1 2 show ?thesis by blast
qed

lemma capabilities_suite_passes: "execute_capabilities_test_suite rnd n"
  by (simp add: execute_capabilities_test_suite_def vom_capabilities_build_join_request_def
      vom_capabilities_manager_set_fixture_def capabilities_defs)

lemma unknown_fixture_is_empty:
  "f \<notin> {0, 1, 2} \<Longrightarrow> static_fixture f = zero_static\<lparr>capability_protocol_version := 1\<rparr>"
  by (simp add: static_fixture_def)

lemma fixture_fingerprint_fits: "length (hardware_model_fingerprint (static_fixture f)) < CAP_STRING_MAX"
  by (auto simp: static_fixture_def zero_static_def Let_def CAP_STRING_MAX_def c_strncpy_def)

end
