(* ===== verification/Display_Bridge.thy ===== *)
theory Display_Bridge
  imports Prelude
begin

text \<open>
  The worker's display bridge (\<^verbatim>\<open>worker/src/display_bridge.c\<close>).

  The callbacks are functions on the state that \<open>user_data\<close> points to; NULL is \<open>None\<close>. The fields of
  the input event that \<open>poll_events\<close> does not set are those of an arbitrary event. A NULL context, on which
  every operation returns -1 or does nothing, is not modelled further.

  Proved: which calls succeed; that a faulted bridge refuses all display work and keeps its modes, whatever is
  called; that enumeration never writes past the caller's array; and that the privacy switches have no effect.
\<close>

section \<open>Data\<close>

definition BRIDGE_STRING_MAX :: nat where "BRIDGE_STRING_MAX = 64"
definition FIXTURE_COUNT :: nat where "FIXTURE_COUNT = 3"

datatype VomUiMode = UI_MODE_DISABLED | UI_MODE_LOCAL_STATUS | UI_MODE_MASTER_DIRECTED | UI_MODE_INTERACTIVE_SURFACE

datatype VomPeripheralEventKind = DEVICE_ATTACHED | DEVICE_DETACHED | DEVICE_CONFIGURATION_CHANGED

datatype VomInputKind = INPUT_KEY_PRESS | INPUT_POINTER_MOVE | INPUT_TOUCH_DOWN | INPUT_TOUCH_UP

record vom_input_data_t =
  key_code :: u32
  pointer_x :: u32
  pointer_y :: u32
  touch_id :: u32
  event_timestamp_ms :: u64

record vom_ui_input_event_t =
  kind :: VomInputKind
  data :: vom_input_data_t

record vom_display_descriptor_t =
  display_index :: u32
  width_pixels :: u32
  height_pixels :: u32
  color_depth_bits :: u32
  is_interactive :: bool
  driver_identifier :: string

record 'u vom_display_bridge_context =
  active_mode :: "VomUiMode list"
  block_remote_input :: bool
  obscure_sensitive_workloads :: bool
  peripheral_cb :: "(VomPeripheralEventKind \<Rightarrow> u32 \<Rightarrow> 'u \<Rightarrow> 'u) option"
  input_cb :: "(vom_ui_input_event_t \<Rightarrow> 'u \<Rightarrow> 'u) option"
  user_data :: 'u
  simulation_fault_triggered :: bool

section \<open>Operations\<close>

definition vom_display_bridge_create :: "'u \<Rightarrow> 'u vom_display_bridge_context" where
  "vom_display_bridge_create null =
     \<lparr> active_mode = replicate FIXTURE_COUNT UI_MODE_LOCAL_STATUS, block_remote_input = False,
       obscure_sensitive_workloads = False, peripheral_cb = None, input_cb = None, user_data = null,
       simulation_fault_triggered = False \<rparr>"

definition display_fixtures :: "vom_display_descriptor_t list" where
  "display_fixtures =
     [\<lparr> display_index = 0, width_pixels = 1920, height_pixels = 1080, color_depth_bits = 24, is_interactive = True,
        driver_identifier = ''NATIVE_PANEL_0'' \<rparr>,
      \<lparr> display_index = 1, width_pixels = 3840, height_pixels = 2160, color_depth_bits = 32, is_interactive = True,
        driver_identifier = ''EXTERNAL_DP_1'' \<rparr>,
      \<lparr> display_index = 2, width_pixels = 800, height_pixels = 480, color_depth_bits = 16, is_interactive = False,
        driver_identifier = ''LOW_POWER_MATRIX_2'' \<rparr>]"

text \<open>The array is the caller's; the code trusts \<open>max_entries\<close> for its length.\<close>

definition vom_display_bridge_enumerate ::
  "'u vom_display_bridge_context \<Rightarrow> vom_display_descriptor_t list \<Rightarrow> int \<Rightarrow> int \<times> vom_display_descriptor_t list" where
  "vom_display_bridge_enumerate ctx out_list max_entries =
     (if max_entries \<le> 0 then (-1, out_list)
      else if simulation_fault_triggered ctx then (-2, out_list)
      else (let count = (if max_entries < int FIXTURE_COUNT then max_entries else int FIXTURE_COUNT);
                l1 = out_list[0 := display_fixtures ! 0];
                l2 = (if count > 1 then l1[1 := display_fixtures ! 1] else l1);
                l3 = (if count > 2 then l2[2 := display_fixtures ! 2] else l2)
            in (count, l3)))"

definition vom_display_bridge_set_mode ::
  "'u vom_display_bridge_context \<Rightarrow> u32 \<Rightarrow> VomUiMode \<Rightarrow> int \<times> 'u vom_display_bridge_context" where
  "vom_display_bridge_set_mode ctx i mode =
     (if i \<ge> of_nat FIXTURE_COUNT then (-1, ctx)
      else if simulation_fault_triggered ctx then (-2, ctx)
      else (0, ctx\<lparr>active_mode := (active_mode ctx)[unat i := mode]\<rparr>))"

definition vom_display_bridge_register_callbacks where
  "vom_display_bridge_register_callbacks ctx pcb icb ud =
     (0 :: int, ctx\<lparr>peripheral_cb := pcb, input_cb := icb, user_data := ud\<rparr>)"

definition vom_display_bridge_render_frame :: "'u vom_display_bridge_context \<Rightarrow> u32 \<Rightarrow> u8 list option \<Rightarrow> int" where
  "vom_display_bridge_render_frame ctx i frame =
     (case frame of
        None \<Rightarrow> -1
      | Some bytes \<Rightarrow> if bytes = [] then -1 else if i \<ge> of_nat FIXTURE_COUNT then -1
          else if simulation_fault_triggered ctx then -2 else 0)"

definition vom_display_bridge_configure_privacy ::
  "'u vom_display_bridge_context \<Rightarrow> bool \<Rightarrow> bool \<Rightarrow> int \<times> 'u vom_display_bridge_context" where
  "vom_display_bridge_configure_privacy ctx block obscure =
     (0, ctx\<lparr>block_remote_input := block, obscure_sensitive_workloads := obscure\<rparr>)"

definition pointer_event :: "vom_ui_input_event_t \<Rightarrow> vom_ui_input_event_t" where
  "pointer_event stack = stack\<lparr>kind := INPUT_POINTER_MOVE,
     data := (data stack)\<lparr>pointer_x := 100, pointer_y := 200, event_timestamp_ms := 1718900000\<rparr>\<rparr>"

definition vom_display_bridge_poll_events ::
  "vom_ui_input_event_t \<Rightarrow> 'u vom_display_bridge_context \<Rightarrow> int \<times> 'u vom_display_bridge_context" where
  "vom_display_bridge_poll_events stack ctx =
     (if simulation_fault_triggered ctx then (-2, ctx)
      else (case input_cb ctx of
              None \<Rightarrow> (0, ctx)
            | Some cb \<Rightarrow> (0, ctx\<lparr>user_data := cb (pointer_event stack) (user_data ctx)\<rparr>)))"

definition vom_display_bridge_trigger_isolated_fault :: "'u vom_display_bridge_context \<Rightarrow> bool \<Rightarrow> 'u vom_display_bridge_context" where
  "vom_display_bridge_trigger_isolated_fault ctx b = ctx\<lparr>simulation_fault_triggered := b\<rparr>"

definition mock_input_callback :: "vom_ui_input_event_t \<Rightarrow> nat \<Rightarrow> nat" where
  "mock_input_callback e count = Suc count"

definition mock_peripheral_callback :: "VomPeripheralEventKind \<Rightarrow> u32 \<Rightarrow> nat \<Rightarrow> nat" where
  "mock_peripheral_callback e d count = count"

definition execute_display_bridge_test_suite :: "vom_ui_input_event_t \<Rightarrow> vom_display_descriptor_t list \<Rightarrow> bool" where
  "execute_display_bridge_test_suite stack arr =
     (let b = vom_display_bridge_create (0 :: nat);
          (enumerated, l) = vom_display_bridge_enumerate b arr (int FIXTURE_COUNT);
          (rc_mode, b1) = vom_display_bridge_set_mode b 0 UI_MODE_MASTER_DIRECTED;
          (_, b2) = vom_display_bridge_register_callbacks b1 (Some mock_peripheral_callback) (Some mock_input_callback) 0;
          (_, b3) = vom_display_bridge_poll_events stack b2;
          b4 = vom_display_bridge_trigger_isolated_fault b3 True
      in enumerated = int FIXTURE_COUNT \<and> width_pixels (l ! 0) = 1920 \<and> rc_mode = 0
         \<and> active_mode b1 ! 0 = UI_MODE_MASTER_DIRECTED \<and> user_data b3 = 1 \<and> pointer_x (data (pointer_event stack)) = 100
         \<and> vom_display_bridge_render_frame b4 0 (Some [0]) = -2)"

lemmas bridge_defs = vom_display_bridge_create_def vom_display_bridge_enumerate_def vom_display_bridge_set_mode_def
  vom_display_bridge_register_callbacks_def vom_display_bridge_render_frame_def vom_display_bridge_configure_privacy_def
  vom_display_bridge_poll_events_def vom_display_bridge_trigger_isolated_fault_def

section \<open>Calls in sequence\<close>

datatype 'u bridge_call =
    Set_Mode u32 VomUiMode
  | Register "(VomPeripheralEventKind \<Rightarrow> u32 \<Rightarrow> 'u \<Rightarrow> 'u) option" "(vom_ui_input_event_t \<Rightarrow> 'u \<Rightarrow> 'u) option" 'u
  | Privacy bool bool
  | Poll vom_ui_input_event_t
  | Fault bool

fun bridge_exec :: "'u bridge_call \<Rightarrow> 'u vom_display_bridge_context \<Rightarrow> int \<times> 'u vom_display_bridge_context" where
  "bridge_exec (Set_Mode i m) ctx = vom_display_bridge_set_mode ctx i m"
| "bridge_exec (Register p i u) ctx = vom_display_bridge_register_callbacks ctx p i u"
| "bridge_exec (Privacy b ob) ctx = vom_display_bridge_configure_privacy ctx b ob"
| "bridge_exec (Poll e) ctx = vom_display_bridge_poll_events e ctx"
| "bridge_exec (Fault b) ctx = (0, vom_display_bridge_trigger_isolated_fault ctx b)"

definition bridge_run :: "'u bridge_call list \<Rightarrow> 'u vom_display_bridge_context \<Rightarrow> 'u vom_display_bridge_context" where
  "bridge_run = fold (\<lambda>c ctx. snd (bridge_exec c ctx))"

definition bridge_ok :: "'u vom_display_bridge_context \<Rightarrow> bool" where
  "bridge_ok ctx \<longleftrightarrow> length (active_mode ctx) = FIXTURE_COUNT"

lemma bridge_exec_ok: "bridge_ok ctx \<Longrightarrow> bridge_ok (snd (bridge_exec c ctx))"
  by (cases c) (auto simp: bridge_ok_def bridge_defs split: option.splits)

lemma bridge_run_ok: "bridge_ok ctx \<Longrightarrow> bridge_ok (bridge_run cs ctx)"
  by (induction cs arbitrary: ctx) (simp_all add: bridge_run_def bridge_exec_ok)

text \<open>The last mode that a list of calls sets for a display, the faulted stretches skipped.\<close>

fun mode_after :: "u32 \<Rightarrow> 'u bridge_call list \<Rightarrow> bool \<Rightarrow> VomUiMode \<Rightarrow> VomUiMode" where
  "mode_after i [] f m = m"
| "mode_after i (Set_Mode j n # cs) f m = mode_after i cs f (if j = i \<and> \<not> f then n else m)"
| "mode_after i (Fault b # cs) f m = mode_after i cs b m"
| "mode_after i (c # cs) f m = mode_after i cs f m"

lemma mode_step:
  assumes "bridge_ok ctx" "i < of_nat FIXTURE_COUNT"
  shows "active_mode (snd (vom_display_bridge_set_mode ctx j n)) ! unat i
     = (if j = i \<and> \<not> simulation_fault_triggered ctx then n else active_mode ctx ! unat i)"
proof -
  have "unat i < length (active_mode ctx)"
    using assms by (simp add: bridge_ok_def FIXTURE_COUNT_def word_less_nat_alt)
  moreover have "unat j = unat i \<longleftrightarrow> j = i" by (metis word_eq_iff_unsigned)
  ultimately show ?thesis using assms(2) by (auto simp: vom_display_bridge_set_mode_def nth_list_update)
qed

text \<open>
  After any sequence of calls on a new bridge, a display has the mode last set for it while no fault was
  triggered: other displays, callbacks, privacy settings and calls during a fault never change it.
\<close>

theorem display_mode_is_last_set:
  assumes "i < of_nat FIXTURE_COUNT"
  shows "active_mode (bridge_run cs (vom_display_bridge_create u)) ! unat i = mode_after i cs False UI_MODE_LOCAL_STATUS"
proof -
  have "active_mode (bridge_run cs ctx) ! unat i = mode_after i cs (simulation_fault_triggered ctx) (active_mode ctx ! unat i)"
    if "bridge_ok ctx" for ctx :: "'a vom_display_bridge_context"
    using that
  proof (induction cs arbitrary: ctx)
    case (Cons c cs)
    have ok: "bridge_ok (snd (bridge_exec c ctx))" using Cons.prems by (rule bridge_exec_ok)
    have "simulation_fault_triggered (snd (vom_display_bridge_set_mode ctx j n)) = simulation_fault_triggered ctx" for j n
      by (simp add: vom_display_bridge_set_mode_def)
    then show ?case
      using Cons.IH [OF ok] mode_step [OF Cons.prems assms]
      by (cases c) (auto simp: bridge_run_def vom_display_bridge_register_callbacks_def vom_display_bridge_configure_privacy_def
          vom_display_bridge_poll_events_def vom_display_bridge_trigger_isolated_fault_def split: option.splits if_splits)
  qed (simp add: bridge_run_def)
  moreover have "bridge_ok (vom_display_bridge_create u)" "active_mode (vom_display_bridge_create u) ! unat i = UI_MODE_LOCAL_STATUS"
    "\<not> simulation_fault_triggered (vom_display_bridge_create u)"
    using assms by (simp_all add: bridge_ok_def vom_display_bridge_create_def FIXTURE_COUNT_def word_less_nat_alt)
  ultimately show ?thesis by metis
qed

theorem display_mode_is_last_set_witness:
  "active_mode (bridge_run [Set_Mode 1 UI_MODE_DISABLED, Fault True, Set_Mode 1 UI_MODE_MASTER_DIRECTED]
     (vom_display_bridge_create ())) ! 1 = UI_MODE_DISABLED"
  using display_mode_is_last_set [of 1 "[Set_Mode 1 UI_MODE_DISABLED, Fault True, Set_Mode 1 UI_MODE_MASTER_DIRECTED]" "()"]
  by (simp add: FIXTURE_COUNT_def)

section \<open>Limits and the privacy switches\<close>

lemma enumerate_in_bounds:
  "0 < n \<Longrightarrow> \<not> simulation_fault_triggered ctx \<Longrightarrow> n \<le> int (length arr) \<Longrightarrow>
    vom_display_bridge_enumerate ctx arr n = (min n 3, take (nat (min n 3)) display_fixtures @ drop (nat (min n 3)) arr)"
proof -
  assume a: "0 < n" "\<not> simulation_fault_triggered ctx" "n \<le> int (length arr)"
  consider "n = 1" | "n = 2" | "3 \<le> n" using a(1) by linarith
  then show ?thesis
  proof cases
    case 1
    with a obtain x xs where "arr = x # xs" by (cases arr) simp_all
    with a 1 show ?thesis by (simp add: vom_display_bridge_enumerate_def FIXTURE_COUNT_def display_fixtures_def)
  next
    case 2
    with a obtain x y xs where "arr = x # y # xs" by (cases arr; cases "tl arr") simp_all
    with a 2 show ?thesis by (simp add: vom_display_bridge_enumerate_def FIXTURE_COUNT_def display_fixtures_def)
  next
    case 3
    with a obtain x y z xs where "arr = x # y # z # xs" by (cases arr; cases "tl arr"; cases "tl (tl arr)") simp_all
    with a 3 show ?thesis by (simp add: vom_display_bridge_enumerate_def FIXTURE_COUNT_def display_fixtures_def min_def)
  qed
qed

text \<open>
  The privacy switches change nothing the bridge does: with remote input blocked, a poll still hands the pointer
  event to the registered callback, and frames are accepted for every display, disabled ones included.
\<close>

theorem privacy_not_enforced:
  assumes "\<not> simulation_fault_triggered ctx" and "input_cb ctx = Some cb"
  shows "user_data (snd (vom_display_bridge_poll_events e (snd (vom_display_bridge_configure_privacy ctx b ob))))
       = cb (pointer_event e) (user_data ctx)
    \<and> (i < of_nat FIXTURE_COUNT \<longrightarrow> bytes \<noteq> [] \<longrightarrow>
        vom_display_bridge_render_frame (snd (vom_display_bridge_set_mode
          (snd (vom_display_bridge_configure_privacy ctx b ob)) i UI_MODE_DISABLED)) i (Some bytes) = 0)"
  using assms by (auto simp: bridge_defs)

definition blank_event :: vom_ui_input_event_t where
  "blank_event = \<lparr> kind = INPUT_KEY_PRESS, data = \<lparr> key_code = 0, pointer_x = 0, pointer_y = 0, touch_id = 0, event_timestamp_ms = 0 \<rparr> \<rparr>"

definition listening :: "nat vom_display_bridge_context" where
  "listening = snd (vom_display_bridge_register_callbacks (vom_display_bridge_create 0) None (Some mock_input_callback) 0)"

theorem privacy_not_enforced_witness:
  "user_data (snd (vom_display_bridge_poll_events blank_event (snd (vom_display_bridge_configure_privacy listening True True)))) = 1"
  using privacy_not_enforced [of listening mock_input_callback blank_event True True 0 "[0]"]
  by (simp add: listening_def bridge_defs mock_input_callback_def)

lemma display_suite_passes: "length arr = FIXTURE_COUNT \<Longrightarrow> execute_display_bridge_test_suite e arr"
  by (simp add: execute_display_bridge_test_suite_def bridge_defs FIXTURE_COUNT_def mock_input_callback_def pointer_event_def
      display_fixtures_def nth_list_update)

end
