(* ===== verification/Discovery.thy ===== *)
theory Discovery
  imports Prelude
begin

text \<open>
  Locating the master (\<^verbatim>\<open>worker/src/discovery.c\<close>).

  The callback is a function on the state that \<open>user_data\<close> points to. Endpoint buffers of 128 bytes are the strings
  before their terminating zero. A NULL context is not modelled further; a NULL endpoint argument is \<open>None\<close>.

  Proved: every stored endpoint fits its buffer, what the callback hears is what the worker reads back, and the
  status determines whether an endpoint can be read.
\<close>

section \<open>Data\<close>

definition DISCOVERY_ENDPOINT_MAX :: nat where "DISCOVERY_ENDPOINT_MAX = 128"

datatype VomDiscoveryStatus = DISCOVERY_STATUS_IDLE | DISCOVERY_STATUS_SEARCHING | DISCOVERY_STATUS_FOUND
  | DISCOVERY_STATUS_FALLBACK | DISCOVERY_STATUS_LOST

record 'u vom_worker_discovery_context =
  cached_endpoint :: string
  fallback_endpoint :: string
  max_retry_backoff_ms :: u32
  status :: VomDiscoveryStatus
  change_cb :: "(string \<Rightarrow> 'u \<Rightarrow> 'u) option"
  user_data :: 'u
  m_dns_enabled :: bool

section \<open>Operations\<close>

definition vom_worker_discovery_create :: "'u \<Rightarrow> 'u vom_worker_discovery_context" where
  "vom_worker_discovery_create null =
     \<lparr> cached_endpoint = [], fallback_endpoint = [], max_retry_backoff_ms = 0, status = DISCOVERY_STATUS_IDLE,
       change_cb = None, user_data = null, m_dns_enabled = False \<rparr>"

definition endpoint_copy :: "string \<Rightarrow> string" where
  "endpoint_copy s = c_strncpy (DISCOVERY_ENDPOINT_MAX - 1) s"

definition vom_worker_discovery_configure ::
  "'u vom_worker_discovery_context \<Rightarrow> string option \<Rightarrow> u32 \<Rightarrow> int \<times> 'u vom_worker_discovery_context" where
  "vom_worker_discovery_configure ctx fallback backoff =
     (case fallback of
        None \<Rightarrow> (-1, ctx)
      | Some ep \<Rightarrow> (0, ctx\<lparr>fallback_endpoint := endpoint_copy ep, max_retry_backoff_ms := backoff\<rparr>))"

definition vom_worker_discovery_enable_mdns :: "'u vom_worker_discovery_context \<Rightarrow> bool \<Rightarrow> 'u vom_worker_discovery_context" where
  "vom_worker_discovery_enable_mdns ctx enable = ctx\<lparr>m_dns_enabled := enable\<rparr>"

definition locate :: "'u vom_worker_discovery_context \<Rightarrow> 'u vom_worker_discovery_context" where
  "locate ctx =
     (if m_dns_enabled ctx
      then ctx\<lparr>cached_endpoint := endpoint_copy ''tcp://discovered-master.local:5555'', status := DISCOVERY_STATUS_FOUND\<rparr>
      else ctx\<lparr>cached_endpoint := endpoint_copy (fallback_endpoint ctx), status := DISCOVERY_STATUS_FALLBACK\<rparr>)"

definition vom_worker_discovery_start where
  "vom_worker_discovery_start ctx cb ud =
     (let ctx1 = locate (ctx\<lparr>change_cb := cb, user_data := ud, status := DISCOVERY_STATUS_SEARCHING\<rparr>)
      in (0 :: int, case change_cb ctx1 of
                      None \<Rightarrow> ctx1
                    | Some f \<Rightarrow> ctx1\<lparr>user_data := f (cached_endpoint ctx1) (user_data ctx1)\<rparr>))"

definition vom_worker_discovery_stop :: "'u \<Rightarrow> 'u vom_worker_discovery_context \<Rightarrow> 'u vom_worker_discovery_context" where
  "vom_worker_discovery_stop null ctx = ctx\<lparr>status := DISCOVERY_STATUS_IDLE, change_cb := None, user_data := null\<rparr>"

definition vom_worker_discovery_current :: "'u vom_worker_discovery_context \<Rightarrow> nat \<Rightarrow> string option" where
  "vom_worker_discovery_current ctx cap =
     (if cap = 0 then None
      else if status ctx \<noteq> DISCOVERY_STATUS_FOUND \<and> status ctx \<noteq> DISCOVERY_STATUS_FALLBACK then None
      else Some (c_strncpy (cap - 1) (cached_endpoint ctx)))"

definition vom_worker_discovery_get_status :: "'u vom_worker_discovery_context option \<Rightarrow> VomDiscoveryStatus" where
  "vom_worker_discovery_get_status ctx = (case ctx of None \<Rightarrow> DISCOVERY_STATUS_IDLE | Some c \<Rightarrow> status c)"

definition mock_discovery_callback :: "string \<Rightarrow> nat \<Rightarrow> nat" where
  "mock_discovery_callback ep calls = Suc calls"

definition execute_discovery_test_suite :: bool where
  "execute_discovery_test_suite =
     (let d0 = vom_worker_discovery_create (0 :: nat);
          (_, d1) = vom_worker_discovery_configure d0 (Some ''tcp://192.168.1.50:5555'') 5000;
          (_, d2) = vom_worker_discovery_start d1 (Some mock_discovery_callback) 0;
          calls = user_data d2;
          d3 = vom_worker_discovery_enable_mdns (vom_worker_discovery_stop 0 d2) True;
          (_, d4) = vom_worker_discovery_start d3 (Some mock_discovery_callback) calls
      in status d0 = DISCOVERY_STATUS_IDLE \<and> status d2 = DISCOVERY_STATUS_FALLBACK \<and> calls = 1
         \<and> vom_worker_discovery_current d2 DISCOVERY_ENDPOINT_MAX = Some ''tcp://192.168.1.50:5555''
         \<and> status d4 = DISCOVERY_STATUS_FOUND \<and> user_data d4 = 2
         \<and> vom_worker_discovery_current d4 DISCOVERY_ENDPOINT_MAX = Some ''tcp://discovered-master.local:5555'')"

lemmas discovery_defs = vom_worker_discovery_create_def vom_worker_discovery_configure_def
  vom_worker_discovery_enable_mdns_def locate_def vom_worker_discovery_start_def vom_worker_discovery_stop_def

section \<open>Calls in sequence\<close>

datatype 'u discovery_call = Configure "string option" u32 | Enable_Mdns bool | Start "(string \<Rightarrow> 'u \<Rightarrow> 'u) option" 'u | Stop 'u

fun discovery_exec :: "'u discovery_call \<Rightarrow> 'u vom_worker_discovery_context \<Rightarrow> 'u vom_worker_discovery_context" where
  "discovery_exec (Configure f b) ctx = snd (vom_worker_discovery_configure ctx f b)"
| "discovery_exec (Enable_Mdns b) ctx = vom_worker_discovery_enable_mdns ctx b"
| "discovery_exec (Start cb u) ctx = snd (vom_worker_discovery_start ctx cb u)"
| "discovery_exec (Stop u) ctx = vom_worker_discovery_stop u ctx"

definition discovery_ok :: "'u vom_worker_discovery_context \<Rightarrow> bool" where
  "discovery_ok ctx \<longleftrightarrow> length (cached_endpoint ctx) < DISCOVERY_ENDPOINT_MAX \<and> length (fallback_endpoint ctx) < DISCOVERY_ENDPOINT_MAX
     \<and> status ctx \<in> {DISCOVERY_STATUS_IDLE, DISCOVERY_STATUS_FOUND, DISCOVERY_STATUS_FALLBACK}"

lemma length_endpoint_copy: "length (endpoint_copy s) < DISCOVERY_ENDPOINT_MAX"
  by (simp add: endpoint_copy_def c_strncpy_def DISCOVERY_ENDPOINT_MAX_def)

lemma endpoint_copy_id: "length s < DISCOVERY_ENDPOINT_MAX \<Longrightarrow> endpoint_copy s = s"
  by (simp add: endpoint_copy_def DISCOVERY_ENDPOINT_MAX_def)

lemma discovery_create_ok: "discovery_ok (vom_worker_discovery_create u)"
  by (simp add: discovery_ok_def vom_worker_discovery_create_def DISCOVERY_ENDPOINT_MAX_def)

lemma discovery_exec_ok: "discovery_ok ctx \<Longrightarrow> discovery_ok (discovery_exec c ctx)"
  by (cases c) (auto simp: discovery_ok_def discovery_defs Let_def length_endpoint_copy split: option.splits)

lemma discovery_run_ok: "discovery_ok (fold discovery_exec cs (vom_worker_discovery_create u))"
proof -
  have "discovery_ok ctx \<Longrightarrow> discovery_ok (fold discovery_exec cs ctx)" for ctx :: "'a vom_worker_discovery_context"
    by (induction cs arbitrary: ctx) (simp_all add: discovery_exec_ok)
  from this [OF discovery_create_ok] show ?thesis .
qed

text \<open>
  After any calls, starting discovery hands the callback exactly the endpoint that a reader with a full-size
  buffer then gets back: the well-known name with multicast discovery on, the configured one, unshortened,
  otherwise; and after stopping there is none to read.
\<close>

theorem discovery_notifies_what_it_stores:
  fixes cs :: "string discovery_call list"
  defines "ctx \<equiv> fold discovery_exec cs (vom_worker_discovery_create [])"
  defines "started \<equiv> snd (vom_worker_discovery_start ctx (Some (\<lambda>ep _. ep)) [])"
  shows "vom_worker_discovery_current started DISCOVERY_ENDPOINT_MAX = Some (user_data started)
    \<and> user_data started = (if m_dns_enabled ctx then ''tcp://discovered-master.local:5555'' else fallback_endpoint ctx)
    \<and> vom_worker_discovery_current (vom_worker_discovery_stop [] started) n = None"
proof -
  have ok: "discovery_ok ctx" unfolding ctx_def by (rule discovery_run_ok)
  have cached: "cached_endpoint started = (if m_dns_enabled ctx then ''tcp://discovered-master.local:5555'' else fallback_endpoint ctx)"
    using ok by (simp add: started_def vom_worker_discovery_start_def locate_def Let_def discovery_ok_def endpoint_copy_id
        DISCOVERY_ENDPOINT_MAX_def)
  have "user_data started = cached_endpoint started" "status started \<in> {DISCOVERY_STATUS_FOUND, DISCOVERY_STATUS_FALLBACK}"
    "length (cached_endpoint started) < DISCOVERY_ENDPOINT_MAX"
    by (simp_all add: started_def vom_worker_discovery_start_def locate_def Let_def length_endpoint_copy)
  then show ?thesis using cached
    by (auto simp: vom_worker_discovery_current_def vom_worker_discovery_stop_def DISCOVERY_ENDPOINT_MAX_def)
qed

lemma discovery_suite_passes: "execute_discovery_test_suite"
  by (simp add: execute_discovery_test_suite_def discovery_defs Let_def endpoint_copy_id DISCOVERY_ENDPOINT_MAX_def
      mock_discovery_callback_def vom_worker_discovery_current_def)

end
