(* ===== verification/Ui_Model.thy ===== *)
theory Ui_Model
  imports Prelude
begin

text \<open>
  The view model for the user interface (\<^verbatim>\<open>ui/src/model.c\<close>): the transformation of a cluster
  snapshot into display records, and the two scenarios of the file's test suite.

  The file has its own snapshot structure, with a host name for each worker and other status values than
  \<^verbatim>\<open>master/src/cluster_state.c\<close>. Enumerations have exactly the declared values, so the default
  branches of the switches are unreachable, except that \<open>CLUSTER_STATUS_PANIC\<close> shares one. The snapshot's
  two arrays are lists of all their elements, beside the counts; the loops run to the counts, cut at the
  sizes of the view's tables, which are larger than the arrays, and \<open>None\<close> is a read outside an array. The
  view's own tables with their counts are lists. Double and single arithmetic take a rounding function.

  Proved: exactly which counts make the transformation leave an array, and, for all others, what every
  field of the view shows.
\<close>

section \<open>Data\<close>

definition UI_MAX_NODES :: nat where "UI_MAX_NODES = 64"
definition UI_MAX_ACTIVE_TASKS :: nat where "UI_MAX_ACTIVE_TASKS = 256"
definition UI_MAX_ACTIVE_LEASES :: nat where "UI_MAX_ACTIVE_LEASES = 256"
definition UI_SHORT_STRING_LEN :: nat where "UI_SHORT_STRING_LEN = 32"
definition CLUSTER_MAX_WORKERS :: nat where "CLUSTER_MAX_WORKERS = 32"
definition CLUSTER_MAX_ACTIVE_LEASES_M :: nat where "CLUSTER_MAX_ACTIVE_LEASES_M = 128"
definition UUID_STR_MAX :: nat where "UUID_STR_MAX = 64"
definition HOSTNAME_STR_MAX :: nat where "HOSTNAME_STR_MAX = 64"

lemmas ui_sizes = UI_MAX_NODES_def UI_MAX_ACTIVE_TASKS_def UI_MAX_ACTIVE_LEASES_def UI_SHORT_STRING_LEN_def
  CLUSTER_MAX_WORKERS_def CLUSTER_MAX_ACTIVE_LEASES_M_def UUID_STR_MAX_def HOSTNAME_STR_MAX_def

datatype WorkerHealth = WORKER_HEALTH_ONLINE | WORKER_HEALTH_DRAINING | WORKER_HEALTH_OFFLINE | WORKER_HEALTH_SUSPECT

datatype ClusterStatus = CLUSTER_STATUS_BOOSTRAP | CLUSTER_STATUS_OPERATIONAL | CLUSTER_STATUS_DEGRADED
  | CLUSTER_STATUS_MAINTENANCE | CLUSTER_STATUS_PANIC

datatype LeaseStatus = LEASE_STATUS_IDLE | LEASE_STATUS_ASSIGNED | LEASE_STATUS_EXECUTING | LEASE_STATUS_COMMITTED
  | LEASE_STATUS_TIMED_OUT | LEASE_STATUS_FAILED

record WorkerResources =
  total_memory_bytes :: u64
  reserved_memory_bytes :: u64
  total_cores :: u32
  reserved_cores :: u32

record WorkerMember =
  worker_id :: u32
  hostname :: string
  health :: WorkerHealth
  last_heartbeat_monotonic_ms :: u64
  resources :: WorkerResources

record ChunkLease =
  chunk_id :: u64
  workload_id :: u64
  assigned_worker_id :: u32
  status :: LeaseStatus
  progress_percentage :: fp
  failure_retry_count :: u32

record ClusterMetrics =
  cluster_aggregate_memory_bytes :: u64
  cluster_allocated_memory_bytes :: u64
  cluster_aggregate_cores :: u32
  cluster_allocated_cores :: u32
  active_worker_count :: u32

record ClusterStateSnapshot =
  cluster_uuid :: string
  master_epoch :: u64
  state_generation_version :: u64
  global_status :: ClusterStatus
  active_workers :: "WorkerMember list"
  total_registered_workers :: int
  active_leases :: "ChunkLease list"
  total_active_leases :: int
  metrics :: ClusterMetrics

datatype UiHealthStatus = UI_HEALTH_UNKNOWN | UI_HEALTH_OK | UI_HEALTH_WARN | UI_HEALTH_CRIT

record UiNodeRecord =
  node_id :: u32
  display_name :: string
  node_health :: UiHealthStatus
  memory_utilization_pct :: fp
  cpu_utilization_pct :: fp
  is_draining :: bool
  ms_since_last_heartbeat :: u64

record UiTaskRecord =
  task_chunk_id :: u64
  task_workload_id :: u64
  assigned_node_id :: u32
  status_text :: string
  progress_normalized :: fp
  requires_attention :: bool

record UiLogicalDeviceViewModel =
  device_uuid :: string
  logical_epoch :: u64
  last_version_seen :: u64
  summary_health :: UiHealthStatus
  operational_status_text :: string
  cluster_total_memory_gb :: fp
  cluster_used_memory_gb :: fp
  cluster_overall_cpu_pct :: fp
  nodes :: "UiNodeRecord list"
  tasks :: "UiTaskRecord list"

section \<open>Transformation\<close>

definition ui_text :: "string \<Rightarrow> string" where
  "ui_text s = c_strncpy (UI_SHORT_STRING_LEN - 1) s"

definition summary :: "ClusterStatus \<Rightarrow> UiHealthStatus \<times> string" where
  "summary s =
     (case s of
        CLUSTER_STATUS_BOOSTRAP \<Rightarrow> (UI_HEALTH_WARN, ui_text ''RECOVERING/BOOT'')
      | CLUSTER_STATUS_OPERATIONAL \<Rightarrow> (UI_HEALTH_OK, ui_text ''HEALTHY'')
      | CLUSTER_STATUS_DEGRADED \<Rightarrow> (UI_HEALTH_WARN, ui_text ''DEGRADED'')
      | CLUSTER_STATUS_MAINTENANCE \<Rightarrow> (UI_HEALTH_UNKNOWN, ui_text ''MAINTENANCE'')
      | CLUSTER_STATUS_PANIC \<Rightarrow> (UI_HEALTH_CRIT, ui_text ''CRITICAL FAILURE''))"

definition ui_percentage :: "rounding \<Rightarrow> 'a::len word \<Rightarrow> 'a word \<Rightarrow> fp" where
  "ui_percentage rnd used available =
     (if available > 0 then fp_mul rnd (fp_div rnd (fp_of_word rnd used) (fp_of_word rnd available)) (Fin 100)
      else Fin 0)"

definition ui_node_health :: "WorkerHealth \<Rightarrow> UiHealthStatus" where
  "ui_node_health h =
     (case h of
        WORKER_HEALTH_ONLINE \<Rightarrow> UI_HEALTH_OK
      | WORKER_HEALTH_SUSPECT \<Rightarrow> UI_HEALTH_WARN
      | WORKER_HEALTH_OFFLINE \<Rightarrow> UI_HEALTH_CRIT
      | WORKER_HEALTH_DRAINING \<Rightarrow> UI_HEALTH_WARN)"

definition ui_node :: "rounding \<Rightarrow> u64 \<Rightarrow> WorkerMember \<Rightarrow> UiNodeRecord" where
  "ui_node rnd now_ms src =
     \<lparr>node_id = worker_id src, display_name = ui_text (hostname src), node_health = ui_node_health (health src),
      memory_utilization_pct = ui_percentage rnd (reserved_memory_bytes (resources src)) (total_memory_bytes (resources src)),
      cpu_utilization_pct = ui_percentage rnd (reserved_cores (resources src)) (total_cores (resources src)),
      is_draining = (health src = WORKER_HEALTH_DRAINING),
      ms_since_last_heartbeat = (if now_ms \<ge> last_heartbeat_monotonic_ms src
                                 then now_ms - last_heartbeat_monotonic_ms src else 0)\<rparr>"

definition lease_text :: "LeaseStatus \<Rightarrow> string" where
  "lease_text s =
     (case s of
        LEASE_STATUS_IDLE \<Rightarrow> ui_text ''QUEUED''
      | LEASE_STATUS_ASSIGNED \<Rightarrow> ui_text ''DISPATCHED''
      | LEASE_STATUS_EXECUTING \<Rightarrow> ui_text ''RUNNING''
      | LEASE_STATUS_COMMITTED \<Rightarrow> ui_text ''FINISHED''
      | LEASE_STATUS_TIMED_OUT \<Rightarrow> ui_text ''TIMEOUT''
      | LEASE_STATUS_FAILED \<Rightarrow> ui_text ''FAILED'')"

definition ui_task :: "rounding \<Rightarrow> ChunkLease \<Rightarrow> UiTaskRecord" where
  "ui_task rndf src =
     \<lparr>task_chunk_id = chunk_id src, task_workload_id = workload_id src, assigned_node_id = assigned_worker_id src,
      status_text = lease_text (status src), progress_normalized = fp_div rndf (progress_percentage src) (Fin 100),
      requires_attention = (failure_retry_count src \<ge> 3)\<rparr>"

text \<open>
  The loops, with the index and the rounds that are left: records are added behind the ones already there.
\<close>

fun node_loop ::
  "rounding \<Rightarrow> u64 \<Rightarrow> WorkerMember list \<Rightarrow> nat \<Rightarrow> nat \<Rightarrow> UiNodeRecord list \<Rightarrow> UiNodeRecord list option" where
  "node_loop rnd now_ms workers i 0 out = Some out"
| "node_loop rnd now_ms workers i (Suc n) out =
     (if i < length workers then node_loop rnd now_ms workers (Suc i) n (out @ [ui_node rnd now_ms (workers ! i)])
      else None)"

fun task_loop :: "rounding \<Rightarrow> ChunkLease list \<Rightarrow> nat \<Rightarrow> nat \<Rightarrow> UiTaskRecord list \<Rightarrow> UiTaskRecord list option" where
  "task_loop rndf leases i 0 out = Some out"
| "task_loop rndf leases i (Suc n) out =
     (if length out \<ge> UI_MAX_ACTIVE_TASKS then Some out
      else if i < length leases then task_loop rndf leases (Suc i) n (out @ [ui_task rndf (leases ! i)])
      else None)"

definition loop_limit :: "int \<Rightarrow> nat \<Rightarrow> nat" where
  "loop_limit count maximum = nat (if count < int maximum then count else int maximum)"

text \<open>\<open>out\<close> is the view before the call, \<open>None\<close> for NULL like \<open>snapshot\<close>; \<open>memset\<close> clears it.\<close>

definition view_cleared :: "UiLogicalDeviceViewModel \<Rightarrow> UiLogicalDeviceViewModel" where
  "view_cleared out = out\<lparr>device_uuid := [], logical_epoch := 0, last_version_seen := 0,
     summary_health := UI_HEALTH_UNKNOWN, operational_status_text := [], cluster_total_memory_gb := Fin 0,
     cluster_used_memory_gb := Fin 0, cluster_overall_cpu_pct := Fin 0, nodes := [], tasks := []\<rparr>"

definition view_head :: "rounding \<Rightarrow> ClusterStateSnapshot \<Rightarrow> UiLogicalDeviceViewModel \<Rightarrow> UiLogicalDeviceViewModel" where
  "view_head rnd sn prev =
     (let m = metrics sn; gb = Fin (1024 * 1024 * 1024);
          v = (view_cleared prev)\<lparr>device_uuid := c_strncpy 63 (cluster_uuid sn), logical_epoch := master_epoch sn,
            last_version_seen := state_generation_version sn,
            summary_health := fst (summary (global_status sn)),
            operational_status_text := snd (summary (global_status sn)),
            cluster_total_memory_gb := fp_div rnd (fp_of_word rnd (cluster_aggregate_memory_bytes m)) gb,
            cluster_used_memory_gb := fp_div rnd (fp_of_word rnd (cluster_allocated_memory_bytes m)) gb\<rparr>
      in if cluster_aggregate_cores m > 0
         then v\<lparr>cluster_overall_cpu_pct := ui_percentage rnd (cluster_allocated_cores m) (cluster_aggregate_cores m)\<rparr>
         else v)"

definition ui_model_transform_snapshot ::
  "rounding \<Rightarrow> rounding \<Rightarrow> ClusterStateSnapshot option \<Rightarrow> u64 \<Rightarrow> UiLogicalDeviceViewModel option
   \<Rightarrow> UiLogicalDeviceViewModel option option" where
  "ui_model_transform_snapshot rnd rndf snapshot now_ms out =
     (case (snapshot, out) of
        (Some sn, Some prev) \<Rightarrow>
          (let v = view_head rnd sn prev
           in case node_loop rnd now_ms (active_workers sn) 0
                     (loop_limit (total_registered_workers sn) UI_MAX_NODES) (nodes v) of
                None \<Rightarrow> None
              | Some ns \<Rightarrow>
                  (case task_loop rndf (active_leases sn) 0
                          (loop_limit (total_active_leases sn) UI_MAX_ACTIVE_LEASES) (tasks v) of
                     None \<Rightarrow> None
                   | Some ts \<Rightarrow> Some (Some (v\<lparr>nodes := ns, tasks := ts\<rparr>))))
      | _ \<Rightarrow> Some out)"

section \<open>The test suite's snapshots\<close>

definition zero_metrics :: ClusterMetrics where
  "zero_metrics = \<lparr>cluster_aggregate_memory_bytes = 0, cluster_allocated_memory_bytes = 0,
     cluster_aggregate_cores = 0, cluster_allocated_cores = 0, active_worker_count = 0\<rparr>"

definition zero_worker :: WorkerMember where
  "zero_worker = \<lparr>worker_id = 0, hostname = [], health = WORKER_HEALTH_ONLINE, last_heartbeat_monotonic_ms = 0,
     resources = \<lparr>total_memory_bytes = 0, reserved_memory_bytes = 0, total_cores = 0, reserved_cores = 0\<rparr>\<rparr>"

definition zero_lease :: ChunkLease where
  "zero_lease = \<lparr>chunk_id = 0, workload_id = 0, assigned_worker_id = 0, status = LEASE_STATUS_IDLE,
     progress_percentage = Fin 0, failure_retry_count = 0\<rparr>"

definition empty_snap :: ClusterStateSnapshot where
  "empty_snap = \<lparr>cluster_uuid = ''9999-ABCD'', master_epoch = 0, state_generation_version = 42,
     global_status = CLUSTER_STATUS_BOOSTRAP, active_workers = replicate CLUSTER_MAX_WORKERS zero_worker,
     total_registered_workers = 0, active_leases = replicate CLUSTER_MAX_ACTIVE_LEASES_M zero_lease,
     total_active_leases = 0, metrics = zero_metrics\<rparr>"

definition test_worker :: WorkerMember where
  "test_worker = \<lparr>worker_id = 101, hostname = ''worker-alpha'', health = WORKER_HEALTH_ONLINE,
     last_heartbeat_monotonic_ms = 4500,
     resources = \<lparr>total_memory_bytes = 16 * 1024 * 1024 * 1024, reserved_memory_bytes = 4 * 1024 * 1024 * 1024,
       total_cores = 8, reserved_cores = 2\<rparr>\<rparr>"

definition test_lease :: ChunkLease where
  "test_lease = \<lparr>chunk_id = 5001, workload_id = 9001, assigned_worker_id = 101, status = LEASE_STATUS_EXECUTING,
     progress_percentage = Fin (755 / 10), failure_retry_count = 0\<rparr>"

definition active_snap :: ClusterStateSnapshot where
  "active_snap = \<lparr>cluster_uuid = ''NODE-CLUSTER-ONE'', master_epoch = 1234567, state_generation_version = 105,
     global_status = CLUSTER_STATUS_OPERATIONAL,
     active_workers = (replicate CLUSTER_MAX_WORKERS zero_worker)[0 := test_worker], total_registered_workers = 1,
     active_leases = (replicate CLUSTER_MAX_ACTIVE_LEASES_M zero_lease)[0 := test_lease], total_active_leases = 1,
     metrics = zero_metrics\<lparr>cluster_aggregate_memory_bytes := 16 * 1024 * 1024 * 1024,
       cluster_allocated_memory_bytes := 4 * 1024 * 1024 * 1024, cluster_aggregate_cores := 8,
       cluster_allocated_cores := 2\<rparr>\<rparr>"

section \<open>Lemmas\<close>

text \<open>The arrays of a snapshot have their declared sizes.\<close>

definition snapshot_sized :: "ClusterStateSnapshot \<Rightarrow> bool" where
  "snapshot_sized sn \<longleftrightarrow> length (active_workers sn) = CLUSTER_MAX_WORKERS
     \<and> length (active_leases sn) = CLUSTER_MAX_ACTIVE_LEASES_M"

lemma node_loop_exact:
  "i \<le> length ws \<Longrightarrow> node_loop rnd t ws i n out =
     (if i + n \<le> length ws then Some (out @ map (ui_node rnd t) (take n (drop i ws))) else None)"
proof (induction n arbitrary: i out)
  case (Suc n)
  then show ?case by (cases "i < length ws") (auto simp: Cons_nth_drop_Suc [symmetric])
qed simp

lemma task_loop_exact:
  "i \<le> length ls \<Longrightarrow> length out + n \<le> UI_MAX_ACTIVE_TASKS \<Longrightarrow> task_loop rndf ls i n out =
     (if i + n \<le> length ls then Some (out @ map (ui_task rndf) (take n (drop i ls))) else None)"
proof (induction n arbitrary: i out)
  case (Suc n)
  then show ?case by (cases "i < length ls") (auto simp: Cons_nth_drop_Suc [symmetric])
qed simp

lemma transform_loops:
  assumes "snapshot_sized sn"
  shows "node_loop rnd t (active_workers sn) 0 (loop_limit (total_registered_workers sn) UI_MAX_NODES) [] =
      (if total_registered_workers sn \<le> 32
       then Some (map (ui_node rnd t) (take (nat (total_registered_workers sn)) (active_workers sn))) else None)"
    and "task_loop rndf (active_leases sn) 0 (loop_limit (total_active_leases sn) UI_MAX_ACTIVE_LEASES) [] =
      (if total_active_leases sn \<le> 128
       then Some (map (ui_task rndf) (take (nat (total_active_leases sn)) (active_leases sn))) else None)"
  using assms by (auto simp: node_loop_exact task_loop_exact snapshot_sized_def loop_limit_def ui_sizes)

text \<open>What a node record shows of its worker, and a task record of its lease.\<close>

definition node_shows :: "u64 \<Rightarrow> WorkerMember \<Rightarrow> UiNodeRecord \<Rightarrow> bool" where
  "node_shows now_ms w n \<longleftrightarrow> node_id n = worker_id w \<and> display_name n = take 31 (hostname w)
     \<and> (node_health n = UI_HEALTH_OK \<longleftrightarrow> health w = WORKER_HEALTH_ONLINE)
     \<and> (node_health n = UI_HEALTH_CRIT \<longleftrightarrow> health w = WORKER_HEALTH_OFFLINE)
     \<and> (node_health n = UI_HEALTH_WARN \<longleftrightarrow> health w \<in> {WORKER_HEALTH_SUSPECT, WORKER_HEALTH_DRAINING})
     \<and> (is_draining n \<longleftrightarrow> health w = WORKER_HEALTH_DRAINING)
     \<and> unat (ms_since_last_heartbeat n) = unat now_ms - unat (last_heartbeat_monotonic_ms w)
     \<and> (reserved_memory_bytes (resources w) \<le> total_memory_bytes (resources w)
          \<longrightarrow> fp_between 0 (memory_utilization_pct n) 100)
     \<and> (reserved_cores (resources w) \<le> total_cores (resources w) \<longrightarrow> fp_between 0 (cpu_utilization_pct n) 100)"

definition task_shows :: "ChunkLease \<Rightarrow> UiTaskRecord \<Rightarrow> bool" where
  "task_shows l t \<longleftrightarrow> task_chunk_id t = chunk_id l \<and> task_workload_id t = workload_id l
     \<and> assigned_node_id t = assigned_worker_id l
     \<and> status_text t =
         (case status l of LEASE_STATUS_IDLE \<Rightarrow> ''QUEUED'' | LEASE_STATUS_ASSIGNED \<Rightarrow> ''DISPATCHED''
          | LEASE_STATUS_EXECUTING \<Rightarrow> ''RUNNING'' | LEASE_STATUS_COMMITTED \<Rightarrow> ''FINISHED''
          | LEASE_STATUS_TIMED_OUT \<Rightarrow> ''TIMEOUT'' | LEASE_STATUS_FAILED \<Rightarrow> ''FAILED'')
     \<and> (fp_between 0 (progress_percentage l) 100 \<longrightarrow> fp_between 0 (progress_normalized t) 1)
     \<and> (requires_attention t \<longleftrightarrow> 3 \<le> unat (failure_retry_count l))"

lemma ui_percentage_bounds:
  fixes a b :: "'a::len word"
  assumes "monotone_rounding rnd" "a \<le> b" "LENGTH('a) \<le> 64"
  shows "fp_between 0 (ui_percentage rnd a b) 100"
  using percentage_bounds [OF assms(1,2) _ assms(3)] by (simp add: ui_percentage_def)

lemma ui_node_shows:
  assumes "monotone_rounding rnd"
  shows "node_shows now_ms w (ui_node rnd now_ms w)"
proof -
  have "unat (if now_ms \<ge> b then now_ms - b else 0) = unat now_ms - unat b" for b :: u64
    by (simp add: unat_sub word_le_nat_alt)
  then show ?thesis
    by (cases "health w")
      (simp_all add: node_shows_def ui_node_def ui_node_health_def ui_text_def ui_sizes c_strncpy_def
        ui_percentage_bounds [OF assms])
qed

lemma normalised_bounds:
  assumes "monotone_rounding rndf" "fp_between 0 x 100"
  shows "fp_between 0 (fp_div rndf x (Fin 100)) 1"
proof -
  obtain f where f: "\<And>x. 0 \<le> x \<Longrightarrow> x \<le> 2 ^ 64 \<Longrightarrow> rndf x = Fin (f x)" "mono f" "f 0 = 0" "f 1 = 1"
    using assms(1) unfolding monotone_rounding_def by blast
  obtain q where q: "x = Fin q" "0 \<le> q / 100" "q / 100 \<le> 1" using assms(2) by (cases x) simp_all
  from q(3) have "q / 100 \<le> 2 ^ 64" by simp
  then have "rndf (q / 100) = Fin (f (q / 100))" by (rule f(1) [OF q(2)])
  then show ?thesis using monoD [OF f(2) q(2)] monoD [OF f(2) q(3)] f(3,4) q(1) by simp
qed

lemma ui_task_shows:
  assumes "monotone_rounding rndf"
  shows "task_shows l (ui_task rndf l)"
  by (cases "status l")
    (simp_all add: task_shows_def ui_task_def lease_text_def ui_text_def ui_sizes c_strncpy_def word_le_nat_alt
      normalised_bounds [OF assms])

text \<open>What the head of the view shows of the snapshot.\<close>

definition head_shows :: "ClusterStateSnapshot \<Rightarrow> UiLogicalDeviceViewModel \<Rightarrow> bool" where
  "head_shows sn v \<longleftrightarrow> device_uuid v = take 63 (cluster_uuid sn) \<and> logical_epoch v = master_epoch sn
     \<and> last_version_seen v = state_generation_version sn
     \<and> (summary_health v, operational_status_text v) =
         (case global_status sn of
            CLUSTER_STATUS_BOOSTRAP \<Rightarrow> (UI_HEALTH_WARN, ''RECOVERING/BOOT'')
          | CLUSTER_STATUS_OPERATIONAL \<Rightarrow> (UI_HEALTH_OK, ''HEALTHY'')
          | CLUSTER_STATUS_DEGRADED \<Rightarrow> (UI_HEALTH_WARN, ''DEGRADED'')
          | CLUSTER_STATUS_MAINTENANCE \<Rightarrow> (UI_HEALTH_UNKNOWN, ''MAINTENANCE'')
          | CLUSTER_STATUS_PANIC \<Rightarrow> (UI_HEALTH_CRIT, ''CRITICAL FAILURE''))
     \<and> (cluster_allocated_cores (metrics sn) \<le> cluster_aggregate_cores (metrics sn)
          \<longrightarrow> fp_between 0 (cluster_overall_cpu_pct v) 100)"

lemma view_head_shows:
  assumes "monotone_rounding rnd"
  shows "head_shows sn ((view_head rnd sn prev)\<lparr>nodes := ns, tasks := ts\<rparr>)"
    and "nodes (view_head rnd sn prev) = []" "tasks (view_head rnd sn prev) = []"
  using ui_percentage_bounds [OF assms, of "cluster_allocated_cores (metrics sn)" "cluster_aggregate_cores (metrics sn)"]
  by (cases "global_status sn";
      simp add: head_shows_def view_head_def view_cleared_def summary_def ui_text_def ui_sizes c_strncpy_def Let_def)+

text \<open>The function in one equation, for a snapshot whose arrays have their sizes.\<close>

lemma transform_exact:
  assumes "snapshot_sized sn" "monotone_rounding rnd"
  shows "ui_model_transform_snapshot rnd rndf (Some sn) now_ms (Some out) =
    (if total_registered_workers sn > 32 \<or> total_active_leases sn > 128 then None
     else Some (Some ((view_head rnd sn out)
       \<lparr>nodes := map (ui_node rnd now_ms) (take (nat (total_registered_workers sn)) (active_workers sn)),
        tasks := map (ui_task rndf) (take (nat (total_active_leases sn)) (active_leases sn))\<rparr>)))"
  by (simp add: ui_model_transform_snapshot_def view_head_shows(2,3) [OF assms(2)] transform_loops [OF assms(1)] Let_def)

section \<open>Properties\<close>

text \<open>
  C39: The view of a snapshot, whatever the view held before. The loops run to the snapshot's counts, cut at 64 nodes
  and 256 tasks, while its arrays have 32 and 128 elements: the function reads outside an array exactly when
  the snapshot counts more than 32 workers or more than 128 leases. Otherwise the view has one record for each counted
  worker and lease, in order, and every field is right: name (cut at 31 characters), health class, draining
  mark, milliseconds since the last heartbeat (0 if it lies in the future), status texts, retry mark; and for monotone
  rounding of double and single precision, utilisations are numbers between 0 and 100 wherever the
  reservations are within the resources, and a progress between 0 and 100 per cent becomes one between 0 and 1.
\<close>

theorem ui_view_exact:
  assumes "snapshot_sized sn" "monotone_rounding rnd" "monotone_rounding rndf"
  shows "(ui_model_transform_snapshot rnd rndf (Some sn) now_ms (Some out) = None
      \<longleftrightarrow> total_registered_workers sn > 32 \<or> total_active_leases sn > 128)
    \<and> (total_registered_workers sn \<le> 32 \<and> total_active_leases sn \<le> 128 \<longrightarrow>
        (\<exists>v. ui_model_transform_snapshot rnd rndf (Some sn) now_ms (Some out) = Some (Some v) \<and> head_shows sn v
           \<and> list_all2 (node_shows now_ms) (take (nat (total_registered_workers sn)) (active_workers sn)) (nodes v)
           \<and> list_all2 task_shows (take (nat (total_active_leases sn)) (active_leases sn)) (tasks v)))"
  by (auto simp: transform_exact [OF assms(1,2)] view_head_shows(1) [OF assms(2)] list.rel_map
      ui_node_shows [OF assms(2)] ui_task_shows [OF assms(3)] intro: list.rel_refl)

definition old_view :: UiLogicalDeviceViewModel where
  "old_view = \<lparr>device_uuid = ''x'', logical_epoch = 9, last_version_seen = 9, summary_health = UI_HEALTH_CRIT,
     operational_status_text = ''y'', cluster_total_memory_gb = NaN, cluster_used_memory_gb = NaN,
     cluster_overall_cpu_pct = NaN, nodes = [], tasks = []\<rparr>"

theorem ui_view_exact_witness:
  "(\<exists>v. ui_model_transform_snapshot Fin Fin (Some active_snap) 5000 (Some old_view) = Some (Some v)
      \<and> list_all2 (node_shows 5000) [test_worker] (nodes v) \<and> list_all2 task_shows [test_lease] (tasks v))
   \<and> ui_model_transform_snapshot Fin Fin (Some (active_snap\<lparr>total_registered_workers := 33\<rparr>)) 5000 (Some old_view) = None"
proof -
  have sized: "snapshot_sized active_snap" "snapshot_sized (active_snap\<lparr>total_registered_workers := 33\<rparr>)"
    by (simp_all add: snapshot_sized_def active_snap_def ui_sizes)
  have "take 1 (active_workers active_snap) = [test_worker]" "take 1 (active_leases active_snap) = [test_lease]"
    "total_registered_workers active_snap = 1" "total_active_leases active_snap = 1"
    by (simp_all add: active_snap_def ui_sizes numeral_eq_Suc)
  then show ?thesis
    using ui_view_exact [OF sized(1) exact_rounding exact_rounding, of 5000 old_view]
      ui_view_exact [OF sized(2) exact_rounding exact_rounding, of 5000 old_view] by auto
qed

text \<open>What the test suite expects of its second snapshot.\<close>

lemma active_view:
  "\<exists>v. ui_model_transform_snapshot Fin Fin (Some active_snap) 5000 (Some out) = Some (Some v)
   \<and> summary_health v = UI_HEALTH_OK \<and> operational_status_text v = ''HEALTHY''
   \<and> cluster_total_memory_gb v = Fin 16 \<and> cluster_used_memory_gb v = Fin 4 \<and> cluster_overall_cpu_pct v = Fin 25
   \<and> map ms_since_last_heartbeat (nodes v) = [500] \<and> map display_name (nodes v) = [''worker-alpha'']
   \<and> map status_text (tasks v) = [''RUNNING''] \<and> map progress_normalized (tasks v) = [Fin (755 / 1000)]"
proof -
  have sized: "snapshot_sized active_snap" by (simp add: snapshot_sized_def active_snap_def ui_sizes)
  have "take 1 (active_workers active_snap) = [test_worker]" "take 1 (active_leases active_snap) = [test_lease]"
    "total_registered_workers active_snap = 1" "total_active_leases active_snap = 1"
    by (simp_all add: active_snap_def ui_sizes numeral_eq_Suc)
  then show ?thesis
    by (simp add: transform_exact [OF sized exact_rounding])
      (simp add: view_head_def view_cleared_def active_snap_def test_worker_def test_lease_def zero_metrics_def
        summary_def ui_text_def ui_sizes fp_of_word_def ui_percentage_def ui_node_def ui_task_def lease_text_def Let_def)
qed

end
