(* ===== verification/Ui_Coordinator.thy ===== *)
theory Ui_Coordinator
  imports Prelude
begin

text \<open>
  The master's interface coordinator (\<^verbatim>\<open>master/src/ui_coordinator.c\<close>).

  Tables with their counts are lists. \<open>synchronize\<close> only tests its snapshot pointer against NULL, so the snapshot is
  an optional value of any type. The rendered text is the string that \<open>snprintf\<close> leaves in the buffer.

  Proved: rendering never overruns the caller's buffer, is complete when the buffer is large enough, and an intent is
  accepted on its own fields alone; and that the view never depends on the snapshot.
\<close>

section \<open>Data\<close>

definition UI_STR_MAX :: nat where "UI_STR_MAX = 64"
definition UI_MAX_WORKERS :: nat where "UI_MAX_WORKERS = 32"
definition UI_MAX_LEASES :: nat where "UI_MAX_LEASES = 128"

datatype UIClusterHealth = UI_STATE_OK | UI_STATE_DEGRADED | UI_STATE_RECOVERING

datatype UIWorkerState = UI_WORKER_ONLINE | UI_WORKER_DRAINING | UI_WORKER_OFFLINE

datatype UILeaseState = UI_LEASE_RUNNING | UI_LEASE_COMPLETED | UI_LEASE_FAILED

record ui_worker_record_t =
  id :: u32
  state :: UIWorkerState
  memory_bytes :: u64
  core_count :: u32
  peripheral_capabilities :: string

record ui_chunk_record_t =
  chunk_id :: u64
  lease_id :: u64
  lease_state :: UILeaseState
  progress :: fp
  worker_id :: u32

record vom_cluster_view_model_t =
  cluster_uuid :: string
  master_epoch :: u64
  state_version :: u64
  health :: UIClusterHealth
  total_memory :: u64
  used_memory :: u64
  total_cores :: u32
  used_cores :: u32
  workers :: "ui_worker_record_t list"
  chunks :: "ui_chunk_record_t list"

record vom_ui_user_intent_t =
  command_type :: u32
  target_id :: u64
  text_arg :: string

record vom_ui_coordinator =
  active_view :: vom_cluster_view_model_t
  raw_ascii_mode :: bool

section \<open>Operations\<close>

definition zero_view :: vom_cluster_view_model_t where
  "zero_view = \<lparr> cluster_uuid = [], master_epoch = 0, state_version = 0, health = UI_STATE_OK, total_memory = 0,
     used_memory = 0, total_cores = 0, used_cores = 0, workers = [], chunks = [] \<rparr>"

definition vom_ui_coordinator_create :: "bool \<Rightarrow> vom_ui_coordinator" where
  "vom_ui_coordinator_create raw_ascii = \<lparr> active_view = zero_view, raw_ascii_mode = raw_ascii \<rparr>"

definition fixed_view :: "rounding \<Rightarrow> vom_cluster_view_model_t" where
  "fixed_view rnd = zero_view\<lparr> cluster_uuid := c_strncpy (UI_STR_MAX - 1) ''vom-cluster-uuid-4f9e'', master_epoch := 1718900000,
     state_version := 42, health := UI_STATE_DEGRADED, total_memory := 34359738368, used_memory := 17179869184,
     total_cores := 16, used_cores := 8,
     workers := [\<lparr> id = 1, state = UI_WORKER_ONLINE, memory_bytes = 17179869184, core_count = 8,
                   peripheral_capabilities = ''AVX2,DISPLAY_ATTACHED'' \<rparr>,
                 \<lparr> id = 2, state = UI_WORKER_DRAINING, memory_bytes = 17179869184, core_count = 8,
                   peripheral_capabilities = ''TOUCH_SUPPORTED'' \<rparr>],
     chunks := [\<lparr> chunk_id = 501, lease_id = 8001, lease_state = UI_LEASE_RUNNING, progress = rnd (655 / 10), worker_id = 1 \<rparr>] \<rparr>"

definition vom_ui_coordinator_synchronize :: "rounding \<Rightarrow> vom_ui_coordinator option \<Rightarrow> 'snap option \<Rightarrow> vom_ui_coordinator option" where
  "vom_ui_coordinator_synchronize rnd ctx snap =
     (case (ctx, snap) of (Some c, Some _) \<Rightarrow> Some (c\<lparr>active_view := fixed_view rnd\<rparr>) | _ \<Rightarrow> ctx)"

definition health_str :: "UIClusterHealth \<Rightarrow> string" where
  "health_str h = (if h = UI_STATE_OK then ''HEALTHY'' else if h = UI_STATE_DEGRADED then ''DEGRADED'' else ''RECOVERING'')"

definition render_text :: "vom_cluster_view_model_t \<Rightarrow> string" where
  "render_text v =
     ''CLUSTER: '' @ cluster_uuid v @ '' | VERSION: '' @ c_decimal (unat (state_version v)) @ '' | STATE: '' @ health_str (health v)
     @ [CHR 0x0A] @ ''RESOURCE OVERVIEW: Cores ['' @ c_decimal (unat (used_cores v)) @ ''/'' @ c_decimal (unat (total_cores v))
     @ ''] | Memory ['' @ c_decimal (unat (used_memory v div 1024 div 1024)) @ ''/''
     @ c_decimal (unat (total_memory v div 1024 div 1024)) @ ''] MB'' @ [CHR 0x0A]
     @ ''CONNECTED WORKERS: '' @ c_decimal (length (workers v)) @ '' | ACTIVE CHUNKS DISPATCHED: '' @ c_decimal (length (chunks v))
     @ [CHR 0x0A]"

definition vom_ui_coordinator_render_to_buffer :: "vom_ui_coordinator option \<Rightarrow> string \<Rightarrow> nat \<Rightarrow> string" where
  "vom_ui_coordinator_render_to_buffer ctx out_buf max_len =
     (case ctx of
        None \<Rightarrow> out_buf
      | Some c \<Rightarrow> if max_len = 0 then out_buf else c_strncpy (max_len - 1) (render_text (active_view c)))"

definition vom_ui_coordinator_validate_intent :: "vom_ui_coordinator option \<Rightarrow> vom_ui_user_intent_t option \<Rightarrow> bool \<Rightarrow> bool" where
  "vom_ui_coordinator_validate_intent ctx intent payload_null =
     (case (ctx, intent) of
        (Some _, Some i) \<Rightarrow>
          if payload_null then False
          else if command_type i = 1 then (if target_id i = 0 then False else True)
          else if command_type i = 2 then (if length (text_arg i) = 0 then False else True)
          else False
      | _ \<Rightarrow> False)"

definition execute_ui_coordinator_test_suite :: "rounding \<Rightarrow> string \<times> bool" where
  "execute_ui_coordinator_test_suite rnd =
     (let ui = vom_ui_coordinator_synchronize rnd (Some (vom_ui_coordinator_create True)) (Some (0 :: int));
          buf = vom_ui_coordinator_render_to_buffer ui [] 1024
      in (buf, vom_ui_coordinator_validate_intent ui (Some \<lparr> command_type = 1, target_id = 501, text_arg = [] \<rparr>) False))"

section \<open>Rendering\<close>

lemma c_decimal_length: "n < 10 ^ k \<Longrightarrow> 0 < k \<Longrightarrow> length (c_decimal n) \<le> k"
proof (induction n arbitrary: k rule: c_decimal.induct)
  case (1 n)
  show ?case
  proof (cases "n < 10")
    case True
    then show ?thesis using "1.prems" by (subst c_decimal.simps) simp
  next
    case False
    obtain m where k: "k = Suc m" using "1.prems"(2) by (cases k) simp_all
    with False "1.prems" have "n div 10 < 10 ^ m" "0 < m" by (auto simp: less_mult_imp_div_less mult.commute intro: gr0I)
    from "1.IH" [OF False this] k show ?thesis using False by (subst c_decimal.simps) simp
  qed
qed

lemma decimal_u64: "length (c_decimal (unat (w :: u64))) \<le> 20"
  using unsigned_less [of w, where ?'a = nat] by (intro c_decimal_length) (simp_all add: order.strict_trans)

lemma decimal_u32: "length (c_decimal (unat (w :: u32))) \<le> 10"
  using unsigned_less [of w, where ?'a = nat] by (intro c_decimal_length) (simp_all add: order.strict_trans)

definition view_ok :: "vom_cluster_view_model_t \<Rightarrow> bool" where
  "view_ok v \<longleftrightarrow> length (cluster_uuid v) < UI_STR_MAX \<and> length (workers v) \<le> UI_MAX_WORKERS \<and> length (chunks v) \<le> UI_MAX_LEASES"

lemma fixed_view_ok: "view_ok (fixed_view rnd)"
  by (simp add: view_ok_def fixed_view_def UI_STR_MAX_def UI_MAX_WORKERS_def UI_MAX_LEASES_def c_strncpy_def)

lemma render_text_length:
  assumes "view_ok v"
  shows "length (render_text v) < 320"
proof -
  have "length (workers v) < 100" "length (chunks v) < 1000" "length (cluster_uuid v) < 64"
    using assms by (simp_all add: view_ok_def UI_STR_MAX_def UI_MAX_WORKERS_def UI_MAX_LEASES_def)
  then have "length (c_decimal (length (workers v))) \<le> 2" "length (c_decimal (length (chunks v))) \<le> 3"
    "length (cluster_uuid v) < 64" using c_decimal_length [of _ 2] c_decimal_length [of _ 3] by simp_all
  moreover have "length (health_str (health v)) \<le> 10" by (simp add: health_str_def)
  ultimately show ?thesis
    using decimal_u64 [of "state_version v"] decimal_u32 [of "used_cores v"] decimal_u32 [of "total_cores v"]
      decimal_u64 [of "used_memory v div 1024 div 1024"] decimal_u64 [of "total_memory v div 1024 div 1024"]
    by (simp add: render_text_def)
qed

text \<open>
  The rendered text always fits the caller's buffer with its terminator, and a buffer of 320 bytes holds the
  whole text of every view within its table limits, whatever the counters in it.
\<close>

theorem render_fits_buffer:
  assumes "0 < max_len"
  shows "length (vom_ui_coordinator_render_to_buffer (Some c) out_buf max_len) < max_len
    \<and> (view_ok (active_view c) \<longrightarrow> 320 \<le> max_len \<longrightarrow>
        vom_ui_coordinator_render_to_buffer (Some c) out_buf max_len = render_text (active_view c))"
  using assms length_c_strncpy [of "max_len - 1" "render_text (active_view c)"] render_text_length [of "active_view c"]
  by (auto simp: vom_ui_coordinator_render_to_buffer_def)

theorem render_fits_buffer_witness:
  "vom_ui_coordinator_render_to_buffer (Some (vom_ui_coordinator_create True)) [] 1024 = render_text zero_view"
proof -
  have "view_ok (active_view (vom_ui_coordinator_create True))"
    by (simp add: view_ok_def vom_ui_coordinator_create_def zero_view_def UI_STR_MAX_def)
  then show ?thesis
    using render_fits_buffer [of 1024 "vom_ui_coordinator_create True" "[]"] by (simp add: vom_ui_coordinator_create_def)
qed

section \<open>What the coordinator ignores\<close>

text \<open>
  The view does not depend on the cluster: synchronising any coordinator with any snapshot gives the same view, so
  the rendered text is the same for every cluster state, and a cancellation is accepted for every non-zero
  chunk, in the view or not.
\<close>

theorem coordinator_ignores_snapshot:
  "map_option active_view (vom_ui_coordinator_synchronize rnd (Some c) (Some snap))
     = map_option active_view (vom_ui_coordinator_synchronize rnd (Some c') (Some snap'))
   \<and> vom_ui_coordinator_validate_intent (Some c) (Some \<lparr> command_type = 1, target_id = t, text_arg = a \<rparr>) False = (t \<noteq> 0)"
  by (simp add: vom_ui_coordinator_synchronize_def vom_ui_coordinator_validate_intent_def)

lemma ui_suite_passes: "snd (execute_ui_coordinator_test_suite rnd)"
  by (simp add: execute_ui_coordinator_test_suite_def vom_ui_coordinator_synchronize_def vom_ui_coordinator_validate_intent_def Let_def)

end
