(* ===== verification/Command_Lines.thy ===== *)
theory Command_Lines
  imports Prelude
begin

text \<open>
  Two command lines: the administration tool (\<^verbatim>\<open>cli/src/main.c\<close>) and the worker's arguments
  (\<^verbatim>\<open>worker/src/cli.c\<close>). \<open>argv\<close> is the list of arguments with the program's name first.
  The union of command options is a datatype with one constructor for each member that the parser
  fills. What is printed is not modelled; the exit code is.

  Proved: every command of the tool is read back from its written form, anything else has the exit code
  that says why; worker arguments may come in any order and the last one of a kind wins.
\<close>

section \<open>The administration tool\<close>

definition CLI_MAX_ARGS_LEN :: nat where "CLI_MAX_ARGS_LEN = 128"
definition CLI_MAX_PATH_LEN :: nat where "CLI_MAX_PATH_LEN = 256"

datatype CliCommandType = CMD_TYPE_CLUSTER_STATUS | CMD_TYPE_WORKLOAD_SUBMIT | CMD_TYPE_WORKLOAD_INSPECT
  | CMD_TYPE_WORKLOAD_CANCEL | CMD_TYPE_WORKER_DRAIN | CMD_TYPE_WORKER_RESUME | CMD_TYPE_WORKER_APPROVE
  | CMD_TYPE_UI_MODE_SET | CMD_TYPE_UNKNOWN

datatype CliOutputFormat = CLI_OUTPUT_HUMAN_READABLE | CLI_OUTPUT_JSON_STRUCTURABLE | CLI_OUTPUT_PLAIN_SCRIPT_TABLE

datatype CliExitCode = CLI_EXIT_SUCCESS | CLI_EXIT_ERR_BAD_SYNTAX | CLI_EXIT_ERR_UNKNOWN_CMD
  | CLI_EXIT_ERR_MISSING_ARG | CLI_EXIT_ERR_INVALID_VAL | CLI_EXIT_ERR_NETWORK_FAULT | CLI_EXIT_ERR_INTERNAL

datatype cmd_options = NoOptions
  | Submit string u32
  | Inspect u64
  | Cancel u64
  | WorkerDrain string

record CliParsedCommand =
  type :: CliCommandType
  format_strategy :: CliOutputFormat
  options :: cmd_options

definition empty_command :: CliParsedCommand where
  "empty_command = \<lparr>type = CMD_TYPE_UNKNOWN, format_strategy = CLI_OUTPUT_HUMAN_READABLE, options = NoOptions\<rparr>"

definition output_format :: "string \<Rightarrow> CliOutputFormat \<times> nat" where
  "output_format a =
     (if a = ''--json'' then (CLI_OUTPUT_JSON_STRUCTURABLE, 2)
      else if a = ''--script'' then (CLI_OUTPUT_PLAIN_SCRIPT_TABLE, 2)
      else (CLI_OUTPUT_HUMAN_READABLE, 1))"

definition parse_verb :: "string \<Rightarrow> string option \<Rightarrow> CliParsedCommand \<Rightarrow> CliExitCode \<times> CliParsedCommand" where
  "parse_verb verb arg cmd =
     (if verb = ''status'' then (CLI_EXIT_SUCCESS, cmd\<lparr>type := CMD_TYPE_CLUSTER_STATUS\<rparr>)
      else if verb = ''submit''
      then (case arg of None \<Rightarrow> (CLI_EXIT_ERR_MISSING_ARG, cmd)
            | Some a \<Rightarrow> (CLI_EXIT_SUCCESS, cmd\<lparr>type := CMD_TYPE_WORKLOAD_SUBMIT,
                          options := Submit (c_strncpy (CLI_MAX_PATH_LEN - 1) a) 1\<rparr>))
      else if verb = ''inspect''
      then (case arg of None \<Rightarrow> (CLI_EXIT_ERR_MISSING_ARG, cmd)
            | Some a \<Rightarrow> (CLI_EXIT_SUCCESS, cmd\<lparr>type := CMD_TYPE_WORKLOAD_INSPECT, options := Inspect (c_strtoul a)\<rparr>))
      else if verb = ''cancel''
      then (case arg of None \<Rightarrow> (CLI_EXIT_ERR_MISSING_ARG, cmd)
            | Some a \<Rightarrow> (CLI_EXIT_SUCCESS, cmd\<lparr>type := CMD_TYPE_WORKLOAD_CANCEL, options := Cancel (c_strtoul a)\<rparr>))
      else if verb = ''drain''
      then (case arg of None \<Rightarrow> (CLI_EXIT_ERR_MISSING_ARG, cmd)
            | Some a \<Rightarrow> (CLI_EXIT_SUCCESS, cmd\<lparr>type := CMD_TYPE_WORKER_DRAIN,
                          options := WorkerDrain (c_strncpy (CLI_MAX_ARGS_LEN - 1) a)\<rparr>))
      else (CLI_EXIT_ERR_UNKNOWN_CMD, cmd))"

text \<open>Without the two arguments the output is not touched; it is then \<open>None\<close>.\<close>

definition vom_cli_commands_parse :: "string list \<Rightarrow> CliExitCode \<times> CliParsedCommand option" where
  "vom_cli_commands_parse argv =
     (if length argv < 2 then (CLI_EXIT_ERR_BAD_SYNTAX, None)
      else
        (let (fmt, arg_start_idx) = output_format (argv ! 1);
             cmd = empty_command\<lparr>format_strategy := fmt\<rparr>
         in if arg_start_idx \<ge> length argv then (CLI_EXIT_ERR_MISSING_ARG, Some cmd)
            else
              (let arg = (if arg_start_idx + 1 \<ge> length argv then None else Some (argv ! (arg_start_idx + 1)));
                   (rc, cmd') = parse_verb (argv ! arg_start_idx) arg cmd
               in (rc, Some cmd'))))"

text \<open>The exit status of the tool.\<close>

definition cli_main :: "string list \<Rightarrow> CliExitCode" where
  "cli_main argv = fst (vom_cli_commands_parse argv)"

section \<open>The worker\<close>

definition CLI_STR_MAX :: nat where "CLI_STR_MAX = 128"

record vom_worker_args_t =
  master_endpoint :: string
  worker_id :: string
  config_path :: string
  heartbeat_interval_ms :: u32
  disable_discovery :: bool
  execute_self_test :: bool

definition worker_defaults :: vom_worker_args_t where
  "worker_defaults = \<lparr>master_endpoint = ''tcp://127.0.0.1:5555'', worker_id = [], config_path = [],
     heartbeat_interval_ms = 1000, disable_discovery = False, execute_self_test = False\<rparr>"

definition worker_flag :: "string \<Rightarrow> vom_worker_args_t \<Rightarrow> vom_worker_args_t" where
  "worker_flag a out =
     (if a = ''--no-discovery'' then out\<lparr>disable_discovery := True\<rparr>
      else if a = ''--test'' then out\<lparr>execute_self_test := True\<rparr>
      else out)"

definition worker_value :: "string \<Rightarrow> string \<Rightarrow> vom_worker_args_t \<Rightarrow> vom_worker_args_t option" where
  "worker_value a v out =
     (if a = ''--master'' then Some (out\<lparr>master_endpoint := c_strncpy (CLI_STR_MAX - 1) v\<rparr>)
      else if a = ''--worker-id'' then Some (out\<lparr>worker_id := c_strncpy (CLI_STR_MAX - 1) v\<rparr>)
      else if a = ''--config'' then Some (out\<lparr>config_path := c_strncpy (CLI_STR_MAX - 1) v\<rparr>)
      else if a = ''--heartbeat-ms'' then Some (out\<lparr>heartbeat_interval_ms := ucast (c_strtoul v)\<rparr>)
      else None)"

fun worker_args_loop :: "string list \<Rightarrow> vom_worker_args_t \<Rightarrow> vom_worker_args_t" where
  "worker_args_loop [] out = out"
| "worker_args_loop [a] out = worker_flag a out"
| "worker_args_loop (a # v # args) out =
     (case worker_value a v out of
        Some out' \<Rightarrow> worker_args_loop args out'
      | None \<Rightarrow> worker_args_loop (v # args) (worker_flag a out))"

definition vom_worker_cli_parse :: "string list \<Rightarrow> int \<times> vom_worker_args_t" where
  "vom_worker_cli_parse argv = (0, worker_args_loop (tl argv) worker_defaults)"

definition execute_cli_test_suite :: bool where
  "execute_cli_test_suite =
     (let r1 = vom_worker_cli_parse [''worker_bin'', ''--test''];
          r2 = vom_worker_cli_parse [''worker_bin'', ''--master'', ''tcp://10.0.0.1:6666'', ''--worker-id'', ''node-42'',
                 ''--heartbeat-ms'', ''3000'', ''--no-discovery'']
      in fst r1 = 0 \<and> execute_self_test (snd r1) \<and> \<not> disable_discovery (snd r1)
         \<and> master_endpoint (snd r1) = ''tcp://127.0.0.1:5555''
         \<and> fst r2 = 0 \<and> \<not> execute_self_test (snd r2) \<and> disable_discovery (snd r2)
         \<and> master_endpoint (snd r2) = ''tcp://10.0.0.1:6666'' \<and> worker_id (snd r2) = ''node-42''
         \<and> heartbeat_interval_ms (snd r2) = 3000)"

section \<open>Lemmas\<close>

lemmas cli_sizes = CLI_MAX_ARGS_LEN_def CLI_MAX_PATH_LEN_def CLI_STR_MAX_def

fun command_words :: "cmd_options \<Rightarrow> string list" where
  "command_words NoOptions = [''status'']"
| "command_words (Submit p prio) = [''submit'', p]"
| "command_words (Inspect n) = [''inspect'', c_decimal (unat n)]"
| "command_words (Cancel n) = [''cancel'', c_decimal (unat n)]"
| "command_words (WorkerDrain w) = [''drain'', w]"

fun command_type :: "cmd_options \<Rightarrow> CliCommandType" where
  "command_type NoOptions = CMD_TYPE_CLUSTER_STATUS"
| "command_type (Submit p prio) = CMD_TYPE_WORKLOAD_SUBMIT"
| "command_type (Inspect n) = CMD_TYPE_WORKLOAD_INSPECT"
| "command_type (Cancel n) = CMD_TYPE_WORKLOAD_CANCEL"
| "command_type (WorkerDrain w) = CMD_TYPE_WORKER_DRAIN"

fun command_fits :: "cmd_options \<Rightarrow> bool" where
  "command_fits (Submit p prio) \<longleftrightarrow> length p < CLI_MAX_PATH_LEN \<and> prio = 1"
| "command_fits (WorkerDrain w) \<longleftrightarrow> length w < CLI_MAX_ARGS_LEN"
| "command_fits _ \<longleftrightarrow> True"

fun format_words :: "CliOutputFormat \<Rightarrow> string list" where
  "format_words CLI_OUTPUT_HUMAN_READABLE = []"
| "format_words CLI_OUTPUT_JSON_STRUCTURABLE = [''--json'']"
| "format_words CLI_OUTPUT_PLAIN_SCRIPT_TABLE = [''--script'']"

lemma strtoul_printed: "c_strtoul (c_decimal (unat (n :: u64))) = n"
  using unsigned_less [of n] by (subst c_strtoul_decimal) simp_all

text \<open>Numbers are not checked: a text that is no number is read as zero, with a successful exit code.\<close>

lemma inspect_any_text:
  "vom_cli_commands_parse [prog, ''inspect'', ''abc''] =
    (CLI_EXIT_SUCCESS, Some (empty_command\<lparr>type := CMD_TYPE_WORKLOAD_INSPECT, options := Inspect 0\<rparr>))"
  by (simp add: vom_cli_commands_parse_def output_format_def parse_verb_def empty_command_def c_strtoul_def
      c_isspace_def c_isdigit_def c_saturate_def Let_def)

lemma worker_suite_passes: "execute_cli_test_suite"
proof -
  have n: "c_strtoul ''3000'' = 3000"
    by (simp add: c_strtoul_def c_isspace_def c_isdigit_def c_saturate_def)
  show ?thesis
    by (simp add: execute_cli_test_suite_def vom_worker_cli_parse_def worker_flag_def worker_value_def
        worker_defaults_def cli_sizes n Let_def)
qed

section \<open>Properties\<close>

text \<open>
  Every command of the administration tool whose texts fit, written in any of the three output formats,
  is parsed back to itself with a successful exit code; a verb that needs an argument and has none, and any
  other verb, give the exit codes for a missing argument and for an unknown command.
\<close>

theorem admin_cli_roundtrip:
  assumes "command_fits opts"
  shows "vom_cli_commands_parse (prog # format_words fmt @ command_words opts) =
      (CLI_EXIT_SUCCESS, Some \<lparr>type = command_type opts, format_strategy = fmt, options = opts\<rparr>)
    \<and> (opts \<noteq> NoOptions \<longrightarrow>
        cli_main (prog # format_words fmt @ [hd (command_words opts)]) = CLI_EXIT_ERR_MISSING_ARG)
    \<and> (verb \<notin> {''status'', ''submit'', ''inspect'', ''cancel'', ''drain'', ''--json'', ''--script''} \<longrightarrow>
        cli_main (prog # format_words fmt @ verb # args) = CLI_EXIT_ERR_UNKNOWN_CMD)"
proof (intro conjI impI)
  show "vom_cli_commands_parse (prog # format_words fmt @ command_words opts) =
      (CLI_EXIT_SUCCESS, Some \<lparr>type = command_type opts, format_strategy = fmt, options = opts\<rparr>)"
    using assms
    by (cases fmt; cases opts)
      (simp_all add: vom_cli_commands_parse_def output_format_def parse_verb_def empty_command_def Let_def
        cli_sizes strtoul_printed)
  assume "opts \<noteq> NoOptions"
  then show "cli_main (prog # format_words fmt @ [hd (command_words opts)]) = CLI_EXIT_ERR_MISSING_ARG"
    by (cases fmt; cases opts)
      (simp_all add: cli_main_def vom_cli_commands_parse_def output_format_def parse_verb_def Let_def)
next
  assume "verb \<notin> {''status'', ''submit'', ''inspect'', ''cancel'', ''drain'', ''--json'', ''--script''}"
  then show "cli_main (prog # format_words fmt @ verb # args) = CLI_EXIT_ERR_UNKNOWN_CMD"
    by (cases fmt)
      (simp_all add: cli_main_def vom_cli_commands_parse_def output_format_def parse_verb_def Let_def split_def)
qed

theorem admin_cli_roundtrip_witness:
  "vom_cli_commands_parse [''vom-cli'', ''--json'', ''drain'', ''node-7''] =
      (CLI_EXIT_SUCCESS, Some \<lparr>type = CMD_TYPE_WORKER_DRAIN, format_strategy = CLI_OUTPUT_JSON_STRUCTURABLE,
         options = WorkerDrain ''node-7''\<rparr>)"
  using admin_cli_roundtrip [of "WorkerDrain ''node-7''" "''vom-cli''" CLI_OUTPUT_JSON_STRUCTURABLE]
  by (simp add: cli_sizes)

end
