(* ===== verification/Resource_Monitor.thy ===== *)
theory Resource_Monitor
  imports Prelude
begin

text \<open>
  The resource monitor of a worker (\<^verbatim>\<open>worker/src/resource_monitor.c\<close>): a ring of ten samples, the
  probe with its cooldown, reservations, and the query of the latest availability with its staleness
  check.

  Every operation runs under the lock and is one step. The ring is a list of ten samples with the head
  index and the sample count of the code. Percentages are constants of the code.

  Proved: the ring stays well formed and the query returns the newest sample; the reported capacity
  never exceeds what the reservations leave; staleness; that within the cooldown the reservation is
  subtracted again from the already reduced value; that an unavailable sample is followed by a fresh
  one of zeros; the file's test sequence.
\<close>

section \<open>Data\<close>

definition MAX_SAMPLES :: nat where "MAX_SAMPLES = 10"
definition PROBE_COOLDOWN_MS :: u64 where "PROBE_COOLDOWN_MS = 2000"
definition STALE_THRESHOLD_MS :: u64 where "STALE_THRESHOLD_MS = 10000"

datatype SampleFreshness = SAMPLE_FRESH | SAMPLE_STALE | SAMPLE_UNAVAILABLE

datatype ThermalTier = THERMAL_NOMINAL | THERMAL_THROTTLED | THERMAL_CRITICAL

record ResourceSample =
  timestamp_ms :: u64
  status :: SampleFreshness
  cpu_utilization_pct :: fp
  effective_cpu_units_available :: u32
  free_ram_mb :: u64
  reclaimable_ram_mb :: u64
  free_storage_mb :: u64
  current_io_read_mbps :: u32
  battery_percentage :: fp
  thermal_state :: ThermalTier

record vom_monitor_context =
  history :: "ResourceSample list"
  head_idx :: nat
  sample_count :: nat
  reserved_cpu_units :: u32
  reserved_memory_mb :: u64
  last_heavy_probe_timestamp_ms :: u64

section \<open>Operations\<close>

definition zero_sample :: ResourceSample where
  "zero_sample = \<lparr>timestamp_ms = 0, status = SAMPLE_FRESH, cpu_utilization_pct = Fin 0,
     effective_cpu_units_available = 0, free_ram_mb = 0, reclaimable_ram_mb = 0, free_storage_mb = 0,
     current_io_read_mbps = 0, battery_percentage = Fin 0, thermal_state = THERMAL_NOMINAL\<rparr>"

definition vom_monitor_init :: "bool \<Rightarrow> vom_monitor_context option" where
  "vom_monitor_init calloc_ok =
     (if \<not> calloc_ok then None
      else Some \<lparr>history = replicate MAX_SAMPLES zero_sample, head_idx = 0, sample_count = 0,
                 reserved_cpu_units = 0, reserved_memory_mb = 0, last_heavy_probe_timestamp_ms = 0\<rparr>)"

definition prev_idx :: "vom_monitor_context \<Rightarrow> nat" where
  "prev_idx ctx = (if head_idx ctx > 0 then head_idx ctx - 1 else MAX_SAMPLES - 1)"

definition heavy_probe :: "ResourceSample \<Rightarrow> ResourceSample" where
  "heavy_probe s = s\<lparr>cpu_utilization_pct := Fin (225 / 10), free_ram_mb := 4096, reclaimable_ram_mb := 512,
     free_storage_mb := 250000, current_io_read_mbps := 45, battery_percentage := Fin 88,
     thermal_state := THERMAL_NOMINAL\<rparr>"

definition copy_probe :: "ResourceSample \<Rightarrow> ResourceSample \<Rightarrow> ResourceSample" where
  "copy_probe prev s = s\<lparr>cpu_utilization_pct := cpu_utilization_pct prev, free_ram_mb := free_ram_mb prev,
     reclaimable_ram_mb := reclaimable_ram_mb prev, free_storage_mb := free_storage_mb prev,
     current_io_read_mbps := current_io_read_mbps prev, battery_percentage := battery_percentage prev,
     thermal_state := thermal_state prev\<rparr>"

definition deduct_reservations :: "vom_monitor_context \<Rightarrow> u64 \<Rightarrow> ResourceSample \<Rightarrow> ResourceSample" where
  "deduct_reservations ctx now_ms s =
     (let physical_cores_free = 4 :: u32
      in s\<lparr>effective_cpu_units_available :=
             (if physical_cores_free > reserved_cpu_units ctx
              then physical_cores_free - reserved_cpu_units ctx else 0),
           free_ram_mb := (if free_ram_mb s > reserved_memory_mb ctx
                           then free_ram_mb s - reserved_memory_mb ctx else 0),
           timestamp_ms := now_ms, status := SAMPLE_FRESH\<rparr>)"

definition execute_hardware_metrics_probe ::
  "u64 \<Rightarrow> ResourceSample \<Rightarrow> vom_monitor_context \<Rightarrow> ResourceSample \<times> vom_monitor_context" where
  "execute_hardware_metrics_probe now_ms out_sample ctx =
     (if now_ms - last_heavy_probe_timestamp_ms ctx \<ge> PROBE_COOLDOWN_MS
      then (deduct_reservations ctx now_ms (heavy_probe out_sample),
            ctx\<lparr>last_heavy_probe_timestamp_ms := now_ms\<rparr>)
      else if sample_count ctx > 0
      then (deduct_reservations ctx now_ms (copy_probe (history ctx ! prev_idx ctx) out_sample), ctx)
      else (out_sample\<lparr>status := SAMPLE_UNAVAILABLE\<rparr>, ctx))"

definition vom_monitor_record_sample :: "u64 \<Rightarrow> vom_monitor_context \<Rightarrow> vom_monitor_context" where
  "vom_monitor_record_sample now_ms ctx =
     (let (sample, ctx1) = execute_hardware_metrics_probe now_ms zero_sample ctx
      in ctx1\<lparr>history := (history ctx1)[head_idx ctx1 := sample],
              head_idx := (head_idx ctx1 + 1) mod MAX_SAMPLES,
              sample_count := (if sample_count ctx1 < MAX_SAMPLES then sample_count ctx1 + 1
                               else sample_count ctx1)\<rparr>)"

definition vom_monitor_update_reservations ::
  "u32 \<Rightarrow> u64 \<Rightarrow> vom_monitor_context \<Rightarrow> vom_monitor_context" where
  "vom_monitor_update_reservations cpu_units memory_mb ctx =
     ctx\<lparr>reserved_cpu_units := cpu_units, reserved_memory_mb := memory_mb\<rparr>"

text \<open>The result is the returned flag together with what \<open>out_result\<close> holds afterwards.\<close>

definition vom_monitor_get_latest_availability ::
  "u64 \<Rightarrow> ResourceSample \<Rightarrow> vom_monitor_context \<Rightarrow> bool \<times> ResourceSample" where
  "vom_monitor_get_latest_availability now_ms out_result ctx =
     (if sample_count ctx = 0 then (False, out_result\<lparr>status := SAMPLE_UNAVAILABLE\<rparr>)
      else
        (let latest = history ctx ! prev_idx ctx;
             res = (if now_ms - timestamp_ms latest > STALE_THRESHOLD_MS
                    then latest\<lparr>status := SAMPLE_STALE\<rparr> else latest)
         in (status res = SAMPLE_FRESH, res)))"

text \<open>The file's own test sequence: whether its three checks pass.\<close>

definition execute_monitor_test_suite :: "bool list" where
  "execute_monitor_test_suite =
     (let m0 = the (vom_monitor_init True);
          m1 = vom_monitor_record_sample 5000 m0;
          res1 = snd (vom_monitor_get_latest_availability 5000 zero_sample m1);
          m2 = vom_monitor_update_reservations 2 1024 m1;
          m3 = vom_monitor_record_sample 5500 m2;
          res2 = snd (vom_monitor_get_latest_availability 5500 res1 m3);
          res3 = snd (vom_monitor_get_latest_availability 20500 res2 m3)
      in [status res1 = SAMPLE_FRESH, effective_cpu_units_available res2 = 2, status res3 = SAMPLE_STALE])"

section \<open>The ring\<close>

lemmas monitor_consts [simp] = MAX_SAMPLES_def PROBE_COOLDOWN_MS_def STALE_THRESHOLD_MS_def

inductive monitor_step :: "vom_monitor_context \<Rightarrow> vom_monitor_context \<Rightarrow> bool" where
  ms_record: "monitor_step ctx (vom_monitor_record_sample now ctx)"
| ms_reserve: "monitor_step ctx (vom_monitor_update_reservations cpu mem ctx)"

definition monitor_boot :: vom_monitor_context where
  "monitor_boot = the (vom_monitor_init True)"

definition monitor_inv :: "vom_monitor_context \<Rightarrow> bool" where
  "monitor_inv ctx \<longleftrightarrow> length (history ctx) = MAX_SAMPLES \<and> head_idx ctx < MAX_SAMPLES
   \<and> sample_count ctx \<le> MAX_SAMPLES \<and> (sample_count ctx < MAX_SAMPLES \<longrightarrow> head_idx ctx = sample_count ctx)
   \<and> (\<forall>s \<in> set (history ctx). effective_cpu_units_available s \<le> 4 \<and> free_ram_mb s \<le> 4096)"

definition recorded :: "u64 \<Rightarrow> vom_monitor_context \<Rightarrow> ResourceSample" where
  "recorded now ctx = fst (execute_hardware_metrics_probe now zero_sample ctx)"

lemma probe_frame [simp]:
  "history (snd (execute_hardware_metrics_probe now s ctx)) = history ctx"
  "head_idx (snd (execute_hardware_metrics_probe now s ctx)) = head_idx ctx"
  "sample_count (snd (execute_hardware_metrics_probe now s ctx)) = sample_count ctx"
  "reserved_cpu_units (snd (execute_hardware_metrics_probe now s ctx)) = reserved_cpu_units ctx"
  "reserved_memory_mb (snd (execute_hardware_metrics_probe now s ctx)) = reserved_memory_mb ctx"
  by (simp_all add: execute_hardware_metrics_probe_def)

lemma record_simps [simp]:
  "history (vom_monitor_record_sample now ctx) = (history ctx)[head_idx ctx := recorded now ctx]"
  "head_idx (vom_monitor_record_sample now ctx) = (head_idx ctx + 1) mod MAX_SAMPLES"
  "sample_count (vom_monitor_record_sample now ctx) =
    (if sample_count ctx < MAX_SAMPLES then sample_count ctx + 1 else sample_count ctx)"
  by (simp_all add: vom_monitor_record_sample_def recorded_def case_prod_beta)

lemma monitor_inv_prev: "monitor_inv ctx \<Longrightarrow> prev_idx ctx < length (history ctx)"
  by (auto simp: monitor_inv_def prev_idx_def)

lemma cap_sub_le:
  fixes a r c :: "'a::len word"
  assumes "a \<le> c"
  shows "(if a > r then a - r else 0) \<le> c"
proof -
  have "a - r \<le> a" if "a > r" using that by (simp add: word_sub_le)
  with assms show ?thesis by auto
qed

lemma deduct_bounds:
  assumes "free_ram_mb s \<le> 4096"
  shows "effective_cpu_units_available (deduct_reservations ctx now s) \<le> 4"
    "free_ram_mb (deduct_reservations ctx now s) \<le> 4096"
  using cap_sub_le [of "4 :: u32" 4 "reserved_cpu_units ctx"] cap_sub_le [OF assms, of "reserved_memory_mb ctx"]
  by (simp_all add: deduct_reservations_def Let_def)

lemma recorded_bounds:
  assumes "monitor_inv ctx"
  shows "effective_cpu_units_available (recorded now ctx) \<le> 4 \<and> free_ram_mb (recorded now ctx) \<le> 4096"
proof -
  have "free_ram_mb (history ctx ! prev_idx ctx) \<le> 4096"
    using monitor_inv_prev [OF assms] assms by (simp add: monitor_inv_def)
  then have "free_ram_mb (copy_probe (history ctx ! prev_idx ctx) zero_sample) \<le> 4096"
    by (simp add: copy_probe_def)
  moreover have "free_ram_mb (heavy_probe zero_sample) \<le> 4096" by (simp add: heavy_probe_def)
  ultimately show ?thesis using deduct_bounds
    by (auto simp: recorded_def execute_hardware_metrics_probe_def zero_sample_def)
qed

lemma monitor_step_inv: "monitor_step ctx ctx' \<Longrightarrow> monitor_inv ctx \<Longrightarrow> monitor_inv ctx'"
proof (induction rule: monitor_step.induct)
  case (ms_record ctx now)
  have "\<forall>s \<in> set ((history ctx)[head_idx ctx := recorded now ctx]).
      effective_cpu_units_available s \<le> 4 \<and> free_ram_mb s \<le> 4096"
    using ms_record recorded_bounds [OF ms_record, of now]
    by (auto simp: monitor_inv_def dest!: set_update_subset_insert [THEN subsetD])
  with ms_record show ?case by (auto simp: monitor_inv_def mod_Suc)
qed (simp add: monitor_inv_def vom_monitor_update_reservations_def)

lemma monitor_steps_inv: "monitor_step\<^sup>*\<^sup>* monitor_boot ctx \<Longrightarrow> monitor_inv ctx"
proof (induction rule: rtranclp_induct)
  case base
  show ?case by (simp add: monitor_boot_def vom_monitor_init_def monitor_inv_def zero_sample_def)
qed (rule monitor_step_inv)

lemma prev_after_record:
  assumes "monitor_inv ctx"
  shows "history (vom_monitor_record_sample now ctx) ! prev_idx (vom_monitor_record_sample now ctx) = recorded now ctx"
  using assms by (auto simp: prev_idx_def monitor_inv_def mod_Suc)

section \<open>Properties\<close>

text \<open>
  in every reachable monitor, recording a sample makes it the one that the next query returns. The
  query reports it stale exactly when more than ten seconds have passed since its time stamp, and
  succeeds exactly when it is fresh. A sample that is not unavailable offers exactly the four cores
  less the reserved ones (none when all are reserved), and its free memory leaves the reservation
  within the 4096 MB of the device.\<close>

theorem latest_availability_sound:
  assumes "monitor_step\<^sup>*\<^sup>* monitor_boot ctx" "ctx' = vom_monitor_record_sample now ctx"
    and "vom_monitor_get_latest_availability now' out ctx' = (ok, res)"
  shows "(status res = SAMPLE_STALE \<longleftrightarrow> now' - timestamp_ms (recorded now ctx) > STALE_THRESHOLD_MS)
    \<and> (status res \<noteq> SAMPLE_STALE \<longrightarrow> res = recorded now ctx)
    \<and> (ok \<longleftrightarrow> status res = SAMPLE_FRESH)
    \<and> (status (recorded now ctx) = SAMPLE_FRESH \<longrightarrow> timestamp_ms res = now
         \<and> unat (effective_cpu_units_available res) = 4 - unat (reserved_cpu_units ctx)
         \<and> unat (free_ram_mb res) \<le> 4096 - unat (reserved_memory_mb ctx))"
proof -
  let ?r = "recorded now ctx"
  have inv: "monitor_inv ctx" using assms(1) by (rule monitor_steps_inv)
  have "sample_count ctx' \<noteq> 0" using assms(2) by simp
  with assms(3) prev_after_record [OF inv, of now] have res:
    "res = (if now' - timestamp_ms ?r > STALE_THRESHOLD_MS then ?r\<lparr>status := SAMPLE_STALE\<rparr> else ?r)"
    "ok \<longleftrightarrow> status res = SAMPLE_FRESH"
    by (auto simp: vom_monitor_get_latest_availability_def Let_def assms(2) simp del: record_simps)
  have "status ?r \<noteq> SAMPLE_STALE"
    by (simp add: recorded_def execute_hardware_metrics_probe_def deduct_reservations_def Let_def)
  have ex: "\<exists>s. ?r = deduct_reservations ctx now s \<and> free_ram_mb s \<le> 4096" if "status ?r = SAMPLE_FRESH"
  proof -
    have "free_ram_mb (history ctx ! prev_idx ctx) \<le> 4096"
      using monitor_inv_prev [OF inv] inv by (simp add: monitor_inv_def)
    then have "free_ram_mb (copy_probe (history ctx ! prev_idx ctx) zero_sample) \<le> 4096"
      "free_ram_mb (heavy_probe zero_sample) \<le> 4096" by (simp_all add: copy_probe_def heavy_probe_def)
    then show ?thesis using that by (auto simp: recorded_def execute_hardware_metrics_probe_def split: if_splits)
  qed
  have "timestamp_ms ?r = now \<and> unat (effective_cpu_units_available ?r) = 4 - unat (reserved_cpu_units ctx)
      \<and> unat (free_ram_mb ?r) \<le> 4096 - unat (reserved_memory_mb ctx)" if fresh: "status ?r = SAMPLE_FRESH"
  proof -
    obtain s where s: "?r = deduct_reservations ctx now s" "free_ram_mb s \<le> 4096" using ex [OF fresh] by blast
    have "unat (free_ram_mb s) \<le> 4096" using s(2) by (simp add: word_le_nat_alt)
    then show ?thesis
      by (auto simp: s(1) deduct_reservations_def Let_def unat_sub word_le_nat_alt word_less_nat_alt not_less)
  qed
  with res \<open>status ?r \<noteq> SAMPLE_STALE\<close> show ?thesis by auto
qed

theorem latest_availability_sound_witness:
  "let ctx = vom_monitor_update_reservations 3 1000 monitor_boot;
       res = snd (vom_monitor_get_latest_availability 5000 zero_sample (vom_monitor_record_sample 5000 ctx))
   in unat (effective_cpu_units_available res) = 1 \<and> unat (free_ram_mb res) \<le> 3096"
proof -
  let ?ctx = "vom_monitor_update_reservations 3 1000 monitor_boot"
  obtain ok res where r: "vom_monitor_get_latest_availability 5000 zero_sample
      (vom_monitor_record_sample 5000 ?ctx) = (ok, res)" by fastforce
  have "monitor_step\<^sup>*\<^sup>* monitor_boot ?ctx" by (rule r_into_rtranclp) (rule ms_reserve)
  moreover have "status (recorded 5000 ?ctx) = SAMPLE_FRESH"
    by (simp add: recorded_def execute_hardware_metrics_probe_def deduct_reservations_def Let_def
        vom_monitor_update_reservations_def monitor_boot_def vom_monitor_init_def)
  ultimately show ?thesis using latest_availability_sound [OF _ refl r] r
    by (simp add: vom_monitor_update_reservations_def)
qed

text \<open>
  a sample taken within the cooldown subtracts the memory reservation once more from the value
  that was already reduced: after a full probe and one cached sample the monitor reports the device's
  4096 MB less twice the reservation.\<close>

theorem cached_sample_deducts_twice:
  assumes "monitor_inv ctx" "now - last_heavy_probe_timestamp_ms ctx \<ge> PROBE_COOLDOWN_MS"
    and "now' - now < PROBE_COOLDOWN_MS" "reserved_memory_mb ctx \<le> 2000"
  shows "free_ram_mb (recorded now' (vom_monitor_record_sample now ctx)) = 4096 - 2 * reserved_memory_mb ctx"
proof -
  let ?m = "reserved_memory_mb ctx" and ?c = "vom_monitor_record_sample now ctx"
  have c: "last_heavy_probe_timestamp_ms ?c = now" "sample_count ?c > 0" "reserved_memory_mb ?c = ?m"
    using assms(2) by (simp_all add: vom_monitor_record_sample_def execute_hardware_metrics_probe_def)
  have m: "unat ?m \<le> 2000" using assms(4) by (simp add: word_le_nat_alt)
  then have lt: "?m < 4096" "?m < 4096 - ?m"
    by (simp_all add: word_less_nat_alt unat_sub word_le_nat_alt)
  have first: "free_ram_mb (recorded now ctx) = 4096 - ?m"
    using assms(2) lt by (simp add: recorded_def execute_hardware_metrics_probe_def
        deduct_reservations_def heavy_probe_def Let_def)
  have "\<not> now' - now \<ge> PROBE_COOLDOWN_MS" using assms(3) by simp
  then have "free_ram_mb (recorded now' ?c) = (4096 - ?m) - ?m"
    using c lt first prev_after_record [OF assms(1), of now]
    by (simp add: recorded_def [of now'] execute_hardware_metrics_probe_def deduct_reservations_def
        copy_probe_def Let_def del: record_simps monitor_consts)
  then show ?thesis by simp
qed

theorem cached_sample_deducts_twice_witness:
  "let ctx = vom_monitor_update_reservations 2 1024 monitor_boot
   in free_ram_mb (recorded 5500 (vom_monitor_record_sample 5000 ctx)) = 2048"
proof -
  let ?ctx = "vom_monitor_update_reservations 2 1024 monitor_boot"
  have "monitor_inv ?ctx"
    by (rule monitor_steps_inv) (rule r_into_rtranclp, rule ms_reserve)
  moreover have "5000 - last_heavy_probe_timestamp_ms ?ctx \<ge> PROBE_COOLDOWN_MS" "reserved_memory_mb ?ctx = 1024"
    by (simp_all add: vom_monitor_update_reservations_def monitor_boot_def vom_monitor_init_def)
  moreover have "(5500 :: u64) - 5000 < PROBE_COOLDOWN_MS" by simp
  ultimately show ?thesis using cached_sample_deducts_twice [of ?ctx 5000 5500] by simp
qed

text \<open>The file's own test sequence passes its three checks.\<close>

lemma monitor_suite_passes: "execute_monitor_test_suite = [True, True, True]"
  by (simp add: execute_monitor_test_suite_def vom_monitor_init_def vom_monitor_record_sample_def
      execute_hardware_metrics_probe_def vom_monitor_get_latest_availability_def prev_idx_def
      vom_monitor_update_reservations_def deduct_reservations_def heavy_probe_def copy_probe_def
      zero_sample_def Let_def)

text \<open>A sample after an unavailable one copies its zeros and is marked fresh.\<close>

lemma unavailable_then_zeros:
  "recorded 600 (vom_monitor_record_sample 500 monitor_boot) =
    zero_sample\<lparr>timestamp_ms := 600, effective_cpu_units_available := 4\<rparr>"
  by (simp add: recorded_def monitor_boot_def vom_monitor_init_def vom_monitor_record_sample_def
      execute_hardware_metrics_probe_def prev_idx_def deduct_reservations_def copy_probe_def zero_sample_def Let_def)

end
