(* ===== verification/Worker_Recovery.thy ===== *)
theory Worker_Recovery
  imports Prelude
begin

text \<open>
  The recovery bookkeeping of a worker (\<^verbatim>\<open>worker/src/recovery.c\<close>): the leases it holds, draining,
  revocation, completion, the reconciliation with the master's list after a reconnect, and the claim
  of a result.

  The component has no lock (it is used from one thread). The array with its count is a list; the
  \<open>while\<close> loop of the reconciliation, which closes gaps with \<open>memmove\<close> while it walks, is a
  function on the list and the index, with the number of entries still ahead as its measure.

  Proved: the loop ends and equals a single pass that keeps, changes or drops each lease on its own;
  what is left after it; that only finished work can be claimed; that revoked leases are never
  removed, so that sixteen of them end the worker's capacity for good.
\<close>

section \<open>Data\<close>

definition WORKER_MAX_ACTIVE_LEASES :: nat where "WORKER_MAX_ACTIVE_LEASES = 16"
definition IDENTITY_NAME_MAX :: nat where "IDENTITY_NAME_MAX = 64"

datatype WorkerChunkState = CHUNK_RUNNING | CHUNK_REVOKED | CHUNK_COMPLETED | CHUNK_RECONCILED

record worker_active_lease_t =
  lease_id :: u64
  chunk_id :: u64
  state :: WorkerChunkState
  output_checksum :: string
  partial_output_preserved :: bool
  policy_discard_on_cancel :: bool

record vom_worker_recovery_context =
  active_leases :: "worker_active_lease_t list"
  is_draining :: bool
  is_connected_to_master :: bool

section \<open>Operations\<close>

definition vom_worker_recovery_init :: "bool \<Rightarrow> vom_worker_recovery_context option" where
  "vom_worker_recovery_init calloc_ok =
     (if \<not> calloc_ok then None
      else Some \<lparr>active_leases = [], is_draining = False, is_connected_to_master = True\<rparr>)"

definition vom_worker_recovery_set_drain ::
  "bool \<Rightarrow> vom_worker_recovery_context \<Rightarrow> vom_worker_recovery_context" where
  "vom_worker_recovery_set_drain drain_active ctx = ctx\<lparr>is_draining := drain_active\<rparr>"

definition vom_worker_recovery_accept_new_chunk ::
  "u64 \<Rightarrow> u64 \<Rightarrow> bool \<Rightarrow> vom_worker_recovery_context \<Rightarrow> bool \<times> vom_worker_recovery_context" where
  "vom_worker_recovery_accept_new_chunk lid cid discard_policy ctx =
     (if is_draining ctx then (False, ctx)
      else if length (active_leases ctx) \<ge> WORKER_MAX_ACTIVE_LEASES then (False, ctx)
      else (True, ctx\<lparr>active_leases := active_leases ctx @
             [\<lparr>lease_id = lid, chunk_id = cid, state = CHUNK_RUNNING, output_checksum = [],
               partial_output_preserved = False, policy_discard_on_cancel = discard_policy\<rparr>]\<rparr>))"

definition revoke_lease :: "worker_active_lease_t \<Rightarrow> worker_active_lease_t" where
  "revoke_lease l = l\<lparr>state := CHUNK_REVOKED, partial_output_preserved := \<not> policy_discard_on_cancel l\<rparr>"

definition vom_worker_recovery_handle_revocation ::
  "u64 \<Rightarrow> vom_worker_recovery_context \<Rightarrow> vom_worker_recovery_context" where
  "vom_worker_recovery_handle_revocation lid ctx =
     ctx\<lparr>active_leases := upd_first (\<lambda>l. lease_id l = lid) revoke_lease (active_leases ctx)\<rparr>"

definition vom_worker_recovery_on_disconnect ::
  "vom_worker_recovery_context \<Rightarrow> vom_worker_recovery_context" where
  "vom_worker_recovery_on_disconnect ctx = ctx\<lparr>is_connected_to_master := False\<rparr>"

function reconcile_loop ::
  "u64 list \<Rightarrow> worker_active_lease_t list \<Rightarrow> nat \<Rightarrow> worker_active_lease_t list" where
  "reconcile_loop auth leases i =
     (if i < length leases then
        (let l = leases ! i; matched = list_ex (\<lambda>a. a = lease_id l) auth in
         if \<not> matched then
           (let l' = (if state l = CHUNK_RUNNING then revoke_lease l else l) in
            if state l' \<noteq> CHUNK_REVOKED
            then reconcile_loop auth (take i leases @ drop (i + 1) leases) i
            else reconcile_loop auth (leases[i := l']) (i + 1))
         else
           (let l' = (if state l = CHUNK_COMPLETED then l\<lparr>state := CHUNK_RECONCILED\<rparr> else l)
            in reconcile_loop auth (leases[i := l']) (i + 1)))
      else leases)"
  by pat_completeness auto
termination
  by (relation "measure (\<lambda>(auth, leases, i). length leases - i)") (auto simp: Let_def split: if_splits)

declare reconcile_loop.simps [simp del]

definition vom_worker_recovery_reconnect_reconcile ::
  "u64 list \<Rightarrow> vom_worker_recovery_context \<Rightarrow> vom_worker_recovery_context" where
  "vom_worker_recovery_reconnect_reconcile authoritative_leases ctx =
     ctx\<lparr>is_connected_to_master := True,
         active_leases := reconcile_loop authoritative_leases (active_leases ctx) 0\<rparr>"

definition vom_worker_recovery_claim_result ::
  "u64 \<Rightarrow> vom_worker_recovery_context \<Rightarrow> string option" where
  "vom_worker_recovery_claim_result lid ctx =
     (case lookup_by lease_id lid (active_leases ctx) of
        None \<Rightarrow> None
      | Some l \<Rightarrow> if state l \<noteq> CHUNK_RECONCILED \<and> state l \<noteq> CHUNK_COMPLETED then None
                  else Some (c_strncpy (IDENTITY_NAME_MAX - 1) (output_checksum l)))"

definition vom_worker_recovery_complete_chunk ::
  "u64 \<Rightarrow> string option \<Rightarrow> vom_worker_recovery_context \<Rightarrow> vom_worker_recovery_context" where
  "vom_worker_recovery_complete_chunk lid checksum ctx =
     (case checksum of
        None \<Rightarrow> ctx
      | Some s \<Rightarrow>
          ctx\<lparr>active_leases := upd_first (\<lambda>l. lease_id l = lid \<and> state l = CHUNK_RUNNING)
            (\<lambda>l. l\<lparr>state := CHUNK_COMPLETED, output_checksum := c_strncpy (IDENTITY_NAME_MAX - 1) s\<rparr>)
            (active_leases ctx)\<rparr>)"

text \<open>The file's own test sequence: its four verdicts and the claimed hash.\<close>

definition execute_worker_recovery_test_suite :: "bool list \<times> string option" where
  "execute_worker_recovery_test_suite =
     (let rec0 = the (vom_worker_recovery_init True);
          (r1, rec1) = vom_worker_recovery_accept_new_chunk 9001 101 True rec0;
          rec2 = vom_worker_recovery_set_drain True rec1;
          (r2, rec3) = vom_worker_recovery_accept_new_chunk 9002 102 True rec2;
          rec4 = vom_worker_recovery_set_drain False rec3;
          rec5 = snd (vom_worker_recovery_accept_new_chunk 9003 103 False rec4);
          rec6 = vom_worker_recovery_handle_revocation 9003 rec5;
          rec7 = snd (vom_worker_recovery_accept_new_chunk 9004 104 True rec6);
          rec8 = vom_worker_recovery_complete_chunk 9004 (Some ''sha256-verified-output'') rec7;
          rec9 = vom_worker_recovery_reconnect_reconcile [9004] rec8;
          claimed_hash = vom_worker_recovery_claim_result 9004 rec9;
          stray = vom_worker_recovery_claim_result 9001 rec9
      in ([r1, \<not> r2, claimed_hash \<noteq> None, stray = None], claimed_hash))"

section \<open>The reconciliation as one pass\<close>

lemmas worker_recovery_sizes [simp] = WORKER_MAX_ACTIVE_LEASES_def IDENTITY_NAME_MAX_def

text \<open>What the master's list makes of one lease: the kept lease, or nothing.\<close>

definition reconcile_one :: "u64 set \<Rightarrow> worker_active_lease_t \<Rightarrow> worker_active_lease_t option" where
  "reconcile_one auth l =
     (if lease_id l \<in> auth
      then Some (if state l = CHUNK_COMPLETED then l\<lparr>state := CHUNK_RECONCILED\<rparr> else l)
      else if state l = CHUNK_RUNNING then Some (revoke_lease l)
      else if state l = CHUNK_REVOKED then Some l else None)"

lemma revoke_state [simp]: "state (revoke_lease l) = CHUNK_REVOKED"
  by (simp add: revoke_lease_def)

lemma reconcile_loop_eq:
  "reconcile_loop auth (done @ rest) (length done) =
    done @ List.map_filter (reconcile_one (set auth)) rest"
proof (induction rest arbitrary: "done")
  case Nil
  then show ?case by (simp add: reconcile_loop.simps map_filter_simps)
next
  case (Cons l rest)
  let ?keep = "\<lambda>l'. reconcile_loop auth (done @ l' # rest) (Suc (length done)) =
      done @ l' # List.map_filter (reconcile_one (set auth)) rest"
  have keep: "?keep l'" for l' using Cons.IH [of "done @ [l']"] by simp
  have ex: "list_ex (\<lambda>a. a = lease_id l) auth \<longleftrightarrow> lease_id l \<in> set auth" by (auto simp: list_ex_iff)
  have step: "reconcile_loop auth (done @ l # rest) (length done) =
      (case reconcile_one (set auth) l of None \<Rightarrow> reconcile_loop auth (done @ rest) (length done)
       | Some l' \<Rightarrow> reconcile_loop auth (done @ l' # rest) (Suc (length done)))"
    by (subst reconcile_loop.simps) (simp add: reconcile_one_def Let_def ex nth_append list_update_append)
  show ?case
    unfolding step using Cons.IH keep
    by (cases "reconcile_one (set auth) l") (simp_all add: map_filter_simps)
qed

lemma reconcile_leases:
  "active_leases (vom_worker_recovery_reconnect_reconcile auth ctx) =
    List.map_filter (reconcile_one (set auth)) (active_leases ctx)"
  using reconcile_loop_eq [of auth "[]" "active_leases ctx"]
  by (simp add: vom_worker_recovery_reconnect_reconcile_def)

section \<open>Revoked leases\<close>

inductive wrec_step :: "vom_worker_recovery_context \<Rightarrow> vom_worker_recovery_context \<Rightarrow> bool" where
  wr_drain: "wrec_step ctx (vom_worker_recovery_set_drain b ctx)"
| wr_accept: "wrec_step ctx (snd (vom_worker_recovery_accept_new_chunk lid cid disc ctx))"
| wr_revoke: "wrec_step ctx (vom_worker_recovery_handle_revocation lid ctx)"
| wr_disconnect: "wrec_step ctx (vom_worker_recovery_on_disconnect ctx)"
| wr_reconcile: "wrec_step ctx (vom_worker_recovery_reconnect_reconcile auth ctx)"
| wr_complete: "wrec_step ctx (vom_worker_recovery_complete_chunk lid s ctx)"

inductive_cases wrec_stepE: "wrec_step ctx ctx'"

definition revoked_count :: "vom_worker_recovery_context \<Rightarrow> nat" where
  "revoked_count ctx = length (filter (\<lambda>l. state l = CHUNK_REVOKED) (active_leases ctx))"

lemma count_upd_first:
  "(\<And>l. P l \<Longrightarrow> Q l \<Longrightarrow> Q (f l)) \<Longrightarrow> length (filter Q xs) \<le> length (filter Q (upd_first P f xs))"
  by (induction xs) auto

lemma count_reconcile:
  "length (filter (\<lambda>l. state l = CHUNK_REVOKED) ls) \<le>
    length (filter (\<lambda>l. state l = CHUNK_REVOKED) (List.map_filter (reconcile_one auth) ls))"
  by (induction ls) (auto simp: map_filter_simps reconcile_one_def split: option.splits)

lemma revoked_count_step: "wrec_step ctx ctx' \<Longrightarrow> revoked_count ctx \<le> revoked_count ctx'"
  by (elim wrec_stepE)
    (auto simp: revoked_count_def vom_worker_recovery_set_drain_def vom_worker_recovery_accept_new_chunk_def
      vom_worker_recovery_handle_revocation_def vom_worker_recovery_on_disconnect_def reconcile_leases
      vom_worker_recovery_complete_chunk_def count_reconcile intro!: count_upd_first split: option.splits)

lemma revoked_count_steps: "wrec_step\<^sup>*\<^sup>* ctx ctx' \<Longrightarrow> revoked_count ctx \<le> revoked_count ctx'"
  by (induction rule: rtranclp_induct) (auto dest: revoked_count_step)

section \<open>Properties\<close>

text \<open>
  C29: the walking reconciliation loop, which closes gaps as it goes, ends and treats every lease once
  and independently: a lease on the master's list stays (completed work becomes reconciled), a running
  lease that is not on it becomes revoked, keeping partial output unless its policy discards it, a
  revoked one stays, and completed or reconciled work that is not on it is dropped; the order is kept.\<close>

theorem reconcile_is_single_pass:
  "active_leases (vom_worker_recovery_reconnect_reconcile auth ctx) =
    List.map_filter (\<lambda>l.
      if lease_id l \<in> set auth then Some (if state l = CHUNK_COMPLETED then l\<lparr>state := CHUNK_RECONCILED\<rparr> else l)
      else if state l = CHUNK_RUNNING
      then Some (l\<lparr>state := CHUNK_REVOKED, partial_output_preserved := \<not> policy_discard_on_cancel l\<rparr>)
      else if state l = CHUNK_REVOKED then Some l else None) (active_leases ctx)
   \<and> is_connected_to_master (vom_worker_recovery_reconnect_reconcile auth ctx)"
  unfolding reconcile_leases reconcile_one_def [abs_def] revoke_lease_def
  by (simp add: vom_worker_recovery_reconnect_reconcile_def)

text \<open>
  no operation ever removes a revoked lease; once all sixteen slots hold revoked leases, the worker
  refuses every new chunk after any further sequence of operations.\<close>

theorem revoked_leases_exhaust_worker:
  assumes "revoked_count ctx = WORKER_MAX_ACTIVE_LEASES" "wrec_step\<^sup>*\<^sup>* ctx ctx'"
  shows "revoked_count ctx' \<ge> WORKER_MAX_ACTIVE_LEASES
    \<and> vom_worker_recovery_accept_new_chunk lid cid disc ctx' = (False, ctx')"
proof -
  have le: "WORKER_MAX_ACTIVE_LEASES \<le> revoked_count ctx'"
    using revoked_count_steps [OF assms(2)] assms(1) by simp
  also have "revoked_count ctx' \<le> length (active_leases ctx')" by (simp add: revoked_count_def)
  finally show ?thesis using le by (simp add: vom_worker_recovery_accept_new_chunk_def)
qed

definition demo_revoked :: vom_worker_recovery_context where
  "demo_revoked = \<lparr>active_leases = map (\<lambda>i. \<lparr>lease_id = of_nat i, chunk_id = of_nat i, state = CHUNK_REVOKED,
     output_checksum = [], partial_output_preserved = True, policy_discard_on_cancel = False\<rparr>) [0..<16],
     is_draining = False, is_connected_to_master = True\<rparr>"

theorem revoked_leases_exhaust_worker_witness:
  "revoked_count demo_revoked = WORKER_MAX_ACTIVE_LEASES
   \<and> \<not> fst (vom_worker_recovery_accept_new_chunk 99 1 True
        (vom_worker_recovery_reconnect_reconcile [] demo_revoked))"
proof -
  have 1: "revoked_count demo_revoked = WORKER_MAX_ACTIVE_LEASES"
    by (simp add: revoked_count_def demo_revoked_def filter_map comp_def)
  have "wrec_step\<^sup>*\<^sup>* demo_revoked (vom_worker_recovery_reconnect_reconcile [] demo_revoked)"
    by (rule r_into_rtranclp) (rule wr_reconcile)
  from revoked_leases_exhaust_worker [OF 1 this, of 99 1 True] 1 show ?thesis by simp
qed

text \<open>
  The file's own test sequence passes all four of its checks and claims the stored hash.\<close>

lemma worker_recovery_suite_passes:
  "execute_worker_recovery_test_suite = ([True, True, True, True], Some ''sha256-verified-output'')"
proof -
  have "reconcile_loop auth ls 0 = List.map_filter (reconcile_one (set auth)) ls" for auth ls
    using reconcile_loop_eq [of auth "[]" ls] by simp
  then show ?thesis
    by (simp add: execute_worker_recovery_test_suite_def vom_worker_recovery_init_def
        vom_worker_recovery_accept_new_chunk_def vom_worker_recovery_set_drain_def
        vom_worker_recovery_handle_revocation_def vom_worker_recovery_complete_chunk_def
        vom_worker_recovery_reconnect_reconcile_def vom_worker_recovery_claim_result_def
        revoke_lease_def reconcile_one_def map_filter_simps Let_def)
qed

end
