(* ===== verification/Worker_State.thy ===== *)
theory Worker_State
  imports Prelude
begin

text \<open>
  The lifecycle state machine of a worker (\<^verbatim>\<open>worker/src/worker_state.c\<close>): the transition table,
  the task counter that moves between registered and running, and the file's own test sequence.

  Each operation runs under the lock and is one step of \<open>worker_step\<close>. A task change is a C
  \<open>int\<close>; its negation is converted to \<open>uint32_t\<close>, so the counter arithmetic is that of
  32-bit words.

  Proved: shutdown is final; a running worker has active tasks unless the counter wraps; the test
  sequence passes; a drained worker that resumes with tasks is registered, not running.
\<close>

section \<open>Data\<close>

datatype WorkerState = WRK_STATE_OFFLINE | WRK_STATE_CONNECTED | WRK_STATE_REGISTERED
  | WRK_STATE_RUNNING | WRK_STATE_DRAINING | WRK_STATE_SHUTDOWN

datatype WorkerEvent = WRK_EVENT_CONNECT | WRK_EVENT_REGISTER_SUCCESS | WRK_EVENT_START_DRAIN
  | WRK_EVENT_STOP_DRAIN | WRK_EVENT_DISCONNECT | WRK_EVENT_TERMINATE

record vom_worker_state_t =
  current_state :: WorkerState
  last_transition_ms :: u64
  active_tasks_count :: u32
  master_endpoint :: string

section \<open>Operations\<close>

definition vom_worker_state_init :: "bool \<Rightarrow> vom_worker_state_t option" where
  "vom_worker_state_init calloc_ok =
     (if \<not> calloc_ok then None
      else Some \<lparr>current_state = WRK_STATE_OFFLINE, last_transition_ms = 0, active_tasks_count = 0,
                 master_endpoint = []\<rparr>)"

definition vom_worker_state_get :: "vom_worker_state_t \<Rightarrow> WorkerState" where
  "vom_worker_state_get ctx = current_state ctx"

text \<open>The switch: the next state, or nothing when the event is not allowed.\<close>

fun next_state :: "WorkerState \<Rightarrow> WorkerEvent \<Rightarrow> WorkerState option" where
  "next_state WRK_STATE_OFFLINE event =
     (if event = WRK_EVENT_CONNECT then Some WRK_STATE_CONNECTED else None)"
| "next_state WRK_STATE_CONNECTED event =
     (if event = WRK_EVENT_REGISTER_SUCCESS then Some WRK_STATE_REGISTERED
      else if event = WRK_EVENT_DISCONNECT then Some WRK_STATE_OFFLINE else None)"
| "next_state WRK_STATE_REGISTERED event =
     (if event = WRK_EVENT_START_DRAIN then Some WRK_STATE_DRAINING
      else if event = WRK_EVENT_DISCONNECT then Some WRK_STATE_OFFLINE
      else if event = WRK_EVENT_TERMINATE then Some WRK_STATE_SHUTDOWN else None)"
| "next_state WRK_STATE_RUNNING event =
     (if event = WRK_EVENT_START_DRAIN then Some WRK_STATE_DRAINING
      else if event = WRK_EVENT_DISCONNECT then Some WRK_STATE_OFFLINE
      else if event = WRK_EVENT_TERMINATE then Some WRK_STATE_SHUTDOWN else None)"
| "next_state WRK_STATE_DRAINING event =
     (if event = WRK_EVENT_STOP_DRAIN then Some WRK_STATE_REGISTERED
      else if event = WRK_EVENT_DISCONNECT then Some WRK_STATE_OFFLINE
      else if event = WRK_EVENT_TERMINATE then Some WRK_STATE_SHUTDOWN else None)"
| "next_state WRK_STATE_SHUTDOWN event = None"

definition vom_worker_state_transition ::
  "WorkerEvent \<Rightarrow> u64 \<Rightarrow> string option \<Rightarrow> vom_worker_state_t \<Rightarrow> bool \<times> vom_worker_state_t" where
  "vom_worker_state_transition event now_ms endpoint ctx =
     (case next_state (current_state ctx) event of
        None \<Rightarrow> (False, ctx)
      | Some next \<Rightarrow>
          (let ctx' = (case endpoint of
                         Some e \<Rightarrow> if current_state ctx = WRK_STATE_OFFLINE
                                   then ctx\<lparr>master_endpoint := c_strncpy 127 e\<rparr> else ctx
                       | None \<Rightarrow> ctx)
           in (True, ctx'\<lparr>current_state := next, last_transition_ms := now_ms\<rparr>)))"

definition vom_worker_state_update_tasks :: "int \<Rightarrow> vom_worker_state_t \<Rightarrow> vom_worker_state_t" where
  "vom_worker_state_update_tasks delta ctx =
     (if delta > 0
      then ctx\<lparr>active_tasks_count := active_tasks_count ctx + word_of_int delta,
               current_state := (if current_state ctx = WRK_STATE_REGISTERED
                                 then WRK_STATE_RUNNING else current_state ctx)\<rparr>
      else if delta < 0
      then (let u_delta = word_of_int (- delta);
                tasks = (if active_tasks_count ctx \<ge> u_delta
                         then active_tasks_count ctx - u_delta else 0)
            in ctx\<lparr>active_tasks_count := tasks,
                   current_state := (if tasks = 0 \<and> current_state ctx = WRK_STATE_RUNNING
                                     then WRK_STATE_REGISTERED else current_state ctx)\<rparr>)
      else ctx)"

text \<open>The test sequence: its verdicts in order and the states it prints.\<close>

definition execute_worker_state_test_suite :: "bool list \<times> WorkerState list" where
  "execute_worker_state_test_suite =
     (let ws0 = the (vom_worker_state_init True);
          (r1, ws1) = vom_worker_state_transition WRK_EVENT_CONNECT 1000 (Some ''tcp://127.0.0.1:5555'') ws0;
          (r2, ws2) = vom_worker_state_transition WRK_EVENT_REGISTER_SUCCESS 1100 None ws1;
          ws3 = vom_worker_state_update_tasks 2 ws2;
          (r3, ws4) = vom_worker_state_transition WRK_EVENT_START_DRAIN 1200 None ws3;
          (r4, ws5) = vom_worker_state_transition WRK_EVENT_DISCONNECT 1300 None ws4;
          ws6 = snd (vom_worker_state_transition WRK_EVENT_CONNECT 1400 (Some ''tcp://127.0.0.1:5555'') ws5);
          ws7 = snd (vom_worker_state_transition WRK_EVENT_REGISTER_SUCCESS 1450 None ws6);
          (r5, ws8) = vom_worker_state_transition WRK_EVENT_TERMINATE 1500 None ws7
      in ([r1, r2, r3, r4, r5], map vom_worker_state_get [ws1, ws2, ws3, ws4, ws5, ws8]))"

section \<open>Step relation\<close>

inductive worker_step :: "vom_worker_state_t \<Rightarrow> vom_worker_state_t \<Rightarrow> bool" where
  wt_transition: "worker_step ctx (snd (vom_worker_state_transition event now endpoint ctx))"
| wt_tasks: "unat (active_tasks_count ctx) + nat delta < 2 ^ 32 \<Longrightarrow>
    worker_step ctx (vom_worker_state_update_tasks delta ctx)"

inductive_cases worker_stepE: "worker_step ctx ctx'"

definition worker_boot :: vom_worker_state_t where
  "worker_boot = the (vom_worker_state_init True)"

definition worker_inv :: "vom_worker_state_t \<Rightarrow> bool" where
  "worker_inv ctx \<longleftrightarrow> (current_state ctx = WRK_STATE_RUNNING \<longrightarrow> active_tasks_count ctx \<noteq> 0)
     \<and> length (master_endpoint ctx) < 128"

lemma next_state_never_running: "next_state s e \<noteq> Some WRK_STATE_RUNNING"
  by (cases s) auto

lemma transition_inv: "worker_inv ctx \<Longrightarrow> worker_inv (snd (vom_worker_state_transition e now ep ctx))"
  using next_state_never_running [of "current_state ctx" e]
    order_le_less_trans [OF length_c_strncpy [of 127 "the ep"], of 128]
  by (auto simp: worker_inv_def vom_worker_state_transition_def Let_def split: option.splits)

lemma add_tasks_nonzero:
  fixes n :: u32
  assumes "delta > 0" "unat n + nat delta < 2 ^ 32"
  shows "n + word_of_int delta \<noteq> 0"
proof -
  have "word_of_int delta = (of_nat (nat delta) :: u32)" using assms(1) by simp
  then have "unat (n + word_of_int delta) = unat n + nat delta"
    using assms(2) by (simp add: unat_word_ariths unat_of_nat)
  then show ?thesis using assms(1) by auto
qed

lemma tasks_inv:
  assumes "worker_inv ctx" "unat (active_tasks_count ctx) + nat delta < 2 ^ 32"
  shows "worker_inv (vom_worker_state_update_tasks delta ctx)"
  using assms add_tasks_nonzero [of delta "active_tasks_count ctx"]
  by (auto simp: worker_inv_def vom_worker_state_update_tasks_def Let_def split: if_splits)

lemma worker_steps_inv: "worker_step\<^sup>*\<^sup>* ctx ctx' \<Longrightarrow> worker_inv ctx \<Longrightarrow> worker_inv ctx'"
  by (induction rule: rtranclp_induct) (auto elim!: worker_stepE intro: transition_inv tasks_inv)

lemma shutdown_steps:
  "worker_step\<^sup>*\<^sup>* ctx ctx' \<Longrightarrow> current_state ctx = WRK_STATE_SHUTDOWN \<Longrightarrow> current_state ctx' = WRK_STATE_SHUTDOWN"
  by (induction rule: rtranclp_induct)
    (auto elim!: worker_stepE simp: vom_worker_state_transition_def vom_worker_state_update_tasks_def Let_def)

section \<open>Properties\<close>

text \<open>
  C28: in every state that a worker reaches over transitions and task changes that do not overflow the
  counter, a running worker has active tasks and the stored endpoint fits its buffer; and from a
  shut-down worker no sequence of operations leads to any other state.\<close>

theorem worker_lifecycle_sound:
  assumes "worker_step\<^sup>*\<^sup>* worker_boot ctx"
  shows "worker_inv ctx \<and> (current_state ctx = WRK_STATE_SHUTDOWN \<longrightarrow>
    (\<forall>ctx'. worker_step\<^sup>*\<^sup>* ctx ctx' \<longrightarrow> current_state ctx' = WRK_STATE_SHUTDOWN))"
proof -
  have "worker_inv worker_boot" by (simp add: worker_boot_def vom_worker_state_init_def worker_inv_def)
  with worker_steps_inv [OF assms] shutdown_steps show ?thesis by blast
qed

definition demo_registered :: vom_worker_state_t where
  "demo_registered = snd (vom_worker_state_transition WRK_EVENT_REGISTER_SUCCESS 20 None
     (snd (vom_worker_state_transition WRK_EVENT_CONNECT 10 (Some ''tcp'') worker_boot)))"

definition demo_running :: vom_worker_state_t where
  "demo_running = vom_worker_state_update_tasks 2 demo_registered"

lemma demo_registered_eq: "demo_registered = \<lparr>current_state = WRK_STATE_REGISTERED, last_transition_ms = 20,
    active_tasks_count = 0, master_endpoint = ''tcp''\<rparr>"
  by (simp add: demo_registered_def vom_worker_state_transition_def worker_boot_def
      vom_worker_state_init_def Let_def)

lemma demo_running_reachable: "worker_step\<^sup>*\<^sup>* worker_boot demo_running"
proof -
  have "worker_step\<^sup>*\<^sup>* worker_boot demo_registered"
    unfolding demo_registered_def
    by (meson wt_transition rtranclp.rtrancl_into_rtrancl rtranclp.rtrancl_refl)
  moreover have "worker_step demo_registered demo_running"
    unfolding demo_running_def by (rule wt_tasks) (simp add: demo_registered_eq)
  ultimately show ?thesis by (rule rtranclp.rtrancl_into_rtrancl)
qed

theorem worker_lifecycle_sound_witness:
  "current_state demo_running = WRK_STATE_RUNNING \<and> active_tasks_count demo_running \<noteq> 0"
proof -
  have "current_state demo_running = WRK_STATE_RUNNING"
    by (simp add: demo_running_def demo_registered_eq vom_worker_state_update_tasks_def)
  with worker_lifecycle_sound [OF demo_running_reachable] show ?thesis by (simp add: worker_inv_def)
qed

text \<open>
  The file's own test sequence passes: every transition it checks is allowed, and the states it
  prints are connected, registered, running, draining, offline and shut down.\<close>

lemma worker_state_suite_passes:
  "execute_worker_state_test_suite = (replicate 5 True,
     [WRK_STATE_CONNECTED, WRK_STATE_REGISTERED, WRK_STATE_RUNNING, WRK_STATE_DRAINING,
      WRK_STATE_OFFLINE, WRK_STATE_SHUTDOWN])"
  by (simp add: execute_worker_state_test_suite_def vom_worker_state_init_def vom_worker_state_transition_def
      vom_worker_state_update_tasks_def vom_worker_state_get_def Let_def numeral_eq_Suc)

text \<open>
  a running worker that drains and resumes while its tasks are still active ends up registered
  although tasks are active, so its state no longer shows that it is working.\<close>

theorem resumed_worker_not_running:
  assumes "current_state ctx = WRK_STATE_RUNNING" "active_tasks_count ctx \<noteq> 0"
    and "vom_worker_state_transition WRK_EVENT_START_DRAIN t ep ctx = (ok1, ctx1)"
    and "vom_worker_state_transition WRK_EVENT_STOP_DRAIN t' ep' ctx1 = (ok2, ctx2)"
  shows "ok1 \<and> ok2 \<and> current_state ctx2 = WRK_STATE_REGISTERED \<and> active_tasks_count ctx2 \<noteq> 0"
  using assms by (auto simp: vom_worker_state_transition_def Let_def split: option.splits)

theorem resumed_worker_not_running_witness:
  "\<exists>ctx1 ctx2. vom_worker_state_transition WRK_EVENT_START_DRAIN 30 None demo_running = (True, ctx1)
    \<and> vom_worker_state_transition WRK_EVENT_STOP_DRAIN 40 None ctx1 = (True, ctx2)
    \<and> current_state ctx2 = WRK_STATE_REGISTERED \<and> active_tasks_count ctx2 \<noteq> 0"
proof -
  obtain ok1 ctx1 where 1: "vom_worker_state_transition WRK_EVENT_START_DRAIN 30 None demo_running = (ok1, ctx1)" by fastforce
  obtain ok2 ctx2 where 2: "vom_worker_state_transition WRK_EVENT_STOP_DRAIN 40 None ctx1 = (ok2, ctx2)" by fastforce
  have "current_state demo_running = WRK_STATE_RUNNING" "active_tasks_count demo_running \<noteq> 0"
    by (simp_all add: demo_running_def demo_registered_eq vom_worker_state_update_tasks_def)
  from resumed_worker_not_running [OF this 1 2] 1 2 show ?thesis by auto
qed

end
