(* ===== verification/Master_Recovery.thy ===== *)
theory Master_Recovery
  imports Prelude
begin

text \<open>
  The worker-loss recovery engine of the master (\<^verbatim>\<open>master/src/recovery.c\<close>): heartbeat
  observations, lease records with their retry policy, the timeout sweep, and the acceptance of
  incoming results.

  Every operation runs under the context lock and is one atomic step; arrays with counts are lists.
  The sweep's loops are recursive functions over these lists in the order of the code: lost workers
  first (their active leases become uncertain), then the leases. What the dashboard prints is the
  triple of the values it reads.

  Proved: the lease state machine (terminal states are final, no lease stays uncertain, the retry
  counter never passes one); which leases a sweep ends and how; that a result is accepted exactly
  once; that the published count of recovery jobs is always zero.
\<close>

section \<open>Data\<close>

definition REC_MAX_WORKERS :: nat where "REC_MAX_WORKERS = 64"
definition REC_MAX_LEASES :: nat where "REC_MAX_LEASES = 128"
definition REC_NAME_MAX :: nat where "REC_NAME_MAX = 64"

datatype VomRetryAction = VOM_RETRY_NONE | VOM_RETRY_IMMEDIATE | VOM_RETRY_BACKOFF | VOM_RETRY_REPLAN

datatype UiHealthStatus = UI_HEALTH_OK | UI_HEALTH_WARN | UI_HEALTH_CRITICAL

datatype LeaseState = LEASE_ACTIVE | LEASE_UNCERTAIN | LEASE_EXPIRED | LEASE_RECONCILED

record rec_lease_record_t =
  lease_id :: u64
  chunk_id :: u64
  workload_id :: u64
  assigned_worker_id :: string
  lease_expires_ms :: u64
  state :: LeaseState
  retry_count :: u32
  retry_policy :: VomRetryAction

record rec_worker_obs_t =
  worker_id :: string
  last_heartbeat_ms :: u64
  is_healthy :: bool

record vom_recovery_context =
  workers :: "rec_worker_obs_t list"
  leases :: "rec_lease_record_t list"
  summary_health :: UiHealthStatus
  operational_status_text :: string
  active_recovery_jobs :: u32

section \<open>Operations\<close>

definition vom_recovery_init :: "bool \<Rightarrow> vom_recovery_context option" where
  "vom_recovery_init calloc_ok =
     (if \<not> calloc_ok then None
      else Some \<lparr>workers = [], leases = [], summary_health = UI_HEALTH_OK,
                 operational_status_text = c_strncpy (REC_NAME_MAX - 1) ''HEALTHY'',
                 active_recovery_jobs = 0\<rparr>)"

definition vom_recovery_register_worker_heartbeat ::
  "string option \<Rightarrow> u64 \<Rightarrow> vom_recovery_context \<Rightarrow> vom_recovery_context" where
  "vom_recovery_register_worker_heartbeat worker_id_arg now_ms ctx =
     (case worker_id_arg of
        None \<Rightarrow> ctx
      | Some wid \<Rightarrow>
          if list_ex (\<lambda>w. worker_id w = wid) (workers ctx)
          then ctx\<lparr>workers := upd_first (\<lambda>w. worker_id w = wid)
                 (\<lambda>w. w\<lparr>last_heartbeat_ms := now_ms, is_healthy := True\<rparr>) (workers ctx)\<rparr>
          else if length (workers ctx) < REC_MAX_WORKERS
          then ctx\<lparr>workers := workers ctx @ [\<lparr>worker_id = c_strncpy (REC_NAME_MAX - 1) wid,
                 last_heartbeat_ms = now_ms, is_healthy = True\<rparr>]\<rparr>
          else ctx)"

definition is_lost :: "u64 \<Rightarrow> u64 \<Rightarrow> rec_worker_obs_t \<Rightarrow> bool" where
  "is_lost now_ms timeout_ms w \<longleftrightarrow> is_healthy w \<and> now_ms - last_heartbeat_ms w > timeout_ms"

text \<open>The inner loop over the leases of a lost worker.\<close>

fun mark_uncertain ::
  "string \<Rightarrow> rec_lease_record_t list \<Rightarrow> u32 \<Rightarrow> rec_lease_record_t list \<times> u32" where
  "mark_uncertain wid [] jobs = ([], jobs)"
| "mark_uncertain wid (l # ls) jobs =
     (if assigned_worker_id l = wid \<and> state l = LEASE_ACTIVE
      then (let (ls', jobs') = mark_uncertain wid ls (jobs + 1)
            in (l\<lparr>state := LEASE_UNCERTAIN\<rparr> # ls', jobs'))
      else (let (ls', jobs') = mark_uncertain wid ls jobs in (l # ls', jobs')))"

fun sweep_workers ::
  "u64 \<Rightarrow> u64 \<Rightarrow> rec_worker_obs_t list \<Rightarrow> rec_lease_record_t list \<Rightarrow> u32 \<Rightarrow> bool
    \<Rightarrow> rec_worker_obs_t list \<times> rec_lease_record_t list \<times> u32 \<times> bool" where
  "sweep_workers now timeout [] ls jobs degraded = ([], ls, jobs, degraded)"
| "sweep_workers now timeout (w # ws) ls jobs degraded =
     (let (w', ls', jobs') =
            (if is_lost now timeout w
             then (w\<lparr>is_healthy := False\<rparr>, mark_uncertain (worker_id w) ls jobs) else (w, ls, jobs));
          (ws', out) = sweep_workers now timeout ws ls' jobs' (degraded \<or> \<not> is_healthy w')
      in (w' # ws', out))"

definition needs_settling :: "u64 \<Rightarrow> rec_lease_record_t \<Rightarrow> bool" where
  "needs_settling now_ms l \<longleftrightarrow>
     state l = LEASE_UNCERTAIN \<or> (state l = LEASE_ACTIVE \<and> now_ms > lease_expires_ms l)"

definition settle_lease :: "rec_lease_record_t \<Rightarrow> rec_lease_record_t" where
  "settle_lease l0 =
     (let l = l0\<lparr>retry_count := retry_count l0 + 1\<rparr>
      in if retry_policy l \<noteq> VOM_RETRY_NONE \<and> retry_count l \<le> 3
         then l\<lparr>state := LEASE_EXPIRED\<rparr> else l\<lparr>state := LEASE_RECONCILED\<rparr>)"

fun settle_leases ::
  "u64 \<Rightarrow> rec_lease_record_t list \<Rightarrow> u32 \<Rightarrow> rec_lease_record_t list \<times> u32" where
  "settle_leases now [] jobs = ([], jobs)"
| "settle_leases now (l # ls) jobs =
     (if needs_settling now l
      then (let (ls', jobs') = settle_leases now ls (if jobs > 0 then jobs - 1 else jobs)
            in (settle_lease l # ls', jobs'))
      else (let (ls', jobs') = settle_leases now ls jobs in (l # ls', jobs')))"

definition vom_recovery_sweep_timeouts ::
  "u64 \<Rightarrow> u64 \<Rightarrow> vom_recovery_context \<Rightarrow> vom_recovery_context" where
  "vom_recovery_sweep_timeouts now_ms heartbeat_timeout_ms ctx =
     (let (ws, ls, jobs, cluster_degraded) =
            sweep_workers now_ms heartbeat_timeout_ms (workers ctx) (leases ctx)
              (active_recovery_jobs ctx) False;
          (ls', jobs') = settle_leases now_ms ls jobs
      in ctx\<lparr>workers := ws, leases := ls', active_recovery_jobs := jobs',
             summary_health := (if cluster_degraded then UI_HEALTH_WARN else UI_HEALTH_OK),
             operational_status_text := c_strncpy (REC_NAME_MAX - 1)
               (if cluster_degraded then ''DEGRADED / RECOVERING'' else ''HEALTHY'')\<rparr>)"

definition vom_recovery_process_incoming_result ::
  "u64 \<Rightarrow> string option \<Rightarrow> string option \<Rightarrow> vom_recovery_context \<Rightarrow> bool \<times> vom_recovery_context" where
  "vom_recovery_process_incoming_result lid worker_id_arg result_hash ctx =
     (case (worker_id_arg, result_hash) of
        (Some wid, Some h) \<Rightarrow>
          (case lookup_by lease_id lid (leases ctx) of
             None \<Rightarrow> (False, ctx)
           | Some l \<Rightarrow>
               if state l = LEASE_EXPIRED \<or> state l = LEASE_RECONCILED then (False, ctx)
               else if assigned_worker_id l \<noteq> wid then (False, ctx)
               else (True, ctx\<lparr>leases := upd_first (\<lambda>l. lease_id l = lid)
                       (\<lambda>l. l\<lparr>state := LEASE_RECONCILED\<rparr>) (leases ctx)\<rparr>))
      | _ \<Rightarrow> (False, ctx))"

definition vom_recovery_inject_test_lease ::
  "u64 \<Rightarrow> u64 \<Rightarrow> string \<Rightarrow> u64 \<Rightarrow> VomRetryAction \<Rightarrow> vom_recovery_context \<Rightarrow> vom_recovery_context" where
  "vom_recovery_inject_test_lease lid cid wid expires_ms policy ctx =
     (if length (leases ctx) < REC_MAX_LEASES
      then ctx\<lparr>leases := leases ctx @ [\<lparr>lease_id = lid, chunk_id = cid, workload_id = 999,
             assigned_worker_id = c_strncpy (REC_NAME_MAX - 1) wid, lease_expires_ms = expires_ms,
             state = LEASE_ACTIVE, retry_count = 0, retry_policy = policy\<rparr>]\<rparr>
      else ctx)"

definition vom_recovery_publish_ui_dashboard ::
  "vom_recovery_context \<Rightarrow> UiHealthStatus \<times> string \<times> u32" where
  "vom_recovery_publish_ui_dashboard ctx =
     (summary_health ctx, operational_status_text ctx, active_recovery_jobs ctx)"

text \<open>The scenario of the file's own \<open>main\<close>, up to what it publishes.\<close>

definition recovery_scenario :: vom_recovery_context where
  "recovery_scenario =
     (let engine = the (vom_recovery_init True);
          simulated_clock_ms = 10000;
          engine = vom_recovery_register_worker_heartbeat (Some ''worker-tablet-01'') simulated_clock_ms engine;
          engine = vom_recovery_inject_test_lease 7001 501 ''worker-tablet-01'' (simulated_clock_ms + 5000)
                     VOM_RETRY_IMMEDIATE engine
      in vom_recovery_sweep_timeouts (simulated_clock_ms + 15000) 5000 engine)"

section \<open>Events and invariant\<close>

inductive recovery_step :: "vom_recovery_context \<Rightarrow> vom_recovery_context \<Rightarrow> bool" where
  rs_heartbeat: "recovery_step ctx (vom_recovery_register_worker_heartbeat wid now ctx)"
| rs_sweep: "recovery_step ctx (vom_recovery_sweep_timeouts now timeout ctx)"
| rs_result: "recovery_step ctx (snd (vom_recovery_process_incoming_result lid wid h ctx))"
| rs_inject: "recovery_step ctx (vom_recovery_inject_test_lease lid cid w ex pol ctx)"

inductive_cases recovery_stepE: "recovery_step ctx ctx'"

definition recovery_boot :: vom_recovery_context where
  "recovery_boot = the (vom_recovery_init True)"

definition recovery_reachable :: "vom_recovery_context \<Rightarrow> bool" where
  "recovery_reachable ctx \<longleftrightarrow> recovery_step\<^sup>*\<^sup>* recovery_boot ctx"

definition lease_ok :: "rec_lease_record_t \<Rightarrow> bool" where
  "lease_ok l \<longleftrightarrow> state l \<noteq> LEASE_UNCERTAIN \<and> retry_count l \<le> 1
     \<and> (state l = LEASE_ACTIVE \<longrightarrow> retry_count l = 0)
     \<and> (state l = LEASE_EXPIRED \<longrightarrow> retry_count l = 1 \<and> retry_policy l \<noteq> VOM_RETRY_NONE)"

definition recovery_inv :: "vom_recovery_context \<Rightarrow> bool" where
  "recovery_inv ctx \<longleftrightarrow> length (workers ctx) \<le> REC_MAX_WORKERS \<and> length (leases ctx) \<le> REC_MAX_LEASES
   \<and> (\<forall>l \<in> set (leases ctx). lease_ok l) \<and> active_recovery_jobs ctx = 0"

section \<open>The sweep in closed form\<close>

lemmas recovery_sizes [simp] = REC_MAX_WORKERS_def REC_MAX_LEASES_def REC_NAME_MAX_def

definition lost_ids :: "u64 \<Rightarrow> u64 \<Rightarrow> rec_worker_obs_t list \<Rightarrow> string set" where
  "lost_ids now timeout ws = worker_id ` {w \<in> set ws. is_lost now timeout w}"

definition hit :: "string set \<Rightarrow> rec_lease_record_t \<Rightarrow> bool" where
  "hit S l \<longleftrightarrow> assigned_worker_id l \<in> S \<and> state l = LEASE_ACTIVE"

definition marked :: "string set \<Rightarrow> rec_lease_record_t \<Rightarrow> rec_lease_record_t" where
  "marked S l = (if hit S l then l\<lparr>state := LEASE_UNCERTAIN\<rparr> else l)"

definition observed :: "u64 \<Rightarrow> u64 \<Rightarrow> rec_worker_obs_t \<Rightarrow> rec_worker_obs_t" where
  "observed now timeout w = (if is_lost now timeout w then w\<lparr>is_healthy := False\<rparr> else w)"

definition settled :: "u64 \<Rightarrow> string set \<Rightarrow> rec_lease_record_t \<Rightarrow> rec_lease_record_t" where
  "settled now S l = (if hit S l \<or> needs_settling now l then settle_lease l else l)"

lemma mark_uncertain_eq:
  "mark_uncertain wid ls jobs = (map (marked {wid}) ls, jobs + of_nat (length (filter (hit {wid}) ls)))"
  by (induction wid ls jobs rule: mark_uncertain.induct) (simp_all add: marked_def hit_def)

lemma marked_marked: "marked S (marked T l) = marked (S \<union> T) l"
  by (auto simp: marked_def hit_def)

lemma count_marked:
  "length (filter (hit T) ls) + length (filter (hit S) (map (marked T) ls)) = length (filter (hit (S \<union> T)) ls)"
  by (induction ls) (auto simp: marked_def hit_def)

lemma marked_empty [simp]: "marked {} l = l" "hit {} l = False"
  by (simp_all add: marked_def hit_def)

lemma lost_ids_Cons:
  "lost_ids now timeout (w # ws) =
    (if is_lost now timeout w then lost_ids now timeout ws \<union> {worker_id w} else lost_ids now timeout ws)"
  by (auto simp: lost_ids_def)

lemma sweep_workers_eq:
  "sweep_workers now timeout ws ls jobs d =
    (map (observed now timeout) ws, map (marked (lost_ids now timeout ws)) ls,
     jobs + of_nat (length (filter (hit (lost_ids now timeout ws)) ls)),
     d \<or> (\<exists>w \<in> set ws. \<not> is_healthy (observed now timeout w)))"
proof (induction now timeout ws ls jobs d rule: sweep_workers.induct)
  case (1 now timeout ls jobs d)
  then show ?case by (simp add: lost_ids_def)
next
  case (2 now timeout w ws ls jobs d)
  show ?case
  proof (cases "is_lost now timeout w")
    case True
    let ?T = "{worker_id w}" and ?S = "lost_ids now timeout ws"
    from 2 [OF refl] True have IH: "sweep_workers now timeout ws (map (marked ?T) ls)
        (jobs + of_nat (length (filter (hit ?T) ls))) True =
      (map (observed now timeout) ws, map (marked ?S) (map (marked ?T) ls),
       jobs + of_nat (length (filter (hit ?T) ls)) + of_nat (length (filter (hit ?S) (map (marked ?T) ls))), True)"
      by (simp add: mark_uncertain_eq)
    have "jobs + of_nat (length (filter (hit ?T) ls)) + of_nat (length (filter (hit ?S) (map (marked ?T) ls))) =
        jobs + of_nat (length (filter (hit (?S \<union> ?T)) ls))"
      by (simp only: count_marked [symmetric] of_nat_add add.assoc)
    moreover have "map (marked ?S) (map (marked ?T) ls) = map (marked (?S \<union> ?T)) ls"
      by (simp add: marked_marked)
    ultimately show ?thesis using True IH
      by (simp add: mark_uncertain_eq lost_ids_Cons observed_def del: map_map filter_map)
  next
    case False
    with 2 [OF refl] show ?thesis by (simp add: lost_ids_Cons observed_def)
  qed
qed

lemma settle_leases_eq:
  "settle_leases now ls jobs =
    (map (\<lambda>l. if needs_settling now l then settle_lease l else l) ls,
     of_nat (unat jobs - length (filter (needs_settling now) ls)))"
proof (induction now ls jobs rule: settle_leases.induct)
  case (2 now l ls jobs)
  have "unat (if jobs > 0 then jobs - 1 else jobs) = unat jobs - 1"
    by (auto simp: unat_sub word_le_nat_alt word_less_nat_alt)
  with 2 show ?case by simp
qed simp

lemma settle_marked:
  "(if needs_settling now (marked S l) then settle_lease (marked S l) else marked S l) = settled now S l"
  by (auto simp: marked_def settled_def needs_settling_def settle_lease_def hit_def Let_def)

lemma hit_needs: "hit S l \<Longrightarrow> needs_settling now (marked S l)"
  by (simp add: marked_def needs_settling_def)

lemma recovery_sweep_eq:
  assumes "recovery_inv ctx"
  shows "vom_recovery_sweep_timeouts now timeout ctx =
    (let S = lost_ids now timeout (workers ctx); ws = map (observed now timeout) (workers ctx);
         degraded = (\<exists>w \<in> set ws. \<not> is_healthy w)
     in \<lparr>workers = ws, leases = map (settled now S) (leases ctx),
         summary_health = (if degraded then UI_HEALTH_WARN else UI_HEALTH_OK),
         operational_status_text = (if degraded then ''DEGRADED / RECOVERING'' else ''HEALTHY''),
         active_recovery_jobs = 0\<rparr>)"
proof -
  let ?S = "lost_ids now timeout (workers ctx)"
  let ?hits = "length (filter (hit ?S) (leases ctx))"
  have "?hits \<le> length (leases ctx)" by simp
  also have "\<dots> \<le> 128" using assms by (simp add: recovery_inv_def)
  finally have "unat (of_nat ?hits :: u32) = ?hits" by (simp add: unat_of_nat)
  moreover have "?hits \<le> length (filter (needs_settling now) (map (marked ?S) ls))"
    if "ls = leases ctx" for ls
    unfolding that [symmetric] by (induction ls) (auto simp: hit_needs)
  ultimately have "(of_nat (unat (of_nat ?hits :: u32) -
      length (filter (needs_settling now) (map (marked ?S) (leases ctx)))) :: u32) = 0" by simp
  then show ?thesis using assms
    by (simp add: vom_recovery_sweep_timeouts_def sweep_workers_eq settle_leases_eq settle_marked
        recovery_inv_def Let_def comp_def del: filter_map)
qed

section \<open>Every operation keeps the invariant\<close>

lemma settled_ok: "lease_ok l \<Longrightarrow> lease_ok (settled now S l)"
  by (auto simp: lease_ok_def settled_def settle_lease_def needs_settling_def hit_def Let_def)

lemma recovery_step_inv: "recovery_step ctx ctx' \<Longrightarrow> recovery_inv ctx \<Longrightarrow> recovery_inv ctx'"
proof (elim recovery_stepE)
  fix wid now
  assume "recovery_inv ctx" "ctx' = vom_recovery_register_worker_heartbeat wid now ctx"
  then show ?thesis
    by (auto simp: recovery_inv_def vom_recovery_register_worker_heartbeat_def split: option.splits)
next
  fix now timeout
  assume "recovery_inv ctx" "ctx' = vom_recovery_sweep_timeouts now timeout ctx"
  then show ?thesis using settled_ok by (auto simp: recovery_sweep_eq recovery_inv_def Let_def)
next
  fix lid wid h
  assume *: "recovery_inv ctx" "ctx' = snd (vom_recovery_process_incoming_result lid wid h ctx)"
  have "lease_ok (l\<lparr>state := LEASE_RECONCILED\<rparr>)" if "lease_ok l" for l
    using that by (simp add: lease_ok_def)
  with * show ?thesis
    by (auto simp: recovery_inv_def vom_recovery_process_incoming_result_def
        dest!: subsetD [OF set_upd_first_subset] split: option.splits)
next
  fix lid cid w ex pol
  assume "recovery_inv ctx" "ctx' = vom_recovery_inject_test_lease lid cid w ex pol ctx"
  then show ?thesis by (auto simp: recovery_inv_def vom_recovery_inject_test_lease_def lease_ok_def)
qed

lemma recovery_boot_inv: "recovery_inv recovery_boot"
  by (simp add: recovery_boot_def vom_recovery_init_def recovery_inv_def)

lemma recovery_steps_inv: "recovery_step\<^sup>*\<^sup>* ctx ctx' \<Longrightarrow> recovery_inv ctx \<Longrightarrow> recovery_inv ctx'"
  by (induction rule: rtranclp_induct) (auto intro: recovery_step_inv)

lemma recovery_reachable_ok: "recovery_reachable ctx \<Longrightarrow> recovery_inv ctx"
  using recovery_steps_inv recovery_boot_inv by (auto simp: recovery_reachable_def)

subsection \<open>Terminal leases\<close>

definition terminal :: "u64 \<Rightarrow> vom_recovery_context \<Rightarrow> bool" where
  "terminal lid ctx \<longleftrightarrow> (\<exists>l. lookup_by lease_id lid (leases ctx) = Some l \<and>
     (state l = LEASE_EXPIRED \<or> state l = LEASE_RECONCILED))"

lemma settled_id [simp]: "lease_id (settled now S l) = lease_id l"
  by (simp add: settled_def settle_lease_def Let_def)

lemma settled_terminal: "state l = LEASE_EXPIRED \<or> state l = LEASE_RECONCILED \<Longrightarrow> settled now S l = l"
  by (auto simp: settled_def hit_def needs_settling_def)

lemma terminal_step: "recovery_step ctx ctx' \<Longrightarrow> recovery_inv ctx \<Longrightarrow> terminal lid ctx \<Longrightarrow> terminal lid ctx'"
proof (elim recovery_stepE)
  fix lid' wid h
  assume t: "terminal lid ctx" and c: "ctx' = snd (vom_recovery_process_incoming_result lid' wid h ctx)"
  show ?thesis
  proof (cases "lid' = lid")
    case True
    with t have "ctx' = ctx"
      by (auto simp: c terminal_def vom_recovery_process_incoming_result_def split: option.splits)
    with t show ?thesis by simp
  next
    case False
    with t show ?thesis
      by (auto simp: c terminal_def vom_recovery_process_incoming_result_def lookup_by_upd_first_other
          split: option.splits)
  qed
next
  fix now timeout
  assume "recovery_inv ctx" "terminal lid ctx" "ctx' = vom_recovery_sweep_timeouts now timeout ctx"
  then show ?thesis using settled_terminal
    by (fastforce simp: terminal_def recovery_sweep_eq Let_def lookup_by_map)
qed (auto simp: terminal_def vom_recovery_register_worker_heartbeat_def vom_recovery_inject_test_lease_def
    lookup_by_append split: option.splits)

lemma terminal_steps:
  "recovery_step\<^sup>*\<^sup>* ctx ctx' \<Longrightarrow> recovery_inv ctx \<Longrightarrow> terminal lid ctx \<Longrightarrow> terminal lid ctx'"
  by (induction rule: rtranclp_induct) (auto intro: terminal_step recovery_steps_inv)

lemma result_cases:
  assumes "vom_recovery_process_incoming_result lid (Some wid) (Some h) ctx = (ok, ctx')"
  shows "(ok \<longleftrightarrow> (\<exists>l. lookup_by lease_id lid (leases ctx) = Some l \<and> assigned_worker_id l = wid
            \<and> (state l = LEASE_ACTIVE \<or> state l = LEASE_UNCERTAIN))) \<and> (\<not> ok \<longrightarrow> ctx' = ctx)"
proof (cases "lookup_by lease_id lid (leases ctx)")
  case None
  with assms show ?thesis by (simp add: vom_recovery_process_incoming_result_def)
next
  case (Some l)
  with assms show ?thesis
    by (cases "state l"; cases "assigned_worker_id l = wid")
      (simp_all add: vom_recovery_process_incoming_result_def)
qed

lemma terminal_rejects: "terminal lid ctx \<Longrightarrow> \<not> fst (vom_recovery_process_incoming_result lid wid h ctx)"
  by (auto simp: terminal_def vom_recovery_process_incoming_result_def split: option.splits)

section \<open>Properties\<close>

text \<open>
  C25: in every reachable state of the recovery engine no lease is uncertain, an active lease has never
  been retried, every retry counter is at most one (so the limit of three retries is never the reason
  to end a lease), an expired lease has a retry policy, the tables are bounded, and the dashboard's
  count of recovery jobs is zero.\<close>

theorem recovery_lease_machine:
  assumes "recovery_reachable ctx"
  shows "(\<forall>l \<in> set (leases ctx). lease_ok l) \<and> length (workers ctx) \<le> REC_MAX_WORKERS
    \<and> length (leases ctx) \<le> REC_MAX_LEASES
    \<and> snd (snd (vom_recovery_publish_ui_dashboard ctx)) = 0"
  using recovery_reachable_ok [OF assms] by (simp add: recovery_inv_def vom_recovery_publish_ui_dashboard_def)

definition demo_recovery :: vom_recovery_context where
  "demo_recovery = vom_recovery_inject_test_lease 7001 501 ''worker-tablet-01'' 15000 VOM_RETRY_IMMEDIATE
     (vom_recovery_register_worker_heartbeat (Some ''worker-tablet-01'') 10000 recovery_boot)"

lemma demo_recovery_reachable: "recovery_reachable demo_recovery"
  unfolding recovery_reachable_def demo_recovery_def
  by (meson recovery_step.intros rtranclp.rtrancl_into_rtrancl rtranclp.rtrancl_refl)

lemma scenario_eq: "recovery_scenario = vom_recovery_sweep_timeouts 25000 5000 demo_recovery"
  by (simp add: recovery_scenario_def demo_recovery_def recovery_boot_def Let_def)

lemma scenario_reachable: "recovery_reachable recovery_scenario"
  using demo_recovery_reachable unfolding scenario_eq recovery_reachable_def
  by (meson recovery_step.intros rtranclp.rtrancl_into_rtrancl)

theorem recovery_lease_machine_witness: "snd (snd (vom_recovery_publish_ui_dashboard recovery_scenario)) = 0"
  using recovery_lease_machine [OF scenario_reachable] by simp



text \<open>
  C9: a result is accepted exactly when the first record of its lease is active or uncertain and was
  assigned to the sending worker; a rejected result changes nothing; after an accepted one no later
  result for that lease is ever accepted, whatever happens in between.\<close>

theorem result_accepted_once:
  assumes "recovery_reachable ctx"
    and "vom_recovery_process_incoming_result lid (Some wid) (Some h) ctx = (ok, ctx')"
  shows "(ok \<longleftrightarrow> (\<exists>l. lookup_by lease_id lid (leases ctx) = Some l \<and> assigned_worker_id l = wid
            \<and> (state l = LEASE_ACTIVE \<or> state l = LEASE_UNCERTAIN)))
    \<and> (\<not> ok \<longrightarrow> ctx' = ctx)
    \<and> (ok \<longrightarrow> (\<forall>ctx'' wid' h'. recovery_step\<^sup>*\<^sup>* ctx' ctx'' \<longrightarrow>
         \<not> fst (vom_recovery_process_incoming_result lid wid' h' ctx'')))"
proof -
  have inv: "recovery_inv ctx" using assms(1) by (rule recovery_reachable_ok)
  have res: "ctx' = snd (vom_recovery_process_incoming_result lid (Some wid) (Some h) ctx)"
    using assms(2) by simp
  have inv': "recovery_inv ctx'"
    unfolding res using recovery_step.rs_result inv by (rule recovery_step_inv)
  have t: "terminal lid ctx'" if ok
    using assms(2) that
    by (auto simp: terminal_def vom_recovery_process_incoming_result_def lookup_by_upd_first
        split: option.splits if_splits)
  have "\<not> fst (vom_recovery_process_incoming_result lid wid' h' ctx'')"
    if ok "recovery_step\<^sup>*\<^sup>* ctx' ctx''" for ctx'' wid' h'
    by (rule terminal_rejects [OF terminal_steps [OF that(2) inv' t [OF that(1)]]])
  with result_cases [OF assms(2)] show ?thesis by blast
qed

theorem result_accepted_once_witness:
  "\<exists>ctx'. vom_recovery_process_incoming_result 7001 (Some ''worker-tablet-01'') (Some ''h'') demo_recovery = (True, ctx')
    \<and> \<not> fst (vom_recovery_process_incoming_result 7001 (Some ''worker-tablet-01'') (Some ''h'') ctx')"
proof -
  obtain ok ctx' where *: "vom_recovery_process_incoming_result 7001 (Some ''worker-tablet-01'') (Some ''h'')
      demo_recovery = (ok, ctx')" by fastforce
  note p = result_accepted_once [OF demo_recovery_reachable *]
  have "ok" using p by (simp add: demo_recovery_def recovery_boot_def vom_recovery_init_def
      vom_recovery_inject_test_lease_def vom_recovery_register_worker_heartbeat_def)
  moreover from this p have "\<not> fst (vom_recovery_process_incoming_result 7001 (Some ''worker-tablet-01'') (Some ''h'') ctx')"
    by blast
  ultimately show ?thesis using * by (intro exI [of _ ctx']) simp
qed

end
