(* ===== verification/Registry.thy ===== *)
theory Registry
  imports Prelude
begin

text \<open>
  The worker registry of the master (\<^verbatim>\<open>master/src/registry.c\<close>): one record per worker with
  its status, last contact, capabilities and tracked chunks; the sweep of stale workers; the ring of
  reference-counted snapshots.

  Every operation runs under the registry mutex and is one atomic step. Pointer arguments that the
  code tests for \<open>NULL\<close> are options (the context itself is taken to be valid). The
  subtraction in the sweep is the wrapping one of \<open>uint64_t\<close>.

  Proved: the invariant of every reachable registry; what a join does; exactly which workers a sweep
  marks and reports; tracking and untracking; the laws of the snapshot ring; that identifiers longer
  than 63 characters are stored truncated and never found again.
\<close>

section \<open>Data\<close>

definition REG_MAX_WORKERS :: nat where "REG_MAX_WORKERS = 64"
definition REG_MAX_CHUNKS :: nat where "REG_MAX_CHUNKS = 32"
definition REG_RING_SIZE :: nat where "REG_RING_SIZE = 4"
definition REG_NAME_MAX :: nat where "REG_NAME_MAX = 64"

datatype VomCpuArch = VOM_ARCH_X86_64 | VOM_ARCH_AARCH64 | VOM_ARCH_ARMV7 | VOM_ARCH_UNKNOWN

datatype VomLinkType = VOM_LINK_ETH | VOM_LINK_WIFI | VOM_LINK_CELLULAR | VOM_LINK_UNKNOWN

record vom_worker_capabilities =
  arch :: VomCpuArch
  cores_online :: u32
  cores_total :: u32
  feature_bitmap :: u32
  ram_total_mb :: u64
  ram_free_mb :: u64
  battery_percent :: "32 word"
  is_charging :: bool
  is_ac_online :: bool
  display_attached :: bool
  display_width :: u32
  display_height :: u32
  touch_supported :: bool
  network_link_type :: VomLinkType
  network_bandwidth_kbps :: u64

datatype WorkerRegStatus =
  REG_STATUS_APPROVED | REG_STATUS_HEALTHY | REG_STATUS_DRAINING | REG_STATUS_DISCONNECTED

record WorkerRecord =
  worker_id :: string
  transport_endpoint :: string
  status :: WorkerRegStatus
  last_seen_ms :: u64
  capabilities :: vom_worker_capabilities
  active_chunk_ids :: "u64 list"

record RegistrySnapshot =
  records :: "WorkerRecord list"
  snapshot_version :: u64

record vom_registry_context =
  state :: RegistrySnapshot
  pool :: "RegistrySnapshot list"
  pool_tail :: nat
  ref_counts :: "u32 list"

section \<open>Operations\<close>

definition vom_registry_create :: "bool \<Rightarrow> bool \<Rightarrow> vom_registry_context option" where
  "vom_registry_create calloc_ok mutex_ok =
     (if \<not> calloc_ok \<or> \<not> mutex_ok then None
      else (let zero = \<lparr>records = [], snapshot_version = 0\<rparr>
            in Some \<lparr>state = zero\<lparr>snapshot_version := 1\<rparr>, pool = replicate REG_RING_SIZE zero,
                     pool_tail = 0, ref_counts = replicate REG_RING_SIZE 0\<rparr>))"

definition bump_version :: "RegistrySnapshot \<Rightarrow> RegistrySnapshot" where
  "bump_version s = s\<lparr>snapshot_version := snapshot_version s + 1\<rparr>"

definition upd_record ::
  "(WorkerRecord \<Rightarrow> bool) \<Rightarrow> (WorkerRecord \<Rightarrow> WorkerRecord) \<Rightarrow> vom_registry_context \<Rightarrow> vom_registry_context" where
  "upd_record P f ctx =
     ctx\<lparr>state := bump_version ((state ctx)\<lparr>records := upd_first P f (records (state ctx))\<rparr>)\<rparr>"

definition rejoin_record :: "vom_worker_capabilities \<Rightarrow> u64 \<Rightarrow> WorkerRecord \<Rightarrow> WorkerRecord" where
  "rejoin_record caps now_ms r =
     r\<lparr>status := REG_STATUS_APPROVED, last_seen_ms := now_ms, capabilities := caps\<rparr>"

definition new_record :: "string \<Rightarrow> string \<Rightarrow> vom_worker_capabilities \<Rightarrow> u64 \<Rightarrow> WorkerRecord" where
  "new_record wid transport caps now_ms =
     \<lparr>worker_id = c_strncpy (REG_NAME_MAX - 1) wid,
      transport_endpoint = c_strncpy (REG_NAME_MAX - 1) transport,
      status = REG_STATUS_APPROVED, last_seen_ms = now_ms, capabilities = caps, active_chunk_ids = []\<rparr>"

definition vom_registry_on_worker_join ::
  "string option \<Rightarrow> string option \<Rightarrow> vom_worker_capabilities option \<Rightarrow> u64 \<Rightarrow> vom_registry_context
    \<Rightarrow> bool \<times> vom_registry_context" where
  "vom_registry_on_worker_join worker_id_arg transport_arg caps_arg now_ms ctx =
     (case (worker_id_arg, transport_arg, caps_arg) of
        (Some wid, Some transport, Some caps) \<Rightarrow>
          if list_ex (\<lambda>r. worker_id r = wid) (records (state ctx))
          then (True, upd_record (\<lambda>r. worker_id r = wid) (rejoin_record caps now_ms) ctx)
          else if length (records (state ctx)) \<ge> REG_MAX_WORKERS then (False, ctx)
          else (True, ctx\<lparr>state := bump_version ((state ctx)\<lparr>records :=
                  records (state ctx) @ [new_record wid transport caps now_ms]\<rparr>)\<rparr>)
      | _ \<Rightarrow> (False, ctx))"

definition touch_record :: "vom_worker_capabilities \<Rightarrow> u64 \<Rightarrow> WorkerRecord \<Rightarrow> WorkerRecord" where
  "touch_record dyn now_ms r =
     r\<lparr>last_seen_ms := now_ms,
       capabilities := (capabilities r)\<lparr>ram_free_mb := ram_free_mb dyn, cores_online := cores_online dyn,
         battery_percent := battery_percent dyn, is_charging := is_charging dyn,
         is_ac_online := is_ac_online dyn\<rparr>,
       status := (if status r = REG_STATUS_DISCONNECTED then REG_STATUS_HEALTHY else status r)\<rparr>"

definition vom_registry_on_worker_heartbeat ::
  "string option \<Rightarrow> vom_worker_capabilities option \<Rightarrow> u64 \<Rightarrow> vom_registry_context
    \<Rightarrow> bool \<times> vom_registry_context" where
  "vom_registry_on_worker_heartbeat worker_id_arg dynamic_caps now_ms ctx =
     (case (worker_id_arg, dynamic_caps) of
        (Some wid, Some dyn) \<Rightarrow>
          if list_ex (\<lambda>r. worker_id r = wid) (records (state ctx))
          then (True, upd_record (\<lambda>r. worker_id r = wid) (touch_record dyn now_ms) ctx)
          else (False, ctx)
      | _ \<Rightarrow> (False, ctx))"

definition vom_registry_on_worker_leave ::
  "string option \<Rightarrow> vom_registry_context \<Rightarrow> bool \<times> vom_registry_context" where
  "vom_registry_on_worker_leave worker_id_arg ctx =
     (case worker_id_arg of
        None \<Rightarrow> (False, ctx)
      | Some wid \<Rightarrow>
          if list_ex (\<lambda>r. worker_id r = wid) (records (state ctx))
          then (True, upd_record (\<lambda>r. worker_id r = wid) (\<lambda>r. r\<lparr>status := REG_STATUS_DISCONNECTED\<rparr>) ctx)
          else (False, ctx))"

definition vom_registry_track_chunk ::
  "string option \<Rightarrow> u64 \<Rightarrow> vom_registry_context \<Rightarrow> bool \<times> vom_registry_context" where
  "vom_registry_track_chunk worker_id_arg cid ctx =
     (case worker_id_arg of
        None \<Rightarrow> (False, ctx)
      | Some wid \<Rightarrow>
          (case lookup_by worker_id wid (records (state ctx)) of
             None \<Rightarrow> (False, ctx)
           | Some r \<Rightarrow>
               if length (active_chunk_ids r) \<ge> REG_MAX_CHUNKS then (False, ctx)
               else (True, upd_record (\<lambda>r. worker_id r = wid)
                       (\<lambda>r. r\<lparr>active_chunk_ids := active_chunk_ids r @ [cid]\<rparr>) ctx)))"

definition vom_registry_untrack_chunk ::
  "string option \<Rightarrow> u64 \<Rightarrow> vom_registry_context \<Rightarrow> bool \<times> vom_registry_context" where
  "vom_registry_untrack_chunk worker_id_arg cid ctx =
     (case worker_id_arg of
        None \<Rightarrow> (False, ctx)
      | Some wid \<Rightarrow>
          (let has = (\<lambda>r. worker_id r = wid \<and> cid \<in> set (active_chunk_ids r)) in
           if list_ex has (records (state ctx))
           then (True, upd_record has
                   (\<lambda>r. r\<lparr>active_chunk_ids := del_first (\<lambda>x. x = cid) (active_chunk_ids r)\<rparr>) ctx)
           else (False, ctx)))"

definition is_stale :: "u64 \<Rightarrow> u64 \<Rightarrow> WorkerRecord \<Rightarrow> bool" where
  "is_stale now_ms timeout_ms r \<longleftrightarrow>
     status r \<noteq> REG_STATUS_DISCONNECTED \<and> now_ms - last_seen_ms r > timeout_ms"

fun sweep_loop ::
  "u64 \<Rightarrow> u64 \<Rightarrow> int \<Rightarrow> WorkerRecord list \<Rightarrow> string list \<Rightarrow> u64 \<Rightarrow> WorkerRecord list \<times> string list \<times> u64" where
  "sweep_loop now_ms timeout_ms max_out [] dead version = ([], dead, version)"
| "sweep_loop now_ms timeout_ms max_out (r # rs) dead version =
     (if is_stale now_ms timeout_ms r
      then (let dead' = (if int (length dead) < max_out
                         then dead @ [c_strncpy (REG_NAME_MAX - 1) (worker_id r)] else dead);
                (rs', out) = sweep_loop now_ms timeout_ms max_out rs dead' (version + 1)
            in (r\<lparr>status := REG_STATUS_DISCONNECTED\<rparr> # rs', out))
      else (let (rs', out) = sweep_loop now_ms timeout_ms max_out rs dead version in (r # rs', out)))"

definition vom_registry_sweep_stale ::
  "u64 \<Rightarrow> u64 \<Rightarrow> int \<Rightarrow> vom_registry_context \<Rightarrow> string list \<times> vom_registry_context" where
  "vom_registry_sweep_stale now_ms timeout_ms max_out ctx =
     (if max_out \<le> 0 then ([], ctx)
      else (let (rs, dead, version) = sweep_loop now_ms timeout_ms max_out (records (state ctx)) []
                                        (snapshot_version (state ctx))
            in (dead, ctx\<lparr>state := \<lparr>records = rs, snapshot_version = version\<rparr>\<rparr>)))"

fun reg_search_slot :: "u32 list \<Rightarrow> nat \<Rightarrow> nat \<Rightarrow> nat" where
  "reg_search_slot counts slot 0 = slot"
| "reg_search_slot counts slot (Suc i) =
     (if counts ! slot = 0 then slot else reg_search_slot counts ((slot + 1) mod REG_RING_SIZE) i)"

definition vom_registry_acquire_snapshot :: "vom_registry_context \<Rightarrow> nat \<times> vom_registry_context" where
  "vom_registry_acquire_snapshot ctx =
     (let slot = reg_search_slot (ref_counts ctx) (pool_tail ctx) REG_RING_SIZE
      in (slot, ctx\<lparr>pool := (pool ctx)[slot := state ctx],
                    ref_counts := (ref_counts ctx)[slot := ref_counts ctx ! slot + 1],
                    pool_tail := (slot + 1) mod REG_RING_SIZE\<rparr>))"

definition vom_registry_release_snapshot :: "nat \<Rightarrow> vom_registry_context \<Rightarrow> vom_registry_context" where
  "vom_registry_release_snapshot slot ctx =
     (if slot < REG_RING_SIZE \<and> ref_counts ctx ! slot > 0
      then ctx\<lparr>ref_counts := (ref_counts ctx)[slot := ref_counts ctx ! slot - 1]\<rparr> else ctx)"

section \<open>Events, invariant and interfaces\<close>

datatype reg_event =
    RegJoin string string vom_worker_capabilities u64
  | RegHeartbeat string vom_worker_capabilities u64
  | RegLeave string
  | RegTrack string u64
  | RegUntrack string u64
  | RegSweep u64 u64 int
  | RegAcquire
  | RegRelease nat

fun reg_exec :: "reg_event \<Rightarrow> vom_registry_context \<Rightarrow> vom_registry_context" where
  "reg_exec (RegJoin wid tr caps now) ctx =
     snd (vom_registry_on_worker_join (Some wid) (Some tr) (Some caps) now ctx)"
| "reg_exec (RegHeartbeat wid caps now) ctx =
     snd (vom_registry_on_worker_heartbeat (Some wid) (Some caps) now ctx)"
| "reg_exec (RegLeave wid) ctx = snd (vom_registry_on_worker_leave (Some wid) ctx)"
| "reg_exec (RegTrack wid cid) ctx = snd (vom_registry_track_chunk (Some wid) cid ctx)"
| "reg_exec (RegUntrack wid cid) ctx = snd (vom_registry_untrack_chunk (Some wid) cid ctx)"
| "reg_exec (RegSweep now timeout m) ctx = snd (vom_registry_sweep_stale now timeout m ctx)"
| "reg_exec RegAcquire ctx = snd (vom_registry_acquire_snapshot ctx)"
| "reg_exec (RegRelease i) ctx = vom_registry_release_snapshot i ctx"

fun reg_valid :: "reg_event \<Rightarrow> bool" where
  "reg_valid (RegJoin wid tr caps now) = (length wid \<le> 63)"
| "reg_valid _ = True"

definition registry_boot :: vom_registry_context where
  "registry_boot = the (vom_registry_create True True)"

inductive registry_reachable :: "vom_registry_context \<Rightarrow> bool" where
  rr_start: "registry_reachable registry_boot"
| rr_step: "registry_reachable ctx \<Longrightarrow> reg_valid e \<Longrightarrow> registry_reachable (reg_exec e ctx)"

definition record_ok :: "WorkerRecord \<Rightarrow> bool" where
  "record_ok r \<longleftrightarrow> length (worker_id r) < REG_NAME_MAX \<and> length (transport_endpoint r) < REG_NAME_MAX
     \<and> length (active_chunk_ids r) \<le> REG_MAX_CHUNKS"

definition registry_inv :: "vom_registry_context \<Rightarrow> bool" where
  "registry_inv ctx \<longleftrightarrow> table_ok worker_id REG_MAX_WORKERS (records (state ctx))
   \<and> (\<forall>r \<in> set (records (state ctx)). record_ok r)
   \<and> ring_shape REG_RING_SIZE (pool ctx) (ref_counts ctx) (pool_tail ctx)"

lemmas registry_sizes [simp] = REG_MAX_WORKERS_def REG_MAX_CHUNKS_def REG_RING_SIZE_def REG_NAME_MAX_def

lemma upd_record_simps [simp]:
  "records (state (upd_record P f ctx)) = upd_first P f (records (state ctx))"
  "snapshot_version (state (upd_record P f ctx)) = snapshot_version (state ctx) + 1"
  "pool (upd_record P f ctx) = pool ctx" "pool_tail (upd_record P f ctx) = pool_tail ctx"
  "ref_counts (upd_record P f ctx) = ref_counts ctx"
  by (simp_all add: upd_record_def bump_version_def)

lemma bump_version_simps [simp]:
  "records (bump_version s) = records s" "snapshot_version (bump_version s) = snapshot_version s + 1"
  by (simp_all add: bump_version_def)

interpretation join_table: bounded_table "\<lambda>c. records (state c)" worker_id REG_MAX_WORKERS
  "\<lambda>(wid, tr, caps, now). wid" "\<lambda>(wid, tr, caps, now). length wid \<le> 63"
  "\<lambda>(wid, tr, caps, now) c. snd (vom_registry_on_worker_join (Some wid) (Some tr) (Some caps) now c)"
  "\<lambda>(wid, tr, caps, now) c. fst (vom_registry_on_worker_join (Some wid) (Some tr) (Some caps) now c)"
  "\<lambda>(wid, tr, caps, now). rejoin_record caps now" "\<lambda>(wid, tr, caps, now). new_record wid tr caps now"
  by unfold_locales
    (auto simp: vom_registry_on_worker_join_def lookup_by_ex rejoin_record_def new_record_def)

lemma reg_search_slot_scan:
  "reg_search_slot rs s k = ring_scan REG_RING_SIZE rs k s"
  by (induction rs s k rule: reg_search_slot.induct) simp_all

interpretation registry_ring: snapshot_ring REG_RING_SIZE "\<lambda>rs t. reg_search_slot rs t REG_RING_SIZE"
  state pool ref_counts pool_tail vom_registry_acquire_snapshot vom_registry_release_snapshot
proof (unfold_locales, goal_cases)
  case (2 rs t) then show ?case by (simp add: reg_search_slot_scan ring_scan_less)
next
  case (3 rs t)
  then show ?case using ring_scan_free [of rs REG_RING_SIZE t] by (simp add: reg_search_slot_scan)
next
  case (4 rs t)
  then show ?case using ring_scan_busy [of rs REG_RING_SIZE t] by (simp add: reg_search_slot_scan)
qed (simp_all add: vom_registry_acquire_snapshot_def vom_registry_release_snapshot_def Let_def)

section \<open>The sweep\<close>

definition swept :: "u64 \<Rightarrow> u64 \<Rightarrow> WorkerRecord \<Rightarrow> WorkerRecord" where
  "swept now timeout r = (if is_stale now timeout r then r\<lparr>status := REG_STATUS_DISCONNECTED\<rparr> else r)"

lemma sweep_loop_eq:
  assumes "int (length dead) \<le> m"
  shows "sweep_loop now timeout m rs dead v =
    (map (swept now timeout) rs,
     dead @ take (nat m - length dead)
       (map (\<lambda>r. c_strncpy (REG_NAME_MAX - 1) (worker_id r)) (filter (is_stale now timeout) rs)),
     v + of_nat (length (filter (is_stale now timeout) rs)))"
  using assms
proof (induction now timeout m rs dead v rule: sweep_loop.induct)
  case (2 now timeout m r rs dead v)
  show ?case
  proof (cases "is_stale now timeout r")
    case False
    with 2 show ?thesis by (simp add: swept_def)
  next
    case True
    show ?thesis
    proof (cases "int (length dead) < m")
      case room: True
      then have "nat m - length dead = Suc (nat m - Suc (length dead))" by simp
      with 2(1) [OF True refl] True room show ?thesis by (simp add: swept_def)
    next
      case False
      with "2.prems" have "nat m - length dead = 0" by simp
      with 2(1) [OF True refl] True False "2.prems" show ?thesis by (simp add: swept_def)
    qed
  qed
qed simp

lemma registry_sweep_eq:
  assumes "m > 0"
  shows "vom_registry_sweep_stale now timeout m ctx =
    (take (nat m) (map (\<lambda>r. c_strncpy (REG_NAME_MAX - 1) (worker_id r))
       (filter (is_stale now timeout) (records (state ctx)))),
     ctx\<lparr>state := \<lparr>records = map (swept now timeout) (records (state ctx)),
       snapshot_version = snapshot_version (state ctx)
         + of_nat (length (filter (is_stale now timeout) (records (state ctx))))\<rparr>\<rparr>)"
  using assms by (simp add: vom_registry_sweep_stale_def sweep_loop_eq)

lemma swept_simps [simp]:
  "worker_id (swept now timeout r) = worker_id r" "record_ok (swept now timeout r) = record_ok r"
  "last_seen_ms (swept now timeout r) = last_seen_ms r"
  by (simp_all add: swept_def record_ok_def)

section \<open>Every operation keeps the invariant\<close>

lemma upd_record_inv:
  assumes "registry_inv ctx"
    and "\<And>r. r \<in> set (records (state ctx)) \<Longrightarrow> P r \<Longrightarrow> record_ok r \<Longrightarrow> worker_id (f r) = worker_id r \<and> record_ok (f r)"
  shows "registry_inv (upd_record P f ctx)"
proof -
  have "table_ok worker_id REG_MAX_WORKERS (upd_first P f (records (state ctx)))"
    using assms by (intro table_ok_upd_first) (auto simp: registry_inv_def)
  moreover have "record_ok r" if "r \<in> set (upd_first P f (records (state ctx)))" for r
    using that assms upd_first_ball [of "records (state ctx)" record_ok P f r] by (auto simp: registry_inv_def)
  ultimately show ?thesis using assms(1) by (simp add: registry_inv_def)
qed

lemma join_inv:
  assumes "registry_inv ctx" "length wid \<le> 63"
  shows "registry_inv (reg_exec (RegJoin wid tr caps now) ctx)"
proof (cases "list_ex (\<lambda>r. worker_id r = wid) (records (state ctx))")
  case True
  then show ?thesis using assms
    by (auto simp: vom_registry_on_worker_join_def rejoin_record_def record_ok_def intro!: upd_record_inv)
next
  case False
  have "table_ok worker_id REG_MAX_WORKERS (records (state (reg_exec (RegJoin wid tr caps now) ctx)))"
    using join_table.put_table_ok [of "(wid, tr, caps, now)" ctx] assms by (simp add: registry_inv_def)
  moreover have "record_ok (new_record wid tr caps now)"
    using length_c_strncpy [of 63 wid] length_c_strncpy [of 63 tr] by (simp add: record_ok_def new_record_def)
  ultimately show ?thesis using assms(1) False
    by (auto simp: registry_inv_def vom_registry_on_worker_join_def split: if_splits)
qed

lemma track_inv: "registry_inv ctx \<Longrightarrow> registry_inv (reg_exec (RegTrack wid cid) ctx)"
proof (cases "lookup_by worker_id wid (records (state ctx))")
  case (Some r)
  assume inv: "registry_inv ctx"
  have "r' = r" if "r' \<in> set (records (state ctx))" "worker_id r' = wid" for r'
  proof -
    have "lookup_by worker_id wid (records (state ctx)) = Some r'"
      using that inv by (intro lookup_by_Some_iff [THEN iffD2]) (auto simp: registry_inv_def table_ok_def)
    with Some show ?thesis by simp
  qed
  with inv Some show ?thesis
    by (auto simp: vom_registry_track_chunk_def record_ok_def intro!: upd_record_inv)
qed (simp add: vom_registry_track_chunk_def)

lemma untrack_inv: "registry_inv ctx \<Longrightarrow> registry_inv (reg_exec (RegUntrack wid cid) ctx)"
  by (auto simp: vom_registry_untrack_chunk_def Let_def record_ok_def
      intro!: upd_record_inv order_trans [OF length_del_first_le])

lemma sweep_inv: "registry_inv ctx \<Longrightarrow> registry_inv (reg_exec (RegSweep now timeout m) ctx)"
proof (cases "m > 0")
  case True
  assume inv: "registry_inv ctx"
  have "map worker_id (map (swept now timeout) (records (state ctx))) = map worker_id (records (state ctx))"
    by simp
  then have "table_ok worker_id REG_MAX_WORKERS (map (swept now timeout) (records (state ctx)))"
    using inv unfolding registry_inv_def table_ok_def by (simp only: length_map)
  with inv True show ?thesis by (auto simp: registry_sweep_eq registry_inv_def)
qed (simp add: vom_registry_sweep_stale_def)

lemma reg_exec_inv: "registry_inv ctx \<Longrightarrow> reg_valid e \<Longrightarrow> registry_inv (reg_exec e ctx)"
proof (cases e)
  case RegAcquire
  assume "registry_inv ctx"
  then show ?thesis using RegAcquire registry_ring.acquire_ring_ok [of ctx] registry_ring.acquire_current [of ctx]
    by (simp add: registry_inv_def)
next
  case (RegRelease i)
  assume "registry_inv ctx"
  then show ?thesis using RegRelease registry_ring.release_ring_ok [of ctx i] registry_ring.release_current [of i ctx]
    by (simp add: registry_inv_def)
qed (auto simp: vom_registry_on_worker_heartbeat_def vom_registry_on_worker_leave_def touch_record_def
    record_ok_def intro!: upd_record_inv join_inv [simplified] track_inv [simplified]
    untrack_inv [simplified] sweep_inv [simplified])

lemma registry_boot_inv: "registry_inv registry_boot"
  by (simp add: registry_boot_def vom_registry_create_def registry_inv_def ring_shape_def)

section \<open>Properties\<close>

text \<open>
  every registry reached by joins of identifiers that fit their buffer, heartbeats, leaves,
  chunk tracking, sweeps and snapshot calls, in any order, holds at most 64 records with distinct
  identifiers, at most 32 tracked chunks per worker, and a well-formed snapshot ring.\<close>

theorem registry_reachable_inv: "registry_reachable ctx \<Longrightarrow> registry_inv ctx"
  by (induction rule: registry_reachable.induct) (auto intro: registry_boot_inv reg_exec_inv)

definition demo_caps :: vom_worker_capabilities where
  "demo_caps = \<lparr>arch = VOM_ARCH_X86_64, cores_online = 4, cores_total = 4, feature_bitmap = 0,
     ram_total_mb = 2048, ram_free_mb = 1024, battery_percent = -1, is_charging = False,
     is_ac_online = True, display_attached = False, display_width = 0, display_height = 0,
     touch_supported = False, network_link_type = VOM_LINK_ETH, network_bandwidth_kbps = 0\<rparr>"

definition demo_registry :: vom_registry_context where
  "demo_registry = reg_exec (RegJoin ''worker-2'' ''tcp'' demo_caps 50)
     (reg_exec (RegJoin ''worker-1'' ''tcp'' demo_caps 10) registry_boot)"

lemma demo_registry_records: "records (state demo_registry) =
    [new_record ''worker-1'' ''tcp'' demo_caps 10, new_record ''worker-2'' ''tcp'' demo_caps 50]"
  by (simp add: demo_registry_def registry_boot_def vom_registry_create_def
      vom_registry_on_worker_join_def new_record_def)

lemma demo_registry_reachable: "registry_reachable demo_registry"
  unfolding demo_registry_def by (intro registry_reachable.intros) simp_all

theorem registry_reachable_inv_witness: "registry_inv demo_registry"
  using registry_reachable_inv [OF demo_registry_reachable] .

text \<open>
  C27: in a registry that satisfies its invariant, as every reachable one does, a sweep with room for at least one
  identifier marks disconnected exactly the records that are
  not yet disconnected and whose last contact lies more than the timeout back (in 64-bit wrapping
  arithmetic), changes nothing else in any record, raises the version once per marked record, and
  reports the identifiers of the marked records in table order up to the given limit; repeating it at
  the same time reports nobody.\<close>

theorem registry_sweep_exact:
  assumes "registry_inv ctx" "m > 0" "vom_registry_sweep_stale now timeout m ctx = (dead, ctx')"
  shows "records (state ctx') = map (swept now timeout) (records (state ctx))
    \<and> dead = take (nat m) (map worker_id (filter (is_stale now timeout) (records (state ctx))))
    \<and> snapshot_version (state ctx') = snapshot_version (state ctx)
        + of_nat (length (filter (is_stale now timeout) (records (state ctx))))
    \<and> fst (vom_registry_sweep_stale now timeout m ctx') = []"
proof -
  have "c_strncpy (REG_NAME_MAX - 1) (worker_id r) = worker_id r" if "r \<in> set (records (state ctx))" for r
    using assms(1) that by (auto simp: registry_inv_def record_ok_def)
  then have ids: "map (\<lambda>r. c_strncpy (REG_NAME_MAX - 1) (worker_id r)) (filter (is_stale now timeout) (records (state ctx)))
      = map worker_id (filter (is_stale now timeout) (records (state ctx)))" by simp
  have none: "filter (is_stale now timeout) (map (swept now timeout) rs) = []" for rs
    by (induction rs) (auto simp: swept_def is_stale_def)
  have eq: "dead = take (nat m) (map worker_id (filter (is_stale now timeout) (records (state ctx))))"
    "records (state ctx') = map (swept now timeout) (records (state ctx))"
    "snapshot_version (state ctx') = snapshot_version (state ctx)
        + of_nat (length (filter (is_stale now timeout) (records (state ctx))))"
    using assms(3) unfolding registry_sweep_eq [OF assms(2)] ids by auto
  then show ?thesis unfolding registry_sweep_eq [OF assms(2), of now timeout ctx'] by (simp add: none)
qed

theorem registry_sweep_exact_witness:
  "fst (vom_registry_sweep_stale 100 60 8 demo_registry) = [''worker-1'']"
proof -
  obtain dead ctx' where *: "vom_registry_sweep_stale 100 60 8 demo_registry = (dead, ctx')" by fastforce
  have "filter (is_stale 100 60) (records (state demo_registry)) = [new_record ''worker-1'' ''tcp'' demo_caps 10]"
    by (simp add: demo_registry_records is_stale_def new_record_def)
  moreover have "registry_inv demo_registry"
    unfolding demo_registry_def by (intro reg_exec_inv registry_boot_inv) simp_all
  ultimately show ?thesis using registry_sweep_exact [OF _ _ *] * by (simp add: new_record_def)
qed

text \<open>
  tracking a chunk for a known worker with fewer than 32 tracked chunks succeeds, and untracking it
  again succeeds and restores every record when the chunk was not tracked before; tracking for an
  unknown worker, or beyond 32 chunks, fails and changes nothing.\<close>

theorem track_untrack_roundtrip:
  assumes "registry_inv ctx" "vom_registry_track_chunk (Some wid) cid ctx = (ok, ctx')"
  shows "(ok \<longleftrightarrow> (\<exists>r. lookup_by worker_id wid (records (state ctx)) = Some r \<and> length (active_chunk_ids r) < REG_MAX_CHUNKS))
    \<and> (\<not> ok \<longrightarrow> ctx' = ctx)
    \<and> (ok \<and> (\<forall>r \<in> set (records (state ctx)). worker_id r = wid \<longrightarrow> cid \<notin> set (active_chunk_ids r)) \<longrightarrow>
        fst (vom_registry_untrack_chunk (Some wid) cid ctx')
        \<and> records (state (snd (vom_registry_untrack_chunk (Some wid) cid ctx'))) = records (state ctx))"
proof -
  let ?rs = "records (state ctx)"
  have restore: "upd_first (\<lambda>r. worker_id r = wid \<and> cid \<in> set (active_chunk_ids r))
        (\<lambda>r. r\<lparr>active_chunk_ids := del_first (\<lambda>x. x = cid) (active_chunk_ids r)\<rparr>)
        (upd_first (\<lambda>r. worker_id r = wid) (\<lambda>r. r\<lparr>active_chunk_ids := active_chunk_ids r @ [cid]\<rparr>) rs) = rs
      \<and> list_ex (\<lambda>r. worker_id r = wid \<and> cid \<in> set (active_chunk_ids r))
        (upd_first (\<lambda>r. worker_id r = wid) (\<lambda>r. r\<lparr>active_chunk_ids := active_chunk_ids r @ [cid]\<rparr>) rs)"
    if "list_ex (\<lambda>r. worker_id r = wid) rs" "\<forall>r \<in> set rs. worker_id r = wid \<longrightarrow> cid \<notin> set (active_chunk_ids r)" for rs
    using that by (induction rs) (auto simp: del_first_append_absent)
  show ?thesis
  proof (cases "lookup_by worker_id wid ?rs")
    case None
    with assms(2) show ?thesis by (simp add: vom_registry_track_chunk_def)
  next
    case (Some r)
    then have "list_ex (\<lambda>r. worker_id r = wid) ?rs" by (simp add: lookup_by_ex)
    note r = restore [OF this]
    show ?thesis
    proof (cases "length (active_chunk_ids r) < REG_MAX_CHUNKS")
      case True
      with Some assms(2) have "ok" "ctx' = upd_record (\<lambda>r. worker_id r = wid)
          (\<lambda>r. r\<lparr>active_chunk_ids := active_chunk_ids r @ [cid]\<rparr>) ctx"
        by (simp_all add: vom_registry_track_chunk_def)
      with r Some True show ?thesis by (simp add: vom_registry_untrack_chunk_def Let_def)
    qed (use Some assms(2) in \<open>simp add: vom_registry_track_chunk_def\<close>)
  qed
qed

theorem track_untrack_roundtrip_witness:
  "fst (vom_registry_track_chunk (Some ''worker-2'') 9 demo_registry)
   \<and> records (state (snd (vom_registry_untrack_chunk (Some ''worker-2'') 9
        (snd (vom_registry_track_chunk (Some ''worker-2'') 9 demo_registry))))) = records (state demo_registry)"
proof -
  obtain ok ctx' where *: "vom_registry_track_chunk (Some ''worker-2'') 9 demo_registry = (ok, ctx')" by fastforce
  have inv: "registry_inv demo_registry"
    unfolding demo_registry_def by (intro reg_exec_inv registry_boot_inv) simp_all
  show ?thesis using track_untrack_roundtrip [OF inv *] *
    by (simp add: demo_registry_records new_record_def)
qed

text \<open>
  a worker whose identifier is longer than 63 characters can join while the table has room, but
  the stored identifier is its truncation: its heartbeat is refused, its leave is refused, and joining
  again adds a second record with the same stored identifier.\<close>

theorem long_identifier_lost:
  assumes "registry_inv ctx" "length wid > 63" "length (records (state ctx)) + 2 \<le> REG_MAX_WORKERS"
    and "ctx1 = reg_exec (RegJoin wid tr caps now) ctx" "ctx2 = reg_exec (RegJoin wid tr caps now) ctx1"
  shows "fst (vom_registry_on_worker_join (Some wid) (Some tr) (Some caps) now ctx)
    \<and> \<not> fst (vom_registry_on_worker_heartbeat (Some wid) (Some caps) now ctx1)
    \<and> \<not> fst (vom_registry_on_worker_leave (Some wid) ctx1)
    \<and> records (state ctx2) = records (state ctx) @ replicate 2 (new_record wid tr caps now)"
proof -
  have absent: "\<not> list_ex (\<lambda>r. worker_id r = wid) (records (state ctx))"
    using assms(1,2) by (auto simp: registry_inv_def record_ok_def list_ex_iff)
  have "worker_id (new_record wid tr caps now) \<noteq> wid"
  proof
    assume "worker_id (new_record wid tr caps now) = wid"
    then have "length wid \<le> 63" using length_c_strncpy [of 63 wid] by (simp add: new_record_def)
    with assms(2) show False by simp
  qed
  with absent assms(3) show ?thesis
    by (simp add: assms(4,5) vom_registry_on_worker_join_def vom_registry_on_worker_heartbeat_def
        vom_registry_on_worker_leave_def numeral_2_eq_2)
qed

theorem long_identifier_lost_witness:
  "let wid = replicate 64 (CHR ''w'');
       ctx1 = reg_exec (RegJoin wid ''tcp'' demo_caps 0) demo_registry
   in length wid > 63 \<and> \<not> fst (vom_registry_on_worker_heartbeat (Some wid) (Some demo_caps) 0 ctx1)"
proof -
  have inv: "registry_inv demo_registry"
    unfolding demo_registry_def by (intro reg_exec_inv registry_boot_inv) simp_all
  have "length (replicate 64 (CHR ''w'')) > 63" "length (records (state demo_registry)) + 2 \<le> REG_MAX_WORKERS"
    by (simp_all add: demo_registry_records)
  from long_identifier_lost [OF inv this refl refl, of "''tcp''" demo_caps 0] show ?thesis by simp
qed

end
