(* ===== verification/Cluster_State.thy ===== *)
theory Cluster_State
  imports Prelude
begin

text \<open>
  The authoritative cluster state of the master (\<^verbatim>\<open>master/src/cluster_state.c\<close>): the
  worker and lease tables with their aggregate metrics, the ring of reference-counted snapshots and
  the write-ahead file.

  Every operation runs under \<open>context_mutex\<close>, so it is one atomic step; a context pointer is
  valid (the operations return at once on \<open>NULL\<close>). A snapshot pointer is the index of its
  slot in \<open>snapshot_pool\<close>. The write-ahead file either is absent, holds a whole image of the
  state structure, or holds fewer bytes than one image; whether \<open>fopen\<close> and \<open>fwrite\<close>
  succeed, and whether the bytes that \<open>fwrite\<close> left in the buffer reach the file when \<open>fflush\<close> and
  \<open>fclose\<close> are called (their results are ignored by the code), are arguments.

  Proved: the invariant of every state reachable over any interleaving of operations, restarts and
  file errors; what each operation changes on each branch; that the aggregates are the sums over the
  live workers; the write-ahead round trip and its failure mode; when a held snapshot stays intact.
\<close>

section \<open>Data\<close>

definition SNAPSHOT_RING_SIZE :: nat where "SNAPSHOT_RING_SIZE = 4"
definition CLUSTER_MAX_WORKERS :: nat where "CLUSTER_MAX_WORKERS = 32"
definition CLUSTER_MAX_ACTIVE_LEASES :: nat where "CLUSTER_MAX_ACTIVE_LEASES = 128"
definition UUID_STR_MAX :: nat where "UUID_STR_MAX = 64"

datatype WorkerHealth = WORKER_HEALTH_ONLINE | WORKER_HEALTH_DRAINING | WORKER_HEALTH_OFFLINE

datatype ClusterStatus =
  CLUSTER_STATUS_BOOSTRAP | CLUSTER_STATUS_OPERATIONAL | CLUSTER_STATUS_DEGRADED

datatype LeaseStatus =
  LEASE_STATUS_RUNNING | LEASE_STATUS_COMPLETED | LEASE_STATUS_FAILED | LEASE_STATUS_TIMED_OUT

record WorkerResources =
  total_memory_bytes :: u64
  reserved_memory_bytes :: u64
  total_cores :: u32
  reserved_cores :: u32

record WorkerMember =
  worker_id :: u32
  health :: WorkerHealth
  last_seen_timestamp_ms :: u64
  resources :: WorkerResources

record ChunkLease =
  chunk_id :: u64
  status :: LeaseStatus
  progress_percentage :: fp
  failure_retry_count :: u32

record ClusterMetrics =
  cluster_aggregate_memory_bytes :: u64
  cluster_allocated_memory_bytes :: u64
  cluster_aggregate_cores :: u32
  cluster_allocated_cores :: u32
  active_worker_count :: u32

record ClusterStateSnapshot =
  cluster_uuid :: string
  master_epoch :: u64
  state_generation_version :: u64
  global_status :: ClusterStatus
  active_workers :: "WorkerMember list"
  active_leases :: "ChunkLease list"
  metrics :: ClusterMetrics

record ClusterStateContext =
  master_state :: ClusterStateSnapshot
  snapshot_pool :: "ClusterStateSnapshot list"
  pool_tail_idx :: nat
  snapshot_ref_counts :: "u32 list"

datatype wal_file = WAL_ABSENT | WAL_SHORT | WAL_IMAGE ClusterStateSnapshot

section \<open>Operations\<close>

definition zero_metrics :: ClusterMetrics where
  "zero_metrics = \<lparr>cluster_aggregate_memory_bytes = 0, cluster_allocated_memory_bytes = 0,
     cluster_aggregate_cores = 0, cluster_allocated_cores = 0, active_worker_count = 0\<rparr>"

definition is_live :: "WorkerMember \<Rightarrow> bool" where
  "is_live w \<longleftrightarrow> health w = WORKER_HEALTH_ONLINE \<or> health w = WORKER_HEALTH_DRAINING"

definition add_worker_metrics :: "WorkerMember \<Rightarrow> ClusterMetrics \<Rightarrow> ClusterMetrics" where
  "add_worker_metrics w m =
     (if is_live w then
        m\<lparr>cluster_aggregate_memory_bytes :=
             cluster_aggregate_memory_bytes m + total_memory_bytes (resources w),
           cluster_allocated_memory_bytes :=
             cluster_allocated_memory_bytes m + reserved_memory_bytes (resources w),
           cluster_aggregate_cores := cluster_aggregate_cores m + total_cores (resources w),
           cluster_allocated_cores := cluster_allocated_cores m + reserved_cores (resources w),
           active_worker_count := active_worker_count m + 1\<rparr>
      else m)"

definition internal_recalculate_aggregates :: "ClusterStateSnapshot \<Rightarrow> ClusterStateSnapshot" where
  "internal_recalculate_aggregates st =
     st\<lparr>metrics := fold add_worker_metrics (active_workers st) zero_metrics\<rparr>"

definition zero_snapshot :: ClusterStateSnapshot where
  "zero_snapshot = \<lparr>cluster_uuid = [], master_epoch = 0, state_generation_version = 0,
     global_status = CLUSTER_STATUS_BOOSTRAP, active_workers = [], active_leases = [],
     metrics = zero_metrics\<rparr>"

definition cluster_state_create ::
  "string option \<Rightarrow> u64 \<Rightarrow> bool \<Rightarrow> bool \<Rightarrow> ClusterStateContext option" where
  "cluster_state_create uuid initial_epoch calloc_ok mutex_ok =
     (case uuid of
        None \<Rightarrow> None
      | Some u \<Rightarrow>
          if \<not> calloc_ok \<or> \<not> mutex_ok then None
          else Some \<lparr>master_state = zero_snapshot\<lparr>
                        cluster_uuid := c_strncpy (UUID_STR_MAX - 1) u,
                        master_epoch := initial_epoch,
                        state_generation_version := 1,
                        global_status := CLUSTER_STATUS_BOOSTRAP\<rparr>,
                      snapshot_pool = replicate SNAPSHOT_RING_SIZE zero_snapshot,
                      pool_tail_idx = 0,
                      snapshot_ref_counts = replicate SNAPSHOT_RING_SIZE 0\<rparr>)"

text \<open>
  Opening the file truncates it. \<open>fwrite_ok\<close> is whether \<open>fwrite\<close> accepted the whole structure, \<open>flush_ok\<close> whether
  \<open>fflush\<close> or \<open>fclose\<close> then wrote what was still in the buffer of the stream; the code looks only at the
  former, so it reports success also when the end of the structure never reached the file.
\<close>

definition cluster_state_persist_to_wal ::
  "ClusterStateContext \<Rightarrow> bool \<Rightarrow> bool \<Rightarrow> bool \<Rightarrow> wal_file \<Rightarrow> bool \<times> wal_file" where
  "cluster_state_persist_to_wal ctx fopen_ok fwrite_ok flush_ok wal =
     (if \<not> fopen_ok then (False, wal)
      else (fwrite_ok, if fwrite_ok \<and> flush_ok then WAL_IMAGE (master_state ctx) else WAL_SHORT))"

definition cluster_state_recover_from_wal ::
  "ClusterStateContext \<Rightarrow> bool \<Rightarrow> wal_file \<Rightarrow> bool \<times> ClusterStateContext" where
  "cluster_state_recover_from_wal ctx fopen_ok wal =
     (if \<not> fopen_ok then (False, ctx)
      else case wal of
        WAL_ABSENT \<Rightarrow> (False, ctx)
      | WAL_SHORT \<Rightarrow> (False, ctx)
      | WAL_IMAGE img \<Rightarrow>
          (True, ctx\<lparr>master_state :=
                   img\<lparr>state_generation_version := state_generation_version img + 1\<rparr>\<rparr>))"

function cs_search_slot :: "u32 list \<Rightarrow> nat \<Rightarrow> nat \<Rightarrow> nat" where
  "cs_search_slot refs target_slot search_count =
     (if refs ! target_slot > 0 then
        (let target' = (target_slot + 1) mod SNAPSHOT_RING_SIZE; count' = search_count + 1
         in if count' \<ge> SNAPSHOT_RING_SIZE then target' else cs_search_slot refs target' count')
      else target_slot)"
  by pat_completeness auto
termination
  by (relation "measure (\<lambda>(refs, t, c). SNAPSHOT_RING_SIZE - c)") auto

declare cs_search_slot.simps [simp del]

definition cluster_state_acquire_snapshot ::
  "ClusterStateContext \<Rightarrow> nat \<times> ClusterStateContext" where
  "cluster_state_acquire_snapshot ctx =
     (let target_slot = cs_search_slot (snapshot_ref_counts ctx) (pool_tail_idx ctx) 0
      in (target_slot,
          ctx\<lparr>snapshot_pool := (snapshot_pool ctx)[target_slot := master_state ctx],
              snapshot_ref_counts :=
                (snapshot_ref_counts ctx)[target_slot := snapshot_ref_counts ctx ! target_slot + 1],
              pool_tail_idx := (target_slot + 1) mod SNAPSHOT_RING_SIZE\<rparr>))"

definition cluster_state_release_snapshot :: "nat \<Rightarrow> ClusterStateContext \<Rightarrow> ClusterStateContext" where
  "cluster_state_release_snapshot slot ctx =
     (if slot < SNAPSHOT_RING_SIZE \<and> snapshot_ref_counts ctx ! slot > 0
      then ctx\<lparr>snapshot_ref_counts :=
             (snapshot_ref_counts ctx)[slot := snapshot_ref_counts ctx ! slot - 1]\<rparr>
      else ctx)"

definition cluster_state_register_worker ::
  "WorkerMember \<Rightarrow> ClusterStateContext \<Rightarrow> bool \<times> ClusterStateContext" where
  "cluster_state_register_worker worker ctx =
     (let st = master_state ctx in
      if length (active_workers st) \<ge> CLUSTER_MAX_WORKERS then (False, ctx)
      else if list_ex (\<lambda>w. worker_id w = worker_id worker) (active_workers st) then (False, ctx)
      else
        (let st1 = st\<lparr>active_workers := active_workers st @ [worker],
                      state_generation_version := state_generation_version st + 1\<rparr>;
             st2 = (if global_status st1 = CLUSTER_STATUS_BOOSTRAP
                       \<and> length (active_workers st1) \<ge> 1
                    then st1\<lparr>global_status := CLUSTER_STATUS_OPERATIONAL\<rparr> else st1)
         in (True, ctx\<lparr>master_state := internal_recalculate_aggregates st2\<rparr>)))"

definition zero_lease :: "u64 \<Rightarrow> ChunkLease" where
  "zero_lease cid = \<lparr>chunk_id = cid, status = LEASE_STATUS_RUNNING, progress_percentage = Fin 0,
     failure_retry_count = 0\<rparr>"

definition apply_lease_update :: "LeaseStatus \<Rightarrow> fp \<Rightarrow> ChunkLease \<Rightarrow> ChunkLease" where
  "apply_lease_update new_status progress lease =
     (let l = lease\<lparr>status := new_status, progress_percentage := progress\<rparr>
      in if new_status = LEASE_STATUS_FAILED \<or> new_status = LEASE_STATUS_TIMED_OUT
         then l\<lparr>failure_retry_count := failure_retry_count l + 1\<rparr> else l)"

definition cluster_state_update_lease ::
  "u64 \<Rightarrow> LeaseStatus \<Rightarrow> fp \<Rightarrow> ClusterStateContext \<Rightarrow> bool \<times> ClusterStateContext" where
  "cluster_state_update_lease cid new_status progress ctx =
     (let st = master_state ctx;
          found = list_ex (\<lambda>l. chunk_id l = cid) (active_leases st)
      in if \<not> found \<and> length (active_leases st) \<ge> CLUSTER_MAX_ACTIVE_LEASES then (False, ctx)
         else
           (let leases = (if found then active_leases st else active_leases st @ [zero_lease cid])
            in (True, ctx\<lparr>master_state := st\<lparr>
                  active_leases :=
                    upd_first (\<lambda>l. chunk_id l = cid) (apply_lease_update new_status progress) leases,
                  state_generation_version := state_generation_version st + 1\<rparr>\<rparr>)))"

definition touch_worker :: "u64 \<Rightarrow> WorkerMember \<Rightarrow> WorkerMember" where
  "touch_worker timestamp_ms w =
     w\<lparr>last_seen_timestamp_ms := timestamp_ms,
       health := (if health w = WORKER_HEALTH_OFFLINE then WORKER_HEALTH_ONLINE else health w)\<rparr>"

definition cluster_state_process_heartbeat ::
  "u32 \<Rightarrow> u64 \<Rightarrow> ClusterStateContext \<Rightarrow> bool \<times> ClusterStateContext" where
  "cluster_state_process_heartbeat wid timestamp_ms ctx =
     (let st = master_state ctx in
      if list_ex (\<lambda>w. worker_id w = wid) (active_workers st)
      then (True, ctx\<lparr>master_state := internal_recalculate_aggregates (st\<lparr>
              active_workers :=
                upd_first (\<lambda>w. worker_id w = wid) (touch_worker timestamp_ms) (active_workers st),
              state_generation_version := state_generation_version st + 1\<rparr>)\<rparr>)
      else (False, ctx))"

section \<open>Step relation and invariant\<close>

text \<open>
  The system is a context together with the write-ahead file. A restart throws the context away,
  creates a fresh one and keeps the file.
\<close>

record cluster_sys =
  sys_ctx :: ClusterStateContext
  sys_wal :: wal_file

datatype cluster_event =
    EvRegister WorkerMember
  | EvLease u64 LeaseStatus fp
  | EvHeartbeat u32 u64
  | EvAcquire
  | EvRelease nat
  | EvPersist bool bool bool
  | EvRecover bool
  | EvRestart string u64

definition cluster_boot :: "string \<Rightarrow> u64 \<Rightarrow> ClusterStateContext" where
  "cluster_boot uuid epoch = the (cluster_state_create (Some uuid) epoch True True)"

fun cluster_exec :: "cluster_event \<Rightarrow> cluster_sys \<Rightarrow> cluster_sys" where
  "cluster_exec (EvRegister w) s =
     s\<lparr>sys_ctx := snd (cluster_state_register_worker w (sys_ctx s))\<rparr>"
| "cluster_exec (EvLease cid ls pr) s =
     s\<lparr>sys_ctx := snd (cluster_state_update_lease cid ls pr (sys_ctx s))\<rparr>"
| "cluster_exec (EvHeartbeat wid ts) s =
     s\<lparr>sys_ctx := snd (cluster_state_process_heartbeat wid ts (sys_ctx s))\<rparr>"
| "cluster_exec EvAcquire s = s\<lparr>sys_ctx := snd (cluster_state_acquire_snapshot (sys_ctx s))\<rparr>"
| "cluster_exec (EvRelease i) s = s\<lparr>sys_ctx := cluster_state_release_snapshot i (sys_ctx s)\<rparr>"
| "cluster_exec (EvPersist fopen_ok fwrite_ok flush_ok) s =
     s\<lparr>sys_wal := snd (cluster_state_persist_to_wal (sys_ctx s) fopen_ok fwrite_ok flush_ok (sys_wal s))\<rparr>"
| "cluster_exec (EvRecover fopen_ok) s =
     s\<lparr>sys_ctx := snd (cluster_state_recover_from_wal (sys_ctx s) fopen_ok (sys_wal s))\<rparr>"
| "cluster_exec (EvRestart uuid epoch) s = s\<lparr>sys_ctx := cluster_boot uuid epoch\<rparr>"

inductive cluster_reachable :: "cluster_sys \<Rightarrow> bool" where
  reach_start: "cluster_reachable \<lparr>sys_ctx = cluster_boot uuid epoch, sys_wal = WAL_ABSENT\<rparr>"
| reach_step: "cluster_reachable s \<Longrightarrow> cluster_reachable (cluster_exec e s)"

fun is_persist :: "cluster_event \<Rightarrow> bool" where
  "is_persist (EvPersist fopen_ok fwrite_ok flush_ok) = True"
| "is_persist _ = False"

definition snapshot_inv :: "ClusterStateSnapshot \<Rightarrow> bool" where
  "snapshot_inv st \<longleftrightarrow>
     table_ok worker_id CLUSTER_MAX_WORKERS (active_workers st)
   \<and> table_ok chunk_id CLUSTER_MAX_ACTIVE_LEASES (active_leases st)
   \<and> metrics st = fold add_worker_metrics (active_workers st) zero_metrics
   \<and> global_status st = (if active_workers st = [] then CLUSTER_STATUS_BOOSTRAP
                         else CLUSTER_STATUS_OPERATIONAL)
   \<and> length (cluster_uuid st) < UUID_STR_MAX"

definition cluster_ring_ok :: "ClusterStateContext \<Rightarrow> bool" where
  "cluster_ring_ok ctx \<longleftrightarrow>
     ring_shape SNAPSHOT_RING_SIZE (snapshot_pool ctx) (snapshot_ref_counts ctx) (pool_tail_idx ctx)"

definition wal_inv :: "wal_file \<Rightarrow> bool" where
  "wal_inv wal = (case wal of WAL_IMAGE img \<Rightarrow> snapshot_inv img | _ \<Rightarrow> True)"

definition cluster_sys_inv :: "cluster_sys \<Rightarrow> bool" where
  "cluster_sys_inv s \<longleftrightarrow>
     snapshot_inv (master_state (sys_ctx s)) \<and> cluster_ring_ok (sys_ctx s) \<and> wal_inv (sys_wal s)"

section \<open>Lemmas\<close>

lemmas cluster_sizes [simp] = SNAPSHOT_RING_SIZE_def CLUSTER_MAX_WORKERS_def
  CLUSTER_MAX_ACTIVE_LEASES_def UUID_STR_MAX_def

subsection \<open>Frames and field effects\<close>

lemma recalculate_simps [simp]:
  "cluster_uuid (internal_recalculate_aggregates st) = cluster_uuid st"
  "master_epoch (internal_recalculate_aggregates st) = master_epoch st"
  "state_generation_version (internal_recalculate_aggregates st) = state_generation_version st"
  "global_status (internal_recalculate_aggregates st) = global_status st"
  "active_workers (internal_recalculate_aggregates st) = active_workers st"
  "active_leases (internal_recalculate_aggregates st) = active_leases st"
  "metrics (internal_recalculate_aggregates st) =
     fold add_worker_metrics (active_workers st) zero_metrics"
  by (simp_all add: internal_recalculate_aggregates_def)

lemma apply_lease_update_chunk_id [simp]: "chunk_id (apply_lease_update ls pr l) = chunk_id l"
  by (simp add: apply_lease_update_def Let_def)

lemma zero_lease_chunk_id [simp]: "chunk_id (zero_lease cid) = cid"
  by (simp add: zero_lease_def)

lemma touch_worker_worker_id [simp]: "worker_id (touch_worker ts w) = worker_id w"
  by (simp add: touch_worker_def)

lemma ring_fields_frame [simp, vom_frame]:
  "snapshot_pool (snd (cluster_state_register_worker w c)) = snapshot_pool c"
  "snapshot_ref_counts (snd (cluster_state_register_worker w c)) = snapshot_ref_counts c"
  "pool_tail_idx (snd (cluster_state_register_worker w c)) = pool_tail_idx c"
  "snapshot_pool (snd (cluster_state_update_lease cid ls pr c)) = snapshot_pool c"
  "snapshot_ref_counts (snd (cluster_state_update_lease cid ls pr c)) = snapshot_ref_counts c"
  "pool_tail_idx (snd (cluster_state_update_lease cid ls pr c)) = pool_tail_idx c"
  "snapshot_pool (snd (cluster_state_process_heartbeat wid ts c)) = snapshot_pool c"
  "snapshot_ref_counts (snd (cluster_state_process_heartbeat wid ts c)) = snapshot_ref_counts c"
  "pool_tail_idx (snd (cluster_state_process_heartbeat wid ts c)) = pool_tail_idx c"
  "snapshot_pool (snd (cluster_state_recover_from_wal c fo wal)) = snapshot_pool c"
  "snapshot_ref_counts (snd (cluster_state_recover_from_wal c fo wal)) = snapshot_ref_counts c"
  "pool_tail_idx (snd (cluster_state_recover_from_wal c fo wal)) = pool_tail_idx c"
  by (simp_all add: cluster_state_register_worker_def cluster_state_update_lease_def
      cluster_state_process_heartbeat_def cluster_state_recover_from_wal_def Let_def
      split: wal_file.splits)

subsection \<open>The lease table and the snapshot ring meet their contracts\<close>

interpretation lease_table: bounded_table
  "\<lambda>c. active_leases (master_state c)" chunk_id CLUSTER_MAX_ACTIVE_LEASES
  "\<lambda>(cid, ls, pr). cid" "\<lambda>_. True"
  "\<lambda>(cid, ls, pr) c. snd (cluster_state_update_lease cid ls pr c)"
  "\<lambda>(cid, ls, pr) c. fst (cluster_state_update_lease cid ls pr c)"
  "\<lambda>(cid, ls, pr). apply_lease_update ls pr"
  "\<lambda>(cid, ls, pr). apply_lease_update ls pr (zero_lease cid)"
proof (unfold_locales, goal_cases)
  case (1 a s r)
  then show ?case
    by (auto simp: cluster_state_update_lease_def Let_def lookup_by_ex split: prod.splits)
next
  case (2 a s)
  then show ?case
    by (auto simp: cluster_state_update_lease_def Let_def lookup_by_ex upd_first_snoc
        split: prod.splits)
next
  case (3 a s)
  then show ?case
    by (auto simp: cluster_state_update_lease_def lookup_by_ex split: prod.splits)
qed (auto split: prod.splits)

lemma cs_search_slot_scan:
  "c < SNAPSHOT_RING_SIZE \<Longrightarrow>
    cs_search_slot rs t c = ring_scan SNAPSHOT_RING_SIZE rs (SNAPSHOT_RING_SIZE - c) t"
proof (induction rs t c rule: cs_search_slot.induct)
  case (1 rs t c)
  have "SNAPSHOT_RING_SIZE - c = Suc (SNAPSHOT_RING_SIZE - Suc c)"
    using "1.prems" by simp
  moreover have "cs_search_slot rs ((t + 1) mod SNAPSHOT_RING_SIZE) (c + 1) =
      ring_scan SNAPSHOT_RING_SIZE rs (SNAPSHOT_RING_SIZE - Suc c) ((t + 1) mod SNAPSHOT_RING_SIZE)"
    if "rs ! t > 0" "\<not> c + 1 \<ge> SNAPSHOT_RING_SIZE"
    using that "1.IH" by simp
  ultimately show ?case
    by (auto simp: cs_search_slot.simps [of rs t c] Let_def word_gt_0 simp del: cluster_sizes)
qed

interpretation cluster_ring: snapshot_ring SNAPSHOT_RING_SIZE "\<lambda>rs t. cs_search_slot rs t 0"
  master_state snapshot_pool snapshot_ref_counts pool_tail_idx
  cluster_state_acquire_snapshot cluster_state_release_snapshot
proof (unfold_locales, goal_cases)
  case (2 rs t) then show ?case by (simp add: cs_search_slot_scan ring_scan_less)
next
  case (3 rs t)
  then show ?case using ring_scan_free [of rs SNAPSHOT_RING_SIZE t] by (simp add: cs_search_slot_scan)
next
  case (4 rs t)
  then show ?case using ring_scan_busy [of rs SNAPSHOT_RING_SIZE t] by (simp add: cs_search_slot_scan)
qed (simp_all add: cluster_state_acquire_snapshot_def cluster_state_release_snapshot_def Let_def)

subsection \<open>Every operation keeps the invariant\<close>

lemma snapshot_inv_boot: "snapshot_inv (master_state (cluster_boot uuid epoch))"
  using length_c_strncpy [of 63 uuid]
  by (simp add: snapshot_inv_def cluster_boot_def cluster_state_create_def zero_snapshot_def)

lemma cluster_ring_ok_boot: "cluster_ring_ok (cluster_boot uuid epoch)"
  by (simp add: cluster_ring_ok_def ring_shape_def cluster_boot_def cluster_state_create_def)

lemma snapshot_inv_register:
  assumes "snapshot_inv (master_state c)"
  shows "snapshot_inv (master_state (snd (cluster_state_register_worker w c)))"
  using assms
  by (auto simp: snapshot_inv_def cluster_state_register_worker_def Let_def lookup_by_ex
      lookup_by_None table_ok_def)

lemma snapshot_inv_lease:
  assumes "snapshot_inv (master_state c)"
  shows "snapshot_inv (master_state (snd (cluster_state_update_lease cid ls pr c)))"
proof -
  let ?c = "snd (cluster_state_update_lease cid ls pr c)"
  have "table_ok chunk_id CLUSTER_MAX_ACTIVE_LEASES (active_leases (master_state ?c))"
    using lease_table.put_table_ok [where a = "(cid, ls, pr)" and s = c] assms by (simp add: snapshot_inv_def)
  moreover have "cluster_uuid (master_state ?c) = cluster_uuid (master_state c)"
    "active_workers (master_state ?c) = active_workers (master_state c)"
    "metrics (master_state ?c) = metrics (master_state c)"
    "global_status (master_state ?c) = global_status (master_state c)"
    by (simp_all add: cluster_state_update_lease_def Let_def)
  ultimately show ?thesis using assms by (simp add: snapshot_inv_def)
qed

lemma snapshot_inv_heartbeat:
  assumes "snapshot_inv (master_state c)"
  shows "snapshot_inv (master_state (snd (cluster_state_process_heartbeat wid ts c)))"
proof -
  have "table_ok worker_id CLUSTER_MAX_WORKERS
      (upd_first (\<lambda>w. worker_id w = wid) (touch_worker ts) (active_workers (master_state c)))"
    using assms by (auto simp: snapshot_inv_def intro!: table_ok_upd_first)
  moreover have "upd_first P f xs = [] \<longleftrightarrow> xs = []" for P f and xs :: "WorkerMember list"
    by (cases xs) auto
  ultimately show ?thesis
    using assms by (auto simp: snapshot_inv_def cluster_state_process_heartbeat_def Let_def)
qed

lemma snapshot_inv_recover:
  "snapshot_inv (master_state c) \<Longrightarrow> wal_inv wal \<Longrightarrow>
    snapshot_inv (master_state (snd (cluster_state_recover_from_wal c fo wal)))"
  by (auto simp: cluster_state_recover_from_wal_def wal_inv_def snapshot_inv_def
      split: wal_file.splits)

lemmas snapshot_inv_ops = snapshot_inv_boot snapshot_inv_register snapshot_inv_lease
  snapshot_inv_heartbeat snapshot_inv_recover

lemma cluster_ring_ok_ops:
  "cluster_ring_ok (snd (cluster_state_register_worker w c)) = cluster_ring_ok c"
  "cluster_ring_ok (snd (cluster_state_update_lease cid ls pr c)) = cluster_ring_ok c"
  "cluster_ring_ok (snd (cluster_state_process_heartbeat wid ts c)) = cluster_ring_ok c"
  "cluster_ring_ok (snd (cluster_state_recover_from_wal c fo wal)) = cluster_ring_ok c"
  "cluster_ring_ok c \<Longrightarrow> cluster_ring_ok (snd (cluster_state_acquire_snapshot c))"
  "cluster_ring_ok c \<Longrightarrow> cluster_ring_ok (cluster_state_release_snapshot i c)"
  using cluster_ring.acquire_ring_ok [of c] cluster_ring.release_ring_ok [of c i]
  by (simp_all add: cluster_ring_ok_def)

lemma wal_inv_persist:
  "snapshot_inv (master_state c) \<Longrightarrow> wal_inv wal \<Longrightarrow>
    wal_inv (snd (cluster_state_persist_to_wal c fo fw ff wal))"
  by (simp add: cluster_state_persist_to_wal_def wal_inv_def)

lemma cluster_exec_inv: "cluster_sys_inv s \<Longrightarrow> cluster_sys_inv (cluster_exec e s)"
  by (cases e)
    (simp_all add: cluster_sys_inv_def snapshot_inv_ops cluster_ring_ok_ops cluster_ring_ok_boot
      wal_inv_persist cluster_ring.acquire_current cluster_ring.release_current)

lemma cluster_reachable_sys_inv: "cluster_reachable s \<Longrightarrow> cluster_sys_inv s"
proof (induction rule: cluster_reachable.induct)
  case (reach_start uuid epoch)
  then show ?case
    by (simp add: cluster_sys_inv_def snapshot_inv_boot cluster_ring_ok_boot wal_inv_def)
next
  case (reach_step s e)
  then show ?case by (simp add: cluster_exec_inv)
qed

subsection \<open>Aggregates\<close>

lemma fold_add_worker_metrics:
  "fold add_worker_metrics ws m =
    \<lparr>cluster_aggregate_memory_bytes = cluster_aggregate_memory_bytes m
        + (\<Sum>w\<leftarrow>filter is_live ws. total_memory_bytes (resources w)),
     cluster_allocated_memory_bytes = cluster_allocated_memory_bytes m
        + (\<Sum>w\<leftarrow>filter is_live ws. reserved_memory_bytes (resources w)),
     cluster_aggregate_cores = cluster_aggregate_cores m
        + (\<Sum>w\<leftarrow>filter is_live ws. total_cores (resources w)),
     cluster_allocated_cores = cluster_allocated_cores m
        + (\<Sum>w\<leftarrow>filter is_live ws. reserved_cores (resources w)),
     active_worker_count = active_worker_count m + of_nat (length (filter is_live ws))\<rparr>"
  by (induction ws arbitrary: m) (simp_all add: add_worker_metrics_def algebra_simps)

subsection \<open>The write-ahead file\<close>

lemma cluster_exec_wal: "\<not> is_persist e \<Longrightarrow> sys_wal (cluster_exec e s) = sys_wal s"
  by (cases e) auto

lemma cluster_run_wal:
  "(\<And>e. e \<in> set es \<Longrightarrow> \<not> is_persist e) \<Longrightarrow> sys_wal (fold cluster_exec es s) = sys_wal s"
  by (induction es arbitrary: s) (auto simp: cluster_exec_wal)

subsection \<open>Success and failure of the operations\<close>

definition bumps_version ::
  "bool \<Rightarrow> ClusterStateContext \<Rightarrow> bool \<times> ClusterStateContext \<Rightarrow> bool" where
  "bumps_version ok c r \<longleftrightarrow> fst r = ok \<and>
     (if ok then state_generation_version (master_state (snd r)) =
                 state_generation_version (master_state c) + 1
      else snd r = c)"

lemma register_bumps:
  "bumps_version (worker_id w \<notin> worker_id ` set (active_workers (master_state c))
      \<and> length (active_workers (master_state c)) < CLUSTER_MAX_WORKERS)
    c (cluster_state_register_worker w c)"
  by (auto simp: bumps_version_def cluster_state_register_worker_def Let_def lookup_by_ex
      lookup_by_None)

lemma lease_bumps:
  "bumps_version (cid \<in> chunk_id ` set (active_leases (master_state c))
      \<or> length (active_leases (master_state c)) < CLUSTER_MAX_ACTIVE_LEASES)
    c (cluster_state_update_lease cid ls pr c)"
  by (auto simp: bumps_version_def cluster_state_update_lease_def Let_def lookup_by_ex
      lookup_by_None)

lemma heartbeat_bumps:
  "bumps_version (wid \<in> worker_id ` set (active_workers (master_state c)))
    c (cluster_state_process_heartbeat wid ts c)"
  by (auto simp: bumps_version_def cluster_state_process_heartbeat_def Let_def lookup_by_ex
      lookup_by_None)

section \<open>Properties\<close>

definition example_member :: WorkerMember where
  "example_member = \<lparr>worker_id = 42, health = WORKER_HEALTH_OFFLINE, last_seen_timestamp_ms = 1000,
     resources = \<lparr>total_memory_bytes = 8192, reserved_memory_bytes = 64, total_cores = 4,
       reserved_cores = 1\<rparr>\<rparr>"

definition example_sys :: cluster_sys where
  "example_sys = cluster_exec (EvRegister example_member)
     \<lparr>sys_ctx = cluster_boot ''cluster-dev-uuid-001'' 100, sys_wal = WAL_ABSENT\<rparr>"

lemma example_sys_reachable: "cluster_reachable example_sys"
  unfolding example_sys_def by (intro reach_step reach_start)

lemmas cluster_eval = example_sys_def example_member_def cluster_boot_def cluster_state_create_def
  zero_snapshot_def zero_metrics_def cluster_state_register_worker_def Let_def
  internal_recalculate_aggregates_def add_worker_metrics_def is_live_def

text \<open>
  C1: In every state reachable by any interleaving of registrations, lease updates, heartbeats,
  snapshot acquisitions and releases, persist and recover attempts (with or without file errors) and
  restarts: worker identifiers are pairwise distinct and at most 32, lease chunk identifiers are
  pairwise distinct and at most 128, the metrics are the recomputed aggregates of the worker table,
  the status is BOOTSTRAP exactly while no worker is registered and OPERATIONAL otherwise, the
  identifier fits its buffer, the ring is well formed, and the write-ahead file holds no image or
  one with the same properties.
\<close>

theorem cluster_reachable_inv:
  assumes "cluster_reachable s"
  shows "cluster_sys_inv s"
  by (rule cluster_reachable_sys_inv [OF assms])

theorem cluster_reachable_inv_witness:
  "cluster_reachable example_sys \<and> cluster_sys_inv example_sys"
  using cluster_reachable_inv [OF example_sys_reachable] example_sys_reachable by simp

text \<open>
  The published aggregates of a reachable state are exactly the sums over the workers that are
  online or draining: the memory sums modulo 2^64, the core sums modulo 2^32, and the count of
  active workers without any wrap-around.
\<close>

theorem cluster_metrics_are_sums:
  assumes "cluster_reachable s"
  defines "st \<equiv> master_state (sys_ctx s)"
  defines "live \<equiv> filter is_live (active_workers st)"
  shows "unat (cluster_aggregate_memory_bytes (metrics st)) =
      (\<Sum>w\<leftarrow>live. unat (total_memory_bytes (resources w))) mod 2 ^ 64
    \<and> unat (cluster_allocated_memory_bytes (metrics st)) =
      (\<Sum>w\<leftarrow>live. unat (reserved_memory_bytes (resources w))) mod 2 ^ 64
    \<and> unat (cluster_aggregate_cores (metrics st)) =
      (\<Sum>w\<leftarrow>live. unat (total_cores (resources w))) mod 2 ^ 32
    \<and> unat (cluster_allocated_cores (metrics st)) =
      (\<Sum>w\<leftarrow>live. unat (reserved_cores (resources w))) mod 2 ^ 32
    \<and> unat (active_worker_count (metrics st)) = length live"
proof -
  have inv: "snapshot_inv st"
    using cluster_reachable_sys_inv [OF assms(1)] by (simp add: cluster_sys_inv_def st_def)
  then have m: "metrics st = fold add_worker_metrics (active_workers st) zero_metrics"
    and "length (active_workers st) \<le> 32" by (auto simp: snapshot_inv_def table_ok_def)
  then have "length live \<le> 32" unfolding live_def by (meson le_trans length_filter_le)
  then have "unat (of_nat (length live) :: u32) = length live"
    by (simp add: unat_of_nat take_bit_nat_def)
  with m show ?thesis
    by (simp add: fold_add_worker_metrics zero_metrics_def unat_sum_list live_def)
qed

theorem cluster_metrics_are_sums_witness:
  "cluster_reachable (cluster_exec (EvHeartbeat 42 2000) example_sys)
   \<and> unat (cluster_aggregate_memory_bytes (metrics (master_state (sys_ctx
       (cluster_exec (EvHeartbeat 42 2000) example_sys))))) = 8192
   \<and> unat (active_worker_count (metrics (master_state (sys_ctx
       (cluster_exec (EvHeartbeat 42 2000) example_sys))))) = 1"
proof -
  have r: "cluster_reachable (cluster_exec (EvHeartbeat 42 2000) example_sys)"
    by (intro reach_step example_sys_reachable)
  show ?thesis
    using r cluster_metrics_are_sums [OF r]
    by (simp add: cluster_eval cluster_state_process_heartbeat_def touch_worker_def)
qed

text \<open>
  Each of the three state-changing operations either succeeds and raises the generation counter
  by exactly one (modulo 2^64), or fails and leaves the whole context untouched. A registration
  succeeds exactly when the identifier is new and fewer than 32 workers are known, a lease update
  exactly when the chunk is known or fewer than 128 leases are, a heartbeat exactly when the worker
  is known.
\<close>

theorem cluster_ops_atomic:
  "bumps_version (worker_id w \<notin> worker_id ` set (active_workers (master_state c))
        \<and> length (active_workers (master_state c)) < CLUSTER_MAX_WORKERS)
      c (cluster_state_register_worker w c)
   \<and> bumps_version (cid \<in> chunk_id ` set (active_leases (master_state c))
        \<or> length (active_leases (master_state c)) < CLUSTER_MAX_ACTIVE_LEASES)
      c (cluster_state_update_lease cid ls pr c)
   \<and> bumps_version (wid \<in> worker_id ` set (active_workers (master_state c)))
      c (cluster_state_process_heartbeat wid ts c)"
  by (intro conjI register_bumps lease_bumps heartbeat_bumps)

text \<open>
  C10: Durability, with its limit. After a save that could open the file, and any number of other operations and
  restarts but no further attempt to save, the save had returned whether \<open>fwrite\<close> accepted the structure, while a
  recovery succeeds exactly when the buffered rest was written too; it then yields exactly the saved worker table, lease table,
  metrics, epoch and status, with the generation counter one higher. So a save that returned true and whose
  flush failed cannot be recovered.
\<close>

theorem wal_durable:
  fixes s :: cluster_sys and fwrite_ok flush_ok :: bool and es :: "cluster_event list"
  assumes "\<And>e. e \<in> set es \<Longrightarrow> \<not> is_persist e"
  defines "s' \<equiv> fold cluster_exec es (cluster_exec (EvPersist True fwrite_ok flush_ok) s)"
  shows "fst (cluster_state_persist_to_wal (sys_ctx s) True fwrite_ok flush_ok (sys_wal s)) = fwrite_ok
    \<and> (fst (cluster_state_recover_from_wal (sys_ctx s') True (sys_wal s')) \<longleftrightarrow> fwrite_ok \<and> flush_ok)
    \<and> master_state (sys_ctx (cluster_exec (EvRecover True) s')) =
        (if fwrite_ok \<and> flush_ok
         then (master_state (sys_ctx s))\<lparr>state_generation_version := state_generation_version (master_state (sys_ctx s)) + 1\<rparr>
         else master_state (sys_ctx s'))"
proof -
  have "sys_wal s' = (if fwrite_ok \<and> flush_ok then WAL_IMAGE (master_state (sys_ctx s)) else WAL_SHORT)"
    using assms by (simp add: cluster_run_wal cluster_state_persist_to_wal_def)
  then show ?thesis by (simp add: cluster_state_recover_from_wal_def cluster_state_persist_to_wal_def)
qed

theorem wal_durable_witness:
  "active_workers (master_state (sys_ctx (cluster_exec (EvRecover True)
     (fold cluster_exec [EvHeartbeat 42 2000, EvRestart ''fresh'' 7]
       (cluster_exec (EvPersist True True True) example_sys))))) = [example_member]"
proof -
  have "active_workers (master_state (sys_ctx example_sys)) = [example_member]"
    by (simp add: cluster_eval)
  then show ?thesis
    using wal_durable [where s = example_sys and fwrite_ok = True and flush_ok = True
        and es = "[EvHeartbeat 42 2000, EvRestart ''fresh'' 7]"] by force
qed

text \<open>
  The write-ahead file is not crash safe. Opening it for writing truncates it, so a persist whose
  write fails destroys the image of an earlier successful persist, and recovery then fails for every
  sequence of operations without a further persist.
\<close>

theorem wal_failed_write_loses_image:
  assumes "\<And>e. e \<in> set es \<Longrightarrow> \<not> is_persist e"
  shows "\<not> fst (cluster_state_recover_from_wal c fopen_ok
    (sys_wal (fold cluster_exec es
      (cluster_exec (EvPersist True False flush_ok) (cluster_exec (EvPersist True True True) s)))))"
  using assms
  by (simp add: cluster_run_wal cluster_state_persist_to_wal_def cluster_state_recover_from_wal_def)

theorem wal_failed_write_loses_image_witness:
  "\<not> fst (cluster_state_recover_from_wal (cluster_boot ''fresh'' 7) True
    (sys_wal (fold cluster_exec [EvRestart ''fresh'' 7]
      (cluster_exec (EvPersist True False False) (cluster_exec (EvPersist True True True) example_sys)))))"
  using wal_failed_write_loses_image [of "[EvRestart ''fresh'' 7]" "cluster_boot ''fresh'' 7" True False
      example_sys]
  by simp

text \<open>
  C21: A snapshot that a reader holds stays intact. While at least one of the four ring slots is
  unreferenced, acquiring a further snapshot returns a slot that holds a copy of the current state,
  changes neither the content nor the count of any referenced slot, and releasing it restores all
  reference counts.
\<close>

theorem snapshot_isolated:
  assumes "cluster_ring_ok c" and "0 \<in> set (snapshot_ref_counts c)"
    and "i < SNAPSHOT_RING_SIZE" and "snapshot_ref_counts c ! i > 0"
  defines "r \<equiv> cluster_state_acquire_snapshot c"
  shows "snapshot_pool (snd r) ! fst r = master_state c
    \<and> snapshot_pool (snd r) ! i = snapshot_pool c ! i
    \<and> snapshot_ref_counts (snd r) ! i = snapshot_ref_counts c ! i
    \<and> snapshot_ref_counts (cluster_state_release_snapshot (fst r) (snd r)) = snapshot_ref_counts c"
  using cluster_ring.acquire_copies [of c] cluster_ring.acquire_keeps_live [of c i]
    cluster_ring.acquire_release [of c] assms
  by (simp add: cluster_ring_ok_def)

definition example_ring :: "u32 list \<Rightarrow> ClusterStateContext" where
  "example_ring refs = \<lparr>master_state = zero_snapshot\<lparr>master_epoch := 9\<rparr>,
     snapshot_pool = replicate 4 zero_snapshot, pool_tail_idx = 1, snapshot_ref_counts = refs\<rparr>"

theorem snapshot_isolated_witness:
  "snapshot_pool (snd (cluster_state_acquire_snapshot (example_ring [0, 1, 2, 0]))) ! 3 =
     zero_snapshot\<lparr>master_epoch := 9\<rparr>
   \<and> snapshot_pool (snd (cluster_state_acquire_snapshot (example_ring [0, 1, 2, 0]))) ! 2 =
     zero_snapshot"
proof -
  have "fst (cluster_state_acquire_snapshot (example_ring [0, 1, 2, 0])) = 3"
    by (simp add: cluster_state_acquire_snapshot_def example_ring_def cs_search_slot.simps)
  then show ?thesis
    using snapshot_isolated [of "example_ring [0, 1, 2, 0]" 2]
    by (simp add: cluster_ring_ok_def ring_shape_def example_ring_def)
qed

text \<open>
  With all four slots referenced the ring does not refuse: acquisition hands out the slot at the
  ring's tail, which a reader still holds, and overwrites its content with the current state. The
  announced immutability of a snapshot is lost at the fifth concurrent reader.
\<close>

theorem snapshot_clobbered_when_full:
  assumes "cluster_ring_ok c" and "0 \<notin> set (snapshot_ref_counts c)"
  shows "fst (cluster_state_acquire_snapshot c) = pool_tail_idx c
    \<and> snapshot_ref_counts c ! pool_tail_idx c > 0
    \<and> snapshot_pool (snd (cluster_state_acquire_snapshot c)) ! pool_tail_idx c = master_state c"
  using cluster_ring.acquire_clobbers [of c] assms by (simp add: cluster_ring_ok_def)

theorem snapshot_clobbered_when_full_witness:
  "snapshot_pool (example_ring [1, 1, 2, 1]) ! 1 = zero_snapshot
   \<and> snapshot_ref_counts (example_ring [1, 1, 2, 1]) ! 1 = 1
   \<and> snapshot_pool (snd (cluster_state_acquire_snapshot (example_ring [1, 1, 2, 1]))) ! 1 =
     zero_snapshot\<lparr>master_epoch := 9\<rparr>"
  using snapshot_clobbered_when_full [of "example_ring [1, 1, 2, 1]"]
  by (simp add: cluster_ring_ok_def ring_shape_def example_ring_def)

text \<open>
  A heartbeat of a known worker stamps exactly that worker: its last-seen time is the given one,
  an offline worker comes back online, a draining worker keeps draining, and every other worker, all
  leases, the epoch and the global status stay as they were.
\<close>

theorem heartbeat_effect:
  fixes ts :: u64
  assumes "lookup_by worker_id wid (active_workers (master_state c)) = Some w"
  defines "st \<equiv> master_state c"
  defines "st' \<equiv> master_state (snd (cluster_state_process_heartbeat wid ts c))"
  shows "lookup_by worker_id wid (active_workers st') = Some (w\<lparr>last_seen_timestamp_ms := ts,
      health := (case health w of WORKER_HEALTH_OFFLINE \<Rightarrow> WORKER_HEALTH_ONLINE | h \<Rightarrow> h)\<rparr>)
    \<and> (\<forall>k. k = wid \<or> lookup_by worker_id k (active_workers st') = lookup_by worker_id k (active_workers st))
    \<and> active_leases st' = active_leases st \<and> master_epoch st' = master_epoch st
    \<and> global_status st' = global_status st"
proof -
  have "touch_worker ts w = w\<lparr>last_seen_timestamp_ms := ts,
      health := (case health w of WORKER_HEALTH_OFFLINE \<Rightarrow> WORKER_HEALTH_ONLINE | h \<Rightarrow> h)\<rparr>"
    by (cases "health w") (simp_all add: touch_worker_def)
  moreover have "k = wid \<or> lookup_by worker_id k
      (upd_first (\<lambda>w. worker_id w = wid) (touch_worker ts) (active_workers (master_state c))) =
      lookup_by worker_id k (active_workers (master_state c))" for k
    by (metis lookup_by_upd_first_other touch_worker_worker_id)
  ultimately show ?thesis
    using assms(1)
    by (simp add: st_def st'_def cluster_state_process_heartbeat_def Let_def lookup_by_ex
        lookup_by_upd_first)
qed

theorem heartbeat_effect_witness:
  "lookup_by worker_id 42 (active_workers (master_state (snd
      (cluster_state_process_heartbeat 42 2000 (sys_ctx example_sys))))) =
    Some (example_member\<lparr>last_seen_timestamp_ms := 2000, health := WORKER_HEALTH_ONLINE\<rparr>)"
  using heartbeat_effect [of 42 "sys_ctx example_sys" example_member 2000]
  by (simp add: cluster_eval)

end
