(* ===== verification/Context_Life.thy ===== *)
theory Context_Life
  imports Ui_Coordinator Capabilities Display_Bridge Discovery Resource_Monitor Worker_Recovery Worker_State Workload
    Master_Recovery Registry Cluster_State
begin

text \<open>
  The memory of the context objects: every component whose state lives in one allocated structure has a function that
  makes it and one that destroys it, in \<^verbatim>\<open>master/src\<close> and \<^verbatim>\<open>worker/src\<close>. The other theories
  model what the structures hold; here the blocks and mutexes are counted. Releasing a block that is not allocated, or
  destroying a mutex that is not initialised, is undefined and the result \<open>None\<close>.

  The makers come in three forms: two check the answer of \<open>pthread_mutex_init\<close>, four ignore it, five have no mutex.

  Proved: a program that destroys each object at most once, with its own function and after making it, never reaches undefined
  behaviour and holds exactly the blocks and mutexes of the objects it has not destroyed, whichever calls fail,
  as long as the unchecked initialisations succeed. When one of those fails, the destructor of that object is undefined.
\<close>

section \<open>Blocks and mutexes\<close>

record heap =
  blocks :: "nat list"
  locks :: "nat list"
  fresh :: nat

definition calloc_block :: "heap \<Rightarrow> nat \<times> heap" where
  "calloc_block h = (fresh h, h\<lparr>blocks := fresh h # blocks h, fresh := Suc (fresh h)\<rparr>)"

definition free_block :: "nat \<Rightarrow> heap \<Rightarrow> heap option" where
  "free_block b h = (if b \<in> set (blocks h) then Some (h\<lparr>blocks := remove1 b (blocks h)\<rparr>) else None)"

definition init_lock :: "nat \<Rightarrow> heap \<Rightarrow> heap" where
  "init_lock b h = h\<lparr>locks := b # locks h\<rparr>"

definition destroy_lock :: "nat \<Rightarrow> heap \<Rightarrow> heap option" where
  "destroy_lock b h = (if b \<in> set (locks h) then Some (h\<lparr>locks := remove1 b (locks h)\<rparr>) else None)"

text \<open>The three forms of makers; the flags are the answers of \<open>calloc\<close> and \<open>pthread_mutex_init\<close>.\<close>

definition make_checked :: "bool \<Rightarrow> bool \<Rightarrow> heap \<Rightarrow> (nat option \<times> heap) option" where
  "make_checked calloc_ok mutex_ok h =
     (if \<not> calloc_ok then Some (None, h)
      else let (b, h1) = calloc_block h
           in if \<not> mutex_ok then map_option (\<lambda>h2. (None, h2)) (free_block b h1)
              else Some (Some b, init_lock b h1))"

definition make_unchecked :: "bool \<Rightarrow> bool \<Rightarrow> heap \<Rightarrow> (nat option \<times> heap) option" where
  "make_unchecked calloc_ok mutex_ok h =
     (if \<not> calloc_ok then Some (None, h)
      else let (b, h1) = calloc_block h in Some (Some b, if mutex_ok then init_lock b h1 else h1))"

definition make_plain :: "bool \<Rightarrow> heap \<Rightarrow> (nat option \<times> heap) option" where
  "make_plain calloc_ok h =
     (if \<not> calloc_ok then Some (None, h) else let (b, h1) = calloc_block h in Some (Some b, h1))"

section \<open>The destructors\<close>

definition cluster_state_destroy :: "nat option \<Rightarrow> heap \<Rightarrow> heap option" where
  "cluster_state_destroy ctx h = (case ctx of None \<Rightarrow> Some h | Some b \<Rightarrow> Option.bind (destroy_lock b h) (free_block b))"

definition vom_registry_destroy :: "nat option \<Rightarrow> heap \<Rightarrow> heap option" where
  "vom_registry_destroy ctx h = (case ctx of None \<Rightarrow> Some h | Some b \<Rightarrow> Option.bind (destroy_lock b h) (free_block b))"

definition vom_recovery_destroy :: "nat option \<Rightarrow> heap \<Rightarrow> heap option" where
  "vom_recovery_destroy ctx h = (case ctx of None \<Rightarrow> Some h | Some b \<Rightarrow> Option.bind (destroy_lock b h) (free_block b))"

definition vom_workload_destroy :: "nat option \<Rightarrow> heap \<Rightarrow> heap option" where
  "vom_workload_destroy ctx h = (case ctx of None \<Rightarrow> Some h | Some b \<Rightarrow> Option.bind (destroy_lock b h) (free_block b))"

definition vom_worker_state_destroy :: "nat option \<Rightarrow> heap \<Rightarrow> heap option" where
  "vom_worker_state_destroy ctx h = (case ctx of None \<Rightarrow> Some h | Some b \<Rightarrow> Option.bind (destroy_lock b h) (free_block b))"

definition vom_monitor_destroy :: "nat option \<Rightarrow> heap \<Rightarrow> heap option" where
  "vom_monitor_destroy ctx h = (case ctx of None \<Rightarrow> Some h | Some b \<Rightarrow> Option.bind (destroy_lock b h) (free_block b))"

definition vom_worker_recovery_destroy :: "nat option \<Rightarrow> heap \<Rightarrow> heap option" where
  "vom_worker_recovery_destroy ctx h = (case ctx of None \<Rightarrow> Some h | Some b \<Rightarrow> free_block b h)"

definition vom_worker_discovery_destroy :: "nat option \<Rightarrow> heap \<Rightarrow> heap option" where
  "vom_worker_discovery_destroy ctx h = (case ctx of Some b \<Rightarrow> free_block b h | None \<Rightarrow> Some h)"

definition vom_display_bridge_destroy :: "nat option \<Rightarrow> heap \<Rightarrow> heap option" where
  "vom_display_bridge_destroy ctx h = (case ctx of Some b \<Rightarrow> free_block b h | None \<Rightarrow> Some h)"

definition vom_capabilities_manager_destroy :: "nat option \<Rightarrow> heap \<Rightarrow> heap option" where
  "vom_capabilities_manager_destroy ctx h = (case ctx of Some b \<Rightarrow> free_block b h | None \<Rightarrow> Some h)"

definition vom_ui_coordinator_destroy :: "nat option \<Rightarrow> heap \<Rightarrow> heap option" where
  "vom_ui_coordinator_destroy ctx h = (case ctx of Some b \<Rightarrow> free_block b h | None \<Rightarrow> Some h)"

lemmas destructor_defs = cluster_state_destroy_def vom_registry_destroy_def vom_recovery_destroy_def vom_workload_destroy_def
  vom_worker_state_destroy_def vom_monitor_destroy_def vom_worker_recovery_destroy_def vom_worker_discovery_destroy_def
  vom_display_bridge_destroy_def vom_capabilities_manager_destroy_def vom_ui_coordinator_destroy_def

text \<open>The components, their makers and destructors. The store is made with an identifier that is not NULL.\<close>

datatype kind = K_Store | K_Registry | K_Recovery | K_Workload | K_Worker_State | K_Monitor
  | K_Worker_Recovery | K_Discovery | K_Display | K_Capabilities | K_Coordinator

fun make_context :: "kind \<Rightarrow> bool \<Rightarrow> bool \<Rightarrow> heap \<Rightarrow> (nat option \<times> heap) option" where
  "make_context K_Store a m = make_checked a m"
| "make_context K_Registry a m = make_checked a m"
| "make_context K_Recovery a m = make_unchecked a m"
| "make_context K_Workload a m = make_unchecked a m"
| "make_context K_Worker_State a m = make_unchecked a m"
| "make_context K_Monitor a m = make_unchecked a m"
| "make_context _ a m = make_plain a"

fun destroy_context :: "kind \<Rightarrow> nat option \<Rightarrow> heap \<Rightarrow> heap option" where
  "destroy_context K_Store = cluster_state_destroy"
| "destroy_context K_Registry = vom_registry_destroy"
| "destroy_context K_Recovery = vom_recovery_destroy"
| "destroy_context K_Workload = vom_workload_destroy"
| "destroy_context K_Worker_State = vom_worker_state_destroy"
| "destroy_context K_Monitor = vom_monitor_destroy"
| "destroy_context K_Worker_Recovery = vom_worker_recovery_destroy"
| "destroy_context K_Discovery = vom_worker_discovery_destroy"
| "destroy_context K_Display = vom_display_bridge_destroy"
| "destroy_context K_Capabilities = vom_capabilities_manager_destroy"
| "destroy_context K_Coordinator = vom_ui_coordinator_destroy"

fun has_lock :: "kind \<Rightarrow> bool" where
  "has_lock k = (k \<in> {K_Store, K_Registry, K_Recovery, K_Workload, K_Worker_State, K_Monitor})"

fun ignores_lock_error :: "kind \<Rightarrow> bool" where
  "ignores_lock_error k = (k \<in> {K_Recovery, K_Workload, K_Worker_State, K_Monitor})"

text \<open>The makers give an object exactly when the makers of the components' theories do.\<close>

lemma makers_agree:
  "(\<exists>b h'. make_context K_Store a m h = Some (Some b, h')) \<longleftrightarrow> cluster_state_create (Some u) e a m \<noteq> None"
  "(\<exists>b h'. make_context K_Registry a m h = Some (Some b, h')) \<longleftrightarrow> vom_registry_create a m \<noteq> None"
  "(\<exists>b h'. make_context K_Recovery a m h = Some (Some b, h')) \<longleftrightarrow> vom_recovery_init a \<noteq> None"
  "(\<exists>b h'. make_context K_Workload a m h = Some (Some b, h')) \<longleftrightarrow> vom_workload_init a \<noteq> None"
  "(\<exists>b h'. make_context K_Worker_State a m h = Some (Some b, h')) \<longleftrightarrow> vom_worker_state_init a \<noteq> None"
  "(\<exists>b h'. make_context K_Monitor a m h = Some (Some b, h')) \<longleftrightarrow> vom_monitor_init a \<noteq> None"
  "(\<exists>b h'. make_context K_Worker_Recovery a m h = Some (Some b, h')) \<longleftrightarrow> vom_worker_recovery_init a \<noteq> None"
  by (auto simp: make_checked_def make_unchecked_def make_plain_def calloc_block_def free_block_def cluster_state_create_def
      vom_registry_create_def vom_recovery_init_def vom_workload_init_def vom_worker_state_init_def vom_monitor_init_def
      vom_worker_recovery_init_def Let_def)

section \<open>The contract of the makers and destructors\<close>

text \<open>
  What a program may rely on: making an object either fails without a trace or adds one new block, with a mutex for the
  kinds that have one; destroying removes both again. Objects are made and destroyed in any order.
\<close>

datatype 'k life_event = Make 'k bool bool | Destroy 'k "nat option"

text \<open>A program run: the heap, and the objects made and not yet destroyed with their kinds. \<open>None\<close> is undefined behaviour.\<close>

type_synonym 'k maker = "'k \<Rightarrow> bool \<Rightarrow> bool \<Rightarrow> heap \<Rightarrow> (nat option \<times> heap) option"
type_synonym 'k destroyer = "'k \<Rightarrow> nat option \<Rightarrow> heap \<Rightarrow> heap option"
type_synonym 'k life = "heap \<times> (nat \<times> 'k) list"

fun life_step :: "'k maker \<Rightarrow> 'k destroyer \<Rightarrow> 'k life_event \<Rightarrow> 'k life \<Rightarrow> 'k life option" where
  "life_step mk destroy (Make k a m) (h, live) =
     map_option (\<lambda>(p, h'). (h', case p of None \<Rightarrow> live | Some b \<Rightarrow> (b, k) # live)) (mk k a m h)"
| "life_step mk destroy (Destroy k p) (h, live) =
     map_option (\<lambda>h'. (h', case p of None \<Rightarrow> live | Some b \<Rightarrow> remove1 (b, k) live)) (destroy k p h)"

fun life_run :: "'k maker \<Rightarrow> 'k destroyer \<Rightarrow> 'k life_event list \<Rightarrow> 'k life \<Rightarrow> 'k life option" where
  "life_run mk destroy [] s = Some s"
| "life_run mk destroy (e # es) s = Option.bind (life_step mk destroy e s) (life_run mk destroy es)"

text \<open>The program gives a destructor NULL or an object of its kind that is alive, and the calls whose answer is ignored succeed.\<close>

fun proper :: "('k \<Rightarrow> bool \<Rightarrow> bool) \<Rightarrow> 'k life_event \<Rightarrow> 'k life \<Rightarrow> bool" where
  "proper answers_ok (Make k a m) s = answers_ok k m"
| "proper answers_ok (Destroy k p) (h, live) = (case p of None \<Rightarrow> True | Some b \<Rightarrow> (b, k) \<in> set live)"

fun disciplined :: "'k maker \<Rightarrow> 'k destroyer \<Rightarrow> ('k \<Rightarrow> bool \<Rightarrow> bool) \<Rightarrow> 'k life_event list \<Rightarrow> 'k life \<Rightarrow> bool" where
  "disciplined mk destroy answers_ok [] s = True"
| "disciplined mk destroy answers_ok (e # es) s =
     (proper answers_ok e s \<and>
      (case life_step mk destroy e s of None \<Rightarrow> True | Some s' \<Rightarrow> disciplined mk destroy answers_ok es s'))"

definition exact :: "('k \<Rightarrow> bool) \<Rightarrow> heap \<Rightarrow> (nat \<times> 'k) list \<Rightarrow> bool" where
  "exact locked h live \<longleftrightarrow> blocks h = map fst live \<and> locks h = map fst (filter (\<lambda>x. locked (snd x)) live)
     \<and> distinct (map fst live) \<and> list_all (\<lambda>b. b < fresh h) (blocks h)"

lemma remove1_fst:
  "distinct (map fst live) \<Longrightarrow> (b, k) \<in> set live \<Longrightarrow> remove1 b (map fst live) = map fst (remove1 (b, k) live)"
  by (induction live) (auto simp: rev_image_eqI)

lemma filter_remove1_fst:
  assumes "distinct (map fst live)" "(b, k) \<in> set live"
  shows "map fst (filter (\<lambda>x. locked (snd x)) (remove1 (b, k) live))
    = (if locked k then remove1 b (map fst (filter (\<lambda>x. locked (snd x)) live))
       else map fst (filter (\<lambda>x. locked (snd x)) live))"
  using assms by (induction live) (auto simp: rev_image_eqI)

locale context_memory =
  fixes mk :: "'k \<Rightarrow> bool \<Rightarrow> bool \<Rightarrow> heap \<Rightarrow> (nat option \<times> heap) option"
    and destroy :: "'k \<Rightarrow> nat option \<Rightarrow> heap \<Rightarrow> heap option"
    and locked :: "'k \<Rightarrow> bool" and answers_ok :: "'k \<Rightarrow> bool \<Rightarrow> bool"
  assumes make_cases: "answers_ok k m \<Longrightarrow> fresh h \<notin> set (blocks h) \<Longrightarrow>
        (\<exists>h'. mk k a m h = Some (None, h') \<and> blocks h' = blocks h \<and> locks h' = locks h \<and> fresh h \<le> fresh h')
      \<or> (\<exists>h'. mk k a m h = Some (Some (fresh h), h') \<and> blocks h' = fresh h # blocks h \<and> fresh h' = Suc (fresh h)
           \<and> locks h' = (if locked k then [fresh h] else []) @ locks h)"
    and destroy_null: "destroy k None h = Some h"
    and destroy_live: "b \<in> set (blocks h) \<Longrightarrow> locked k \<longrightarrow> b \<in> set (locks h) \<Longrightarrow>
        destroy k (Some b) h = Some (h\<lparr>blocks := remove1 b (blocks h),
          locks := (if locked k then remove1 b (locks h) else locks h)\<rparr>)"
begin

lemma exact_make:
  assumes "exact locked h live" "answers_ok k m"
  shows "\<exists>h' live'. life_step mk destroy (Make k a m) (h, live) = Some (h', live') \<and> exact locked h' live'"
proof -
  have "fresh h \<notin> set (blocks h)" using assms(1) by (metis exact_def list_all_iff less_irrefl)
  from make_cases [OF assms(2) this, of a] show ?thesis
    using assms(1) \<open>fresh h \<notin> set (blocks h)\<close> by (fastforce simp: exact_def list_all_iff)
qed

lemma exact_destroy:
  assumes "exact locked h live" "proper answers_ok (Destroy k p) (h, live)"
  shows "\<exists>h' live'. life_step mk destroy (Destroy k p) (h, live) = Some (h', live') \<and> exact locked h' live'"
proof (cases p)
  case None
  then show ?thesis using assms(1) by (simp add: destroy_null)
next
  case (Some b)
  have b: "(b, k) \<in> set live" using assms(2) Some by simp
  have d: "distinct (map fst live)" using assms(1) by (simp add: exact_def)
  have "b \<in> set (blocks h)" "locked k \<longrightarrow> b \<in> set (locks h)"
    using assms(1) b by (force simp: exact_def)+
  from destroy_live [OF this] have "life_step mk destroy (Destroy k p) (h, live) = Some (h\<lparr>blocks := remove1 b (blocks h),
      locks := (if locked k then remove1 b (locks h) else locks h)\<rparr>, remove1 (b, k) live)"
    by (simp add: Some)
  moreover have "exact locked (h\<lparr>blocks := remove1 b (blocks h),
      locks := (if locked k then remove1 b (locks h) else locks h)\<rparr>) (remove1 (b, k) live)"
    using assms(1) filter_remove1_fst [OF d b] remove1_fst [OF d b] set_remove1_subset [of b "blocks h"]
    by (auto simp: exact_def list_all_iff distinct_remove1 simp flip: remove1_fst [OF d b])
  ultimately show ?thesis by blast
qed

lemma exact_step:
  assumes "exact locked h live" "proper answers_ok e (h, live)"
  obtains h' live' where "life_step mk destroy e (h, live) = Some (h', live')" "exact locked h' live'"
  using assms exact_make exact_destroy by (cases e) (metis proper.simps(1), metis)

lemma disciplined_exact:
  "disciplined mk destroy answers_ok es (h, live) \<Longrightarrow> exact locked h live \<Longrightarrow>
     \<exists>h' live'. life_run mk destroy es (h, live) = Some (h', live') \<and> exact locked h' live'"
proof (induction es arbitrary: h live)
  case (Cons e es)
  have "proper answers_ok e (h, live)" using Cons.prems(1) by simp
  then obtain h' live' where s: "life_step mk destroy e (h, live) = Some (h', live')" "exact locked h' live'"
    using exact_step Cons.prems(2) by blast
  then show ?case using Cons.IH [of h' live'] Cons.prems(1) by simp
qed simp

end

section \<open>The program's components\<close>

interpretation contexts: context_memory make_context destroy_context has_lock "\<lambda>k m. ignores_lock_error k \<longrightarrow> m"
proof
  show "ignores_lock_error k \<longrightarrow> m \<Longrightarrow> fresh h \<notin> set (blocks h) \<Longrightarrow>
        (\<exists>h'. make_context k a m h = Some (None, h') \<and> blocks h' = blocks h \<and> locks h' = locks h \<and> fresh h \<le> fresh h')
      \<or> (\<exists>h'. make_context k a m h = Some (Some (fresh h), h') \<and> blocks h' = fresh h # blocks h \<and> fresh h' = Suc (fresh h)
           \<and> locks h' = (if has_lock k then [fresh h] else []) @ locks h)" for k a m h
    by (cases k; cases a; cases m)
      (simp_all add: make_checked_def make_unchecked_def make_plain_def calloc_block_def free_block_def init_lock_def Let_def)
  show "destroy_context k None h = Some h" for k h
    by (cases k) (simp_all add: destructor_defs)
  show "b \<in> set (blocks h) \<Longrightarrow> has_lock k \<longrightarrow> b \<in> set (locks h) \<Longrightarrow>
        destroy_context k (Some b) h = Some (h\<lparr>blocks := remove1 b (blocks h),
          locks := (if has_lock k then remove1 b (locks h) else locks h)\<rparr>)" for k b h
    by (cases k) (simp_all add: destructor_defs destroy_lock_def free_block_def)
qed

definition empty_heap :: heap where
  "empty_heap = \<lparr>blocks = [], locks = [], fresh = 0\<rparr>"

text \<open>
  Whatever objects of the eleven components a program makes and destroys, in any order and whichever allocations and checked
  initialisations fail: when it destroys only live objects, with their own functions, it is never undefined, and the
  blocks and mutexes it holds at the end are exactly those of the objects it has not destroyed.
\<close>

theorem contexts_hold_what_is_alive:
  assumes "disciplined make_context destroy_context (\<lambda>k m. ignores_lock_error k \<longrightarrow> m) es (empty_heap, [])"
  shows "\<exists>h live. life_run make_context destroy_context es (empty_heap, []) = Some (h, live)
    \<and> blocks h = map fst live \<and> locks h = map fst (filter (\<lambda>x. has_lock (snd x)) live)
    \<and> (live = [] \<longrightarrow> blocks h = [] \<and> locks h = [])"
proof -
  have "exact has_lock empty_heap []" by (simp add: exact_def empty_heap_def)
  from contexts.disciplined_exact [OF assms this] show ?thesis by (auto simp: exact_def simp del: has_lock.simps)
qed

text \<open>The four components that ignore a failed initialisation hand out an object whose destructor is undefined.\<close>

lemma ignored_lock_error_undefined:
  assumes "ignores_lock_error k" "fresh h \<notin> set (locks h)"
  shows "life_run make_context destroy_context [Make k True False, Destroy k (Some (fresh h))] (h, live) = None"
  using assms by (cases k) (simp_all add: make_unchecked_def calloc_block_def destructor_defs destroy_lock_def Let_def)

text \<open>The test suite of the store makes an object, fills a local structure and ends without destroying the object.\<close>

definition execute_cluster_state_test_suite :: "bool \<Rightarrow> bool \<Rightarrow> heap \<Rightarrow> (string list \<times> heap) option" where
  "execute_cluster_state_test_suite calloc_ok mutex_ok h =
     map_option (\<lambda>(p, h'). (if p = None then [''Test Setup Failed''] else [], h')) (make_checked calloc_ok mutex_ok h)"

lemma store_suite_leaks:
  "map_option (\<lambda>(out, h). (out, blocks h, locks h)) (execute_cluster_state_test_suite True True empty_heap) = Some ([], [0], [0])"
  by (simp add: execute_cluster_state_test_suite_def make_checked_def calloc_block_def init_lock_def empty_heap_def)

end
