(* ===== verification/Scheduler.thy ===== *)
theory Scheduler
  imports Prelude
begin

text \<open>
  The chunk scheduler of the master (\<^verbatim>\<open>master/src/scheduler.c\<close>): worker views, the queue of
  ready chunks, the lease table, and the tick that expires leases and dispatches chunks.

  The three static arrays with their counts are lists in one state record; every operation runs
  under \<open>g_sched_mutex\<close> and is one atomic step. Worker identifiers are zero-terminated in a
  zero-padded 64-byte buffer, so \<open>worker_id + 7\<close> is the string without its first seven
  characters. Scores are \<open>double\<close> values; the rounding function is the first argument of the
  definitions that compute with them.

  Proved: which worker a chunk is given (the first of maximal score among those that pass the hard
  filters); the invariants of the tables; that while callers do not overwrite a worker or a leased
  chunk, the reservations of every worker are exactly the demands of its active leases and never
  exceed its capacity; what a tick and a release do on every branch; that a re-registration breaks
  the accounting.
\<close>

section \<open>Data\<close>

definition MAX_SWORKERS :: nat where "MAX_SWORKERS = 64"
definition MAX_SCHUNKS :: nat where "MAX_SCHUNKS = 128"

record vom_worker_view =
  worker_id :: string
  platform :: int
  runtime :: int
  cpu_units :: u8
  reserv_cpu :: u8
  free_memory_mb :: u64
  reserv_mem_mb :: u64
  battery_pct :: fp
  active_chunks :: int
  has_touch_input :: int
  draining :: int
  healthy :: int
  reliability_score :: fp

record vom_chunk_plan =
  chunk_id :: u64
  workload_id :: u64
  required_platform :: int
  required_runtime :: int
  required_cpu :: u8
  required_memory_mb :: u64
  requires_touch :: int
  is_blocked :: bool
  preferred_node :: u32

record vom_assignment_lease =
  lease_chunk_id :: u64
  assigned_worker_id :: string
  lease_expires_ms :: u64
  is_active :: bool

record scheduler_state =
  g_workers :: "vom_worker_view list"
  g_chunks :: "vom_chunk_plan list"
  g_leases :: "vom_assignment_lease list"

section \<open>Operations\<close>

definition vom_scheduler_init :: scheduler_state where
  "vom_scheduler_init = \<lparr>g_workers = [], g_chunks = [], g_leases = []\<rparr>"

definition vom_scheduler_register_worker ::
  "vom_worker_view option \<Rightarrow> scheduler_state \<Rightarrow> int \<times> scheduler_state" where
  "vom_scheduler_register_worker worker st =
     (case worker of
        None \<Rightarrow> (-1, st)
      | Some w \<Rightarrow>
          if list_ex (\<lambda>x. worker_id x = worker_id w) (g_workers st)
          then (0, st\<lparr>g_workers := upd_first (\<lambda>x. worker_id x = worker_id w) (\<lambda>_. w) (g_workers st)\<rparr>)
          else if length (g_workers st) \<ge> MAX_SWORKERS then (-1, st)
          else (0, st\<lparr>g_workers := g_workers st @ [w]\<rparr>))"

definition vom_scheduler_submit_ready_chunk ::
  "vom_chunk_plan option \<Rightarrow> scheduler_state \<Rightarrow> int \<times> scheduler_state" where
  "vom_scheduler_submit_ready_chunk chunk st =
     (case chunk of
        None \<Rightarrow> (-1, st)
      | Some c \<Rightarrow>
          if list_ex (\<lambda>x. chunk_id x = chunk_id c) (g_chunks st)
          then (0, st\<lparr>g_chunks := upd_first (\<lambda>x. chunk_id x = chunk_id c) (\<lambda>_. c) (g_chunks st)\<rparr>)
          else if length (g_chunks st) \<ge> MAX_SCHUNKS then (-1, st)
          else (0, st\<lparr>g_chunks := g_chunks st @ [c]\<rparr>))"

definition evaluate_hard_filters :: "vom_chunk_plan \<Rightarrow> vom_worker_view \<Rightarrow> bool" where
  "evaluate_hard_filters chunk worker =
     (if healthy worker = 0 \<or> draining worker \<noteq> 0 then False
      else if platform worker \<noteq> required_platform chunk then False
      else if runtime worker \<noteq> required_runtime chunk then False
      else if requires_touch chunk \<noteq> 0 \<and> has_touch_input worker = 0 then False
      else
        (let available_cpu = (if cpu_units worker > reserv_cpu worker
                              then cpu_units worker - reserv_cpu worker else 0) in
         if available_cpu < required_cpu chunk then False
         else
           (let available_mem = (if free_memory_mb worker > reserv_mem_mb worker
                                 then free_memory_mb worker - reserv_mem_mb worker else 0) in
            if available_mem < required_memory_mb chunk then False else True)))"

definition calculate_worker_score :: "rounding \<Rightarrow> vom_chunk_plan \<Rightarrow> vom_worker_view \<Rightarrow> fp" where
  "calculate_worker_score rnd chunk worker =
     (let score0 = Fin 0;
          total_cpu_capacity = Fin (of_nat (unat (cpu_units worker)));
          free_cpu_ratio =
            fp_div rnd (Fin (of_int (uint (cpu_units worker) - uint (reserv_cpu worker))))
              total_cpu_capacity;
          score1 = fp_add rnd score0 (fp_mul rnd free_cpu_ratio (Fin 40));
          score2 = fp_add rnd score1 (fp_mul rnd (reliability_score worker) (Fin 30));
          worker_node_numeric_id = word_of_int (c_atoi (drop 7 (worker_id worker))) :: u32;
          score3 = (if worker_node_numeric_id = preferred_node chunk
                    then fp_add rnd score2 (Fin 20) else score2)
      in if fp_ge (battery_pct worker) (Fin 0)
         then fp_add rnd score3 (fp_mul rnd (fp_div rnd (battery_pct worker) (Fin 100)) (Fin 10))
         else fp_add rnd score3 (Fin 10))"

definition release_reservation :: "vom_chunk_plan \<Rightarrow> vom_worker_view \<Rightarrow> vom_worker_view" where
  "release_reservation chunk w =
     w\<lparr>reserv_cpu := (if reserv_cpu w \<ge> required_cpu chunk
                      then reserv_cpu w - required_cpu chunk else reserv_cpu w),
       reserv_mem_mb := (if reserv_mem_mb w \<ge> required_memory_mb chunk
                         then reserv_mem_mb w - required_memory_mb chunk else reserv_mem_mb w),
       active_chunks := active_chunks w - 1\<rparr>"

definition leases_chunk :: "u64 \<Rightarrow> vom_assignment_lease \<Rightarrow> bool" where
  "leases_chunk cid l \<longleftrightarrow> lease_chunk_id l = cid \<and> is_active l"

definition deactivate_lease :: "u64 \<Rightarrow> vom_assignment_lease list \<Rightarrow> vom_assignment_lease list" where
  "deactivate_lease cid leases = upd_first (leases_chunk cid) (\<lambda>l. l\<lparr>is_active := False\<rparr>) leases"

text \<open>The expiry part of a tick: whether the chunk still has a live lease, and the new state.\<close>

definition expire_lease ::
  "u64 \<Rightarrow> vom_chunk_plan \<Rightarrow> scheduler_state \<Rightarrow> bool \<times> scheduler_state" where
  "expire_lease current_time_ms chunk st =
     (case List.find (leases_chunk (chunk_id chunk)) (g_leases st) of
        None \<Rightarrow> (False, st)
      | Some l \<Rightarrow>
          if current_time_ms > lease_expires_ms l
          then (False, st\<lparr>g_leases := deactivate_lease (chunk_id chunk) (g_leases st),
                 g_workers := upd_first (\<lambda>w. worker_id w = assigned_worker_id l)
                   (release_reservation chunk) (g_workers st)\<rparr>)
          else (True, st))"

definition consider_worker ::
  "rounding \<Rightarrow> vom_chunk_plan \<Rightarrow> vom_worker_view list \<Rightarrow> nat \<Rightarrow> nat option \<times> fp \<Rightarrow> nat option \<times> fp" where
  "consider_worker rnd chunk ws w acc =
     (case acc of (best_worker_idx, highest_score) \<Rightarrow>
        if evaluate_hard_filters chunk (ws ! w)
        then (let score = calculate_worker_score rnd chunk (ws ! w)
              in if fp_gt score highest_score then (Some w, score)
                 else (best_worker_idx, highest_score))
        else (best_worker_idx, highest_score))"

definition select_worker ::
  "rounding \<Rightarrow> vom_chunk_plan \<Rightarrow> vom_worker_view list \<Rightarrow> nat option" where
  "select_worker rnd chunk ws =
     fst (fold (consider_worker rnd chunk ws) [0..<length ws] (None, Fin (-1)))"

definition add_reservation :: "vom_chunk_plan \<Rightarrow> vom_worker_view \<Rightarrow> vom_worker_view" where
  "add_reservation chunk w =
     w\<lparr>reserv_cpu := reserv_cpu w + required_cpu chunk,
       reserv_mem_mb := reserv_mem_mb w + required_memory_mb chunk,
       active_chunks := active_chunks w + 1\<rparr>"

definition mk_lease :: "u64 \<Rightarrow> vom_chunk_plan \<Rightarrow> vom_worker_view \<Rightarrow> vom_assignment_lease" where
  "mk_lease current_time_ms chunk w =
     \<lparr>lease_chunk_id = chunk_id chunk, assigned_worker_id = c_strncpy 63 (worker_id w),
      lease_expires_ms = current_time_ms + 30000, is_active = True\<rparr>"

definition assign_chunk ::
  "u64 \<Rightarrow> vom_chunk_plan \<Rightarrow> nat \<Rightarrow> scheduler_state \<times> vom_assignment_lease list
    \<Rightarrow> scheduler_state \<times> vom_assignment_lease list" where
  "assign_chunk current_time_ms chunk w so =
     (case so of (st, out_leases) \<Rightarrow>
        (let st' = st\<lparr>g_workers := (g_workers st)[w := add_reservation chunk (g_workers st ! w)]\<rparr>;
             new_lease = mk_lease current_time_ms chunk (g_workers st ! w)
         in if list_ex (\<lambda>l. \<not> is_active l) (g_leases st')
            then (st'\<lparr>g_leases := upd_first (\<lambda>l. \<not> is_active l) (\<lambda>_. new_lease) (g_leases st')\<rparr>,
                  out_leases @ [new_lease])
            else if length (g_leases st') < MAX_SCHUNKS
            then (st'\<lparr>g_leases := g_leases st' @ [new_lease]\<rparr>, out_leases @ [new_lease])
            else (st', out_leases)))"

definition tick_chunk ::
  "rounding \<Rightarrow> u64 \<Rightarrow> vom_chunk_plan \<Rightarrow> scheduler_state \<times> vom_assignment_lease list
    \<Rightarrow> scheduler_state \<times> vom_assignment_lease list" where
  "tick_chunk rnd current_time_ms chunk so =
     (case so of (st, out_leases) \<Rightarrow>
        if is_blocked chunk then (st, out_leases)
        else
          (case expire_lease current_time_ms chunk st of (already_leased, st') \<Rightarrow>
             if already_leased then (st', out_leases)
             else (case select_worker rnd chunk (g_workers st') of
                     None \<Rightarrow> (st', out_leases)
                   | Some w \<Rightarrow> assign_chunk current_time_ms chunk w (st', out_leases))))"

fun tick_loop ::
  "rounding \<Rightarrow> u64 \<Rightarrow> int \<Rightarrow> vom_chunk_plan list \<Rightarrow> scheduler_state \<times> vom_assignment_lease list
    \<Rightarrow> scheduler_state \<times> vom_assignment_lease list" where
  "tick_loop rnd now max_leases [] so = so"
| "tick_loop rnd now max_leases (c # cs) so =
     (if int (length (snd so)) \<ge> max_leases then so
      else tick_loop rnd now max_leases cs (tick_chunk rnd now c so))"

definition vom_scheduler_tick ::
  "rounding \<Rightarrow> u64 \<Rightarrow> int \<Rightarrow> scheduler_state \<Rightarrow> scheduler_state \<times> vom_assignment_lease list" where
  "vom_scheduler_tick rnd current_time_ms max_leases st =
     tick_loop rnd current_time_ms max_leases (g_chunks st) (st, [])"

definition vom_scheduler_release_lease :: "u64 \<Rightarrow> scheduler_state \<Rightarrow> scheduler_state" where
  "vom_scheduler_release_lease cid st =
     (case List.find (leases_chunk cid) (g_leases st) of
        None \<Rightarrow> st
      | Some l \<Rightarrow>
          (let st' = st\<lparr>g_leases := deactivate_lease cid (g_leases st)\<rparr> in
           case lookup_by chunk_id cid (g_chunks st') of
             None \<Rightarrow> st'
           | Some c \<Rightarrow>
               st'\<lparr>g_workers := upd_first (\<lambda>w. worker_id w = assigned_worker_id l)
                      (release_reservation c) (g_workers st'),
                   g_chunks := del_first (\<lambda>x. chunk_id x = cid) (g_chunks st')\<rparr>))"

section \<open>Invariant, accounting and step relation\<close>

definition active_ids :: "vom_assignment_lease list \<Rightarrow> u64 list" where
  "active_ids ls = map lease_chunk_id (filter is_active ls)"

definition sched_inv :: "scheduler_state \<Rightarrow> bool" where
  "sched_inv st \<longleftrightarrow>
     table_ok worker_id MAX_SWORKERS (g_workers st)
   \<and> (\<forall>w \<in> set (g_workers st). length (worker_id w) \<le> 63)
   \<and> table_ok chunk_id MAX_SCHUNKS (g_chunks st)
   \<and> length (g_leases st) \<le> MAX_SCHUNKS
   \<and> distinct (active_ids (g_leases st))
   \<and> set (active_ids (g_leases st)) \<subseteq> chunk_id ` set (g_chunks st)
   \<and> (\<forall>l \<in> set (g_leases st). is_active l \<longrightarrow> assigned_worker_id l \<in> worker_id ` set (g_workers st))"

text \<open>
  \<open>load dem st wid\<close> adds up a demand of the queued chunks over the active leases of a worker.
\<close>

definition lease_load ::
  "(vom_chunk_plan \<Rightarrow> nat) \<Rightarrow> vom_chunk_plan list \<Rightarrow> string \<Rightarrow> vom_assignment_lease \<Rightarrow> nat" where
  "lease_load dem cs wid l =
     (if is_active l \<and> assigned_worker_id l = wid
      then (case lookup_by chunk_id (lease_chunk_id l) cs of None \<Rightarrow> 0 | Some c \<Rightarrow> dem c) else 0)"

definition load :: "(vom_chunk_plan \<Rightarrow> nat) \<Rightarrow> scheduler_state \<Rightarrow> string \<Rightarrow> nat" where
  "load dem st wid = sum_list (map (lease_load dem (g_chunks st) wid) (g_leases st))"

abbreviation cpu_dem :: "vom_chunk_plan \<Rightarrow> nat" where "cpu_dem c \<equiv> unat (required_cpu c)"
abbreviation mem_dem :: "vom_chunk_plan \<Rightarrow> nat" where "mem_dem c \<equiv> unat (required_memory_mb c)"
abbreviation one_dem :: "vom_chunk_plan \<Rightarrow> nat" where "one_dem c \<equiv> 1"

definition worker_accounted :: "scheduler_state \<Rightarrow> vom_worker_view \<Rightarrow> bool" where
  "worker_accounted st w \<longleftrightarrow>
     unat (reserv_cpu w) = load cpu_dem st (worker_id w)
   \<and> unat (reserv_mem_mb w) = load mem_dem st (worker_id w)
   \<and> active_chunks w = int (load one_dem st (worker_id w))
   \<and> reserv_cpu w \<le> cpu_units w \<and> reserv_mem_mb w \<le> free_memory_mb w"

definition accounted :: "scheduler_state \<Rightarrow> bool" where
  "accounted st \<longleftrightarrow> (\<forall>w \<in> set (g_workers st). worker_accounted st w)"

text \<open>
  Any interleaving of calls. \<open>sched_reachable\<close> restricts only the arguments to identifiers
  that fit their buffer; \<open>sched_disciplined\<close> also asks that a registered worker is new and
  comes with no reservation, and that a submitted chunk is not one that is leased.
\<close>

inductive sched_reachable :: "rounding \<Rightarrow> scheduler_state \<Rightarrow> bool" for rnd where
  sr_init: "sched_reachable rnd vom_scheduler_init"
| sr_register: "sched_reachable rnd st \<Longrightarrow> length (worker_id w) \<le> 63 \<Longrightarrow>
    sched_reachable rnd (snd (vom_scheduler_register_worker (Some w) st))"
| sr_submit: "sched_reachable rnd st \<Longrightarrow>
    sched_reachable rnd (snd (vom_scheduler_submit_ready_chunk (Some c) st))"
| sr_tick: "sched_reachable rnd st \<Longrightarrow>
    sched_reachable rnd (fst (vom_scheduler_tick rnd now m st))"
| sr_release: "sched_reachable rnd st \<Longrightarrow> sched_reachable rnd (vom_scheduler_release_lease cid st)"

inductive sched_disciplined :: "rounding \<Rightarrow> scheduler_state \<Rightarrow> bool" for rnd where
  sd_init: "sched_disciplined rnd vom_scheduler_init"
| sd_register: "sched_disciplined rnd st \<Longrightarrow> length (worker_id w) \<le> 63 \<Longrightarrow>
    worker_id w \<notin> worker_id ` set (g_workers st) \<Longrightarrow>
    reserv_cpu w = 0 \<Longrightarrow> reserv_mem_mb w = 0 \<Longrightarrow> active_chunks w = 0 \<Longrightarrow>
    sched_disciplined rnd (snd (vom_scheduler_register_worker (Some w) st))"
| sd_submit: "sched_disciplined rnd st \<Longrightarrow> chunk_id c \<notin> set (active_ids (g_leases st)) \<Longrightarrow>
    sched_disciplined rnd (snd (vom_scheduler_submit_ready_chunk (Some c) st))"
| sd_tick: "sched_disciplined rnd st \<Longrightarrow>
    sched_disciplined rnd (fst (vom_scheduler_tick rnd now m st))"
| sd_release: "sched_disciplined rnd st \<Longrightarrow>
    sched_disciplined rnd (vom_scheduler_release_lease cid st)"

section \<open>The tables\<close>

interpretation worker_table: bounded_table g_workers worker_id MAX_SWORKERS worker_id
  "\<lambda>w. length (worker_id w) \<le> 63" "\<lambda>w st. snd (vom_scheduler_register_worker (Some w) st)"
  "\<lambda>w st. fst (vom_scheduler_register_worker (Some w) st) = 0" "\<lambda>w _. w" "\<lambda>w. w"
  by unfold_locales (auto simp: vom_scheduler_register_worker_def lookup_by_ex)

interpretation chunk_table: bounded_table g_chunks chunk_id MAX_SCHUNKS chunk_id
  "\<lambda>_. True" "\<lambda>c st. snd (vom_scheduler_submit_ready_chunk (Some c) st)"
  "\<lambda>c st. fst (vom_scheduler_submit_ready_chunk (Some c) st) = 0" "\<lambda>c _. c" "\<lambda>c. c"
  by unfold_locales (auto simp: vom_scheduler_submit_ready_chunk_def lookup_by_ex)

lemma register_frame [simp, vom_frame]:
  "g_chunks (snd (vom_scheduler_register_worker w st)) = g_chunks st"
  "g_leases (snd (vom_scheduler_register_worker w st)) = g_leases st"
  by (auto simp: vom_scheduler_register_worker_def split: option.splits)

lemma submit_frame [simp, vom_frame]:
  "g_workers (snd (vom_scheduler_submit_ready_chunk c st)) = g_workers st"
  "g_leases (snd (vom_scheduler_submit_ready_chunk c st)) = g_leases st"
  by (auto simp: vom_scheduler_submit_ready_chunk_def split: option.splits)

lemma reservation_ids [simp]:
  "worker_id (release_reservation c w) = worker_id w"
  "worker_id (add_reservation c w) = worker_id w"
  by (simp_all add: release_reservation_def add_reservation_def)

subsection \<open>Active leases\<close>

lemma active_ids_simps [simp]:
  "active_ids [] = []"
  "active_ids (l # ls) = (if is_active l then lease_chunk_id l # active_ids ls else active_ids ls)"
  "active_ids (ls @ ls') = active_ids ls @ active_ids ls'"
  by (simp_all add: active_ids_def)

lemma length_active_ids: "length (active_ids ls) \<le> length ls"
  by (simp add: active_ids_def)

lemma all_active_length: "\<not> list_ex (\<lambda>l. \<not> is_active l) ls \<Longrightarrow> length (active_ids ls) = length ls"
  by (induction ls) auto

lemma find_active: "List.find (leases_chunk cid) ls = None \<longleftrightarrow> cid \<notin> set (active_ids ls)"
  by (induction ls) (auto simp: leases_chunk_def)

lemma deactivate_lease_simps [simp]:
  "deactivate_lease cid [] = []"
  "deactivate_lease cid (l # ls) =
    (if leases_chunk cid l then l\<lparr>is_active := False\<rparr> # ls else l # deactivate_lease cid ls)"
  by (simp_all add: deactivate_lease_def)

lemma length_deactivate [simp]: "length (deactivate_lease cid ls) = length ls"
  by (simp add: deactivate_lease_def)

lemma deactivate_ids:
  "distinct (active_ids ls) \<Longrightarrow> distinct (active_ids (deactivate_lease cid ls)) \<and>
    set (active_ids (deactivate_lease cid ls)) = set (active_ids ls) - {cid}"
  by (induction ls) (auto simp: leases_chunk_def)

lemma deactivate_active:
  "l \<in> set (deactivate_lease cid ls) \<Longrightarrow> is_active l \<Longrightarrow> l \<in> set ls"
  by (induction ls) (auto split: if_splits)

definition put_lease :: "vom_assignment_lease \<Rightarrow> vom_assignment_lease list \<Rightarrow> vom_assignment_lease list" where
  "put_lease nl ls = (if list_ex (\<lambda>l. \<not> is_active l) ls
     then upd_first (\<lambda>l. \<not> is_active l) (\<lambda>_. nl) ls else ls @ [nl])"

lemma put_lease_ids:
  assumes "is_active nl"
  shows "set (active_ids (put_lease nl ls)) = insert (lease_chunk_id nl) (set (active_ids ls))"
    "lease_chunk_id nl \<notin> set (active_ids ls) \<Longrightarrow> distinct (active_ids ls) \<Longrightarrow>
      distinct (active_ids (put_lease nl ls))"
proof -
  have 1: "set (active_ids (upd_first (\<lambda>l. \<not> is_active l) (\<lambda>_. nl) ls)) =
      insert (lease_chunk_id nl) (set (active_ids ls))" if "list_ex (\<lambda>l. \<not> is_active l) ls"
    using that assms by (induction ls) auto
  have 2: "distinct (active_ids (upd_first (\<lambda>l. \<not> is_active l) (\<lambda>_. nl) ls))"
    if "lease_chunk_id nl \<notin> set (active_ids ls)" "distinct (active_ids ls)"
    using that assms
  proof (induction ls)
    case (Cons l ls)
    have sub: "set (active_ids (upd_first (\<lambda>l. \<not> is_active l) (\<lambda>_. nl) ls)) \<subseteq>
        insert (lease_chunk_id nl) (set (active_ids ls))"
      using assms by (induction ls) auto
    with Cons show ?case by (auto split: if_splits)
  qed simp
  show "set (active_ids (put_lease nl ls)) = insert (lease_chunk_id nl) (set (active_ids ls))"
    using 1 assms by (auto simp: put_lease_def)
  show "distinct (active_ids (put_lease nl ls))"
    if "lease_chunk_id nl \<notin> set (active_ids ls)" "distinct (active_ids ls)"
    using 2 that assms by (auto simp: put_lease_def)
qed

lemma put_lease_active: "l \<in> set (put_lease nl ls) \<Longrightarrow> l = nl \<or> l \<in> set ls"
  using set_upd_first_subset [of "\<lambda>l. \<not> is_active l" "\<lambda>_. nl" ls]
  by (auto simp: put_lease_def split: if_splits)

text \<open>A chunk without an active lease always finds a lease slot.\<close>

lemma lease_slot_exists:
  assumes "sched_inv st" "c \<in> set (g_chunks st)" "chunk_id c \<notin> set (active_ids (g_leases st))"
  shows "list_ex (\<lambda>l. \<not> is_active l) (g_leases st) \<or> length (g_leases st) < MAX_SCHUNKS"
proof (rule disjCI)
  assume full: "\<not> length (g_leases st) < MAX_SCHUNKS"
  show "list_ex (\<lambda>l. \<not> is_active l) (g_leases st)"
  proof (rule ccontr)
    assume "\<not> ?thesis"
    then have "length (active_ids (g_leases st)) = length (g_leases st)" by (rule all_active_length)
    moreover have "length (active_ids (g_leases st)) = card (set (active_ids (g_leases st)))"
      using assms(1) by (simp add: sched_inv_def distinct_card)
    moreover have "card (set (active_ids (g_leases st))) < card (chunk_id ` set (g_chunks st))"
      using assms by (intro psubset_card_mono) (auto simp: sched_inv_def)
    moreover have "card (chunk_id ` set (g_chunks st)) \<le> length (g_chunks st)"
      by (metis card_length length_map list.set_map)
    ultimately show False using assms(1) full by (simp add: sched_inv_def table_ok_def)
  qed
qed

subsection \<open>Preservation of the table invariant\<close>

lemma same_ids_set: "map worker_id ws = map worker_id ws' \<Longrightarrow> worker_id ` set ws = worker_id ` set ws'"
  by (metis list.set_map)

lemma sched_inv_same_ids:
  assumes "sched_inv st" "map worker_id ws = map worker_id (g_workers st)"
  shows "sched_inv (st\<lparr>g_workers := ws\<rparr>)"
proof -
  have ids: "worker_id ` set ws = worker_id ` set (g_workers st)" by (rule same_ids_set [OF assms(2)])
  have "length ws = length (g_workers st)" using assms(2) by (metis length_map)
  moreover have "distinct (map worker_id ws)"
    unfolding assms(2) using assms(1) by (simp add: sched_inv_def table_ok_def)
  moreover have "length (worker_id w) \<le> 63" if "w \<in> set ws" for w
  proof -
    from that ids obtain w' where "w' \<in> set (g_workers st)" "worker_id w = worker_id w'"
      by (metis imageE imageI)
    with assms(1) show ?thesis by (simp add: sched_inv_def)
  qed
  ultimately show ?thesis using assms(1) ids by (simp add: sched_inv_def table_ok_def)
qed

lemma leases_workers_commute:
  "st\<lparr>g_leases := ls, g_workers := ws\<rparr> = st\<lparr>g_workers := ws, g_leases := ls\<rparr>"
  by simp

lemma expire_cases [consumes 1, case_names idle live expired]:
  assumes "expire_lease now c st = (leased, st')"
  obtains "chunk_id c \<notin> set (active_ids (g_leases st))" "\<not> leased" "st' = st"
  | l where "List.find (leases_chunk (chunk_id c)) (g_leases st) = Some l"
      "now \<le> lease_expires_ms l" "leased" "st' = st"
  | l where "List.find (leases_chunk (chunk_id c)) (g_leases st) = Some l"
      "lease_expires_ms l < now" "\<not> leased"
      "st' = st\<lparr>g_leases := deactivate_lease (chunk_id c) (g_leases st),
         g_workers := upd_first (\<lambda>w. worker_id w = assigned_worker_id l)
           (release_reservation c) (g_workers st)\<rparr>"
  using assms find_active [of "chunk_id c" "g_leases st"]
  by (auto simp: expire_lease_def not_less split: option.splits if_splits)

lemma deactivate_inv: "sched_inv st \<Longrightarrow> sched_inv (st\<lparr>g_leases := deactivate_lease cid (g_leases st)\<rparr>)"
  using deactivate_ids [of "g_leases st" cid]
  by (auto simp: sched_inv_def dest: deactivate_active)

lemma release_worker_inv:
  "sched_inv st \<Longrightarrow>
    sched_inv (st\<lparr>g_workers := upd_first P (release_reservation c) (g_workers st)\<rparr>)"
  by (rule sched_inv_same_ids) (simp_all add: map_upd_first)

lemma expire_inv:
  assumes "sched_inv st" "expire_lease now c st = (leased, st')"
  shows "sched_inv st' \<and> g_chunks st' = g_chunks st \<and>
    (leased \<longleftrightarrow> chunk_id c \<in> set (active_ids (g_leases st')))"
  using assms(2)
proof (cases rule: expire_cases)
  case (live l)
  then show ?thesis using assms(1) find_active [of "chunk_id c" "g_leases st"] by auto
next
  case (expired l)
  have d: "distinct (active_ids (g_leases st))" using assms(1) by (simp add: sched_inv_def)
  have "sched_inv (st\<lparr>g_leases := deactivate_lease (chunk_id c) (g_leases st)\<rparr>)"
    using assms(1) by (rule deactivate_inv)
  from release_worker_inv [OF this, of "\<lambda>w. worker_id w = assigned_worker_id l" c]
  show ?thesis using expired deactivate_ids [OF d] by simp
qed (use assms in auto)

lemma consider_worker_index:
  "fst (fold (consider_worker rnd c ws) is (b, hi)) = Some i \<Longrightarrow> b = Some i \<or> i \<in> set is"
  by (induction "is" arbitrary: b hi)
    (auto simp: consider_worker_def Let_def split: if_splits)

lemma select_worker_less: "select_worker rnd c ws = Some i \<Longrightarrow> i < length ws"
  using consider_worker_index [of rnd c ws "[0..<length ws]" None "Fin (-1)" i]
  by (auto simp: select_worker_def)

lemma assign_chunk_eq:
  assumes "sched_inv st" "c \<in> set (g_chunks st)" "chunk_id c \<notin> set (active_ids (g_leases st))"
  shows "assign_chunk now c w (st, out) =
    (st\<lparr>g_workers := (g_workers st)[w := add_reservation c (g_workers st ! w)],
        g_leases := put_lease (mk_lease now c (g_workers st ! w)) (g_leases st)\<rparr>,
     out @ [mk_lease now c (g_workers st ! w)])"
  using lease_slot_exists [OF assms] by (auto simp: assign_chunk_def put_lease_def Let_def)

lemma mk_lease_simps [simp]:
  "is_active (mk_lease now c w)" "lease_chunk_id (mk_lease now c w) = chunk_id c"
  "assigned_worker_id (mk_lease now c w) = c_strncpy 63 (worker_id w)"
  by (simp_all add: mk_lease_def)

lemma length_put_lease:
  "list_ex (\<lambda>l. \<not> is_active l) ls \<or> length ls < n \<Longrightarrow> length ls \<le> n \<Longrightarrow> length (put_lease nl ls) \<le> n"
  by (auto simp: put_lease_def)

lemma assign_inv:
  assumes "sched_inv st" "c \<in> set (g_chunks st)" "chunk_id c \<notin> set (active_ids (g_leases st))"
    and "w < length (g_workers st)"
  shows "sched_inv (fst (assign_chunk now c w (st, out)))"
proof -
  let ?nl = "mk_lease now c (g_workers st ! w)"
  have w: "g_workers st ! w \<in> set (g_workers st)" using assms(4) by simp
  then have "assigned_worker_id ?nl = worker_id (g_workers st ! w)"
    using assms(1) by (simp add: sched_inv_def)
  then have "assigned_worker_id ?nl \<in> worker_id ` set (g_workers st)" using w by simp
  then have "sched_inv (st\<lparr>g_leases := put_lease ?nl (g_leases st)\<rparr>)"
    using assms(1-3) put_lease_ids [of ?nl "g_leases st"] lease_slot_exists [OF assms(1-3)]
    by (auto simp: sched_inv_def length_put_lease dest: put_lease_active)
  from sched_inv_same_ids [OF this, of "(g_workers st)[w := add_reservation c (g_workers st ! w)]"]
  show ?thesis using assms(4)
    by (simp add: assign_chunk_eq [OF assms(1-3)] map_update list_update_same_conv leases_workers_commute)
qed

lemma assign_frame: "g_chunks (fst (assign_chunk now c w so)) = g_chunks (fst so)"
  by (auto simp: assign_chunk_def Let_def split: prod.splits)

lemma tick_chunk_inv:
  assumes "sched_inv (fst so)" "c \<in> set (g_chunks (fst so))"
  shows "sched_inv (fst (tick_chunk rnd now c so))"
    "g_chunks (fst (tick_chunk rnd now c so)) = g_chunks (fst so)"
proof -
  obtain st out where so: "so = (st, out)" by fastforce
  obtain leased st' where ex: "expire_lease now c st = (leased, st')" by fastforce
  note e = expire_inv [OF _ ex]
  have "sched_inv (fst (tick_chunk rnd now c so)) \<and>
      g_chunks (fst (tick_chunk rnd now c so)) = g_chunks (fst so)"
    using assms e assign_inv [of st' c] select_worker_less [of rnd c "g_workers st'"]
    by (auto simp: so tick_chunk_def ex assign_frame split: option.splits)
  then show "sched_inv (fst (tick_chunk rnd now c so))"
    "g_chunks (fst (tick_chunk rnd now c so)) = g_chunks (fst so)" by auto
qed

text \<open>What every chunk step keeps, the whole tick keeps.\<close>

lemma tick_loop_keeps:
  assumes step: "\<And>c so. c \<in> set (g_chunks (fst so)) \<Longrightarrow> P so \<Longrightarrow> P (tick_chunk rnd now c so)"
    and inv: "\<And>so. P so \<Longrightarrow> sched_inv (fst so)"
  shows "set cs \<subseteq> set (g_chunks (fst so)) \<Longrightarrow> P so \<Longrightarrow> P (tick_loop rnd now m cs so)"
proof (induction cs arbitrary: so)
  case (Cons c cs)
  then have "P (tick_chunk rnd now c so)" by (intro step) auto
  moreover have "g_chunks (fst (tick_chunk rnd now c so)) = g_chunks (fst so)"
    using Cons.prems inv by (intro tick_chunk_inv) auto
  ultimately show ?case using Cons by auto
qed simp

lemma tick_inv: "sched_inv st \<Longrightarrow> sched_inv (fst (vom_scheduler_tick rnd now m st))"
  unfolding vom_scheduler_tick_def
  by (rule tick_loop_keeps [where P = "\<lambda>so. sched_inv (fst so)"]) (auto intro: tick_chunk_inv)

lemma register_inv:
  assumes "sched_inv st" "length (worker_id w) \<le> 63"
  shows "sched_inv (snd (vom_scheduler_register_worker (Some w) st))"
proof -
  let ?st = "snd (vom_scheduler_register_worker (Some w) st)"
  have "table_ok worker_id MAX_SWORKERS (g_workers ?st)"
    using assms by (intro worker_table.put_table_ok) (auto simp: sched_inv_def)
  moreover have "worker_id ` set (g_workers st) \<subseteq> worker_id ` set (g_workers ?st)"
    using worker_table.put_keys [of w st] assms(2) by auto
  moreover have "\<forall>x \<in> set (g_workers ?st). length (worker_id x) \<le> 63"
    using assms by (auto simp: vom_scheduler_register_worker_def sched_inv_def
        dest: set_upd_first_subset [THEN subsetD] split: if_splits)
  ultimately show ?thesis using assms(1) by (auto simp: sched_inv_def)
qed

lemma submit_inv:
  assumes "sched_inv st"
  shows "sched_inv (snd (vom_scheduler_submit_ready_chunk (Some c) st))"
proof -
  let ?st = "snd (vom_scheduler_submit_ready_chunk (Some c) st)"
  have "table_ok chunk_id MAX_SCHUNKS (g_chunks ?st)"
    using assms by (intro chunk_table.put_table_ok) (auto simp: sched_inv_def)
  moreover have "chunk_id ` set (g_chunks st) \<subseteq> chunk_id ` set (g_chunks ?st)"
    using chunk_table.put_keys [of c st] by auto
  ultimately show ?thesis using assms by (auto simp: sched_inv_def)
qed

lemma find_lease_id: "List.find (leases_chunk cid) ls = Some l \<Longrightarrow>
    l \<in> set ls \<and> is_active l \<and> lease_chunk_id l = cid \<and> cid \<in> set (active_ids ls)"
  by (induction ls) (auto simp: leases_chunk_def split: if_splits)

lemma leased_chunk_queued:
  assumes "sched_inv st" "List.find (leases_chunk cid) (g_leases st) = Some l"
  obtains c where "lookup_by chunk_id cid (g_chunks st) = Some c" "chunk_id c = cid" "c \<in> set (g_chunks st)"
proof -
  have "cid \<in> chunk_id ` set (g_chunks st)"
    using assms find_lease_id [OF assms(2)] by (auto simp: sched_inv_def)
  then obtain c where "lookup_by chunk_id cid (g_chunks st) = Some c"
    by (metis lookup_by_None not_None_eq)
  with that lookup_by_SomeD show thesis by metis
qed

lemma del_chunk_inv:
  assumes "sched_inv st" "cid \<notin> set (active_ids (g_leases st))"
  shows "sched_inv (st\<lparr>g_chunks := del_first (\<lambda>x. chunk_id x = cid) (g_chunks st)\<rparr>)"
proof -
  have "distinct (map chunk_id (g_chunks st))" using assms(1) by (simp add: sched_inv_def table_ok_def)
  then have "chunk_id ` set (del_first (\<lambda>x. chunk_id x = cid) (g_chunks st)) = chunk_id ` set (g_chunks st) - {cid}"
    by (auto simp: del_first_filter)
  with assms show ?thesis by (auto simp: sched_inv_def intro: table_ok_del_first)
qed

lemma release_cases [consumes 1, case_names none leased]:
  assumes "sched_inv st"
  obtains "cid \<notin> set (active_ids (g_leases st))" "vom_scheduler_release_lease cid st = st"
  | l c where "List.find (leases_chunk cid) (g_leases st) = Some l"
      "lookup_by chunk_id cid (g_chunks st) = Some c" "chunk_id c = cid" "c \<in> set (g_chunks st)"
      "vom_scheduler_release_lease cid st =
        st\<lparr>g_leases := deactivate_lease cid (g_leases st),
           g_workers := upd_first (\<lambda>w. worker_id w = assigned_worker_id l) (release_reservation c) (g_workers st),
           g_chunks := del_first (\<lambda>x. chunk_id x = cid) (g_chunks st)\<rparr>"
proof (cases "List.find (leases_chunk cid) (g_leases st)")
  case None
  with that(1) show thesis by (simp add: find_active vom_scheduler_release_lease_def)
next
  case (Some l)
  from leased_chunk_queued [OF assms Some] obtain c where
    "lookup_by chunk_id cid (g_chunks st) = Some c" "chunk_id c = cid" "c \<in> set (g_chunks st)" .
  with Some that(2) show thesis by (simp add: vom_scheduler_release_lease_def)
qed

lemma release_inv: "sched_inv st \<Longrightarrow> sched_inv (vom_scheduler_release_lease cid st)"
proof (rule release_cases [of st cid])
  fix l c
  assume inv: "sched_inv st" and rel: "vom_scheduler_release_lease cid st =
        st\<lparr>g_leases := deactivate_lease cid (g_leases st),
           g_workers := upd_first (\<lambda>w. worker_id w = assigned_worker_id l) (release_reservation c) (g_workers st),
           g_chunks := del_first (\<lambda>x. chunk_id x = cid) (g_chunks st)\<rparr>"
  let ?st = "st\<lparr>g_leases := deactivate_lease cid (g_leases st)\<rparr>"
  let ?st' = "?st\<lparr>g_workers := upd_first (\<lambda>w. worker_id w = assigned_worker_id l) (release_reservation c) (g_workers ?st)\<rparr>"
  have "sched_inv ?st'" using inv by (intro release_worker_inv deactivate_inv)
  moreover have "cid \<notin> set (active_ids (g_leases ?st'))"
    using inv deactivate_ids [of "g_leases st" cid] by (simp add: sched_inv_def)
  ultimately have "sched_inv (?st'\<lparr>g_chunks := del_first (\<lambda>x. chunk_id x = cid) (g_chunks ?st')\<rparr>)"
    by (rule del_chunk_inv)
  then show ?thesis by (simp add: rel)
qed auto

lemma init_inv: "sched_inv vom_scheduler_init"
  by (simp add: sched_inv_def vom_scheduler_init_def)

lemma sched_reachable_ok: "sched_reachable rnd st \<Longrightarrow> sched_inv st"
  by (induction rule: sched_reachable.induct)
    (auto intro: init_inv register_inv submit_inv tick_inv release_inv)

lemma disciplined_reachable: "sched_disciplined rnd st \<Longrightarrow> sched_reachable rnd st"
  by (induction rule: sched_disciplined.induct) (auto intro: sched_reachable.intros)

section \<open>Accounting\<close>

lemma lease_load_inactive [simp]: "\<not> is_active l \<Longrightarrow> lease_load dem cs wid l = 0"
  by (simp add: lease_load_def)

lemma load_deactivate:
  assumes "List.find (leases_chunk cid) (g_leases st) = Some l" "lookup_by chunk_id cid (g_chunks st) = Some c"
  shows "load dem st wid = load dem (st\<lparr>g_leases := deactivate_lease cid (g_leases st)\<rparr>) wid
    + (if assigned_worker_id l = wid then dem c else 0)"
  using sum_upd_first [OF assms(1), of "lease_load dem (g_chunks st) wid" "\<lambda>l. l\<lparr>is_active := False\<rparr>"]
    find_lease_id [OF assms(1)] assms(2)
  by (auto simp: load_def deactivate_lease_def lease_load_def [of _ _ _ l])

lemma load_put:
  "load dem (st\<lparr>g_leases := put_lease nl (g_leases st)\<rparr>) wid =
    load dem st wid + lease_load dem (g_chunks st) wid nl"
proof (cases "list_ex (\<lambda>l. \<not> is_active l) (g_leases st)")
  case True
  then obtain x where x: "List.find (\<lambda>l. \<not> is_active l) (g_leases st) = Some x" by (auto simp: find_ex)
  then have "\<not> is_active x" by (auto dest: find_SomeD)
  with True sum_upd_first [OF x, of "lease_load dem (g_chunks st) wid" "\<lambda>_. nl"] show ?thesis
    by (simp add: load_def put_lease_def)
qed (simp add: load_def put_lease_def)

lemma load_chunks_cong:
  assumes "\<And>cid. cid \<in> set (active_ids (g_leases st)) \<Longrightarrow>
      lookup_by chunk_id cid cs = lookup_by chunk_id cid (g_chunks st)"
  shows "load dem (st\<lparr>g_chunks := cs\<rparr>) wid = load dem st wid"
proof -
  have "lease_load dem cs wid l = lease_load dem (g_chunks st) wid l" if "l \<in> set (g_leases st)" for l
    using assms [of "lease_chunk_id l"] that by (auto simp: lease_load_def active_ids_def)
  then have "map (lease_load dem cs wid) (g_leases st) = map (lease_load dem (g_chunks st) wid) (g_leases st)"
    by simp
  then have "sum_list (map (lease_load dem cs wid) (g_leases st)) =
      sum_list (map (lease_load dem (g_chunks st) wid) (g_leases st))" by (rule arg_cong)
  then show ?thesis by (simp only: load_def) simp
qed

lemma load_workers [simp]: "load dem (st\<lparr>g_workers := ws\<rparr>) wid = load dem st wid"
  by (simp add: load_def)

lemma load_unknown:
  assumes "sched_inv st" "wid \<notin> worker_id ` set (g_workers st)"
  shows "load dem st wid = 0"
proof -
  have "lease_load dem (g_chunks st) wid l = 0" if "l \<in> set (g_leases st)" for l
    using assms that by (auto simp: lease_load_def sched_inv_def)
  then show ?thesis by (simp add: load_def)
qed

lemma accounted_frame:
  "worker_accounted st w \<Longrightarrow> (\<And>dem. load dem st' (worker_id w) = load dem st (worker_id w)) \<Longrightarrow>
    worker_accounted st' w"
  by (simp add: worker_accounted_def)

lemma accounted_release:
  assumes "worker_accounted st w"
    and "\<And>dem. load dem st (worker_id w) = load dem st' (worker_id w) + dem c"
  shows "worker_accounted st' (release_reservation c w)"
proof -
  have cpu: "required_cpu c \<le> reserv_cpu w"
    using assms(1) assms(2) [of cpu_dem] by (simp add: worker_accounted_def word_le_nat_alt)
  moreover have mem: "required_memory_mb c \<le> reserv_mem_mb w"
    using assms(1) assms(2) [of mem_dem] by (simp add: worker_accounted_def word_le_nat_alt)
  moreover have "reserv_cpu w - required_cpu c \<le> reserv_cpu w"
    "reserv_mem_mb w - required_memory_mb c \<le> reserv_mem_mb w"
    using cpu mem by (simp_all add: word_sub_le)
  ultimately show ?thesis
    using assms(1) assms(2) [of cpu_dem] assms(2) [of mem_dem] assms(2) [of one_dem]
    by (auto simp: worker_accounted_def release_reservation_def unat_sub)
qed

lemma add_no_wrap:
  fixes a b :: "'a::len word"
  assumes "a \<le> cap" "b \<le> (if cap > a then cap - a else 0)"
  shows "unat (a + b) = unat a + unat b" "a + b \<le> cap"
proof -
  have "unat b \<le> unat cap - unat a"
    using assms by (auto simp: word_le_nat_alt unat_sub split: if_splits)
  then have le: "unat a + unat b \<le> unat cap" using assms(1) by (simp add: word_le_nat_alt)
  then have "unat a + unat b < 2 ^ LENGTH('a)"
    using unsigned_less [of cap] by (rule le_less_trans)
  then show "unat (a + b) = unat a + unat b" by (simp add: unat_word_ariths)
  with le show "a + b \<le> cap" by (simp add: word_le_nat_alt)
qed

lemma accounted_add:
  assumes "worker_accounted st w" "evaluate_hard_filters c w"
    and "\<And>dem. load dem st' (worker_id w) = load dem st (worker_id w) + dem c"
  shows "worker_accounted st' (add_reservation c w)"
proof -
  have "required_cpu c \<le> (if cpu_units w > reserv_cpu w then cpu_units w - reserv_cpu w else 0)"
    "required_memory_mb c \<le> (if free_memory_mb w > reserv_mem_mb w then free_memory_mb w - reserv_mem_mb w else 0)"
    using assms(2) by (auto simp: evaluate_hard_filters_def Let_def not_less split: if_splits)
  with assms(1) have "unat (reserv_cpu w + required_cpu c) = unat (reserv_cpu w) + unat (required_cpu c)"
    "reserv_cpu w + required_cpu c \<le> cpu_units w"
    "unat (reserv_mem_mb w + required_memory_mb c) = unat (reserv_mem_mb w) + unat (required_memory_mb c)"
    "reserv_mem_mb w + required_memory_mb c \<le> free_memory_mb w"
    using add_no_wrap [of "reserv_cpu w" "cpu_units w" "required_cpu c"]
      add_no_wrap [of "reserv_mem_mb w" "free_memory_mb w" "required_memory_mb c"]
    by (simp_all add: worker_accounted_def)
  with assms(1) assms(3) [of cpu_dem] assms(3) [of mem_dem] assms(3) [of one_dem] show ?thesis
    by (simp add: worker_accounted_def add_reservation_def)
qed

lemma accounted_upd_worker:
  assumes "distinct (map worker_id (g_workers st))" "accounted st"
    and "\<And>w. w \<in> set (g_workers st) \<Longrightarrow> worker_id w = wid \<Longrightarrow> worker_accounted st' (f w)"
    and "\<And>dem i. i \<noteq> wid \<Longrightarrow> load dem st' i = load dem st i"
    and "g_workers st' = map (\<lambda>w. if worker_id w = wid then f w else w) (g_workers st)"
  shows "accounted st'"
  unfolding accounted_def assms(5)
  using assms(2,3) accounted_frame [of st _ st'] assms(4) by (auto simp: accounted_def)

lemma list_update_map_key:
  "distinct (map key xs) \<Longrightarrow> i < length xs \<Longrightarrow>
    xs[i := f (xs ! i)] = map (\<lambda>x. if key x = key (xs ! i) then f x else x) xs"
  by (rule nth_equalityI) (auto simp: nth_list_update distinct_conv_nth)

lemma distinct_workers: "sched_inv st \<Longrightarrow> distinct (map worker_id (g_workers st))"
  by (simp add: sched_inv_def table_ok_def)

lemma deactivate_accounted:
  assumes inv: "sched_inv st" and acc: "accounted st"
    and l: "List.find (leases_chunk cid) (g_leases st) = Some l"
    and c: "lookup_by chunk_id cid (g_chunks st) = Some c"
  shows "accounted (st\<lparr>g_leases := deactivate_lease cid (g_leases st),
    g_workers := upd_first (\<lambda>w. worker_id w = assigned_worker_id l) (release_reservation c) (g_workers st)\<rparr>)"
    (is "accounted ?st'")
proof (rule accounted_upd_worker [OF distinct_workers [OF inv] acc])
  show "g_workers ?st' = map (\<lambda>w. if worker_id w = assigned_worker_id l
      then release_reservation c w else w) (g_workers st)"
    using upd_first_map [OF distinct_workers [OF inv]] by simp
  show "load dem ?st' i = load dem st i" if "i \<noteq> assigned_worker_id l" for dem i
    using load_deactivate [OF l c, of dem i] that by auto
  show "worker_accounted ?st' (release_reservation c w)"
    if "w \<in> set (g_workers st)" "worker_id w = assigned_worker_id l" for w
    using acc that load_deactivate [OF l c] by (intro accounted_release [of st]) (auto simp: accounted_def)
qed

lemma assign_accounted:
  assumes inv: "sched_inv st" and acc: "accounted st" and c: "c \<in> set (g_chunks st)"
    "chunk_id c \<notin> set (active_ids (g_leases st))"
    and w: "w < length (g_workers st)" "evaluate_hard_filters c (g_workers st ! w)"
  shows "accounted (fst (assign_chunk now c w (st, out)))" (is "accounted ?st'")
proof (rule accounted_upd_worker [OF distinct_workers [OF inv] acc])
  let ?w = "g_workers st ! w"
  note eq = assign_chunk_eq [OF inv c, of now w out]
  show "g_workers ?st' = map (\<lambda>x. if worker_id x = worker_id ?w then add_reservation c x else x) (g_workers st)"
    using list_update_map_key [OF distinct_workers [OF inv] w(1)] by (simp add: eq)
  have "length (worker_id ?w) \<le> 63" using inv w(1) by (simp add: sched_inv_def)
  moreover have "lookup_by chunk_id (chunk_id c) (g_chunks st) = Some c"
    using inv c(1) by (simp add: sched_inv_def table_ok_def lookup_by_Some_iff)
  ultimately have l: "load dem ?st' i = load dem st i + (if i = worker_id ?w then dem c else 0)" for dem i
    using load_put [of dem "mk_lease now c ?w" st i]
    by (auto simp: eq load_def lease_load_def [of _ _ _ "mk_lease now c ?w"])
  then show "load dem ?st' i = load dem st i" if "i \<noteq> worker_id ?w" for dem i using that by simp
  show "worker_accounted ?st' (add_reservation c x)"
    if "x \<in> set (g_workers st)" "worker_id x = worker_id ?w" for x
  proof -
    have "x = ?w" using that w(1) distinct_workers [OF inv]
      by (metis distinct_map inj_on_def nth_mem)
    then show ?thesis using acc that l w(2) by (intro accounted_add [of st]) (auto simp: accounted_def)
  qed
qed

lemma consider_worker_filter:
  "fst (fold (consider_worker rnd c ws) is (b, hi)) = Some i \<Longrightarrow>
    b = Some i \<or> evaluate_hard_filters c (ws ! i)"
  by (induction "is" arbitrary: b hi)
    (auto simp: consider_worker_def Let_def split: if_splits)

lemma select_worker_filter: "select_worker rnd c ws = Some i \<Longrightarrow> evaluate_hard_filters c (ws ! i)"
  using consider_worker_filter [of rnd c ws "[0..<length ws]" None "Fin (-1)" i]
  by (auto simp: select_worker_def)

lemma expire_accounted:
  assumes "sched_inv st" "accounted st" "c \<in> set (g_chunks st)" "expire_lease now c st = (leased, st')"
  shows "accounted st'"
  using assms(4)
proof (cases rule: expire_cases)
  case (expired l)
  have "lookup_by chunk_id (chunk_id c) (g_chunks st) = Some c"
    using assms(1,3) by (simp add: sched_inv_def table_ok_def lookup_by_Some_iff)
  from deactivate_accounted [OF assms(1,2) expired(1) this] expired(4) show ?thesis by simp
qed (use assms in auto)

lemma tick_chunk_accounted:
  assumes "sched_inv (fst so)" "accounted (fst so)" "c \<in> set (g_chunks (fst so))"
  shows "accounted (fst (tick_chunk rnd now c so))"
proof -
  obtain st out where so: "so = (st, out)" by fastforce
  obtain leased st' where ex: "expire_lease now c st = (leased, st')" by fastforce
  have st': "sched_inv st'" "accounted st'" "c \<in> set (g_chunks st')"
    "leased \<longleftrightarrow> chunk_id c \<in> set (active_ids (g_leases st'))"
    using expire_inv [OF _ ex] expire_accounted [OF _ _ _ ex] assms by (auto simp: so)
  show ?thesis
    using assms(2) st' assign_accounted [OF st'(1-3)] select_worker_less select_worker_filter
    by (auto simp: so tick_chunk_def ex split: option.splits)
qed

lemma tick_accounted:
  "sched_inv st \<Longrightarrow> accounted st \<Longrightarrow> accounted (fst (vom_scheduler_tick rnd now m st))"
  unfolding vom_scheduler_tick_def
  using tick_loop_keeps [where P = "\<lambda>so. sched_inv (fst so) \<and> accounted (fst so)" and so = "(st, [])"
      and cs = "g_chunks st" and rnd = rnd and now = now and m = m]
    tick_chunk_inv tick_chunk_accounted by auto

lemma release_accounted:
  assumes inv: "sched_inv st" and acc: "accounted st"
  shows "accounted (vom_scheduler_release_lease cid st)"
proof (rule release_cases [OF inv, of cid])
  fix l c
  assume l: "List.find (leases_chunk cid) (g_leases st) = Some l"
    and c: "lookup_by chunk_id cid (g_chunks st) = Some c"
    and rel: "vom_scheduler_release_lease cid st =
        st\<lparr>g_leases := deactivate_lease cid (g_leases st),
           g_workers := upd_first (\<lambda>w. worker_id w = assigned_worker_id l) (release_reservation c) (g_workers st),
           g_chunks := del_first (\<lambda>x. chunk_id x = cid) (g_chunks st)\<rparr>"
  let ?st = "st\<lparr>g_leases := deactivate_lease cid (g_leases st),
    g_workers := upd_first (\<lambda>w. worker_id w = assigned_worker_id l) (release_reservation c) (g_workers st)\<rparr>"
  have "cid \<notin> set (active_ids (g_leases ?st))"
    using inv deactivate_ids [of "g_leases st" cid] by (simp add: sched_inv_def)
  moreover have "lookup_by chunk_id i (del_first (\<lambda>x. chunk_id x = cid) (g_chunks st)) = lookup_by chunk_id i (g_chunks st)"
    if "i \<noteq> cid" for i
    using that by (rule lookup_by_del_first)
  ultimately have "load dem (?st\<lparr>g_chunks := del_first (\<lambda>x. chunk_id x = cid) (g_chunks st)\<rparr>) i = load dem ?st i"
    for dem i by (intro load_chunks_cong) (simp, metis)
  with deactivate_accounted [OF inv acc l c] show ?thesis
    by (simp add: rel accounted_def worker_accounted_def)
qed (use acc in auto)

lemma register_accounted:
  assumes "sched_inv st" "accounted st" "worker_id w \<notin> worker_id ` set (g_workers st)"
    "reserv_cpu w = 0" "reserv_mem_mb w = 0" "active_chunks w = 0"
  shows "accounted (snd (vom_scheduler_register_worker (Some w) st))"
proof -
  have "\<not> list_ex (\<lambda>x. worker_id x = worker_id w) (g_workers st)"
    using assms(3) by (simp add: lookup_by_ex lookup_by_None)
  moreover have "worker_accounted st w" using assms load_unknown [OF assms(1,3)]
    by (simp add: worker_accounted_def)
  ultimately show ?thesis using assms(2)
    by (auto simp: vom_scheduler_register_worker_def accounted_def worker_accounted_def)
qed

lemma submit_accounted:
  assumes "accounted st" "chunk_id c \<notin> set (active_ids (g_leases st))"
  shows "accounted (snd (vom_scheduler_submit_ready_chunk (Some c) st))"
proof -
  let ?st = "snd (vom_scheduler_submit_ready_chunk (Some c) st)"
  have st: "?st = st\<lparr>g_chunks := g_chunks ?st\<rparr>"
    by (simp add: vom_scheduler_submit_ready_chunk_def)
  have "load dem (st\<lparr>g_chunks := g_chunks ?st\<rparr>) i = load dem st i" for dem i
    using assms(2) by (intro load_chunks_cong chunk_table.put_lookup_other) auto
  then have "load dem ?st i = load dem st i" for dem i using st by metis
  with assms(1) show ?thesis by (simp add: accounted_def worker_accounted_def)
qed

lemma disciplined_accounted: "sched_disciplined rnd st \<Longrightarrow> accounted st"
proof (induction rule: sched_disciplined.induct)
  case sd_init
  then show ?case by (simp add: accounted_def vom_scheduler_init_def)
qed (auto intro: register_accounted submit_accounted tick_accounted release_accounted
    dest!: disciplined_reachable sched_reachable_ok)

section \<open>Worker selection\<close>

definition eligible :: "vom_chunk_plan \<Rightarrow> vom_worker_view list \<Rightarrow> nat \<Rightarrow> bool" where
  "eligible c ws j \<longleftrightarrow> j < length ws \<and> evaluate_hard_filters c (ws ! j)"

text \<open>The first worker of maximal score above \<open>-1\<close> among the eligible ones with index below \<open>k\<close>.\<close>

definition best_below :: "rounding \<Rightarrow> vom_chunk_plan \<Rightarrow> vom_worker_view list \<Rightarrow> nat \<Rightarrow> nat \<Rightarrow> bool" where
  "best_below rnd c ws k i \<longleftrightarrow>
     (let score = (\<lambda>j. calculate_worker_score rnd c (ws ! j))
      in i < k \<and> eligible c ws i \<and> fp_gt (score i) (Fin (-1))
       \<and> (\<forall>j < k. eligible c ws j \<longrightarrow> \<not> fp_gt (score j) (score i))
       \<and> (\<forall>j < i. eligible c ws j \<longrightarrow> score j = NaN \<or> fp_gt (score i) (score j)))"

lemma fp_gt_max: "fp_gt a b \<Longrightarrow> \<not> fp_gt x b \<Longrightarrow> x = NaN \<or> fp_gt a x"
  by (cases a; cases b; cases x) auto

lemma fp_gt_asym: "fp_gt a b \<Longrightarrow> \<not> fp_gt b a"
  by (cases a; cases b) auto

lemma select_prefix:
  assumes "k \<le> length ws"
  shows "case fold (consider_worker rnd c ws) [0..<k] (None, Fin (-1)) of
      (None, hi) \<Rightarrow> hi = Fin (-1) \<and>
        (\<forall>j < k. eligible c ws j \<longrightarrow> \<not> fp_gt (calculate_worker_score rnd c (ws ! j)) (Fin (-1)))
    | (Some i, hi) \<Rightarrow> hi = calculate_worker_score rnd c (ws ! i) \<and> best_below rnd c ws k i"
  using assms
proof (induction k)
  case (Suc k)
  let ?score = "\<lambda>j. calculate_worker_score rnd c (ws ! j)"
  obtain b hi where st: "fold (consider_worker rnd c ws) [0..<k] (None, Fin (-1)) = (b, hi)" by fastforce
  have step: "fold (consider_worker rnd c ws) [0..<Suc k] (None, Fin (-1)) =
      (if eligible c ws k \<and> fp_gt (?score k) hi then (Some k, ?score k) else (b, hi))"
    using Suc.prems by (simp add: st consider_worker_def eligible_def Let_def)
  have IH: "case b of None \<Rightarrow> hi = Fin (-1) \<and> (\<forall>j < k. eligible c ws j \<longrightarrow> \<not> fp_gt (?score j) (Fin (-1)))
    | Some i \<Rightarrow> hi = ?score i \<and> best_below rnd c ws k i"
    using Suc st by (auto split: option.splits)
  have below: "\<not> fp_gt (?score j) hi" if "j < k" "eligible c ws j" for j
    using IH that by (auto simp: best_below_def Let_def split: option.splits)
  have low: "hi = Fin (-1) \<or> fp_gt hi (Fin (-1))"
    using IH by (auto simp: best_below_def Let_def split: option.splits)
  show ?case
  proof (cases "eligible c ws k \<and> fp_gt (?score k) hi")
    case True
    have "?score j = NaN \<or> fp_gt (?score k) (?score j)" if "j < k" "eligible c ws j" for j
      using True below [OF that] by (intro fp_gt_max) auto
    moreover have "fp_gt (?score k) (Fin (-1))" using True low fp_gt_trans by blast
    ultimately have "best_below rnd c ws (Suc k) k"
      using True by (fastforce simp: best_below_def Let_def less_Suc_eq dest: fp_gt_asym)
    then show ?thesis unfolding step using True by simp
  next
    case False
    then show ?thesis using IH unfolding step
      by (auto simp: best_below_def Let_def less_Suc_eq split: option.splits)
  qed
qed simp

lemma best_below_unique: "best_below rnd c ws k i \<Longrightarrow> best_below rnd c ws k i' \<Longrightarrow> i = i'"
proof (induction i i' rule: linorder_less_wlog)
  case (less i i')
  then show ?case by (fastforce simp: best_below_def Let_def)
qed auto

lemma select_worker_Some:
  "select_worker rnd c ws = Some i \<longleftrightarrow> best_below rnd c ws (length ws) i"
  using select_prefix [of "length ws" ws c rnd] best_below_unique [of rnd c ws "length ws" i]
  by (auto simp: select_worker_def best_below_def Let_def split: option.splits prod.splits)

lemma select_worker_None:
  "select_worker rnd c ws = None \<longleftrightarrow>
    (\<forall>j. eligible c ws j \<longrightarrow> \<not> fp_gt (calculate_worker_score rnd c (ws ! j)) (Fin (-1)))"
proof (cases "select_worker rnd c ws")
  case None
  then show ?thesis using select_prefix [of "length ws" ws c rnd]
    by (auto simp: select_worker_def eligible_def split: option.splits prod.splits)
next
  case (Some i)
  then have "best_below rnd c ws (length ws) i" by (simp add: select_worker_Some)
  with Some show ?thesis by (auto simp: best_below_def Let_def)
qed

section \<open>What a tick hands out\<close>

lemma put_lease_keeps: "l \<in> set ls \<Longrightarrow> is_active l \<Longrightarrow> l \<in> set (put_lease nl ls)"
  by (induction ls) (auto simp: put_lease_def split: if_splits)

lemma put_lease_new: "nl \<in> set (put_lease nl ls)"
  by (induction ls) (auto simp: put_lease_def split: if_splits)

lemma deactivate_keeps:
  "l \<in> set ls \<Longrightarrow> lease_chunk_id l \<noteq> cid \<Longrightarrow> l \<in> set (deactivate_lease cid ls)"
  by (induction ls) (auto simp: leases_chunk_def)

lemma expire_keeps:
  assumes "expire_lease now c st = (leased, st')" "l \<in> set (g_leases st)" "lease_chunk_id l \<noteq> chunk_id c"
  shows "l \<in> set (g_leases st')"
  using assms(1) by (cases rule: expire_cases) (use assms in \<open>auto intro: deactivate_keeps\<close>)

lemma expire_worker_ids:
  assumes "expire_lease now c st = (leased, st')"
  shows "map worker_id (g_workers st') = map worker_id (g_workers st)"
  using assms by (cases rule: expire_cases) (simp_all add: map_upd_first)

definition granted :: "u64 \<Rightarrow> scheduler_state \<Rightarrow> vom_assignment_lease \<Rightarrow> bool" where
  "granted now st l \<longleftrightarrow> is_active l \<and> lease_expires_ms l = now + 30000
   \<and> assigned_worker_id l \<in> worker_id ` set (g_workers st)
   \<and> (\<exists>c \<in> set (g_chunks st). chunk_id c = lease_chunk_id l \<and> \<not> is_blocked c)"

lemma tick_chunk_out:
  assumes inv: "sched_inv st" and c: "c \<in> set (g_chunks st)"
    and res: "tick_chunk rnd now c (st, out) = (st', out')"
  shows "\<exists>news. out' = out @ news \<and> length news \<le> 1
    \<and> (\<forall>l \<in> set news. granted now st l \<and> lease_chunk_id l = chunk_id c \<and> l \<in> set (g_leases st'))
    \<and> (\<forall>l \<in> set (g_leases st). is_active l \<and> lease_chunk_id l \<noteq> chunk_id c \<longrightarrow> l \<in> set (g_leases st'))
    \<and> map worker_id (g_workers st') = map worker_id (g_workers st)"
proof -
  obtain leased st1 where ex: "expire_lease now c st = (leased, st1)" by fastforce
  note keeps = expire_keeps [OF ex] and ids = expire_worker_ids [OF ex]
  have st1: "sched_inv st1" "c \<in> set (g_chunks st1)"
    "leased \<longleftrightarrow> chunk_id c \<in> set (active_ids (g_leases st1))"
    using expire_inv [OF inv ex] c by auto
  consider "st' \<in> {st, st1}" "out' = out"
    | w where "\<not> is_blocked c" "\<not> leased" "w < length (g_workers st1)"
      "(st', out') = assign_chunk now c w (st1, out)"
    using res select_worker_less [of rnd c "g_workers st1"]
    by (auto simp: tick_chunk_def ex split: if_splits option.splits dest: sym)
  then show ?thesis
  proof cases
    case 1
    then show ?thesis using keeps ids by auto
  next
    case (2 w)
    let ?nl = "mk_lease now c (g_workers st1 ! w)"
    have eq: "st' = st1\<lparr>g_workers := (g_workers st1)[w := add_reservation c (g_workers st1 ! w)],
        g_leases := put_lease ?nl (g_leases st1)\<rparr>" "out' = out @ [?nl]"
      using 2 st1 assign_chunk_eq [OF st1(1,2), of now w out] by auto
    have w: "g_workers st1 ! w \<in> set (g_workers st1)" using 2 by simp
    then have "length (worker_id (g_workers st1 ! w)) \<le> 63" using st1(1) by (simp add: sched_inv_def)
    moreover have "worker_id (g_workers st1 ! w) \<in> worker_id ` set (g_workers st)"
      using w same_ids_set [OF ids] by blast
    ultimately have "granted now st ?nl" using c 2 by (auto simp: granted_def mk_lease_def)
    moreover have "map worker_id (g_workers st') = map worker_id (g_workers st1)"
      using 2(3) by (simp add: eq map_update list_update_same_conv)
    ultimately show ?thesis
      using ids keeps put_lease_keeps by (intro exI [of _ "[?nl]"]) (auto simp: eq put_lease_new)
  qed
qed

lemma tick_loop_out:
  assumes "sched_inv st" "set cs \<subseteq> set (g_chunks st)" "distinct (map chunk_id cs)"
    and "lease_chunk_id ` set out \<inter> chunk_id ` set cs = {}"
    and "\<forall>l \<in> set out. is_active l \<and> l \<in> set (g_leases st)"
    and "tick_loop rnd now m cs (st, out) = (st', out')"
  shows "\<exists>news. out' = out @ news \<and> int (length out') \<le> max (int (length out)) m
    \<and> distinct (map lease_chunk_id news) \<and> lease_chunk_id ` set news \<subseteq> chunk_id ` set cs
    \<and> (\<forall>l \<in> set news. granted now st l) \<and> (\<forall>l \<in> set out'. l \<in> set (g_leases st'))"
  using assms
proof (induction cs arbitrary: st out)
  case (Cons c cs)
  show ?case
  proof (cases "int (length out) \<ge> m")
    case False
    obtain st1 out1 where st1: "tick_chunk rnd now c (st, out) = (st1, out1)" by fastforce
    have c: "c \<in> set (g_chunks st)" using Cons.prems by simp
    from tick_chunk_out [OF Cons.prems(1) c st1] obtain nl where
      out1: "out1 = out @ nl" "length nl \<le> 1"
      and nl: "\<forall>l \<in> set nl. granted now st l \<and> lease_chunk_id l = chunk_id c \<and> l \<in> set (g_leases st1)"
      and keep: "\<forall>l \<in> set (g_leases st). is_active l \<and> lease_chunk_id l \<noteq> chunk_id c \<longrightarrow> l \<in> set (g_leases st1)"
      and ids: "map worker_id (g_workers st1) = map worker_id (g_workers st)" by blast
    have inv1: "sched_inv st1" "g_chunks st1 = g_chunks st"
      using tick_chunk_inv [of "(st, out)" c rnd now] Cons.prems(1) c st1 by auto
    have gr: "granted now st1 l \<longleftrightarrow> granted now st l" for l
      using inv1(2) same_ids_set [OF ids] by (simp add: granted_def)
    have loop: "tick_loop rnd now m cs (st1, out1) = (st', out')"
      using Cons.prems(6) False st1 by simp
    have dis: "chunk_id c \<notin> chunk_id ` set cs" "distinct (map chunk_id cs)" using Cons.prems(3) by auto
    have "\<exists>news. out' = out1 @ news \<and> int (length out') \<le> max (int (length out1)) m
      \<and> distinct (map lease_chunk_id news) \<and> lease_chunk_id ` set news \<subseteq> chunk_id ` set cs
      \<and> (\<forall>l \<in> set news. granted now st1 l) \<and> (\<forall>l \<in> set out'. l \<in> set (g_leases st'))"
    proof (rule Cons.IH [OF inv1(1) _ dis(2) _ _ loop])
      show "set cs \<subseteq> set (g_chunks st1)" using Cons.prems(2) inv1(2) by simp
      show "lease_chunk_id ` set out1 \<inter> chunk_id ` set cs = {}"
        using Cons.prems(4) nl dis(1) by (auto simp: out1(1))
      show "\<forall>l \<in> set out1. is_active l \<and> l \<in> set (g_leases st1)"
      proof
        fix l assume "l \<in> set out1"
        then consider "l \<in> set nl" | "l \<in> set out" by (auto simp: out1(1))
        then show "is_active l \<and> l \<in> set (g_leases st1)"
        proof cases
          case 2
          then have "lease_chunk_id l \<in> lease_chunk_id ` set out" by blast
          then have "lease_chunk_id l \<noteq> chunk_id c" using Cons.prems(4) by auto
          with 2 Cons.prems(5) keep show ?thesis by simp
        qed (use nl in \<open>simp add: granted_def\<close>)
      qed
    qed
    then obtain news where news: "out' = out1 @ news" "int (length out') \<le> max (int (length out1)) m"
      "distinct (map lease_chunk_id news)" "lease_chunk_id ` set news \<subseteq> chunk_id ` set cs"
      "\<forall>l \<in> set news. granted now st l" "\<forall>l \<in> set out'. l \<in> set (g_leases st')"
      unfolding gr by blast
    have "distinct (map lease_chunk_id (nl @ news))"
      using news(3,4) nl out1(2) dis(1) by (cases nl) auto
    moreover have "int (length out') \<le> max (int (length out)) m"
      using news(2) out1 False by simp
    ultimately show ?thesis
      using news nl by (intro exI [of _ "nl @ news"]) (auto simp: out1(1))
  qed (use Cons.prems in auto)
qed auto

lemma tick_chunk_progress:
  assumes "sched_inv st" "c \<in> set (g_chunks st)" "\<not> is_blocked c"
    and res: "tick_chunk rnd now c (st, out) = (st', out')"
  shows "chunk_id c \<in> set (active_ids (g_leases st')) \<or> select_worker rnd c (g_workers st') = None"
proof -
  obtain leased st1 where ex: "expire_lease now c st = (leased, st1)" by fastforce
  have st1: "sched_inv st1" "c \<in> set (g_chunks st1)"
    "leased \<longleftrightarrow> chunk_id c \<in> set (active_ids (g_leases st1))"
    using expire_inv [OF assms(1) ex] assms(2) by auto
  show ?thesis
  proof (cases "leased \<or> select_worker rnd c (g_workers st1) = None")
    case True
    then show ?thesis using res assms(3) st1 by (auto simp: tick_chunk_def ex)
  next
    case False
    then obtain w where "select_worker rnd c (g_workers st1) = Some w" "\<not> leased" by auto
    then show ?thesis using res assms(3) st1 assign_chunk_eq [OF st1(1,2), of now w out]
      by (auto simp: tick_chunk_def ex put_lease_ids)
  qed
qed

section \<open>Example states\<close>

definition demo_worker :: vom_worker_view where
  "demo_worker = \<lparr>worker_id = ''worker-7'', platform = 1, runtime = 1, cpu_units = 4, reserv_cpu = 0,
     free_memory_mb = 1024, reserv_mem_mb = 0, battery_pct = Fin 80, active_chunks = 0,
     has_touch_input = 0, draining = 0, healthy = 1, reliability_score = Fin 1\<rparr>"

definition demo_chunk :: "u64 \<Rightarrow> vom_chunk_plan" where
  "demo_chunk i = \<lparr>chunk_id = i, workload_id = 1, required_platform = 1, required_runtime = 1,
     required_cpu = 3, required_memory_mb = 512, requires_touch = 0, is_blocked = False,
     preferred_node = 7\<rparr>"

definition demo_queued :: scheduler_state where
  "demo_queued = snd (vom_scheduler_submit_ready_chunk (Some (demo_chunk 5))
     (snd (vom_scheduler_register_worker (Some demo_worker) vom_scheduler_init)))"

definition demo_leased :: scheduler_state where
  "demo_leased = fst (vom_scheduler_tick Fin 100 8 demo_queued)"

lemma demo_queued_eq: "demo_queued = \<lparr>g_workers = [demo_worker], g_chunks = [demo_chunk 5], g_leases = []\<rparr>"
  by (simp add: demo_queued_def vom_scheduler_register_worker_def vom_scheduler_submit_ready_chunk_def
      vom_scheduler_init_def MAX_SWORKERS_def MAX_SCHUNKS_def)

lemma demo_filters: "evaluate_hard_filters (demo_chunk i) demo_worker"
  by (simp add: evaluate_hard_filters_def demo_worker_def demo_chunk_def)

lemma demo_score: "calculate_worker_score Fin (demo_chunk i) demo_worker = Fin 98"
  by (simp add: calculate_worker_score_def demo_worker_def demo_chunk_def Let_def fp_ge_def
      c_atoi_def c_isspace_def c_isdigit_def)

lemma demo_tick: "vom_scheduler_tick Fin 100 8 demo_queued =
  (\<lparr>g_workers = [add_reservation (demo_chunk 5) demo_worker], g_chunks = [demo_chunk 5],
     g_leases = [mk_lease 100 (demo_chunk 5) demo_worker]\<rparr>, [mk_lease 100 (demo_chunk 5) demo_worker])"
proof -
  have "select_worker Fin (demo_chunk 5) [demo_worker] = Some 0"
    by (simp add: select_worker_def consider_worker_def demo_filters demo_score)
  moreover have "\<not> is_blocked (demo_chunk 5)" by (simp add: demo_chunk_def)
  ultimately show ?thesis
    by (simp add: vom_scheduler_tick_def demo_queued_eq tick_chunk_def expire_lease_def
        assign_chunk_def MAX_SCHUNKS_def Let_def)
qed

lemma demo_reachable: "sched_reachable Fin demo_queued"
  unfolding demo_queued_def by (intro sched_reachable.intros) (simp add: demo_worker_def)

lemma demo_disciplined: "sched_disciplined Fin demo_leased"
  unfolding demo_leased_def demo_queued_def
  by (intro sched_disciplined.intros)
    (simp_all add: demo_worker_def vom_scheduler_init_def vom_scheduler_register_worker_def)

section \<open>Properties\<close>

text \<open>
  C4: in every state reached by registering new workers, submitting chunks that are not leased,
  ticking and releasing in any order, the CPU and memory reservations of each worker are exactly the
  summed demands of its active leases, its active-chunk counter is their number, and both sums are
  within the worker's capacity: dispatch never over-commits and no reservation is lost on expiry or
  release.\<close>

theorem scheduler_never_overcommits:
  assumes "sched_disciplined rnd st" "w \<in> set (g_workers st)"
  shows "unat (reserv_cpu w) = load cpu_dem st (worker_id w)
    \<and> unat (reserv_mem_mb w) = load mem_dem st (worker_id w)
    \<and> active_chunks w = int (load one_dem st (worker_id w))
    \<and> load cpu_dem st (worker_id w) \<le> unat (cpu_units w)
    \<and> load mem_dem st (worker_id w) \<le> unat (free_memory_mb w)"
proof -
  have "worker_accounted st w" using disciplined_accounted [OF assms(1)] assms(2) by (simp add: accounted_def)
  then show ?thesis by (auto simp: worker_accounted_def word_le_nat_alt)
qed

theorem scheduler_never_overcommits_witness:
  "let w = add_reservation (demo_chunk 5) demo_worker
   in w \<in> set (g_workers demo_leased) \<and> load cpu_dem demo_leased ''worker-7'' = 3
    \<and> load cpu_dem demo_leased ''worker-7'' \<le> unat (cpu_units w)"
proof -
  have w: "add_reservation (demo_chunk 5) demo_worker \<in> set (g_workers demo_leased)"
    by (simp add: demo_leased_def demo_tick)
  show ?thesis
    using w scheduler_never_overcommits [OF demo_disciplined w]
    by (simp add: add_reservation_def demo_worker_def demo_chunk_def)
qed

text \<open>
  C20: over any sequence of calls whose worker identifiers fit the 64-byte buffer, the worker and chunk
  tables stay bounded and free of duplicates, no chunk has two active leases, every active lease is
  for a queued chunk and a registered worker, and a chunk without an active lease always finds a slot
  in the lease table, so that no reservation is made without its lease.\<close>

theorem scheduler_tables_sound:
  assumes "sched_reachable rnd st"
  shows "sched_inv st \<and> (\<forall>c. c \<in> set (g_chunks st) \<and> chunk_id c \<notin> set (active_ids (g_leases st)) \<longrightarrow>
    list_ex (\<lambda>l. \<not> is_active l) (g_leases st) \<or> length (g_leases st) < MAX_SCHUNKS)"
  using sched_reachable_ok [OF assms] lease_slot_exists by blast

theorem scheduler_tables_sound_witness:
  "sched_inv demo_queued \<and> demo_chunk 5 \<in> set (g_chunks demo_queued)
    \<and> (list_ex (\<lambda>l. \<not> is_active l) (g_leases demo_queued) \<or> length (g_leases demo_queued) < MAX_SCHUNKS)"
proof -
  have "demo_chunk 5 \<in> set (g_chunks demo_queued)"
    "chunk_id (demo_chunk 5) \<notin> set (active_ids (g_leases demo_queued))" by (simp_all add: demo_queued_eq)
  then show ?thesis using scheduler_tables_sound [OF demo_reachable] by blast
qed

text \<open>
  C11: the worker loop of a tick picks the first worker of maximal score: the choice is index i exactly
  when worker i passes the hard filters with a score above -1, no passing worker scores higher, and
  every passing worker before it scores strictly lower or has a not-a-number score (a worker with no
  CPU units is never chosen); nothing is chosen exactly when no passing worker scores above -1.\<close>

theorem select_worker_is_first_maximum:
  "(select_worker rnd c ws = Some i \<longleftrightarrow> best_below rnd c ws (length ws) i)
   \<and> (select_worker rnd c ws = None \<longleftrightarrow>
        (\<nexists>j. eligible c ws j \<and> fp_gt (calculate_worker_score rnd c (ws ! j)) (Fin (-1))))"
  by (auto simp: select_worker_Some select_worker_None)

text \<open>
  C30: a tick hands out at most max_leases leases, for distinct unblocked queued chunks, each to a
  registered worker and expiring 30 seconds later, and each is recorded as an active lease in the
  state that the tick leaves.\<close>

theorem tick_grants:
  assumes "sched_reachable rnd st" "vom_scheduler_tick rnd now m st = (st', out)"
  shows "int (length out) \<le> max 0 m \<and> distinct (map lease_chunk_id out)
    \<and> (\<forall>l \<in> set out. granted now st l \<and> l \<in> set (g_leases st'))"
proof -
  have inv: "sched_inv st" using assms(1) by (rule sched_reachable_ok)
  then have "distinct (map chunk_id (g_chunks st))" by (simp add: sched_inv_def table_ok_def)
  from tick_loop_out [OF inv order_refl this, of "[]" rnd now m st' out] assms(2) show ?thesis
    by (auto simp: vom_scheduler_tick_def)
qed

theorem tick_grants_witness:
  "snd (vom_scheduler_tick Fin 100 8 demo_queued) = [mk_lease 100 (demo_chunk 5) demo_worker]
    \<and> granted 100 demo_queued (mk_lease 100 (demo_chunk 5) demo_worker)"
  using tick_grants [OF demo_reachable demo_tick] demo_tick by simp

text \<open>
  after the turn of an unblocked queued chunk in a tick, the chunk holds an active lease, unless no
  worker is selectable for it in the state then reached: no chunk is skipped while a worker fits.\<close>

theorem tick_serves_chunk:
  assumes "sched_reachable rnd st" "c \<in> set (g_chunks st)" "\<not> is_blocked c"
    and "tick_chunk rnd now c (st, out) = (st', out')"
  shows "chunk_id c \<in> set (active_ids (g_leases st')) \<or> select_worker rnd c (g_workers st') = None"
  using tick_chunk_progress [OF sched_reachable_ok [OF assms(1)] assms(2-4)] .

theorem tick_serves_chunk_witness:
  "\<exists>st' out'. tick_chunk Fin 100 (demo_chunk 5) (demo_queued, []) = (st', out') \<and>
    (chunk_id (demo_chunk 5) \<in> set (active_ids (g_leases st'))
     \<or> select_worker Fin (demo_chunk 5) (g_workers st') = None)"
proof -
  obtain st' out' where *: "tick_chunk Fin 100 (demo_chunk 5) (demo_queued, []) = (st', out')" by fastforce
  have "demo_chunk 5 \<in> set (g_chunks demo_queued)" "\<not> is_blocked (demo_chunk 5)"
    by (simp_all add: demo_queued_eq demo_chunk_def)
  from tick_serves_chunk [OF demo_reachable this *] * show ?thesis by blast
qed

text \<open>
  releasing a chunk ends its lease and takes it out of the queue, leaves the leases and queue
  entries of all other chunks as they are, and does nothing when the chunk has no active lease; a
  second release changes nothing.\<close>

theorem release_effect:
  assumes "sched_reachable rnd st" "st' = vom_scheduler_release_lease cid st"
  shows "cid \<notin> set (active_ids (g_leases st'))
    \<and> set (active_ids (g_leases st')) = set (active_ids (g_leases st)) - {cid}
    \<and> g_chunks st' = (if cid \<in> set (active_ids (g_leases st))
                      then filter (\<lambda>c. chunk_id c \<noteq> cid) (g_chunks st) else g_chunks st)
    \<and> (cid \<notin> set (active_ids (g_leases st)) \<longrightarrow> st' = st)
    \<and> vom_scheduler_release_lease cid st' = st'"
proof -
  have inv: "sched_inv st" using assms(1) by (rule sched_reachable_ok)
  then have d: "distinct (map chunk_id (g_chunks st))" "distinct (active_ids (g_leases st))"
    by (simp_all add: sched_inv_def table_ok_def)
  have inv': "sched_inv st'" unfolding assms(2) using inv by (rule release_inv)
  show ?thesis
    using inv
  proof (cases rule: release_cases [where cid = cid])
    case none
    then show ?thesis by (simp add: assms(2))
  next
    case (leased l c)
    then have ids: "set (active_ids (g_leases st')) = set (active_ids (g_leases st)) - {cid}"
      using deactivate_ids [OF d(2)] by (simp add: assms(2))
    then have "List.find (leases_chunk cid) (g_leases st') = None" by (simp add: find_active)
    then have "vom_scheduler_release_lease cid st' = st'" by (simp add: vom_scheduler_release_lease_def)
    with leased ids find_lease_id [OF leased(1)] del_first_filter [OF d(1)] show ?thesis
      by (simp add: assms(2))
  qed
qed

theorem release_effect_witness:
  "vom_scheduler_release_lease 5 (vom_scheduler_release_lease 5 demo_leased) =
      vom_scheduler_release_lease 5 demo_leased
    \<and> g_chunks (vom_scheduler_release_lease 5 demo_leased) = []"
proof -
  have "5 \<in> set (active_ids (g_leases demo_leased))" "g_chunks demo_leased = [demo_chunk 5]"
    "chunk_id (demo_chunk 5) = 5"
    by (simp_all add: demo_leased_def demo_tick) (simp_all add: demo_chunk_def)
  with release_effect [OF disciplined_reachable [OF demo_disciplined] refl, of 5] show ?thesis by simp
qed

text \<open>
  registering a worker again, as a repeated join does, overwrites its reservations while its leases
  stay active; the next tick then leases chunks beyond its capacity: here six CPU units of demand on a
  worker that has four.\<close>

theorem reregistration_overcommits:
  "let st = snd (vom_scheduler_register_worker (Some demo_worker) demo_leased);
       st' = snd (vom_scheduler_submit_ready_chunk (Some (demo_chunk 6)) st);
       st'' = fst (vom_scheduler_tick Fin 200 8 st')
   in load cpu_dem st'' ''worker-7'' = 6 \<and> unat (cpu_units demo_worker) = 4"
proof -
  have st: "snd (vom_scheduler_submit_ready_chunk (Some (demo_chunk 6))
      (snd (vom_scheduler_register_worker (Some demo_worker) demo_leased))) =
    \<lparr>g_workers = [demo_worker], g_chunks = [demo_chunk 5, demo_chunk 6],
     g_leases = [mk_lease 100 (demo_chunk 5) demo_worker]\<rparr>"
    by (simp add: demo_leased_def demo_tick vom_scheduler_register_worker_def
        vom_scheduler_submit_ready_chunk_def MAX_SCHUNKS_def)
      (simp add: demo_chunk_def)
  have sel: "select_worker Fin (demo_chunk 6) [demo_worker] = Some 0"
    by (simp add: select_worker_def consider_worker_def demo_filters demo_score)
  show ?thesis unfolding Let_def st
    by (simp add: vom_scheduler_tick_def tick_chunk_def expire_lease_def leases_chunk_def sel
        assign_chunk_def MAX_SCHUNKS_def load_def lease_load_def Let_def mk_lease_def)
      (simp add: demo_chunk_def demo_worker_def sel [unfolded demo_chunk_def demo_worker_def])
qed

end
