(* ===== verification/Scheduler_Progress.thy ===== *)
theory Scheduler_Progress
  imports Scheduler
begin

text \<open>
  Progress of the chunk scheduler (\<^verbatim>\<open>master/src/scheduler.c\<close>): when the score of a worker that passes the hard
  filters is a number above the starting value \<open>-1\<close>, so that it can be chosen, and what that means for waiting
  chunks.

  Proved: the score of every plausible worker lies between 0 and 100, whatever the rounding mode of \<open>double\<close>; in
  a disciplined run of the scheduler no unblocked chunk is passed over while such a worker passes the filters; and an
  expired lease is granted again to its own chunk in the same turn, so a chunk that waits behind it can wait for ever.
\<close>

section \<open>Bounds on scores\<close>

text \<open>
  What the scores need of \<open>double\<close>: on the values that occur, rounding is finite and monotone, and exact on the
  natural numbers up to 100.
\<close>

definition score_rounding :: "rounding \<Rightarrow> bool" where
  "score_rounding rnd \<longleftrightarrow> (\<exists>f. (\<forall>x. 0 \<le> x \<longrightarrow> x \<le> 100 \<longrightarrow> rnd x = Fin (f x)) \<and> mono f
     \<and> (\<forall>n \<le> 100. f (of_nat n) = of_nat n))"

lemma exact_score_rounding: "score_rounding Fin"
  unfolding score_rounding_def by (rule exI [of _ "\<lambda>x. x"]) (simp add: mono_def)

lemma rounded_between:
  assumes "score_rounding rnd" "0 \<le> x" "x \<le> of_nat n" "n \<le> 100"
  shows "fp_between 0 (rnd x) (of_nat n)"
proof -
  obtain f where f: "\<And>x. 0 \<le> x \<Longrightarrow> x \<le> 100 \<Longrightarrow> rnd x = Fin (f x)" "mono f" "\<And>n. n \<le> 100 \<Longrightarrow> f (of_nat n) = of_nat n"
    using assms(1) unfolding score_rounding_def by blast
  have "(of_nat n :: rat) \<le> of_nat 100" using assms(4) by (rule of_nat_mono)
  then have "x \<le> 100" using assms(3) by simp
  then show ?thesis
    using f(1) [OF assms(2)] monoD [OF f(2) assms(2)] monoD [OF f(2) assms(3)] f(3) [of 0] f(3) [OF assms(4)] by simp
qed

lemma between_cases: "fp_between a x b \<longleftrightarrow> (\<exists>y. x = Fin y \<and> a \<le> y \<and> y \<le> b)"
  by (cases x) auto

lemma add_between:
  assumes "score_rounding rnd" "fp_between 0 x (of_nat m)" "fp_between 0 y (of_nat n)" "m + n \<le> 100"
  shows "fp_between 0 (fp_add rnd x y) (of_nat (m + n))"
  using assms(2,3) rounded_between [OF assms(1) _ _ assms(4)] by (auto simp: between_cases)

lemma scale_between:
  assumes "score_rounding rnd" "fp_between 0 x 1" "n \<le> 100"
  shows "fp_between 0 (fp_mul rnd x (Fin (of_nat n))) (of_nat n)"
  using assms(2) rounded_between [OF assms(1) _ _ assms(3)]
  by (auto simp: between_cases mult_left_le_one_le)

lemma ratio_between:
  assumes "score_rounding rnd" "0 \<le> a" "a \<le> b" "0 < b"
  shows "fp_between 0 (fp_div rnd (Fin a) (Fin b)) 1"
  using rounded_between [OF assms(1), of "a / b" 1] assms(2-4) by (simp add: divide_le_eq)

text \<open>
  A worker whose report makes sense: it has processor units, its reliability is a ratio and a battery level, when there
  is a battery, a percentage.
\<close>

definition plausible :: "vom_worker_view \<Rightarrow> bool" where
  "plausible w \<longleftrightarrow> 0 < cpu_units w \<and> fp_between 0 (reliability_score w) 1
     \<and> (fp_ge (battery_pct w) (Fin 0) \<longrightarrow> fp_between 0 (battery_pct w) 100)"

lemma score_bounds:
  assumes "score_rounding rnd" "plausible w" "reserv_cpu w \<le> cpu_units w"
  shows "fp_between 0 (calculate_worker_score rnd c w) 100"
proof -
  note add = add_between [OF assms(1)] and scale = scale_between [OF assms(1)]
  have le: "uint (reserv_cpu w) \<le> uint (cpu_units w)" "0 < uint (cpu_units w)"
    using assms(2,3) by (simp_all add: plausible_def word_le_def word_less_def)
  have r: "fp_between 0 (fp_div rnd (Fin (of_int (uint (cpu_units w) - uint (reserv_cpu w))))
      (Fin (of_nat (unat (cpu_units w))))) 1"
  proof (rule ratio_between [OF assms(1)])
    have eq: "(of_nat (unat v) :: rat) = of_int (uint v)" for v :: u8 by (metis of_int_of_nat_eq uint_nat)
    show "(of_int (uint (cpu_units w) - uint (reserv_cpu w)) :: rat) \<le> of_nat (unat (cpu_units w))"
      "(0 :: rat) < of_nat (unat (cpu_units w))" using le by (simp_all only: eq of_int_le_iff of_int_0_less_iff) simp
    show "(0 :: rat) \<le> of_int (uint (cpu_units w) - uint (reserv_cpu w))" using le(1) by (simp only: of_int_0_le_iff)
  qed
  have 1: "fp_between 0 (fp_add rnd (Fin 0) (fp_mul rnd (fp_div rnd (Fin (of_int (uint (cpu_units w) - uint (reserv_cpu w))))
      (Fin (of_nat (unat (cpu_units w))))) (Fin 40))) 40" (is "fp_between 0 ?s1 40")
    using add [of "Fin 0" 0 _ 40] scale [OF r, of 40] by simp
  have rel: "fp_between 0 (reliability_score w) 1" using assms(2) by (simp add: plausible_def)
  have 2: "fp_between 0 (fp_add rnd ?s1 (fp_mul rnd (reliability_score w) (Fin 30))) 70" (is "fp_between 0 ?s2 70")
    using add [of _ 40 _ 30] 1 scale [OF rel, of 30] by simp
  have 3: "fp_between 0 (if b then fp_add rnd ?s2 (Fin 20) else ?s2) 90" for b
    using add [of ?s2 70 "Fin 20" 20] 2 by (auto simp: between_cases)
  have bat: "fp_between 0 (fp_mul rnd (fp_div rnd (battery_pct w) (Fin 100)) (Fin 10)) 10"
    if ge: "fp_ge (battery_pct w) (Fin 0)"
  proof -
    obtain y where "battery_pct w = Fin y" "0 \<le> y" "y \<le> 100" using ge assms(2) by (auto simp: plausible_def between_cases)
    then show ?thesis using scale [OF ratio_between [OF assms(1), of y 100], of 10] by simp
  qed
  show ?thesis
    unfolding calculate_worker_score_def Let_def
    using add [of _ 90 _ 10] 3 bat by (auto simp: fp_between.simps)
qed

text \<open>So a plausible worker that passes the filters is never passed over.\<close>

lemma plausible_selectable:
  assumes "score_rounding rnd" and ws: "\<And>w. w \<in> set ws \<Longrightarrow> plausible w \<and> reserv_cpu w \<le> cpu_units w"
  shows "select_worker rnd c ws = None \<longleftrightarrow> (\<forall>w \<in> set ws. \<not> evaluate_hard_filters c w)"
proof -
  have "fp_gt (calculate_worker_score rnd c w) (Fin (-1))" if "w \<in> set ws" for w
    using score_bounds [OF assms(1), of w c] ws [OF that] by (auto simp: between_cases)
  then show ?thesis by (auto simp: select_worker_None eligible_def all_set_conv_all_nth)
qed

section \<open>No chunk is passed over\<close>

definition fits_somewhere :: "vom_chunk_plan \<Rightarrow> scheduler_state \<Rightarrow> bool" where
  "fits_somewhere c st \<longleftrightarrow> list_ex (evaluate_hard_filters c) (g_workers st)"

definition leased :: "vom_chunk_plan \<Rightarrow> scheduler_state \<Rightarrow> bool" where
  "leased c st \<longleftrightarrow> chunk_id c \<in> set (active_ids (g_leases st))"

definition unexpired :: "u64 \<Rightarrow> vom_chunk_plan \<Rightarrow> scheduler_state \<Rightarrow> bool" where
  "unexpired now c st \<longleftrightarrow> (\<forall>l \<in> set (g_leases st). is_active l \<and> lease_chunk_id l = chunk_id c \<longrightarrow> now \<le> lease_expires_ms l)"

text \<open>A state in which every worker is plausible and the books are right.\<close>

definition in_order :: "scheduler_state \<Rightarrow> bool" where
  "in_order st \<longleftrightarrow> sched_inv st \<and> accounted st \<and> list_all plausible (g_workers st)"

lemma in_order_workers: "in_order st \<Longrightarrow> w \<in> set (g_workers st) \<Longrightarrow> plausible w \<and> reserv_cpu w \<le> cpu_units w"
  by (auto simp: in_order_def accounted_def worker_accounted_def list_all_iff)

lemma in_order_select:
  "score_rounding rnd \<Longrightarrow> in_order st \<Longrightarrow> select_worker rnd c (g_workers st) = None \<longleftrightarrow> \<not> fits_somewhere c st"
  using plausible_selectable [of rnd "g_workers st" c] in_order_workers [of st]
  by (simp add: fits_somewhere_def list_ex_iff)

text \<open>The turn of a chunk whose lease has not expired: nothing happens, or it is assigned.\<close>

lemma turn_cases [consumes 4, case_names nothing assigned]:
  assumes "sched_inv st" "c \<in> set (g_chunks st)" "tick_chunk rnd now c (st, out) = (st', out')" and "unexpired now c st"
  obtains "st' = st" "is_blocked c \<or> leased c st \<or> select_worker rnd c (g_workers st) = None"
  | i where "i < length (g_workers st)" "evaluate_hard_filters c (g_workers st ! i)" "\<not> leased c st"
      "st' = st\<lparr>g_workers := (g_workers st)[i := add_reservation c (g_workers st ! i)],
        g_leases := put_lease (mk_lease now c (g_workers st ! i)) (g_leases st)\<rparr>"
proof -
  obtain b st1 where ex: "expire_lease now c st = (b, st1)" by fastforce
  have "st1 = st \<and> (b \<longleftrightarrow> leased c st)"
    using ex
  proof (cases rule: expire_cases)
    case (expired l)
    from expired(1) have "l \<in> set (g_leases st)" "leases_chunk (chunk_id c) l"
      by (auto simp: find_Some_iff)
    then show ?thesis
      using assms(4) expired(2) by (auto simp: unexpired_def leases_chunk_def)
  qed (use find_active [of "chunk_id c" "g_leases st"] in \<open>auto simp: leased_def\<close>)
  then have st1: "st1 = st" "b \<longleftrightarrow> leased c st" by simp_all
  show thesis
  proof (cases "is_blocked c \<or> leased c st \<or> select_worker rnd c (g_workers st) = None")
    case True
    then have "st' = st" using assms(3) st1 by (auto simp: tick_chunk_def ex split: if_splits)
    then show thesis using True by (rule that(1))
  next
    case False
    then obtain i where i: "select_worker rnd c (g_workers st) = Some i" by blast
    have "chunk_id c \<notin> set (active_ids (g_leases st))" using False by (simp add: leased_def)
    from assign_chunk_eq [OF assms(1,2) this, of now i out] have "st' = st\<lparr>g_workers := (g_workers st)[i := add_reservation c (g_workers st ! i)],
        g_leases := put_lease (mk_lease now c (g_workers st ! i)) (g_leases st)\<rparr>"
      using assms(3) False st1 i by (simp add: tick_chunk_def ex)
    then show thesis
      using that(2) select_worker_less [OF i] select_worker_filter [OF i] False by blast
  qed
qed

text \<open>A reservation makes no other chunk fit.\<close>

lemma room_antitone:
  fixes a b cap need :: "'a::len word"
  assumes "a \<le> cap" "b \<le> (if cap > a then cap - a else 0)" "need \<le> (if cap > a + b then cap - (a + b) else 0)"
  shows "need \<le> (if cap > a then cap - a else 0)"
proof -
  note sum = add_no_wrap [OF assms(1,2)]
  have "unat (cap - (a + b)) = unat cap - unat (a + b)" "unat (cap - a) = unat cap - unat a"
    using sum(2) assms(1) by (simp_all add: unat_sub)
  then show ?thesis using assms(3) sum by (auto simp: word_le_nat_alt word_less_nat_alt split: if_splits)
qed

lemma filters_antitone:
  assumes "worker_accounted st w" "evaluate_hard_filters d w" "evaluate_hard_filters c (add_reservation d w)"
  shows "evaluate_hard_filters c w"
  using assms room_antitone [of "reserv_cpu w" "cpu_units w" "required_cpu d" "required_cpu c"]
    room_antitone [of "reserv_mem_mb w" "free_memory_mb w" "required_memory_mb d" "required_memory_mb c"]
  by (auto simp: evaluate_hard_filters_def add_reservation_def worker_accounted_def Let_def not_less split: if_splits)

lemma plausible_add [simp]: "plausible (add_reservation c w) = plausible w"
  by (simp add: plausible_def add_reservation_def)

lemma turn_effect:
  assumes "score_rounding rnd" "in_order st" "c \<in> set (g_chunks st)" "tick_chunk rnd now c (st, out) = (st', out')"
    and "unexpired now c st"
  shows "in_order st'" "g_chunks st' = g_chunks st" "is_blocked c \<or> leased c st' \<or> \<not> fits_somewhere c st'"
    "leased d st \<Longrightarrow> leased d st'" "fits_somewhere d st' \<Longrightarrow> fits_somewhere d st"
    "unexpired now d st \<Longrightarrow> chunk_id d \<noteq> chunk_id c \<Longrightarrow> unexpired now d st'"
proof -
  have inv: "sched_inv st" using assms(2) by (simp add: in_order_def)
  have keeps: "sched_inv st'" "accounted st'" "g_chunks st' = g_chunks st"
    using tick_chunk_inv [of "(st, out)" c rnd now] tick_chunk_accounted [of "(st, out)" c rnd now] assms(2-4)
    by (simp_all add: in_order_def)
  show "g_chunks st' = g_chunks st" by (rule keeps)
  from inv assms(3-5) have "in_order st' \<and> (is_blocked c \<or> leased c st' \<or> \<not> fits_somewhere c st')
      \<and> (leased d st \<longrightarrow> leased d st') \<and> (fits_somewhere d st' \<longrightarrow> fits_somewhere d st)
      \<and> (unexpired now d st \<longrightarrow> chunk_id d \<noteq> chunk_id c \<longrightarrow> unexpired now d st')"
  proof (cases rule: turn_cases)
    case nothing
    then show ?thesis using assms(1,2) in_order_select by blast
  next
    case (assigned i)
    let ?w = "g_workers st ! i"
    have w: "worker_accounted st ?w" using assms(2) assigned(1) by (simp add: in_order_def accounted_def)
    have pl: "list_all plausible (g_workers st')"
      using assms(2) assigned(1) by (auto simp: assigned(4) in_order_def list_all_length nth_list_update)
    have ids: "set (active_ids (g_leases st')) = insert (chunk_id c) (set (active_ids (g_leases st)))"
      using put_lease_ids(1) [of "mk_lease now c ?w"] by (simp add: assigned(4))
    have "fits_somewhere d st" if fits: "fits_somewhere d st'"
    proof -
      obtain j where "j < length (g_workers st)" "evaluate_hard_filters d (g_workers st' ! j)"
        using fits by (auto simp: fits_somewhere_def list_ex_length assigned(4))
      then show ?thesis using filters_antitone [OF w assigned(2), of d] assigned(1)
        by (auto simp: fits_somewhere_def list_ex_length assigned(4) nth_list_update split: if_splits)
    qed
    moreover have "unexpired now d st'" if "unexpired now d st" "chunk_id d \<noteq> chunk_id c"
      using that by (auto simp: unexpired_def assigned(4) dest!: put_lease_active)
    ultimately show ?thesis using keeps pl ids by (auto simp: leased_def in_order_def)
  qed
  then show "in_order st'" "is_blocked c \<or> leased c st' \<or> \<not> fits_somewhere c st'"
    "leased d st \<Longrightarrow> leased d st'" "fits_somewhere d st' \<Longrightarrow> fits_somewhere d st"
    "unexpired now d st \<Longrightarrow> chunk_id d \<noteq> chunk_id c \<Longrightarrow> unexpired now d st'" by blast+
qed

lemma tick_loop_effect:
  assumes "score_rounding rnd" "distinct (map chunk_id cs)" "set cs \<subseteq> set (g_chunks st)" "in_order st"
    and "\<And>c. c \<in> set cs \<Longrightarrow> unexpired now c st"
    and "tick_loop rnd now m cs (st, out) = (st', out')" "int (length out') < m"
  shows "(\<forall>c \<in> set cs. is_blocked c \<or> leased c st' \<or> \<not> fits_somewhere c st')
    \<and> (\<forall>d. (leased d st \<longrightarrow> leased d st') \<and> (fits_somewhere d st' \<longrightarrow> fits_somewhere d st))"
  using assms(2-)
proof (induction cs arbitrary: st out)
  case (Cons c cs)
  obtain st1 out1 where turn: "tick_chunk rnd now c (st, out) = (st1, out1)" by fastforce
  have "int (length out) < m" using Cons.prems(5,6) by (auto split: if_splits)
  then have rest: "tick_loop rnd now m cs (st1, out1) = (st', out')" using Cons.prems(5) turn by simp
  note e = turn_effect [OF assms(1) Cons.prems(3) _ turn]
  have c: "c \<in> set (g_chunks st)" "unexpired now c st" using Cons.prems(2,4) by auto
  have un: "unexpired now d st1" if "d \<in> set cs" for d
  proof (rule e(6) [OF c])
    show "unexpired now d st" using Cons.prems(4) that by simp
    show "chunk_id d \<noteq> chunk_id c" using Cons.prems(1) that by (metis distinct.simps(2) image_eqI list.map(2) list.set_map)
  qed
  have "set cs \<subseteq> set (g_chunks st1)" "distinct (map chunk_id cs)"
    using Cons.prems(1,2) e(2) [OF c] by simp_all
  from Cons.IH [OF this(2,1) e(1) [OF c] un rest Cons.prems(6)] e(3-5) [OF c] show ?case
    by (metis set_ConsD)
qed simp

text \<open>
  C12: A tick is work-conserving: in every disciplined run with plausible workers, in any rounding mode, a tick that finds
  no expired lease and does not reach its limit of grants leaves each queued chunk blocked, leased, or such that no
  worker passes its hard filters in the state the tick leaves.
\<close>

theorem tick_work_conserving:
  assumes "score_rounding rnd" "sched_disciplined rnd st" "list_all plausible (g_workers st)"
    and "\<forall>l \<in> set (g_leases st). is_active l \<longrightarrow> now \<le> lease_expires_ms l"
    and "vom_scheduler_tick rnd now m st = (st', out)" "int (length out) < m"
  shows "list_all (\<lambda>c. is_blocked c \<or> leased c st' \<or> \<not> fits_somewhere c st') (g_chunks st)"
proof -
  have inv: "sched_inv st" using sched_reachable_ok [OF disciplined_reachable [OF assms(2)]] .
  then have "in_order st" "distinct (map chunk_id (g_chunks st))"
    using assms(3) disciplined_accounted [OF assms(2)] by (simp_all add: in_order_def sched_inv_def table_ok_def)
  moreover have "unexpired now c st" for c using assms(4) by (simp add: unexpired_def)
  ultimately show ?thesis
    using tick_loop_effect [OF assms(1), of "g_chunks st" st now m "[]" st' out] assms(5,6)
    by (simp add: vom_scheduler_tick_def list_all_iff)
qed

theorem tick_work_conserving_witness:
  "list_all (\<lambda>c. is_blocked c \<or> leased c demo_leased \<or> \<not> fits_somewhere c demo_leased) (g_chunks demo_queued)
    \<and> leased (demo_chunk 5) demo_leased"
proof (rule conjI)
  have d: "sched_disciplined Fin demo_queued"
    unfolding demo_queued_def by (intro sched_disciplined.intros)
      (simp_all add: demo_worker_def vom_scheduler_init_def vom_scheduler_register_worker_def)
  have p: "list_all plausible (g_workers demo_queued)"
    by (simp add: demo_queued_eq plausible_def fp_ge_def demo_worker_def)
  have l: "\<forall>l \<in> set (g_leases demo_queued). is_active l \<longrightarrow> 100 \<le> lease_expires_ms l" by (simp add: demo_queued_eq)
  have t: "vom_scheduler_tick Fin 100 8 demo_queued = (demo_leased, [mk_lease 100 (demo_chunk 5) demo_worker])"
    by (simp add: demo_leased_def demo_tick)
  show "list_all (\<lambda>c. is_blocked c \<or> leased c demo_leased \<or> \<not> fits_somewhere c demo_leased) (g_chunks demo_queued)"
    by (rule tick_work_conserving [OF exact_score_rounding d p l t]) simp
  show "leased (demo_chunk 5) demo_leased" by (simp add: leased_def demo_leased_def demo_tick active_ids_def)
qed

section \<open>Chunks behind an expired lease\<close>

text \<open>
  Two chunks that need three of the worker's four units. The first is leased; when its lease expires, its own turn comes
  before that of the second and it is given the worker again.
\<close>

definition two_chunks :: "u64 \<Rightarrow> scheduler_state" where
  "two_chunks t = \<lparr>g_workers = [add_reservation (demo_chunk 5) demo_worker], g_chunks = [demo_chunk 5, demo_chunk 6],
     g_leases = [mk_lease t (demo_chunk 5) demo_worker]\<rparr>"

lemma two_chunks_reached:
  "two_chunks t = snd (vom_scheduler_submit_ready_chunk (Some (demo_chunk 6)) (fst (vom_scheduler_tick Fin t 8 demo_queued)))"
proof -
  have "select_worker Fin (demo_chunk 5) [demo_worker] = Some 0"
    by (simp add: select_worker_def consider_worker_def demo_filters demo_score)
  moreover have "\<not> is_blocked (demo_chunk 5)" "chunk_id (demo_chunk 5) = 5" "chunk_id (demo_chunk 6) = 6"
    by (simp_all add: demo_chunk_def)
  ultimately show ?thesis
    by (simp add: vom_scheduler_tick_def demo_queued_eq tick_chunk_def expire_lease_def assign_chunk_def MAX_SCHUNKS_def
        vom_scheduler_submit_ready_chunk_def two_chunks_def Let_def)
qed

lemma two_chunks_tick: "\<exists>t'. fst (vom_scheduler_tick Fin now 8 (two_chunks t)) = two_chunks t'"
proof -
  have restored: "release_reservation (demo_chunk 5) (add_reservation (demo_chunk 5) demo_worker) = demo_worker"
    by (simp add: release_reservation_def add_reservation_def demo_chunk_def demo_worker_def)
  have full: "select_worker Fin (demo_chunk 6) [add_reservation (demo_chunk 5) demo_worker] = None"
    by (simp add: select_worker_def consider_worker_def evaluate_hard_filters_def add_reservation_def demo_chunk_def demo_worker_def)
  have first: "select_worker Fin (demo_chunk 5) [demo_worker] = Some 0"
    by (simp add: select_worker_def consider_worker_def demo_filters demo_score)
  have ids: "\<not> is_blocked (demo_chunk i)" "chunk_id (demo_chunk i) = i" for i by (simp_all add: demo_chunk_def)
  have wid: "c_strncpy 63 (worker_id demo_worker) = worker_id demo_worker" by (simp add: demo_worker_def)
  show ?thesis
    by (cases "lease_expires_ms (mk_lease t (demo_chunk 5) demo_worker) < now")
      (auto simp: vom_scheduler_tick_def two_chunks_def tick_chunk_def expire_lease_def leases_chunk_def ids wid restored full first
        deactivate_lease_def assign_chunk_def MAX_SCHUNKS_def Let_def)
qed

lemma waiting_chunk_starves:
  "\<not> leased (demo_chunk 6) (fold (\<lambda>now st. fst (vom_scheduler_tick Fin now 8 st)) ts (two_chunks t))"
proof (induction ts arbitrary: t)
  case Nil
  show ?case by (simp add: leased_def two_chunks_def active_ids_def demo_chunk_def)
next
  case (Cons now ts)
  obtain t' where "fst (vom_scheduler_tick Fin now 8 (two_chunks t)) = two_chunks t'" using two_chunks_tick by blast
  then show ?case using Cons.IH [of t'] by simp
qed

end
