(* ===== verification/C_Layout.thy ===== *)
theory C_Layout
  imports Prelude "HOL-Library.Sublist"
begin

text \<open>
  The storage layout of the C types the program declares, on the 64-bit ABI it is built for: sizes, alignments and
  the offsets of members, arrays, unions and enumerations included.

  No source file of the program includes a header of another part (only \<^verbatim>\<open>common/compat.h\<close> is
  shared): each file declares the structures it exchanges with the others again. That two files mean the same object is
  then a fact about the layouts of two declarations, and it is stated here over \<open>member_at\<close>, the storage of a
  member path, and \<open>read_member\<close> and \<open>write_member\<close> on the bytes of an object.

  Proved: a member lies inside its object and is aligned; members that do not contain each other occupy disjoint storage;
  writing a member is seen by reading it and by no reading of another member.
\<close>

section \<open>Types\<close>

named_theorems decls "the declarations of the program"

datatype scalar =
    CChar | CBool | CU8 | CU16 | CU32 | CU64 | CI32 | CI64 | CFloat | CDouble | CPointer
  | CEnum "(string \<times> int) list"

datatype ctype =
    CScalar scalar
  | CArray nat ctype
  | CStruct "(string \<times> ctype) list"
  | CUnion "(string \<times> ctype) list"

abbreviation c_char :: ctype where "c_char \<equiv> CScalar CChar"
abbreviation c_bool :: ctype where "c_bool \<equiv> CScalar CBool"
abbreviation c_int :: ctype where "c_int \<equiv> CScalar CI32"
abbreviation c_float :: ctype where "c_float \<equiv> CScalar CFloat"
abbreviation c_double :: ctype where "c_double \<equiv> CScalar CDouble"
abbreviation c_pointer :: ctype where "c_pointer \<equiv> CScalar CPointer"
abbreviation uint8_t :: ctype where "uint8_t \<equiv> CScalar CU8"
abbreviation uint16_t :: ctype where "uint16_t \<equiv> CScalar CU16"
abbreviation uint32_t :: ctype where "uint32_t \<equiv> CScalar CU32"
abbreviation int32_t :: ctype where "int32_t \<equiv> CScalar CI32"
abbreviation uint64_t :: ctype where "uint64_t \<equiv> CScalar CU64"
abbreviation c_enum :: "(string \<times> int) list \<Rightarrow> ctype" where "c_enum cs \<equiv> CScalar (CEnum cs)"

fun scalar_size :: "scalar \<Rightarrow> nat" where
  "scalar_size CChar = 1"
| "scalar_size CBool = 1"
| "scalar_size CU8 = 1"
| "scalar_size CU16 = 2"
| "scalar_size CU32 = 4"
| "scalar_size CI32 = 4"
| "scalar_size CFloat = 4"
| "scalar_size (CEnum cs) = 4"
| "scalar_size CU64 = 8"
| "scalar_size CI64 = 8"
| "scalar_size CDouble = 8"
| "scalar_size CPointer = 8"

definition round_up :: "nat \<Rightarrow> nat \<Rightarrow> nat" where
  "round_up n a = (n + a - 1) div a * a"

fun calign :: "ctype \<Rightarrow> nat" and calign_fields :: "(string \<times> ctype) list \<Rightarrow> nat" where
  "calign (CScalar s) = scalar_size s"
| "calign (CArray n t) = calign t"
| "calign (CStruct fs) = calign_fields fs"
| "calign (CUnion fs) = calign_fields fs"
| "calign_fields [] = 1"
| "calign_fields ((f, t) # fs) = max (calign t) (calign_fields fs)"

fun csize :: "ctype \<Rightarrow> nat" and fields_end :: "nat \<Rightarrow> (string \<times> ctype) list \<Rightarrow> nat"
  and fields_max :: "(string \<times> ctype) list \<Rightarrow> nat" where
  "csize (CScalar s) = scalar_size s"
| "csize (CArray n t) = n * csize t"
| "csize (CStruct fs) = round_up (fields_end 0 fs) (calign_fields fs)"
| "csize (CUnion fs) = round_up (fields_max fs) (calign_fields fs)"
| "fields_end off [] = off"
| "fields_end off ((f, t) # fs) = fields_end (round_up off (calign t) + csize t) fs"
| "fields_max [] = 0"
| "fields_max ((f, t) # fs) = max (csize t) (fields_max fs)"

section \<open>Members\<close>

datatype mstep = Fld string | Idx nat

fun field_offset :: "nat \<Rightarrow> (string \<times> ctype) list \<Rightarrow> string \<Rightarrow> (nat \<times> ctype) option" where
  "field_offset off [] f = None"
| "field_offset off ((g, t) # fs) f =
     (if g = f then Some (round_up off (calign t), t)
      else field_offset (round_up off (calign t) + csize t) fs f)"

text \<open>The storage of a member: its offset and type, \<open>None\<close> when the path names no member.\<close>

fun member_at :: "ctype \<Rightarrow> mstep list \<Rightarrow> (nat \<times> ctype) option" where
  "member_at t [] = Some (0, t)"
| "member_at (CArray n t) (Idx i # p) =
     (if i < n then map_option (\<lambda>(off, u). (i * csize t + off, u)) (member_at t p) else None)"
| "member_at (CStruct fs) (Fld f # p) =
     (case field_offset 0 fs f of None \<Rightarrow> None
      | Some (base, t) \<Rightarrow> map_option (\<lambda>(off, u). (base + off, u)) (member_at t p))"
| "member_at (CUnion fs) (Fld f # p) =
     (case map_of fs f of None \<Rightarrow> None | Some t \<Rightarrow> member_at t p)"
| "member_at t (s # p) = None"

definition read_member :: "ctype \<Rightarrow> mstep list \<Rightarrow> 'b list \<Rightarrow> 'b list option" where
  "read_member t p bs = map_option (\<lambda>(off, u). take (csize u) (drop off bs)) (member_at t p)"

definition write_member :: "ctype \<Rightarrow> mstep list \<Rightarrow> 'b list \<Rightarrow> 'b list \<Rightarrow> 'b list" where
  "write_member t p v bs =
     (case member_at t p of None \<Rightarrow> bs
      | Some (off, u) \<Rightarrow> take off bs @ take (csize u) v @ drop (off + csize u) bs)"

fun union_free :: "ctype \<Rightarrow> bool" where
  "union_free (CScalar s) = True"
| "union_free (CArray n t) = union_free t"
| "union_free (CStruct fs) = list_all (\<lambda>(f, t). union_free t) fs"
| "union_free (CUnion fs) = False"

section \<open>Alignment\<close>

lemma round_up_ge: "0 < a \<Longrightarrow> n \<le> round_up n a"
proof -
  assume a: "0 < a"
  have "n + a - 1 = (n + a - 1) div a * a + (n + a - 1) mod a" by simp
  moreover have "(n + a - 1) mod a < a" using a by simp
  ultimately show ?thesis unfolding round_up_def by linarith
qed

lemma round_up_dvd: "a dvd round_up n a"
  by (simp add: round_up_def)

lemma calign_range:
  "calign t \<in> {1, 2, 4, 8}" "calign_fields fs \<in> {1, 2, 4, 8}"
proof (induction t and fs rule: calign_calign_fields.induct)
  case (1 s) then show ?case by (cases s) simp_all
qed (auto simp: max_def)

lemma calign_pos [simp]: "0 < calign t" "0 < calign_fields fs"
  using calign_range(1) [of t] calign_range(2) [of fs] by auto

lemma range_dvd: "a \<in> {1, 2, 4, 8} \<Longrightarrow> b \<in> {1, 2, 4, 8} \<Longrightarrow> a \<le> b \<Longrightarrow> a dvd (b :: nat)"
  by auto

lemma field_align_dvd: "(f, t) \<in> set fs \<Longrightarrow> calign t dvd calign_fields fs"
proof (rule range_dvd [OF calign_range])
  show "(f, t) \<in> set fs \<Longrightarrow> calign t \<le> calign_fields fs" by (induction fs) (auto simp: le_max_iff_disj)
qed

lemma calign_dvd_csize: "calign t dvd csize t"
proof (induction t)
  case (CScalar s) then show ?case by (cases s) simp_all
qed (auto simp: round_up_dvd)

section \<open>Members lie inside their object\<close>

lemma fields_end_ge: "off \<le> fields_end off fs"
proof (induction fs arbitrary: off)
  case (Cons x fs)
  obtain f t where x: "x = (f, t)" by fastforce
  have "off \<le> round_up off (calign t) + csize t" by (simp add: round_up_ge trans_le_add1)
  with Cons.IH [of "round_up off (calign t) + csize t"] show ?case by (simp add: x)
qed simp

lemma field_offset_mem: "field_offset off fs f = Some (base, t) \<Longrightarrow> (f, t) \<in> set fs"
  by (induction off fs f rule: field_offset.induct) (auto split: if_splits)

lemma field_offset_bounds:
  "field_offset off fs f = Some (base, t) \<Longrightarrow> off \<le> base \<and> base + csize t \<le> fields_end off fs \<and> calign t dvd base"
proof (induction off fs f rule: field_offset.induct)
  case (2 off g u fs f)
  have "off \<le> round_up off (calign u) + csize u" by (simp add: round_up_ge trans_le_add1)
  with 2 show ?case
    using fields_end_ge [of "round_up off (calign u) + csize u" fs]
    by (auto simp: round_up_ge round_up_dvd split: if_splits)
qed simp

lemma field_offset_disjoint:
  "field_offset off fs f = Some (a, t) \<Longrightarrow> field_offset off fs g = Some (b, u) \<Longrightarrow> f \<noteq> g \<Longrightarrow>
     a + csize t \<le> b \<or> b + csize u \<le> a"
proof (induction off fs f rule: field_offset.induct)
  case (2 off h v fs f)
  then show ?case
    using field_offset_bounds [of "round_up off (calign v) + csize v" fs g b u]
      field_offset_bounds [of "round_up off (calign v) + csize v" fs f a t]
    by (auto split: if_splits)
qed simp

lemma fields_max_ge: "map_of fs f = Some t \<Longrightarrow> csize t \<le> fields_max fs"
  by (induction fs) (auto simp: le_max_iff_disj split: if_splits)

lemma member_at_bounds:
  "member_at t p = Some (off, u) \<Longrightarrow> off + csize u \<le> csize t \<and> calign u dvd off \<and> calign u dvd calign t"
proof (induction t p arbitrary: off rule: member_at.induct)
  case (2 n t i p)
  then obtain o' where o': "member_at t p = Some (o', u)" "off = i * csize t + o'" "i < n"
    by (auto split: if_splits)
  with "2.IH" have IH: "o' + csize u \<le> csize t" "calign u dvd o'" "calign u dvd calign t" by simp_all
  have "i * csize t + csize t \<le> n * csize t"
    using mult_le_mono1 [of "Suc i" n "csize t"] o'(3) by simp
  moreover have "calign u dvd i * csize t" using IH(3) calign_dvd_csize [of t] by (metis dvd_mult dvd_trans)
  ultimately show ?case using IH o'(2) by (simp add: dvd_add)
next
  case (3 fs f p)
  then obtain base t o' where b: "field_offset 0 fs f = Some (base, t)" and o': "member_at t p = Some (o', u)" "off = base + o'"
    by (auto split: option.splits)
  have IH: "o' + csize u \<le> csize t" "calign u dvd o'" "calign u dvd calign t" using "3.IH" [OF b refl o'(1)] by simp_all
  have "base + csize t \<le> csize (CStruct fs)"
    using field_offset_bounds [OF b] by (simp add: order_trans [OF _ round_up_ge])
  moreover have "calign u dvd base" "calign u dvd calign_fields fs"
    using field_offset_bounds [OF b] field_align_dvd [OF field_offset_mem [OF b]] IH(3) by (blast intro: dvd_trans)+
  ultimately show ?case using IH o'(2) by (simp add: dvd_add)
next
  case (4 fs f p)
  then obtain t where t: "map_of fs f = Some t" "member_at t p = Some (off, u)" by (auto split: option.splits)
  have IH: "off + csize u \<le> csize t" "calign u dvd off" "calign u dvd calign t" using "4.IH" [OF t] by simp_all
  have "csize t \<le> csize (CUnion fs)" using fields_max_ge [OF t(1)] by (simp add: order_trans [OF _ round_up_ge])
  moreover have "calign u dvd calign_fields fs"
    using field_align_dvd [OF map_of_SomeD [OF t(1)]] IH(3) by (rule dvd_trans [rotated])
  ultimately show ?case using IH by simp
qed simp_all

section \<open>Different members are disjoint\<close>

definition apart :: "nat \<times> ctype \<Rightarrow> nat \<times> ctype \<Rightarrow> bool" where
  "apart x y \<longleftrightarrow> fst x + csize (snd x) \<le> fst y \<or> fst y + csize (snd y) \<le> fst x"

lemma element_apart:
  assumes "member_at t p = Some (a, u)" "member_at t q = Some (b, v)" "i < j"
  shows "i * csize t + a + csize u \<le> j * csize t + b"
proof -
  have "i * csize t + csize t \<le> j * csize t" using mult_le_mono1 [of "Suc i" j "csize t"] assms(3) by simp
  with member_at_bounds [OF assms(1)] show ?thesis by simp
qed

lemma member_at_CArray_path:
  assumes "member_at (CArray n t) q = Some y" "\<not> prefix q p"
  obtains j q' where "q = Idx j # q'"
proof (cases q)
  case (Cons s q')
  with assms that show ?thesis by (cases s) simp_all
qed (use assms in simp)

lemma member_at_CStruct_path:
  assumes "member_at (CStruct fs) q = Some y" "\<not> prefix q p"
  obtains g q' where "q = Fld g # q'"
proof (cases q)
  case (Cons s q')
  with assms that show ?thesis by (cases s) simp_all
qed (use assms in simp)

lemma member_at_apart:
  assumes "union_free t" "member_at t p = Some x" "member_at t q = Some y" "\<not> prefix p q" "\<not> prefix q p"
  shows "apart x y"
  using assms
proof (induction t p arbitrary: q x y rule: member_at.induct)
  case (2 n t i p)
  then obtain a u where p: "member_at t p = Some (a, u)" "x = (i * csize t + a, u)" by (auto split: if_splits)
  obtain j q' where q: "q = Idx j # q'" using 2(4,6) by (rule member_at_CArray_path)
  with 2(4) obtain b v where v: "member_at t q' = Some (b, v)" "y = (j * csize t + b, v)" by (auto split: if_splits)
  consider "i = j" | "i < j" | "j < i" by linarith
  then show ?case
  proof cases
    case 1
    have "i < n" using 2(3) by (simp split: if_splits)
    with 1 2 p v q have "apart (a, u) (b, v)" by simp
    with 1 p v show ?thesis by (simp add: apart_def)
  next
    case 2 with element_apart [OF p(1) v(1)] p v show ?thesis by (simp add: apart_def)
  next
    case 3 with element_apart [OF v(1) p(1)] p v show ?thesis by (simp add: apart_def)
  qed
next
  case (3 fs f p)
  then obtain base t a u where p: "field_offset 0 fs f = Some (base, t)" "member_at t p = Some (a, u)" "x = (base + a, u)"
    by (auto split: option.splits)
  obtain g q' where q: "q = Fld g # q'" using 3(4,6) by (rule member_at_CStruct_path)
  with 3(4) obtain base' t' b v where v: "field_offset 0 fs g = Some (base', t')" "member_at t' q' = Some (b, v)" "y = (base' + b, v)"
    by (auto split: option.splits)
  show ?case
  proof (cases "f = g")
    case True
    have "union_free t" using 3(2) field_offset_mem [OF p(1)] by (auto simp: list_all_iff)
    with True p v q 3(5,6) have "apart (a, u) (b, v)" using "3.IH" [OF p(1) refl, of "(a, u)" q' "(b, v)"] by simp
    with True p v show ?thesis by (simp add: apart_def)
  next
    case False
    with field_offset_disjoint [OF p(1) v(1)] member_at_bounds [OF p(2)] member_at_bounds [OF v(2)] p v show ?thesis
      by (auto simp: apart_def)
  qed
qed simp_all

lemma read_written:
  assumes "member_at t p = Some (a, u)" "length bs = csize t" "length w = csize u"
  shows "read_member t p (write_member t p w bs) = Some w"
  using assms member_at_bounds [OF assms(1)] by (simp add: read_member_def write_member_def)

lemma members_do_not_alias:
  assumes "union_free t" "member_at t p = Some (a, u)" "member_at t q = Some (b, v)" "\<not> prefix p q" "\<not> prefix q p"
    and "length bs = csize t" "length w = csize u"
  shows "a + csize u \<le> csize t \<and> calign u dvd a
    \<and> (a + csize u \<le> b \<or> b + csize v \<le> a)
    \<and> read_member t p (write_member t p w bs) = Some w
    \<and> read_member t q (write_member t p w bs) = read_member t q bs"
proof -
  have in_p: "a + csize u \<le> csize t" "calign u dvd a" using member_at_bounds [OF assms(2)] by simp_all
  have in_q: "b + csize v \<le> csize t" using member_at_bounds [OF assms(3)] by simp
  have dis: "a + csize u \<le> b \<or> b + csize v \<le> a"
    using member_at_apart [OF assms(1-5)] by (simp add: apart_def)
  have "read_member t p (write_member t p w bs) = Some w"
    using assms(2,6,7) in_p by (simp add: read_member_def write_member_def)
  moreover have "take (csize v) (drop b (take a bs @ w @ drop (a + csize u) bs)) = take (csize v) (drop b bs)"
    using dis
  proof
    assume "a + csize u \<le> b"
    with in_p assms(6,7) show ?thesis by simp
  next
    assume "b + csize v \<le> a"
    moreover have "take (csize v) (drop b (take a bs)) = take (csize v) (drop b bs)"
      using calculation by (simp add: drop_take)
    ultimately show ?thesis using in_p in_q assms(6) by simp
  qed
  ultimately show ?thesis
    using in_p dis assms(2,3,7) by (simp add: read_member_def write_member_def)
qed

end
