(* ===== verification/Header_Declarations.thy ===== *)
theory Header_Declarations
  imports C_Layout
begin

text \<open>
  The structures and enumerations of the headers, member by member, as C types with a storage layout. A name is the
  part and file of the header followed by the name of the type; array bounds are the constants of the same header.
\<close>

subsection \<open>\<^verbatim>\<open>common/include/common/domain.h\<close>\<close>

definition common_domain_h_DOMAIN_NAME_MAX :: nat where [decls]: "common_domain_h_DOMAIN_NAME_MAX = 64"
definition common_domain_h_DOMAIN_CHECKSUM_LEN :: nat where [decls]: "common_domain_h_DOMAIN_CHECKSUM_LEN = 65"
definition common_domain_h_DOMAIN_UUID_LEN :: nat where [decls]: "common_domain_h_DOMAIN_UUID_LEN = 40"

definition common_domain_h_VomStatus :: "ctype" where [decls]:
  "common_domain_h_VomStatus =
     c_enum [(''VOM_STATUS_SUCCESS'', 0), (''VOM_STAT_ERR_SYNTAX'', 1), (''VOM_STAT_ERR_UNKNOWN_VERB'', 2),
            (''VOM_STAT_ERR_MISSING_ARG'', 3), (''VOM_STAT_ERR_INVALID_VAL'', 4),
            (''VOM_STAT_ERR_NETWORK_FAULT'', 5), (''VOM_STATUS_ERR_VALIDATION'', 6),
            (''VOM_STATUS_ERR_UNSUPPORTED'', 7), (''VOM_STATUS_ERR_CAPACITY'', 8), (''VOM_STATUS_ERR_TIMEOUT'', 9),
            (''VOM_STATUS_ERR_REJECTED'', 10), (''VOM_STATUS_ERR_INTERNAL'', 11)]"

definition common_domain_h_VomWorkloadState :: "ctype" where [decls]:
  "common_domain_h_VomWorkloadState =
     c_enum [(''VOM_WORKLOAD_STATE_SUBMITTED'', 0), (''VOM_WORKLOAD_STATE_PLANNING'', 1),
            (''VOM_WORKLOAD_STATE_EXECUTING'', 2), (''VOM_WORKLOAD_STATE_COMPLETED'', 3),
            (''VOM_WORKLOAD_STATE_CANCELLED'', 4)]"

definition common_domain_h_vom_workload_state :: "ctype" where [decls]:
  "common_domain_h_vom_workload_state =
     CStruct [(''workload_id'', uint64_t), (''name'', CArray common_domain_h_DOMAIN_NAME_MAX c_char),
             (''state'', common_domain_h_VomWorkloadState), (''total_size_bytes'', uint64_t),
             (''deadline_seconds'', uint32_t), (''start_time_ms'', uint64_t),
             (''final_aggregated_hash'', CArray common_domain_h_DOMAIN_CHECKSUM_LEN c_char)]"

definition common_domain_h_VomChunkState :: "ctype" where [decls]:
  "common_domain_h_VomChunkState =
     c_enum [(''VOM_CHUNK_PENDING'', 0), (''VOM_CHUNK_READY'', 1), (''VOM_CHUNK_RUNNING'', 2),
            (''VOM_CHUNK_COMPLETED'', 3), (''VOM_CHUNK_FAILED'', 4)]"

definition common_domain_h_vom_chunk_plan :: "ctype" where [decls]:
  "common_domain_h_vom_chunk_plan =
     CStruct [(''chunk_id'', uint64_t), (''workload_id'', uint64_t), (''state'', common_domain_h_VomChunkState),
             (''platform_required'', c_int), (''runtime_required'', c_int), (''required_cpu_units'', uint32_t),
             (''required_memory_mb'', uint64_t), (''requires_touch_input'', c_bool),
             (''preffered_data_node'', uint32_t)]"

definition common_domain_h_VomWorkerStatus :: "ctype" where [decls]:
  "common_domain_h_VomWorkerStatus =
     c_enum [(''VOM_WORKER_OFFLINE'', 0), (''VOM_WORKER_APPROVED'', 1), (''VOM_WORKER_HEALTHY'', 2),
            (''VOM_WORKER_DRAINING'', 3), (''VOM_WORKER_DISCONNECTED'', 4)]"

definition common_domain_h_vom_ui_surface :: "ctype" where [decls]:
  "common_domain_h_vom_ui_surface =
     CStruct [(''display_attached'', c_bool), (''display_width'', uint32_t), (''display_height'', uint32_t),
             (''touch_supported'', c_bool), (''ui_mode_token'', uint32_t)]"

definition common_domain_h_vom_worker_observation :: "ctype" where [decls]:
  "common_domain_h_vom_worker_observation =
     CStruct [(''last_seen_ms'', uint64_t), (''cores_online'', uint32_t), (''ram_free_mb'', uint64_t),
             (''battery_pct'', c_float), (''is_charging'', c_bool), (''is_ac_online'', c_bool),
             (''network_bandwidth_kbps'', uint64_t), (''peripheral_ui'', common_domain_h_vom_ui_surface)]"

definition common_domain_h_vom_chunk_lease :: "ctype" where [decls]:
  "common_domain_h_vom_chunk_lease =
     CStruct [(''chunk_id'', uint64_t), (''assigned_worker_id'', CArray common_domain_h_DOMAIN_NAME_MAX c_char),
             (''lease_expires_ms'', uint64_t), (''is_active'', c_bool)]"

definition common_domain_h_vom_logical_device_state :: "ctype" where [decls]:
  "common_domain_h_vom_logical_device_state =
     CStruct [(''cluster_uuid'', CArray common_domain_h_DOMAIN_UUID_LEN c_char), (''master_epoch'', uint64_t),
             (''snapshot_version'', uint64_t), (''global_status'', common_domain_h_VomWorkerStatus),
             (''aggregate_memory_bytes'', uint64_t), (''allocated_memory_bytes'', uint64_t),
             (''aggregate_cpu_units'', uint32_t), (''allocate_cpu_units'', uint32_t),
             (''active_workers_count'', uint32_t)]"

subsection \<open>\<^verbatim>\<open>common/include/common/resources.h\<close>\<close>

definition common_resources_h_vom_cpu_npu_t :: "ctype" where [decls]:
  "common_resources_h_vom_cpu_npu_t =
     uint32_t"

definition common_resources_h_VomAcceleratorType :: "ctype" where [decls]:
  "common_resources_h_VomAcceleratorType =
     c_enum [(''VOM_ACCEL_NONE'', 0), (''VOM_ACCEL_CUDA'', 1), (''VOM_ACCEL_OPENCL'', 2), (''VOM_ACCEL_METAL'', 3),
            (''VOM_ACCEL_NPU_DSP'', 4)]"

definition common_resources_h_vom_accelerator_spec :: "ctype" where [decls]:
  "common_resources_h_vom_accelerator_spec =
     CStruct [(''type'', common_resources_h_VomAcceleratorType), (''execution_units'', uint32_t),
             (''total_memory_bytes'', uint64_t)]"

definition common_resources_h_vom_storage_spec :: "ctype" where [decls]:
  "common_resources_h_vom_storage_spec =
     CStruct [(''capacity_bytes'', uint64_t), (''estimated_read_mbps'', uint32_t),
             (''estimated_write_mbps'', uint32_t)]"

definition common_resources_h_vom_network_spec :: "ctype" where [decls]:
  "common_resources_h_vom_network_spec =
     CStruct [(''link_bandwidth_kbps'', uint64_t), (''measured_latency_us'', uint32_t)]"

definition common_resources_h_VomThermalState :: "ctype" where [decls]:
  "common_resources_h_VomThermalState =
     c_enum [(''VOM_THERMAL_NOMINAL'', 0), (''VOM_THERMAL_THROTTLED'', 1), (''VOM_THERMAL_CRITICAL'', 2)]"

definition common_resources_h_vom_environmental_policy :: "ctype" where [decls]:
  "common_resources_h_vom_environmental_policy =
     CStruct [(''battery_percentage'', c_float), (''is_charging'', c_bool),
             (''thermal_policy'', common_resources_h_VomThermalState)]"

definition common_resources_h_vom_advertised_capacity :: "ctype" where [decls]:
  "common_resources_h_vom_advertised_capacity =
     CStruct [(''aggregate_cpu_npu'', common_resources_h_vom_cpu_npu_t), (''aggregate_memory_bytes'', uint64_t),
             (''accelerator'', common_resources_h_vom_accelerator_spec),
             (''primary_storage'', common_resources_h_vom_storage_spec),
             (''baseline_network'', common_resources_h_vom_network_spec)]"

definition common_resources_h_vom_current_availability :: "ctype" where [decls]:
  "common_resources_h_vom_current_availability =
     CStruct [(''available_cpu_npu'', common_resources_h_vom_cpu_npu_t), (''available_memory_bytes'', uint64_t),
             (''available_accel_memory_bytes'', uint64_t), (''free_storage_bytes'', uint64_t),
             (''current_network'', common_resources_h_vom_network_spec),
             (''power_thermal'', common_resources_h_vom_environmental_policy)]"

definition common_resources_h_vom_chunk_resource_demand :: "ctype" where [decls]:
  "common_resources_h_vom_chunk_resource_demand =
     CStruct [(''required_cpu_npu'', common_resources_h_vom_cpu_npu_t), (''required_memory_bytes'', uint64_t),
             (''required_accel_memory_bytes'', uint64_t), (''required_storage_bytes'', uint64_t),
             (''max_acceptable_latency_us'', uint32_t)]"

definition common_resources_h_vom_resource_reservation :: "ctype" where [decls]:
  "common_resources_h_vom_resource_reservation =
     CStruct [(''reservation_id'', uint64_t), (''chunk_id'', uint64_t),
             (''locked_cpu_npu'', common_resources_h_vom_cpu_npu_t), (''locked_memory_bytes'', uint64_t),
             (''hold_expires_ms'', uint64_t), (''is_committed'', c_bool)]"

definition common_resources_h_vom_assignment_resource_lease :: "ctype" where [decls]:
  "common_resources_h_vom_assignment_resource_lease =
     CStruct [(''lease_id'', uint64_t), (''chunk_id'', uint64_t), (''workload_id'', uint64_t),
             (''lease_expires_timestamp_ms'', uint64_t), (''is_revoked'', c_bool)]"

subsection \<open>\<^verbatim>\<open>common/include/common/ids.h\<close>\<close>

definition common_ids_h_VOM_ID_MAX_LEN :: nat where [decls]: "common_ids_h_VOM_ID_MAX_LEN = 64"

definition common_ids_h_vom_id_t :: "ctype" where [decls]:
  "common_ids_h_vom_id_t =
     CStruct [(''text'', CArray common_ids_h_VOM_ID_MAX_LEN c_char)]"

definition common_ids_h_vom_logical_device_id_t :: "ctype" where [decls]:
  "common_ids_h_vom_logical_device_id_t =
     common_ids_h_vom_id_t"

definition common_ids_h_vom_master_id_t :: "ctype" where [decls]:
  "common_ids_h_vom_master_id_t =
     common_ids_h_vom_id_t"

definition common_ids_h_vom_worker_id_t :: "ctype" where [decls]:
  "common_ids_h_vom_worker_id_t =
     common_ids_h_vom_id_t"

definition common_ids_h_vom_workload_id_t :: "ctype" where [decls]:
  "common_ids_h_vom_workload_id_t =
     common_ids_h_vom_id_t"

definition common_ids_h_vom_chunk_id_t :: "ctype" where [decls]:
  "common_ids_h_vom_chunk_id_t =
     common_ids_h_vom_id_t"

definition common_ids_h_vom_session_id_t :: "ctype" where [decls]:
  "common_ids_h_vom_session_id_t =
     common_ids_h_vom_id_t"

definition common_ids_h_vom_message_id_t :: "ctype" where [decls]:
  "common_ids_h_vom_message_id_t =
     common_ids_h_vom_id_t"

definition common_ids_h_vom_lease_id_t :: "ctype" where [decls]:
  "common_ids_h_vom_lease_id_t =
     common_ids_h_vom_id_t"

subsection \<open>\<^verbatim>\<open>common/include/common/result.h\<close>\<close>

definition common_result_h_VOM_RESULT_DETAIL_MAX :: nat where [decls]: "common_result_h_VOM_RESULT_DETAIL_MAX = 128"

definition common_result_h_VomErrorCategory :: "ctype" where [decls]:
  "common_result_h_VomErrorCategory =
     c_enum [(''VOM_CAT_SUCCESS'', 0), (''VOM_CAT_INVALID_INPUT'', 1), (''VOM_CAT_TRANSPORT'', 2),
            (''VOM_CAT_PROTOCOL'', 3), (''VOM_CAT_SCHEDULER_REJECT'', 4), (''VOM_CAT_WORKER_EXECUTION'', 5),
            (''VOM_CAT_TIMEOUT'', 6), (''VOM_CAT_CANCELLATION'', 7), (''VOM_CAT_AUTHENTICATION'', 8),
            (''VOM_CAT_INTERNAL'', 9)]"

definition common_result_h_VomRetryAction :: "ctype" where [decls]:
  "common_result_h_VomRetryAction =
     c_enum [(''VOM_RETRY_NONE'', 0), (''VOM_RETRY_IMMEDIATE'', 1), (''VOM_RETRY_BACKOFF'', 2),
            (''VOM_RETRY_REPLAN'', 3)]"

definition common_result_h_vom_result_t :: "ctype" where [decls]:
  "common_result_h_vom_result_t =
     CStruct [(''category'', common_result_h_VomErrorCategory), (''stable_code'', uint32_t),
             (''retry_policy'', common_result_h_VomRetryAction),
             (''human_detail'', CArray common_result_h_VOM_RESULT_DETAIL_MAX c_char)]"

subsection \<open>\<^verbatim>\<open>common/include/common/log.h\<close>\<close>

definition common_log_h_VomLogLevel :: "ctype" where [decls]:
  "common_log_h_VomLogLevel =
     c_enum [(''VOM_LOG_LEVEL_TRACE'', 0), (''VOM_LOG_LEVEL_DEBUG'', 1), (''VOM_LOG_LEVEL_INFO'', 2),
            (''VOM_LOG_LEVEL_WARN'', 3), (''VOM_LOG_LEVEL_ERROR'', 4), (''VOM_LOG_LEVEL_FATAL'', 5),
            (''VOM_LOG_LEVEL_NONE'', 6)]"

subsection \<open>\<^verbatim>\<open>common/include/common/sys_info.h\<close>\<close>

definition common_sys_info_h_VomCpuArch :: "ctype" where [decls]:
  "common_sys_info_h_VomCpuArch =
     c_enum [(''VOM_ARCH_X86_64'', 0), (''VOM_ARCH_AARCH64'', 1), (''VOM_ARCH_ARMV7'', 2), (''VOM_ARCH_UNKNOWN'', 3)]"

definition common_sys_info_h_VomLinkType :: "ctype" where [decls]:
  "common_sys_info_h_VomLinkType =
     c_enum [(''VOM_LINK_ETH'', 0), (''VOM_LINK_WIFI'', 1), (''VOM_LINK_CELLULAR'', 2), (''VOM_LINK_UNKNOWN'', 3)]"

definition common_sys_info_h_vom_worker_capabilities :: "ctype" where [decls]:
  "common_sys_info_h_vom_worker_capabilities =
     CStruct [(''arch'', common_sys_info_h_VomCpuArch), (''cores_online'', uint32_t), (''cores_total'', uint32_t),
             (''feature_bitmap'', uint32_t), (''ram_total_mb'', uint64_t), (''ram_free_mb'', uint64_t),
             (''battery_percent'', int32_t), (''is_charging'', c_bool), (''is_ac_online'', c_bool),
             (''display_attached'', c_bool), (''display_width'', uint32_t), (''display_height'', uint32_t),
             (''touch_supported'', c_bool), (''network_link_type'', common_sys_info_h_VomLinkType),
             (''network_bandwidth_kbps'', uint64_t)]"

subsection \<open>\<^verbatim>\<open>common/include/common/config.h\<close>\<close>

definition common_config_h_CONFIG_STR_MAX :: nat where [decls]: "common_config_h_CONFIG_STR_MAX = 128"

definition common_config_h_vom_config_t :: "ctype" where [decls]:
  "common_config_h_vom_config_t =
     CStruct [(''cluster_name'', CArray common_config_h_CONFIG_STR_MAX c_char),
             (''master_endpoint'', CArray common_config_h_CONFIG_STR_MAX c_char),
             (''worker_id'', CArray common_config_h_CONFIG_STR_MAX c_char), (''heartbeat_interval_sec'', uint32_t),
             (''advertised_capabilities'', CArray common_config_h_CONFIG_STR_MAX c_char),
             (''log_level'', CArray common_config_h_CONFIG_STR_MAX c_char)]"

subsection \<open>\<^verbatim>\<open>master/include/master/cluster_state.h\<close>\<close>

definition master_cluster_state_h_CLUSTER_NAME_MAX_LEN :: nat where [decls]: "master_cluster_state_h_CLUSTER_NAME_MAX_LEN = 64"
definition master_cluster_state_h_CLUSTER_MAX_CAPABILITIES :: nat where [decls]: "master_cluster_state_h_CLUSTER_MAX_CAPABILITIES = 16"
definition master_cluster_state_h_CLUSTER_MAX_WORKERS :: nat where [decls]: "master_cluster_state_h_CLUSTER_MAX_WORKERS = 64"
definition master_cluster_state_h_CLUSTER_MAX_ACTIVE_LEASES :: nat where [decls]: "master_cluster_state_h_CLUSTER_MAX_ACTIVE_LEASES = 1024"

definition master_cluster_state_h_ClusterStatus :: "ctype" where [decls]:
  "master_cluster_state_h_ClusterStatus =
     c_enum [(''CLUSTER_STATUS_BOOSTRAP'', 0), (''CLUSTER_STATUS_OPERATIONAL'', 1), (''CLUSTER_STATUS_DEGRADED'', 2),
            (''CLUSTER_STATUS_MAINTENANCE'', 3), (''CLUSTER_STATUS_PANIC'', 4)]"

definition master_cluster_state_h_WorkerHealth :: "ctype" where [decls]:
  "master_cluster_state_h_WorkerHealth =
     c_enum [(''WORKER_HEALTH_OFFLINE'', 0), (''WORKER_HEALTH_SUSPECT'', 1), (''WORKER_HEALTH_ONLINE'', 2),
            (''WORKER_HEALTH_DRAINING'', 3)]"

definition master_cluster_state_h_LeaseStatus :: "ctype" where [decls]:
  "master_cluster_state_h_LeaseStatus =
     c_enum [(''LEASE_STATUS_IDLE'', 0), (''LEASE_STATUS_ASSIGNED'', 1), (''LEASE_STATUS_EXECUTING'', 2),
            (''LEASE_STATUS_COMMITTED'', 3), (''LEASE_STATUS_TIMED_OUT'', 4), (''LEASE_STATUS_FAILED'', 5)]"

definition master_cluster_state_h_ResourceMetrics :: "ctype" where [decls]:
  "master_cluster_state_h_ResourceMetrics =
     CStruct [(''total_cores'', uint32_t), (''reserved_cores'', uint32_t), (''total_memory_bytes'', uint64_t),
             (''reserved_memory_bytes'', uint64_t), (''total_storage_bytes'', uint64_t),
             (''reserved_storage_bytes'', uint64_t)]"

definition master_cluster_state_h_WorkerUiSurface :: "ctype" where [decls]:
  "master_cluster_state_h_WorkerUiSurface =
     CStruct [(''panel_endpoint_url'', CArray 128 c_char), (''telemetry_port'', uint32_t),
             (''web_Surface_enabled'', c_bool)]"

definition master_cluster_state_h_WorkerMember :: "ctype" where [decls]:
  "master_cluster_state_h_WorkerMember =
     CStruct [(''worker_id'', uint32_t), (''hostname'', CArray master_cluster_state_h_CLUSTER_NAME_MAX_LEN c_char),
             (''health'', master_cluster_state_h_WorkerHealth), (''last_heartbeat_monotonic_ms'', uint64_t),
             (''resources'', master_cluster_state_h_ResourceMetrics),
             (''capabilites'', CArray master_cluster_state_h_CLUSTER_MAX_CAPABILITIES (CArray 32 c_char)),
             (''capability_count'', c_int), (''ui_surface'', master_cluster_state_h_WorkerUiSurface)]"

definition master_cluster_state_h_ChunkLease :: "ctype" where [decls]:
  "master_cluster_state_h_ChunkLease =
     CStruct [(''chunk_id'', uint64_t), (''workload_id'', uint64_t), (''assigned_worker_id'', uint32_t),
             (''status'', master_cluster_state_h_LeaseStatus), (''lease_expires_timestamp_ms'', uint64_t),
             (''progress_percentage'', c_float), (''failure_retry_count'', uint32_t)]"

definition master_cluster_state_h_AggregateCapacity :: "ctype" where [decls]:
  "master_cluster_state_h_AggregateCapacity =
     CStruct [(''cluster_aggregate_memory_bytes'', uint64_t), (''cluster_allocated_memory_bytes'', uint64_t),
             (''cluster_aggregate_cores'', uint32_t), (''cluster_allocated_cores'', uint32_t),
             (''active_worker_count'', uint32_t), (''standart_pending_chunks'', uint32_t)]"

definition master_cluster_state_h_ClusterStateSnapshot :: "ctype" where [decls]:
  "master_cluster_state_h_ClusterStateSnapshot =
     CStruct [(''cluster_uuid'', CArray 64 c_char), (''master_epoch'', uint64_t),
             (''state_generation_version'', uint64_t), (''global_status'', master_cluster_state_h_ClusterStatus),
             (''active_workers'', CArray master_cluster_state_h_CLUSTER_MAX_WORKERS master_cluster_state_h_WorkerMember),
             (''total_registered_workers'', c_int),
             (''active_leases'', CArray master_cluster_state_h_CLUSTER_MAX_ACTIVE_LEASES master_cluster_state_h_ChunkLease),
             (''total_active_leases'', c_int), (''metrics'', master_cluster_state_h_AggregateCapacity)]"

subsection \<open>\<^verbatim>\<open>master/include/master/scheduler.h\<close>\<close>

definition master_scheduler_h_vom_worker_view :: "ctype" where [decls]:
  "master_scheduler_h_vom_worker_view =
     CStruct [(''worker_id'', CArray 64 c_char), (''platform'', c_int), (''runtime'', c_int),
             (''cpu_units'', uint8_t), (''reserv_cpu'', uint8_t), (''free_memory_mb'', uint64_t),
             (''reserv_mem_mb'', uint64_t), (''battery_pct'', c_float), (''active_chunks'', c_int),
             (''has_touch_input'', c_int), (''draining'', c_int), (''healthy'', c_int),
             (''reliability_score'', c_double)]"

definition master_scheduler_h_vom_chunk_plan :: "ctype" where [decls]:
  "master_scheduler_h_vom_chunk_plan =
     CStruct [(''chunk_id'', uint64_t), (''workload_id'', uint64_t), (''required_platform'', c_int),
             (''required_runtime'', c_int), (''required_cpu'', uint8_t), (''required_memory_mb'', uint64_t),
             (''requires_touch'', c_int), (''is_blocked'', c_bool), (''preferred_node'', uint32_t)]"

definition master_scheduler_h_vom_assignment_lease :: "ctype" where [decls]:
  "master_scheduler_h_vom_assignment_lease =
     CStruct [(''chunk_id'', uint64_t), (''assigned_worker_id'', CArray 64 c_char), (''lease_expires_ms'', uint64_t),
             (''is_active'', c_bool)]"

subsection \<open>\<^verbatim>\<open>master/include/master/router.h\<close>\<close>

definition master_router_h_VomRouterEvent :: "ctype" where [decls]:
  "master_router_h_VomRouterEvent =
     c_enum [(''ROUTER_EVENT_WORKER_JOINED'', 0), (''ROUTER_EVENT_WORKER_HEARTBEAT'', 1),
            (''ROUTER_EVENT_CHUNK_PROGRESS'', 2), (''ROUTER_EVENT_CHUNK_RESULT'', 3),
            (''ROUTER_EVENT_WORKER_FAILURE'', 4), (''ROUTER_EVENT_CLI_CONTROL_REQ'', 5),
            (''ROUTER_EVENT_TRANSPORT_FAULT'', 6)]"

definition master_router_h_VomRouterMsgCode :: "ctype" where [decls]:
  "master_router_h_VomRouterMsgCode =
     c_enum [(''ROUTER_MSG_AUTH_REQ'', 1), (''ROUTER_MSG_AUTH_RESP'', 2), (''ROUTER_MSG_JOIN_REQ'', 3),
            (''ROUTER_MSG_JOIN_RESP'', 4), (''ROUTER_MSG_HEARTBEAT'', 5), (''ROUTER_MSG_CHUNK_ASSIGN'', 6),
            (''ROUTER_MSG_CHUNK_ACK'', 7), (''ROUTER_MSG_CHUNK_REPORT'', 8)]"

definition master_router_h_VomRouterStatus :: "ctype" where [decls]:
  "master_router_h_VomRouterStatus =
     c_enum [(''ROUTER_STATUS_SUCCESS'', 0), (''ROUTER_STATUS_ERR_VERSION'', 1), (''ROUTER_STATUS_ERR_SIZE'', 2),
            (''ROUTER_STATUS_ERR_SOCKET'', 3), (''ROUTER_STATUS_ERR_TIMEOUT'', 4)]"

definition master_router_h_vom_router_envelope_t :: "ctype" where [decls]:
  "master_router_h_vom_router_envelope_t =
     CStruct [(''protocol_version'', uint16_t), (''message_code'', uint16_t), (''payload_length'', uint32_t),
             (''sequence_id'', uint64_t), (''timestamp_ms'', uint64_t)]"

subsection \<open>\<^verbatim>\<open>master/include/master/ui_coordinator.h\<close>\<close>

definition master_ui_coordinator_h_UI_NAME_MAX :: nat where [decls]: "master_ui_coordinator_h_UI_NAME_MAX = 64"
definition master_ui_coordinator_h_UI_LIMIT_WRK :: nat where [decls]: "master_ui_coordinator_h_UI_LIMIT_WRK = 32"
definition master_ui_coordinator_h_UI_LIMIT_CHK :: nat where [decls]: "master_ui_coordinator_h_UI_LIMIT_CHK = 128"

definition master_ui_coordinator_h_VomUiAlertTier :: "ctype" where [decls]:
  "master_ui_coordinator_h_VomUiAlertTier =
     c_enum [(''UI_ALERT_NONE'', 0), (''UI_ALERT_DEGRADED'', 1), (''UI_ALERT_RECOVERING'', 2),
            (''UI_ALERT_FAULT'', 3)]"

definition master_ui_coordinator_h_VomUiWrkState :: "ctype" where [decls]:
  "master_ui_coordinator_h_VomUiWrkState =
     c_enum [(''UI_WRK_OFFLINE'', 0), (''UI_WRK_ONLINE'', 1), (''UI_WRK_DRAINING'', 2)]"

definition master_ui_coordinator_h_VomUiChkState :: "ctype" where [decls]:
  "master_ui_coordinator_h_VomUiChkState =
     c_enum [(''UI_CHK_PENDING'', 0), (''UI_CHK_RUNNING'', 1), (''UI_CHK_COMPLETED'', 2), (''UI_CHK_FAILED'', 3)]"

definition master_ui_coordinator_h_VomUiIntentType :: "ctype" where [decls]:
  "master_ui_coordinator_h_VomUiIntentType =
     c_enum [(''UI_INTENT_SUBMIT'', 0), (''UI_INTENT_CANCEL'', 1), (''UI_INTENT_DRAIN'', 2),
            (''UI_INTENT_RESUME'', 3), (''UI_INTENT_MODE_SET'', 4)]"

definition master_ui_coordinator_h_vom_ui_worker_snapshot_t :: "ctype" where [decls]:
  "master_ui_coordinator_h_vom_ui_worker_snapshot_t =
     CStruct [(''id'', uint32_t), (''state'', master_ui_coordinator_h_VomUiWrkState),
             (''capacity_memory_bytes'', uint64_t), (''allocated_memory_bytes'', uint64_t),
             (''capacity_cores'', uint32_t), (''allocated_cores'', uint32_t),
             (''capabilities'', CArray master_ui_coordinator_h_UI_NAME_MAX c_char)]"

definition master_ui_coordinator_h_vom_ui_chunk_snapshot_t :: "ctype" where [decls]:
  "master_ui_coordinator_h_vom_ui_chunk_snapshot_t =
     CStruct [(''chunk_id'', uint64_t), (''workload_id'', uint64_t),
             (''state'', master_ui_coordinator_h_VomUiChkState), (''progress_pct'', c_float),
             (''assigned_worker_id'', uint32_t)]"

definition master_ui_coordinator_h_vom_ui_view_model_t :: "ctype" where [decls]:
  "master_ui_coordinator_h_vom_ui_view_model_t =
     CStruct [(''logical_device_uuid'', CArray master_ui_coordinator_h_UI_NAME_MAX c_char),
             (''master_epoch'', uint64_t), (''state_generation_version'', uint64_t),
             (''recovery_alert'', master_ui_coordinator_h_VomUiAlertTier), (''aggregate_memory_bytes'', uint64_t),
             (''allocated_memory_bytes'', uint64_t), (''aggregate_cpu_cores'', uint32_t),
             (''allocated_cpu_cores'', uint32_t),
             (''workers'', CArray master_ui_coordinator_h_UI_LIMIT_WRK master_ui_coordinator_h_vom_ui_worker_snapshot_t),
             (''active_worker_count'', c_int),
             (''chunks'', CArray master_ui_coordinator_h_UI_LIMIT_CHK master_ui_coordinator_h_vom_ui_chunk_snapshot_t),
             (''active_chunk_count'', c_int)]"

definition master_ui_coordinator_h_vom_ui_user_intent_t :: "ctype" where [decls]:
  "master_ui_coordinator_h_vom_ui_user_intent_t =
     CStruct [(''type'', master_ui_coordinator_h_VomUiIntentType), (''target_id'', uint64_t),
             (''arguments'', CArray master_ui_coordinator_h_UI_NAME_MAX c_char)]"

subsection \<open>\<^verbatim>\<open>master/include/master/cli.h\<close>\<close>

definition master_cli_h_vom_master_args_t :: "ctype" where [decls]:
  "master_cli_h_vom_master_args_t =
     CStruct [(''help'', c_bool), (''version'', c_bool), (''config_file'', c_pointer), (''log_level'', c_pointer),
             (''bind_endpoint'', c_pointer), (''daemonize'', c_bool), (''print_uuid'', c_bool),
             (''simulate_workers_count'', c_int)]"

subsection \<open>\<^verbatim>\<open>worker/include/worker/transport.h\<close>\<close>

definition worker_transport_h_TRANSPORT_ID_MAX_LEN :: nat where [decls]: "worker_transport_h_TRANSPORT_ID_MAX_LEN = 64"
definition worker_transport_h_TRANSPORT_KEY_MAX_LEN :: nat where [decls]: "worker_transport_h_TRANSPORT_KEY_MAX_LEN = 40"

definition worker_transport_h_VomTransportEvent :: "ctype" where [decls]:
  "worker_transport_h_VomTransportEvent =
     c_enum [(''TRANS_EVENT_CONNECTED'', 0), (''TRANS_EVENT_AUTHENTICATED'', 1), (''TRANS_EVENT_JOINED'', 2),
            (''TRANS_EVENT_HEARTBEAT_SENT'', 3), (''TRANS_EVENT_HEARTBEAT_ACKED'', 4),
            (''TRANS_EVENT_DISCONNECTED'', 5), (''TRANS_EVENT_RECONNECTING'', 6), (''TRANS_EVENT_ERROR'', 7)]"

definition worker_transport_h_VomMsgCode :: "ctype" where [decls]:
  "worker_transport_h_VomMsgCode =
     c_enum [(''MSG_CODE_AUTH_REQ'', 1), (''MSG_CODE_AUTH_RESP'', 2), (''MSG_CODE_JOIN_REQ'', 3),
            (''MSG_CODE_JOIN_RESP'', 4), (''MSG_CODE_HEARTBEAT'', 5), (''MSG_CODE_CHUNK_ASSIGN'', 6),
            (''MSG_CODE_CHUNK_ACK'', 7), (''MSG_CODE_CHUNK_REPORT'', 8)]"

definition worker_transport_h_VomTransportStatus :: "ctype" where [decls]:
  "worker_transport_h_VomTransportStatus =
     c_enum [(''TRANS_STATUS_SUCCESS'', 0), (''TRANS_STATUS_ERR_VERSION'', 1), (''TRANS_STATUS_ERR_AUTH'', 2),
            (''TRANS_STATUS_ERR_SIZE'', 3), (''TRANS_STATUS_ERR_TIMEOUT'', 4), (''TRANS_STATUS_ERR_DISCONNECT'', 5)]"

definition worker_transport_h_vom_transport_envelope_t :: "ctype" where [decls]:
  "worker_transport_h_vom_transport_envelope_t =
     CStruct [(''protocol_version'', uint16_t), (''message_code'', uint16_t), (''payload_length'', uint32_t),
             (''sequence_id'', uint64_t), (''timestamp_ms'', uint64_t)]"

definition worker_transport_h_vom_transport_config_t :: "ctype" where [decls]:
  "worker_transport_h_vom_transport_config_t =
     CStruct [(''worker_id'', CArray worker_transport_h_TRANSPORT_ID_MAX_LEN c_char),
             (''server_public_key'', CArray worker_transport_h_TRANSPORT_KEY_MAX_LEN c_char),
             (''client_public_key'', CArray worker_transport_h_TRANSPORT_KEY_MAX_LEN c_char),
             (''client_secret_key'', CArray worker_transport_h_TRANSPORT_KEY_MAX_LEN c_char)]"

subsection \<open>\<^verbatim>\<open>worker/include/worker/worker_state.h\<close>\<close>

definition worker_worker_state_h_VomWorkerLifecycleState :: "ctype" where [decls]:
  "worker_worker_state_h_VomWorkerLifecycleState =
     c_enum [(''LIFECYCLE_INITIALIZING'', 0), (''LIFECYCLE_DISCOVERING'', 1), (''LIFECYCLE_CONNECTING'', 2),
            (''LIFECYCLE_PENDING_APPROVAL'', 3), (''LIFECYCLE_OPERATIONAL'', 4), (''LIFECYCLE_DRAINING'', 5),
            (''LIFECYCLE_SHUTTING_DOWN'', 6)]"

definition worker_worker_state_h_VomLocalChunkState :: "ctype" where [decls]:
  "worker_worker_state_h_VomLocalChunkState =
     c_enum [(''CHUNK_EXEC_IDLE'', 0), (''CHUNK_EXEC_RESERVED'', 1), (''CHUNK_EXEC_RUNNING'', 2),
            (''CHUNK_EXEC_SUSPENDED'', 3), (''CHUNK_EXEC_CANCELLING'', 4), (''CHUNK_EXEC_COMPLETED'', 5),
            (''CHUNK_EXEC_FAILED'', 6)]"

definition worker_worker_state_h_vom_local_chunk_record_t :: "ctype" where [decls]:
  "worker_worker_state_h_vom_local_chunk_record_t =
     CStruct [(''chunk_id'', uint64_t), (''lease_id'', uint64_t),
             (''exec_state'', worker_worker_state_h_VomLocalChunkState),
             (''state_transition_timestamp_ms'', uint64_t), (''current_progress'', c_float)]"

subsection \<open>\<^verbatim>\<open>worker/include/worker/heartbeat.h\<close>\<close>

definition worker_heartbeat_h_VomHeartbeatMode :: "ctype" where [decls]:
  "worker_heartbeat_h_VomHeartbeatMode =
     c_enum [(''HEARTBEAT_MODE_NORMAL'', 0), (''HEARTBEAT_MODE_THROTTLED'', 1), (''HEARTBEAT_MODE_CONSERVATIVE'', 2)]"

subsection \<open>\<^verbatim>\<open>worker/include/worker/display_bridge.h\<close>\<close>

definition worker_display_bridge_h_BRIDGE_STRING_MAX :: nat where [decls]: "worker_display_bridge_h_BRIDGE_STRING_MAX = 64"

definition worker_display_bridge_h_VomUiMode :: "ctype" where [decls]:
  "worker_display_bridge_h_VomUiMode =
     c_enum [(''UI_MODE_DISABLED'', 0), (''UI_MODE_LOCAL_STATUS'', 1), (''UI_MODE_MASTER_DIRECTED'', 2),
            (''UI_MODE_INTERACTIVE_SURFACE'', 3)]"

definition worker_display_bridge_h_VomPeripheralEventKind :: "ctype" where [decls]:
  "worker_display_bridge_h_VomPeripheralEventKind =
     c_enum [(''DEVICE_ATTACHED'', 0), (''DEVICE_DETACHED'', 1), (''DEVICE_CONFIGURATION_CHANGED'', 2)]"

definition worker_display_bridge_h_VomInputKind :: "ctype" where [decls]:
  "worker_display_bridge_h_VomInputKind =
     c_enum [(''INPUT_KEY_PRESS'', 0), (''INPUT_POINTER_MOVE'', 1), (''INPUT_TOUCH_DOWN'', 2),
            (''INPUT_TOUCH_UP'', 3)]"

definition worker_display_bridge_h_vom_input_data_t :: "ctype" where [decls]:
  "worker_display_bridge_h_vom_input_data_t =
     CStruct [(''key_code'', uint32_t), (''pointer_x'', uint32_t), (''pointer_y'', uint32_t),
             (''touch_id'', uint32_t), (''event_timestamp_ms'', uint64_t)]"

definition worker_display_bridge_h_vom_ui_input_event_t :: "ctype" where [decls]:
  "worker_display_bridge_h_vom_ui_input_event_t =
     CStruct [(''kind'', worker_display_bridge_h_VomInputKind), (''data'', worker_display_bridge_h_vom_input_data_t)]"

definition worker_display_bridge_h_vom_display_descriptor_t :: "ctype" where [decls]:
  "worker_display_bridge_h_vom_display_descriptor_t =
     CStruct [(''display_index'', uint32_t), (''width_pixels'', uint32_t), (''height_pixels'', uint32_t),
             (''color_depth_bits'', uint32_t), (''is_interactive'', c_bool),
             (''driver_identifier'', CArray worker_display_bridge_h_BRIDGE_STRING_MAX c_char)]"

subsection \<open>\<^verbatim>\<open>worker/include/worker/capabilities.h\<close>\<close>

definition worker_capabilities_h_CAP_STRING_MAX :: nat where [decls]: "worker_capabilities_h_CAP_STRING_MAX = 64"

definition worker_capabilities_h_VomCapArchitecture :: "ctype" where [decls]:
  "worker_capabilities_h_VomCapArchitecture =
     c_enum [(''CAP_ARCH_X86_64'', 0), (''CAP_ARCH_AARCH64'', 1), (''CAP_ARCH_ARMV7'', 2), (''CAP_ARCH_RISCV64'', 3)]"

definition worker_capabilities_h_VomCapAbi :: "ctype" where [decls]:
  "worker_capabilities_h_VomCapAbi =
     c_enum [(''CAP_ABI_SYSV'', 0), (''CAP_ABI_EABI'', 1), (''CAP_ABI_MUSL'', 2), (''CAP_ABI_WIN64'', 3)]"

definition worker_capabilities_h_VomCapRuntime :: "ctype" where [decls]:
  "worker_capabilities_h_VomCapRuntime =
     c_enum [(''CAP_RUN_NATIVE'', 0), (''CAP_RUN_WASM'', 1), (''CAP_RUN_CONTAINER'', 2)]"

definition worker_capabilities_h_VomCapAccelerator :: "ctype" where [decls]:
  "worker_capabilities_h_VomCapAccelerator =
     c_enum [(''CAP_ACCEL_NONE'', 0), (''CAP_ACCEL_CUDA'', 1), (''CAP_ACCEL_OPENCL'', 2), (''CAP_ACCEL_METAL'', 3),
            (''CAP_ACCEL_NPU'', 4)]"

definition worker_capabilities_h_VomCapThermal :: "ctype" where [decls]:
  "worker_capabilities_h_VomCapThermal =
     c_enum [(''CAP_THERMAL_NOMINAL'', 0), (''CAP_THERMAL_THROTTLED'', 1), (''CAP_THERMAL_CRITICAL'', 2)]"

definition worker_capabilities_h_vom_cpu_features_t :: "ctype" where [decls]:
  "worker_capabilities_h_vom_cpu_features_t =
     CStruct [(''instruction_set_extensions_bitmask'', uint32_t), (''has_hardware_virtualization'', c_bool),
             (''has_secure_sandbox_support'', c_bool)]"

definition worker_capabilities_h_vom_peripheral_spec_t :: "ctype" where [decls]:
  "worker_capabilities_h_vom_peripheral_spec_t =
     CStruct [(''resolution_width'', uint32_t), (''resolution_height'', uint32_t), (''refresh_rate_hz'', uint32_t),
             (''touch_input_supported'', c_bool), (''keyboard_attached'', c_bool), (''pointer_attached'', c_bool)]"

definition worker_capabilities_h_vom_worker_static_capabilities_t :: "ctype" where [decls]:
  "worker_capabilities_h_vom_worker_static_capabilities_t =
     CStruct [(''capability_protocol_version'', uint16_t),
             (''architecture'', worker_capabilities_h_VomCapArchitecture),
             (''abi'', worker_capabilities_h_VomCapAbi),
             (''supported_runtimes_bitmask'', worker_capabilities_h_VomCapRuntime),
             (''cpu_extensions'', worker_capabilities_h_vom_cpu_features_t), (''physical_cores_total'', uint32_t),
             (''physical_ram_bytes_total'', uint64_t), (''storage_capacity_bytes_total'', uint64_t),
             (''accelerator_type'', worker_capabilities_h_VomCapAccelerator),
             (''accelerator_memory_bytes_total'', uint64_t), (''display_count'', uint32_t),
             (''primary_display'', worker_capabilities_h_vom_peripheral_spec_t),
             (''hardware_model_fingerprint'', CArray worker_capabilities_h_CAP_STRING_MAX c_char)]"

definition worker_capabilities_h_vom_worker_dynamic_resources_t :: "ctype" where [decls]:
  "worker_capabilities_h_vom_worker_dynamic_resources_t =
     CStruct [(''timestamp_ms'', uint64_t), (''physical_cores_currently_online'', uint32_t),
             (''physical_ram_bytes_currently_free'', uint64_t), (''storage_bytes_currently_free'', uint64_t),
             (''accelerator_memory_bytes_currently_free'', uint64_t),
             (''current_network_link_bandwidth_bps'', uint64_t), (''current_network_latency_us'', uint32_t),
             (''battery_charge_percentage'', c_float), (''is_charging'', c_bool), (''is_docked'', c_bool),
             (''thermal_state'', worker_capabilities_h_VomCapThermal),
             (''active_local_reservations_count'', uint32_t)]"

definition worker_capabilities_h_vom_worker_capabilities_snapshot_t :: "ctype" where [decls]:
  "worker_capabilities_h_vom_worker_capabilities_snapshot_t =
     CStruct [(''static_profile'', worker_capabilities_h_vom_worker_static_capabilities_t),
             (''dynamic_telemetry'', worker_capabilities_h_vom_worker_dynamic_resources_t)]"

subsection \<open>\<^verbatim>\<open>worker/include/worker/discovery.h\<close>\<close>

definition worker_discovery_h_VomDiscoveryStatus :: "ctype" where [decls]:
  "worker_discovery_h_VomDiscoveryStatus =
     c_enum [(''DISCOVERY_STATUS_IDLE'', 0), (''DISCOVERY_STATUS_SEARCHING'', 1), (''DISCOVERY_STATUS_FOUND'', 2),
            (''DISCOVERY_STATUS_FALLBACK'', 3), (''DISCOVERY_STATUS_LOST'', 4)]"

subsection \<open>\<^verbatim>\<open>worker/include/worker/cli.h\<close>\<close>

definition worker_cli_h_CLI_STR_MAX :: nat where [decls]: "worker_cli_h_CLI_STR_MAX = 128"

definition worker_cli_h_vom_worker_args_t :: "ctype" where [decls]:
  "worker_cli_h_vom_worker_args_t =
     CStruct [(''master_endpoint'', CArray worker_cli_h_CLI_STR_MAX c_char),
             (''worker_id'', CArray worker_cli_h_CLI_STR_MAX c_char),
             (''config_path'', CArray worker_cli_h_CLI_STR_MAX c_char), (''heartbeat_interval_ms'', uint32_t),
             (''disable_discovery'', c_bool), (''execute_self_test'', c_bool)]"

subsection \<open>\<^verbatim>\<open>cli/include/cli/commands.h\<close>\<close>

definition cli_commands_h_CLI_MAX_PATH_LEN :: nat where [decls]: "cli_commands_h_CLI_MAX_PATH_LEN = 256"
definition cli_commands_h_CLI_MAX_ARGS_LEN :: nat where [decls]: "cli_commands_h_CLI_MAX_ARGS_LEN = 128"

definition cli_commands_h_CliCommandType :: "ctype" where [decls]:
  "cli_commands_h_CliCommandType =
     c_enum [(''CMD_TYPE_CLUSTER_STATUS'', 0), (''CMD_TYPE_WORKLOAD_SUBMIT'', 1), (''CMD_TYPE_WORKLOAD_INSPECT'', 2),
            (''CMD_TYPE_WORKLOAD_CANCEL'', 3), (''CMD_TYPE_WORKER_DRAIN'', 4), (''CMD_TYPE_WORKER_RESUME'', 5),
            (''CMD_TYPE_WORKER_APPROVE'', 6), (''CMD_TYPE_UI_MODE_SET'', 7), (''CMD_TYPE_UNKNOWN'', 8)]"

definition cli_commands_h_CliOutputFormat :: "ctype" where [decls]:
  "cli_commands_h_CliOutputFormat =
     c_enum [(''CLI_OUTPUT_HUMAN_READABLE'', 0), (''CLI_OUTPUT_JSON_STRUCTURABLE'', 1),
            (''CLI_OUTPUT_PLAIN_SCRIPT_TABLE'', 2)]"

definition cli_commands_h_CliExitCode :: "ctype" where [decls]:
  "cli_commands_h_CliExitCode =
     c_enum [(''CLI_EXIT_SUCCESS'', 0), (''CLI_EXIT_ERR_BAD_SYNTAX'', 1), (''CLI_EXIT_ERR_UNKNOWN_CMD'', 2),
            (''CLI_EXIT_ERR_MISSING_ARG'', 3), (''CLI_EXIT_ERR_INVALID_VAL'', 4),
            (''CLI_EXIT_ERR_NETWORK_FAULT'', 5), (''CLI_EXIT_ERR_INTERNAL'', 6)]"

definition cli_commands_h_CmdSubmitOpts :: "ctype" where [decls]:
  "cli_commands_h_CmdSubmitOpts =
     CStruct [(''workload_path'', CArray cli_commands_h_CLI_MAX_PATH_LEN c_char),
             (''simulated_priority_level'', uint32_t)]"

definition cli_commands_h_CmdTargetIdOpts :: "ctype" where [decls]:
  "cli_commands_h_CmdTargetIdOpts =
     CStruct [(''target_id'', uint64_t)]"

definition cli_commands_h_CmdWorkerOpts :: "ctype" where [decls]:
  "cli_commands_h_CmdWorkerOpts =
     CStruct [(''target_worker_id'', CArray cli_commands_h_CLI_MAX_ARGS_LEN c_char)]"

definition cli_commands_h_CmdUiOpts :: "ctype" where [decls]:
  "cli_commands_h_CmdUiOpts =
     CStruct [(''mode_name'', CArray cli_commands_h_CLI_MAX_ARGS_LEN c_char)]"

definition cli_commands_h_CliParsedCommand :: "ctype" where [decls]:
  "cli_commands_h_CliParsedCommand =
     CStruct [(''type'', cli_commands_h_CliCommandType), (''format_strategy'', cli_commands_h_CliOutputFormat),
             (''options'', CUnion [(''submit'', cli_commands_h_CmdSubmitOpts), (''inspect'', cli_commands_h_CmdTargetIdOpts),
                (''cancel'', cli_commands_h_CmdTargetIdOpts), (''worker_drain'', cli_commands_h_CmdWorkerOpts),
                (''worker_resume'', cli_commands_h_CmdWorkerOpts),
                (''worker_approve'', cli_commands_h_CmdWorkerOpts), (''ui_mode'', cli_commands_h_CmdUiOpts)])]"

subsection \<open>\<^verbatim>\<open>ui/include/ui/model.h\<close>\<close>

definition ui_model_h_UI_FIELD_MAX :: nat where [decls]: "ui_model_h_UI_FIELD_MAX = 64"
definition ui_model_h_UI_POOL_WORKERS :: nat where [decls]: "ui_model_h_UI_POOL_WORKERS = 32"
definition ui_model_h_UI_POOL_WORKLOADS :: nat where [decls]: "ui_model_h_UI_POOL_WORKLOADS = 64"
definition ui_model_h_UI_POOL_CHUNKS :: nat where [decls]: "ui_model_h_UI_POOL_CHUNKS = 128"
definition ui_model_h_UI_POOL_ALERTS :: nat where [decls]: "ui_model_h_UI_POOL_ALERTS = 16"

definition ui_model_h_VomUiDeviceStatus :: "ctype" where [decls]:
  "ui_model_h_VomUiDeviceStatus =
     c_enum [(''UI_DEV_BOOTSTRAP'', 0), (''UI_DEV_OPERATIONAL'', 1), (''UI_DEV_DEGRADED'', 2), (''UI_DEV_PANIC'', 3)]"

definition ui_model_h_VomUiWorkerHealth :: "ctype" where [decls]:
  "ui_model_h_VomUiWorkerHealth =
     c_enum [(''UI_HEALTH_ONLINE'', 0), (''UI_HEALTH_DRAINING'', 1), (''UI_HEALTH_OFFLINE'', 2)]"

definition ui_model_h_VomUiJobState :: "ctype" where [decls]:
  "ui_model_h_VomUiJobState =
     c_enum [(''UI_JOB_PENDING'', 0), (''UI_JOB_RUNNING'', 1), (''UI_JOB_COMPLETED'', 2), (''UI_JOB_FAILED'', 3),
            (''UI_JOB_CANCELLED'', 4)]"

definition ui_model_h_VomUiAlertSeverity :: "ctype" where [decls]:
  "ui_model_h_VomUiAlertSeverity =
     c_enum [(''UI_ALERT_INFO'', 0), (''UI_ALERT_WARNING'', 1), (''UI_ALERT_CRITICAL'', 2)]"

definition ui_model_h_vom_ui_hardware_resource_t :: "ctype" where [decls]:
  "ui_model_h_vom_ui_hardware_resource_t =
     CStruct [(''total_memory_bytes'', uint64_t), (''allocated_memory_bytes'', uint64_t),
             (''total_cpu_cores'', uint32_t), (''allocated_cpu_cores'', uint32_t)]"

definition ui_model_h_vom_ui_worker_summary_t :: "ctype" where [decls]:
  "ui_model_h_vom_ui_worker_summary_t =
     CStruct [(''worker_id'', CArray ui_model_h_UI_FIELD_MAX c_char),
             (''health_status'', ui_model_h_VomUiWorkerHealth),
             (''resources'', ui_model_h_vom_ui_hardware_resource_t), (''last_heartbeat_ms'', uint64_t),
             (''local_display_attached'', c_bool)]"

definition ui_model_h_vom_ui_chunk_progress_t :: "ctype" where [decls]:
  "ui_model_h_vom_ui_chunk_progress_t =
     CStruct [(''chunk_id'', CArray ui_model_h_UI_FIELD_MAX c_char), (''execution_state'', ui_model_h_VomUiJobState),
             (''progress_percentage'', c_float), (''assigned_worker_id'', CArray ui_model_h_UI_FIELD_MAX c_char)]"

definition ui_model_h_vom_ui_workload_progress_t :: "ctype" where [decls]:
  "ui_model_h_vom_ui_workload_progress_t =
     CStruct [(''workload_id'', CArray ui_model_h_UI_FIELD_MAX c_char), (''global_state'', ui_model_h_VomUiJobState),
             (''cumulative_progress'', c_float), (''active_chunks'', uint32_t),
             (''redacted_workload_name'', CArray ui_model_h_UI_FIELD_MAX c_char)]"

definition ui_model_h_vom_ui_actionable_alert_t :: "ctype" where [decls]:
  "ui_model_h_vom_ui_actionable_alert_t =
     CStruct [(''alert_id'', uint32_t), (''severity'', ui_model_h_VomUiAlertSeverity),
             (''actionable_component_id'', CArray ui_model_h_UI_FIELD_MAX c_char),
             (''explanation_token'', CArray ui_model_h_UI_FIELD_MAX c_char), (''raised_timestamp_ms'', uint64_t)]"

definition ui_model_h_vom_ui_immutable_snapshot_t :: "ctype" where [decls]:
  "ui_model_h_vom_ui_immutable_snapshot_t =
     CStruct [(''logical_device_uuid'', CArray ui_model_h_UI_FIELD_MAX c_char), (''snapshot_epoch_ms'', uint64_t),
             (''generation_version'', uint64_t), (''global_status'', ui_model_h_VomUiDeviceStatus),
             (''cluster_aggregate_capacity'', ui_model_h_vom_ui_hardware_resource_t),
             (''workers'', CArray ui_model_h_UI_POOL_WORKERS ui_model_h_vom_ui_worker_summary_t),
             (''worker_count'', uint32_t),
             (''workloads'', CArray ui_model_h_UI_POOL_WORKLOADS ui_model_h_vom_ui_workload_progress_t),
             (''workload_count'', uint32_t),
             (''chunks'', CArray ui_model_h_UI_POOL_CHUNKS ui_model_h_vom_ui_chunk_progress_t),
             (''chunk_count'', uint32_t),
             (''alerts'', CArray ui_model_h_UI_POOL_ALERTS ui_model_h_vom_ui_actionable_alert_t),
             (''alert_count'', uint32_t)]"

end
