(* ===== verification/Source_Declarations.thy ===== *)
theory Source_Declarations
  imports C_Layout
begin

text \<open>
  The structures and enumerations that the source files declare again for themselves, as C types with a storage layout:
  those that have a counterpart in a header or in another source file. The mutex of a structure is a parameter: its
  layout is the platform's. The last section has the constants of the ZeroMQ library that the files repeat.
\<close>

subsection \<open>\<^verbatim>\<open>common/src/log.c\<close>\<close>

definition common_log_c_VomLogLevel :: "ctype" where [decls]:
  "common_log_c_VomLogLevel =
     c_enum [(''VOM_LOG_LEVEL_TRACE'', 0), (''VOM_LOG_LEVEL_DEBUG'', 1), (''VOM_LOG_LEVEL_INFO'', 2),
            (''VOM_LOG_LEVEL_WARN'', 3), (''VOM_LOG_LEVEL_ERROR'', 4), (''VOM_LOG_LEVEL_FATAL'', 5),
            (''VOM_LOG_LEVEL_NONE'', 6)]"

subsection \<open>\<^verbatim>\<open>common/src/sys_info.c\<close>\<close>

definition common_sys_info_c_VomCpuArch :: "ctype" where [decls]:
  "common_sys_info_c_VomCpuArch =
     c_enum [(''VOM_ARCH_X86_64'', 0), (''VOM_ARCH_AARCH64'', 1), (''VOM_ARCH_ARMV7'', 2), (''VOM_ARCH_UNKNOWN'', 3)]"

definition common_sys_info_c_VomLinkType :: "ctype" where [decls]:
  "common_sys_info_c_VomLinkType =
     c_enum [(''VOM_LINK_ETH'', 0), (''VOM_LINK_WIFI'', 1), (''VOM_LINK_CELLULAR'', 2), (''VOM_LINK_UNKNOWN'', 3)]"

definition common_sys_info_c_vom_worker_capabilities :: "ctype" where [decls]:
  "common_sys_info_c_vom_worker_capabilities =
     CStruct [(''arch'', common_sys_info_c_VomCpuArch), (''cores_online'', uint32_t), (''cores_total'', uint32_t),
             (''feature_bitmap'', uint32_t), (''ram_total_mb'', uint64_t), (''ram_free_mb'', uint64_t),
             (''battery_percent'', int32_t), (''is_charging'', c_bool), (''is_ac_online'', c_bool),
             (''display_attached'', c_bool), (''display_width'', uint32_t), (''display_height'', uint32_t),
             (''touch_supported'', c_bool), (''network_link_type'', common_sys_info_c_VomLinkType),
             (''network_bandwidth_kbps'', uint64_t)]"

subsection \<open>\<^verbatim>\<open>common/src/config.c\<close>\<close>

definition common_config_c_CONFIG_STR_MAX :: nat where [decls]: "common_config_c_CONFIG_STR_MAX = 128"

definition common_config_c_vom_config_t :: "ctype" where [decls]:
  "common_config_c_vom_config_t =
     CStruct [(''cluster_name'', CArray common_config_c_CONFIG_STR_MAX c_char),
             (''master_endpoint'', CArray common_config_c_CONFIG_STR_MAX c_char),
             (''worker_id'', CArray common_config_c_CONFIG_STR_MAX c_char), (''heartbeat_interval_sec'', uint32_t),
             (''advertised_capabilities'', CArray common_config_c_CONFIG_STR_MAX c_char),
             (''log_level'', CArray common_config_c_CONFIG_STR_MAX c_char)]"

subsection \<open>\<^verbatim>\<open>master/src/cluster_state.c\<close>\<close>

definition master_cluster_state_c_UUID_STR_MAX :: nat where [decls]: "master_cluster_state_c_UUID_STR_MAX = 64"
definition master_cluster_state_c_CLUSTER_MAX_WORKERS :: nat where [decls]: "master_cluster_state_c_CLUSTER_MAX_WORKERS = 32"
definition master_cluster_state_c_CLUSTER_MAX_ACTIVE_LEASES :: nat where [decls]: "master_cluster_state_c_CLUSTER_MAX_ACTIVE_LEASES = 128"
definition master_cluster_state_c_SNAPSHOT_RING_SIZE :: nat where [decls]: "master_cluster_state_c_SNAPSHOT_RING_SIZE = 4"

definition master_cluster_state_c_WorkerHealth :: "ctype" where [decls]:
  "master_cluster_state_c_WorkerHealth =
     c_enum [(''WORKER_HEALTH_ONLINE'', 0), (''WORKER_HEALTH_DRAINING'', 1), (''WORKER_HEALTH_OFFLINE'', 2)]"

definition master_cluster_state_c_ClusterStatus :: "ctype" where [decls]:
  "master_cluster_state_c_ClusterStatus =
     c_enum [(''CLUSTER_STATUS_BOOSTRAP'', 0), (''CLUSTER_STATUS_OPERATIONAL'', 1), (''CLUSTER_STATUS_DEGRADED'', 2)]"

definition master_cluster_state_c_LeaseStatus :: "ctype" where [decls]:
  "master_cluster_state_c_LeaseStatus =
     c_enum [(''LEASE_STATUS_RUNNING'', 0), (''LEASE_STATUS_COMPLETED'', 1), (''LEASE_STATUS_FAILED'', 2),
            (''LEASE_STATUS_TIMED_OUT'', 3)]"

definition master_cluster_state_c_WorkerResources :: "ctype" where [decls]:
  "master_cluster_state_c_WorkerResources =
     CStruct [(''total_memory_bytes'', uint64_t), (''reserved_memory_bytes'', uint64_t), (''total_cores'', uint32_t),
             (''reserved_cores'', uint32_t)]"

definition master_cluster_state_c_WorkerMember :: "ctype" where [decls]:
  "master_cluster_state_c_WorkerMember =
     CStruct [(''worker_id'', uint32_t), (''health'', master_cluster_state_c_WorkerHealth),
             (''last_seen_timestamp_ms'', uint64_t), (''resources'', master_cluster_state_c_WorkerResources)]"

definition master_cluster_state_c_ChunkLease :: "ctype" where [decls]:
  "master_cluster_state_c_ChunkLease =
     CStruct [(''chunk_id'', uint64_t), (''status'', master_cluster_state_c_LeaseStatus),
             (''progress_percentage'', c_float), (''failure_retry_count'', uint32_t)]"

definition master_cluster_state_c_ClusterMetrics :: "ctype" where [decls]:
  "master_cluster_state_c_ClusterMetrics =
     CStruct [(''cluster_aggregate_memory_bytes'', uint64_t), (''cluster_allocated_memory_bytes'', uint64_t),
             (''cluster_aggregate_cores'', uint32_t), (''cluster_allocated_cores'', uint32_t),
             (''active_worker_count'', uint32_t)]"

definition master_cluster_state_c_ClusterStateSnapshot :: "ctype" where [decls]:
  "master_cluster_state_c_ClusterStateSnapshot =
     CStruct [(''cluster_uuid'', CArray master_cluster_state_c_UUID_STR_MAX c_char), (''master_epoch'', uint64_t),
             (''state_generation_version'', uint64_t), (''global_status'', master_cluster_state_c_ClusterStatus),
             (''active_workers'', CArray master_cluster_state_c_CLUSTER_MAX_WORKERS master_cluster_state_c_WorkerMember),
             (''total_registered_workers'', c_int),
             (''active_leases'', CArray master_cluster_state_c_CLUSTER_MAX_ACTIVE_LEASES master_cluster_state_c_ChunkLease),
             (''total_active_leases'', c_int), (''metrics'', master_cluster_state_c_ClusterMetrics)]"

definition master_cluster_state_c_ClusterStateContext :: "ctype \<Rightarrow> ctype" where [decls]:
  "master_cluster_state_c_ClusterStateContext mutex =
     CStruct [(''context_mutex'', mutex), (''master_state'', master_cluster_state_c_ClusterStateSnapshot),
             (''snapshot_pool'', CArray master_cluster_state_c_SNAPSHOT_RING_SIZE master_cluster_state_c_ClusterStateSnapshot),
             (''pool_tail_idx'', uint32_t),
             (''snapshot_ref_counts'', CArray master_cluster_state_c_SNAPSHOT_RING_SIZE uint32_t)]"

subsection \<open>\<^verbatim>\<open>master/src/main.c\<close>\<close>

definition master_main_c_UUID_STR_MAX :: nat where [decls]: "master_main_c_UUID_STR_MAX = 64"
definition master_main_c_CLUSTER_MAX_WORKERS :: nat where [decls]: "master_main_c_CLUSTER_MAX_WORKERS = 32"
definition master_main_c_CLUSTER_MAX_ACTIVE_LEASES :: nat where [decls]: "master_main_c_CLUSTER_MAX_ACTIVE_LEASES = 128"
definition master_main_c_SNAPSHOT_RING_SIZE :: nat where [decls]: "master_main_c_SNAPSHOT_RING_SIZE = 4"
definition master_main_c_LOG_STR_MAX :: nat where [decls]: "master_main_c_LOG_STR_MAX = 128"

definition master_main_c_VomLogLevel :: "ctype" where [decls]:
  "master_main_c_VomLogLevel =
     c_enum [(''VOM_LOG_LEVEL_TRACE'', 0), (''VOM_LOG_LEVEL_DEBUG'', 1), (''VOM_LOG_LEVEL_INFO'', 2),
            (''VOM_LOG_LEVEL_WARN'', 3), (''VOM_LOG_LEVEL_ERROR'', 4), (''VOM_LOG_LEVEL_FATAL'', 5),
            (''VOM_LOG_LEVEL_NONE'', 6)]"

definition master_main_c_WorkerHealth :: "ctype" where [decls]:
  "master_main_c_WorkerHealth =
     c_enum [(''WORKER_HEALTH_ONLINE'', 0), (''WORKER_HEALTH_DRAINING'', 1), (''WORKER_HEALTH_OFFLINE'', 2)]"

definition master_main_c_ClusterStatus :: "ctype" where [decls]:
  "master_main_c_ClusterStatus =
     c_enum [(''CLUSTER_STATUS_BOOSTRAP'', 0), (''CLUSTER_STATUS_OPERATIONAL'', 1), (''CLUSTER_STATUS_DEGRADED'', 2)]"

definition master_main_c_LeaseStatus :: "ctype" where [decls]:
  "master_main_c_LeaseStatus =
     c_enum [(''LEASE_STATUS_RUNNING'', 0), (''LEASE_STATUS_COMPLETED'', 1), (''LEASE_STATUS_FAILED'', 2),
            (''LEASE_STATUS_TIMED_OUT'', 3)]"

definition master_main_c_WorkerResources :: "ctype" where [decls]:
  "master_main_c_WorkerResources =
     CStruct [(''total_memory_bytes'', uint64_t), (''reserved_memory_bytes'', uint64_t), (''total_cores'', uint32_t),
             (''reserved_cores'', uint32_t)]"

definition master_main_c_WorkerMember :: "ctype" where [decls]:
  "master_main_c_WorkerMember =
     CStruct [(''worker_id'', uint32_t), (''health'', master_main_c_WorkerHealth),
             (''last_seen_timestamp_ms'', uint64_t), (''resources'', master_main_c_WorkerResources)]"

definition master_main_c_ChunkLease :: "ctype" where [decls]:
  "master_main_c_ChunkLease =
     CStruct [(''chunk_id'', uint64_t), (''status'', master_main_c_LeaseStatus), (''progress_percentage'', c_float),
             (''failure_retry_count'', uint32_t)]"

definition master_main_c_ClusterMetrics :: "ctype" where [decls]:
  "master_main_c_ClusterMetrics =
     CStruct [(''cluster_aggregate_memory_bytes'', uint64_t), (''cluster_allocated_memory_bytes'', uint64_t),
             (''cluster_aggregate_cores'', uint32_t), (''cluster_allocated_cores'', uint32_t),
             (''active_worker_count'', uint32_t)]"

definition master_main_c_ClusterStateSnapshot :: "ctype" where [decls]:
  "master_main_c_ClusterStateSnapshot =
     CStruct [(''cluster_uuid'', CArray master_main_c_UUID_STR_MAX c_char), (''master_epoch'', uint64_t),
             (''state_generation_version'', uint64_t), (''global_status'', master_main_c_ClusterStatus),
             (''active_workers'', CArray master_main_c_CLUSTER_MAX_WORKERS master_main_c_WorkerMember),
             (''total_registered_workers'', c_int),
             (''active_leases'', CArray master_main_c_CLUSTER_MAX_ACTIVE_LEASES master_main_c_ChunkLease),
             (''total_active_leases'', c_int), (''metrics'', master_main_c_ClusterMetrics)]"

definition master_main_c_ClusterStateContext :: "ctype \<Rightarrow> ctype" where [decls]:
  "master_main_c_ClusterStateContext mutex =
     CStruct [(''context_mutex'', mutex), (''master_state'', master_main_c_ClusterStateSnapshot),
             (''snapshot_pool'', CArray master_main_c_SNAPSHOT_RING_SIZE master_main_c_ClusterStateSnapshot),
             (''pool_tail_idx'', uint32_t),
             (''snapshot_ref_counts'', CArray master_main_c_SNAPSHOT_RING_SIZE uint32_t)]"

definition master_main_c_vom_master_args_t :: "ctype" where [decls]:
  "master_main_c_vom_master_args_t =
     CStruct [(''log_level'', CArray master_main_c_LOG_STR_MAX c_char), (''daemonize'', c_bool)]"

definition master_main_c_VomRouterMsgCode :: "ctype" where [decls]:
  "master_main_c_VomRouterMsgCode =
     c_enum [(''ROUTER_MSG_AUTH_REQ'', 1), (''ROUTER_MSG_AUTH_RESP'', 2), (''ROUTER_MSG_JOIN_REQ'', 3),
            (''ROUTER_MSG_JOIN_RESP'', 4), (''ROUTER_MSG_HEARTBEAT'', 5), (''ROUTER_MSG_CHUNK_ASSIGN'', 6),
            (''ROUTER_MSG_CHUNK_ACK'', 7), (''ROUTER_MSG_CHUNK_REPORT'', 8)]"

definition master_main_c_vom_router_envelope_t :: "ctype" where [decls]:
  "master_main_c_vom_router_envelope_t =
     CStruct [(''protocol_version'', uint16_t), (''message_code'', uint16_t), (''payload_length'', uint32_t),
             (''sequence_id'', uint64_t), (''timestamp_ms'', uint64_t)]"

subsection \<open>\<^verbatim>\<open>master/src/scheduler.c\<close>\<close>

definition master_scheduler_c_vom_worker_view :: "ctype" where [decls]:
  "master_scheduler_c_vom_worker_view =
     CStruct [(''worker_id'', CArray 64 c_char), (''platform'', c_int), (''runtime'', c_int),
             (''cpu_units'', uint8_t), (''reserv_cpu'', uint8_t), (''free_memory_mb'', uint64_t),
             (''reserv_mem_mb'', uint64_t), (''battery_pct'', c_float), (''active_chunks'', c_int),
             (''has_touch_input'', c_int), (''draining'', c_int), (''healthy'', c_int),
             (''reliability_score'', c_double)]"

definition master_scheduler_c_vom_chunk_plan :: "ctype" where [decls]:
  "master_scheduler_c_vom_chunk_plan =
     CStruct [(''chunk_id'', uint64_t), (''workload_id'', uint64_t), (''required_platform'', c_int),
             (''required_runtime'', c_int), (''required_cpu'', uint8_t), (''required_memory_mb'', uint64_t),
             (''requires_touch'', c_int), (''is_blocked'', c_bool), (''preferred_node'', uint32_t)]"

definition master_scheduler_c_vom_assignment_lease :: "ctype" where [decls]:
  "master_scheduler_c_vom_assignment_lease =
     CStruct [(''chunk_id'', uint64_t), (''assigned_worker_id'', CArray 64 c_char), (''lease_expires_ms'', uint64_t),
             (''is_active'', c_bool)]"

subsection \<open>\<^verbatim>\<open>master/src/router.c\<close>\<close>

definition master_router_c_VomRouterEvent :: "ctype" where [decls]:
  "master_router_c_VomRouterEvent =
     c_enum [(''ROUTER_EVENT_WORKER_JOINED'', 0), (''ROUTER_EVENT_WORKER_HEARTBEAT'', 1),
            (''ROUTER_EVENT_CHUNK_PROGRESS'', 2), (''ROUTER_EVENT_CHUNK_RESULT'', 3),
            (''ROUTER_EVENT_WORKER_FAILURE'', 4), (''ROUTER_EVENT_CLI_CONTROL_REQ'', 5),
            (''ROUTER_EVENT_TRANSPORT_FAULT'', 6)]"

definition master_router_c_VomRouterMsgCode :: "ctype" where [decls]:
  "master_router_c_VomRouterMsgCode =
     c_enum [(''ROUTER_MSG_AUTH_REQ'', 1), (''ROUTER_MSG_AUTH_RESP'', 2), (''ROUTER_MSG_JOIN_REQ'', 3),
            (''ROUTER_MSG_JOIN_RESP'', 4), (''ROUTER_MSG_HEARTBEAT'', 5), (''ROUTER_MSG_CHUNK_ASSIGN'', 6),
            (''ROUTER_MSG_CHUNK_ACK'', 7), (''ROUTER_MSG_CHUNK_REPORT'', 8)]"

definition master_router_c_VomRouterStatus :: "ctype" where [decls]:
  "master_router_c_VomRouterStatus =
     c_enum [(''ROUTER_STATUS_SUCCESS'', 0), (''ROUTER_STATUS_ERR_VERSION'', 1), (''ROUTER_STATUS_ERR_SIZE'', 2),
            (''ROUTER_STATUS_ERR_SOCKET'', 3), (''ROUTER_STATUS_ERR_TIMEOUT'', 4)]"

definition master_router_c_vom_router_envelope_t :: "ctype" where [decls]:
  "master_router_c_vom_router_envelope_t =
     CStruct [(''protocol_version'', uint16_t), (''message_code'', uint16_t), (''payload_length'', uint32_t),
             (''sequence_id'', uint64_t), (''timestamp_ms'', uint64_t)]"

subsection \<open>\<^verbatim>\<open>master/src/registry.c\<close>\<close>

definition master_registry_c_VomCpuArch :: "ctype" where [decls]:
  "master_registry_c_VomCpuArch =
     c_enum [(''VOM_ARCH_X86_64'', 0), (''VOM_ARCH_AARCH64'', 1), (''VOM_ARCH_ARMV7'', 2), (''VOM_ARCH_UNKNOWN'', 3)]"

definition master_registry_c_VomLinkType :: "ctype" where [decls]:
  "master_registry_c_VomLinkType =
     c_enum [(''VOM_LINK_ETH'', 0), (''VOM_LINK_WIFI'', 1), (''VOM_LINK_CELLULAR'', 2), (''VOM_LINK_UNKNOWN'', 3)]"

definition master_registry_c_vom_worker_capabilities :: "ctype" where [decls]:
  "master_registry_c_vom_worker_capabilities =
     CStruct [(''arch'', master_registry_c_VomCpuArch), (''cores_online'', uint32_t), (''cores_total'', uint32_t),
             (''feature_bitmap'', uint32_t), (''ram_total_mb'', uint64_t), (''ram_free_mb'', uint64_t),
             (''battery_percent'', int32_t), (''is_charging'', c_bool), (''is_ac_online'', c_bool),
             (''display_attached'', c_bool), (''display_width'', uint32_t), (''display_height'', uint32_t),
             (''touch_supported'', c_bool), (''network_link_type'', master_registry_c_VomLinkType),
             (''network_bandwidth_kbps'', uint64_t)]"

subsection \<open>\<^verbatim>\<open>master/src/recovery.c\<close>\<close>

definition master_recovery_c_VomErrorCategory :: "ctype" where [decls]:
  "master_recovery_c_VomErrorCategory =
     c_enum [(''VOM_CAT_SUCCESS'', 0), (''VOM_CAT_TRANSPORT'', 1), (''VOM_CAT_WORKER_EXECUTION'', 2),
            (''VOM_CAT_TIMEOUT'', 3)]"

definition master_recovery_c_VomRetryAction :: "ctype" where [decls]:
  "master_recovery_c_VomRetryAction =
     c_enum [(''VOM_RETRY_NONE'', 0), (''VOM_RETRY_IMMEDIATE'', 1), (''VOM_RETRY_BACKOFF'', 2),
            (''VOM_RETRY_REPLAN'', 3)]"

subsection \<open>\<^verbatim>\<open>master/src/ui_coordinator.c\<close>\<close>

definition master_ui_coordinator_c_UI_STR_MAX :: nat where [decls]: "master_ui_coordinator_c_UI_STR_MAX = 64"

definition master_ui_coordinator_c_vom_ui_user_intent_t :: "ctype" where [decls]:
  "master_ui_coordinator_c_vom_ui_user_intent_t =
     CStruct [(''command_type'', uint32_t), (''target_id'', uint64_t),
             (''text_arg'', CArray master_ui_coordinator_c_UI_STR_MAX c_char)]"

subsection \<open>\<^verbatim>\<open>master/src/cli.c\<close>\<close>

definition master_cli_c_vom_master_args_t :: "ctype" where [decls]:
  "master_cli_c_vom_master_args_t =
     CStruct [(''help'', c_bool), (''version'', c_bool), (''config_file'', c_pointer), (''log_level'', c_pointer),
             (''bind_endpoint'', c_pointer), (''daemonize'', c_bool), (''print_uuid'', c_bool),
             (''simulate_workers_count'', c_int)]"

subsection \<open>\<^verbatim>\<open>worker/src/main.c\<close>\<close>

definition worker_main_c_VomRouterMsgCode :: "ctype" where [decls]:
  "worker_main_c_VomRouterMsgCode =
     c_enum [(''ROUTER_MSG_AUTH_REQ'', 1), (''ROUTER_MSG_AUTH_RESP'', 2), (''ROUTER_MSG_JOIN_REQ'', 3),
            (''ROUTER_MSG_JOIN_RESP'', 4), (''ROUTER_MSG_HEARTBEAT'', 5), (''ROUTER_MSG_CHUNK_ASSIGN'', 6),
            (''ROUTER_MSG_CHUNK_ACK'', 7), (''ROUTER_MSG_CHUNK_REPORT'', 8)]"

definition worker_main_c_vom_router_envelope_t :: "ctype" where [decls]:
  "worker_main_c_vom_router_envelope_t =
     CStruct [(''protocol_version'', uint16_t), (''message_code'', uint16_t), (''payload_length'', uint32_t),
             (''sequence_id'', uint64_t), (''timestamp_ms'', uint64_t)]"

subsection \<open>\<^verbatim>\<open>worker/src/transport.c\<close>\<close>

definition worker_transport_c_TRANSPORT_ID_MAX_LEN :: nat where [decls]: "worker_transport_c_TRANSPORT_ID_MAX_LEN = 64"
definition worker_transport_c_TRANSPORT_KEY_MAX_LEN :: nat where [decls]: "worker_transport_c_TRANSPORT_KEY_MAX_LEN = 40"

definition worker_transport_c_VomTransportEvent :: "ctype" where [decls]:
  "worker_transport_c_VomTransportEvent =
     c_enum [(''TRANS_EVENT_CONNECTED'', 0), (''TRANS_EVENT_AUTHENTICATED'', 1), (''TRANS_EVENT_JOINED'', 2),
            (''TRANS_EVENT_HEARTBEAT_SENT'', 3), (''TRANS_EVENT_HEARTBEAT_ACKED'', 4),
            (''TRANS_EVENT_DISCONNECTED'', 5), (''TRANS_EVENT_RECONNECTING'', 6), (''TRANS_EVENT_ERROR'', 7)]"

definition worker_transport_c_VomMsgCode :: "ctype" where [decls]:
  "worker_transport_c_VomMsgCode =
     c_enum [(''MSG_CODE_AUTH_REQ'', 1), (''MSG_CODE_AUTH_RESP'', 2), (''MSG_CODE_JOIN_REQ'', 3),
            (''MSG_CODE_JOIN_RESP'', 4), (''MSG_CODE_HEARTBEAT'', 5), (''MSG_CODE_CHUNK_ASSIGN'', 6),
            (''MSG_CODE_CHUNK_ACK'', 7), (''MSG_CODE_CHUNK_REPORT'', 8)]"

definition worker_transport_c_VomTransportStatus :: "ctype" where [decls]:
  "worker_transport_c_VomTransportStatus =
     c_enum [(''TRANS_STATUS_SUCCESS'', 0), (''TRANS_STATUS_ERR_VERSION'', 1), (''TRANS_STATUS_ERR_AUTH'', 2),
            (''TRANS_STATUS_ERR_SIZE'', 3), (''TRANS_STATUS_ERR_TIMEOUT'', 4), (''TRANS_STATUS_ERR_DISCONNECT'', 5)]"

definition worker_transport_c_vom_transport_envelope_t :: "ctype" where [decls]:
  "worker_transport_c_vom_transport_envelope_t =
     CStruct [(''protocol_version'', uint16_t), (''message_code'', uint16_t), (''payload_length'', uint32_t),
             (''sequence_id'', uint64_t), (''timestamp_ms'', uint64_t)]"

definition worker_transport_c_vom_transport_config_t :: "ctype" where [decls]:
  "worker_transport_c_vom_transport_config_t =
     CStruct [(''worker_id'', CArray worker_transport_c_TRANSPORT_ID_MAX_LEN c_char),
             (''server_public_key'', CArray worker_transport_c_TRANSPORT_KEY_MAX_LEN c_char),
             (''client_public_key'', CArray worker_transport_c_TRANSPORT_KEY_MAX_LEN c_char),
             (''client_secret_key'', CArray worker_transport_c_TRANSPORT_KEY_MAX_LEN c_char)]"

subsection \<open>\<^verbatim>\<open>worker/src/executor.c\<close>\<close>

definition worker_executor_c_VomCpuArch :: "ctype" where [decls]:
  "worker_executor_c_VomCpuArch =
     c_enum [(''VOM_ARCH_X86_64'', 0), (''VOM_ARCH_AARCH64'', 1), (''VOM_ARCH_ARMV7'', 2), (''VOM_ARCH_UNKNOWN'', 3)]"

definition worker_executor_c_VomLinkType :: "ctype" where [decls]:
  "worker_executor_c_VomLinkType =
     c_enum [(''VOM_LINK_ETH'', 0), (''VOM_LINK_WIFI'', 1), (''VOM_LINK_CELLULAR'', 2), (''VOM_LINK_UNKNOWN'', 3)]"

definition worker_executor_c_vom_worker_capabilities :: "ctype" where [decls]:
  "worker_executor_c_vom_worker_capabilities =
     CStruct [(''arch'', worker_executor_c_VomCpuArch), (''cores_online'', uint32_t), (''cores_total'', uint32_t),
             (''feature_bitmap'', uint32_t), (''ram_total_mb'', uint64_t), (''ram_free_mb'', uint64_t),
             (''battery_percent'', int32_t), (''is_charging'', c_bool), (''is_ac_online'', c_bool),
             (''display_attached'', c_bool), (''display_width'', uint32_t), (''display_height'', uint32_t),
             (''touch_supported'', c_bool), (''network_link_type'', worker_executor_c_VomLinkType),
             (''network_bandwidth_kbps'', uint64_t)]"

subsection \<open>\<^verbatim>\<open>worker/src/cli.c\<close>\<close>

definition worker_cli_c_CLI_STR_MAX :: nat where [decls]: "worker_cli_c_CLI_STR_MAX = 128"

definition worker_cli_c_vom_worker_args_t :: "ctype" where [decls]:
  "worker_cli_c_vom_worker_args_t =
     CStruct [(''master_endpoint'', CArray worker_cli_c_CLI_STR_MAX c_char),
             (''worker_id'', CArray worker_cli_c_CLI_STR_MAX c_char),
             (''config_path'', CArray worker_cli_c_CLI_STR_MAX c_char), (''heartbeat_interval_ms'', uint32_t),
             (''disable_discovery'', c_bool), (''execute_self_test'', c_bool)]"

subsection \<open>\<^verbatim>\<open>worker/src/discovery.c\<close>\<close>

definition worker_discovery_c_VomDiscoveryStatus :: "ctype" where [decls]:
  "worker_discovery_c_VomDiscoveryStatus =
     c_enum [(''DISCOVERY_STATUS_IDLE'', 0), (''DISCOVERY_STATUS_SEARCHING'', 1), (''DISCOVERY_STATUS_FOUND'', 2),
            (''DISCOVERY_STATUS_FALLBACK'', 3), (''DISCOVERY_STATUS_LOST'', 4)]"

subsection \<open>\<^verbatim>\<open>worker/src/display_bridge.c\<close>\<close>

definition worker_display_bridge_c_BRIDGE_STRING_MAX :: nat where [decls]: "worker_display_bridge_c_BRIDGE_STRING_MAX = 64"

definition worker_display_bridge_c_VomUiMode :: "ctype" where [decls]:
  "worker_display_bridge_c_VomUiMode =
     c_enum [(''UI_MODE_DISABLED'', 0), (''UI_MODE_LOCAL_STATUS'', 1), (''UI_MODE_MASTER_DIRECTED'', 2),
            (''UI_MODE_INTERACTIVE_SURFACE'', 3)]"

definition worker_display_bridge_c_VomPeripheralEventKind :: "ctype" where [decls]:
  "worker_display_bridge_c_VomPeripheralEventKind =
     c_enum [(''DEVICE_ATTACHED'', 0), (''DEVICE_DETACHED'', 1), (''DEVICE_CONFIGURATION_CHANGED'', 2)]"

definition worker_display_bridge_c_VomInputKind :: "ctype" where [decls]:
  "worker_display_bridge_c_VomInputKind =
     c_enum [(''INPUT_KEY_PRESS'', 0), (''INPUT_POINTER_MOVE'', 1), (''INPUT_TOUCH_DOWN'', 2),
            (''INPUT_TOUCH_UP'', 3)]"

definition worker_display_bridge_c_vom_input_data_t :: "ctype" where [decls]:
  "worker_display_bridge_c_vom_input_data_t =
     CStruct [(''key_code'', uint32_t), (''pointer_x'', uint32_t), (''pointer_y'', uint32_t),
             (''touch_id'', uint32_t), (''event_timestamp_ms'', uint64_t)]"

definition worker_display_bridge_c_vom_ui_input_event_t :: "ctype" where [decls]:
  "worker_display_bridge_c_vom_ui_input_event_t =
     CStruct [(''kind'', worker_display_bridge_c_VomInputKind), (''data'', worker_display_bridge_c_vom_input_data_t)]"

definition worker_display_bridge_c_vom_display_descriptor_t :: "ctype" where [decls]:
  "worker_display_bridge_c_vom_display_descriptor_t =
     CStruct [(''display_index'', uint32_t), (''width_pixels'', uint32_t), (''height_pixels'', uint32_t),
             (''color_depth_bits'', uint32_t), (''is_interactive'', c_bool),
             (''driver_identifier'', CArray worker_display_bridge_c_BRIDGE_STRING_MAX c_char)]"

subsection \<open>\<^verbatim>\<open>worker/src/capabilities.c\<close>\<close>

definition worker_capabilities_c_CAP_STRING_MAX :: nat where [decls]: "worker_capabilities_c_CAP_STRING_MAX = 64"

definition worker_capabilities_c_VomCapArchitecture :: "ctype" where [decls]:
  "worker_capabilities_c_VomCapArchitecture =
     c_enum [(''CAP_ARCH_X86_64'', 0), (''CAP_ARCH_AARCH64'', 1), (''CAP_ARCH_ARMV7'', 2), (''CAP_ARCH_RISCV64'', 3)]"

definition worker_capabilities_c_VomCapAbi :: "ctype" where [decls]:
  "worker_capabilities_c_VomCapAbi =
     c_enum [(''CAP_ABI_SYSV'', 0), (''CAP_ABI_EABI'', 1), (''CAP_ABI_MUSL'', 2), (''CAP_ABI_WIN64'', 3)]"

definition worker_capabilities_c_VomCapRuntime :: "ctype" where [decls]:
  "worker_capabilities_c_VomCapRuntime =
     c_enum [(''CAP_RUN_NATIVE'', 1), (''CAP_RUN_WASM'', 2), (''CAP_RUN_CONTAINER'', 4)]"

definition worker_capabilities_c_VomCapAccelerator :: "ctype" where [decls]:
  "worker_capabilities_c_VomCapAccelerator =
     c_enum [(''CAP_ACCEL_NONE'', 0), (''CAP_ACCEL_CUDA'', 1), (''CAP_ACCEL_OPENCL'', 2), (''CAP_ACCEL_METAL'', 3),
            (''CAP_ACCEL_NPU'', 4)]"

definition worker_capabilities_c_VomCapThermal :: "ctype" where [decls]:
  "worker_capabilities_c_VomCapThermal =
     c_enum [(''CAP_THERMAL_NOMINAL'', 0), (''CAP_THERMAL_THROTTLED'', 1), (''CAP_THERMAL_CRITICAL'', 2)]"

definition worker_capabilities_c_vom_cpu_features_t :: "ctype" where [decls]:
  "worker_capabilities_c_vom_cpu_features_t =
     CStruct [(''instruction_set_extensions_bitmask'', uint32_t), (''has_hardware_virtualization'', c_bool),
             (''has_secure_sandbox_support'', c_bool)]"

definition worker_capabilities_c_vom_peripheral_spec_t :: "ctype" where [decls]:
  "worker_capabilities_c_vom_peripheral_spec_t =
     CStruct [(''resolution_width'', uint32_t), (''resolution_height'', uint32_t), (''refresh_rate_hz'', uint32_t),
             (''touch_input_supported'', c_bool), (''keyboard_attached'', c_bool), (''pointer_attached'', c_bool)]"

definition worker_capabilities_c_vom_worker_static_capabilities_t :: "ctype" where [decls]:
  "worker_capabilities_c_vom_worker_static_capabilities_t =
     CStruct [(''capability_protocol_version'', uint16_t),
             (''architecture'', worker_capabilities_c_VomCapArchitecture),
             (''abi'', worker_capabilities_c_VomCapAbi), (''supported_runtimes_bitmask'', uint32_t),
             (''cpu_extensions'', worker_capabilities_c_vom_cpu_features_t), (''physical_cores_total'', uint32_t),
             (''physical_ram_bytes_total'', uint64_t), (''storage_capacity_bytes_total'', uint64_t),
             (''accelerator_type'', worker_capabilities_c_VomCapAccelerator),
             (''accelerator_memory_bytes_total'', uint64_t), (''display_count'', uint32_t),
             (''primary_display'', worker_capabilities_c_vom_peripheral_spec_t),
             (''hardware_model_fingerprint'', CArray worker_capabilities_c_CAP_STRING_MAX c_char)]"

definition worker_capabilities_c_vom_worker_dynamic_resources_t :: "ctype" where [decls]:
  "worker_capabilities_c_vom_worker_dynamic_resources_t =
     CStruct [(''timestamp_ms'', uint64_t), (''physical_cores_currently_online'', uint32_t),
             (''physical_ram_bytes_currently_free'', uint64_t), (''storage_bytes_currently_free'', uint64_t),
             (''accelerator_memory_bytes_currently_free'', uint64_t),
             (''current_network_link_bandwidth_bps'', uint64_t), (''current_network_latency_us'', uint32_t),
             (''battery_charge_percentage'', c_float), (''is_charging'', c_bool), (''is_docked'', c_bool),
             (''thermal_state'', worker_capabilities_c_VomCapThermal),
             (''active_local_reservations_count'', uint32_t)]"

subsection \<open>\<^verbatim>\<open>agent/src/heartbeat.c\<close>\<close>

definition agent_heartbeat_c_VomCpuArch :: "ctype" where [decls]:
  "agent_heartbeat_c_VomCpuArch =
     c_enum [(''VOM_ARCH_X86_64'', 0), (''VOM_ARCH_AARCH64'', 1), (''VOM_ARCH_ARMV7'', 2), (''VOM_ARCH_UNKNOWN'', 3)]"

definition agent_heartbeat_c_VomLinkType :: "ctype" where [decls]:
  "agent_heartbeat_c_VomLinkType =
     c_enum [(''VOM_LINK_ETH'', 0), (''VOM_LINK_WIFI'', 1), (''VOM_LINK_CELLULAR'', 2), (''VOM_LINK_UNKNOWN'', 3)]"

definition agent_heartbeat_c_vom_worker_capabilities :: "ctype" where [decls]:
  "agent_heartbeat_c_vom_worker_capabilities =
     CStruct [(''arch'', agent_heartbeat_c_VomCpuArch), (''cores_online'', uint32_t), (''cores_total'', uint32_t),
             (''feature_bitmap'', uint32_t), (''ram_total_mb'', uint64_t), (''ram_free_mb'', uint64_t),
             (''battery_percent'', int32_t), (''is_charging'', c_bool), (''is_ac_online'', c_bool),
             (''display_attached'', c_bool), (''display_width'', uint32_t), (''display_height'', uint32_t),
             (''touch_supported'', c_bool), (''network_link_type'', agent_heartbeat_c_VomLinkType),
             (''network_bandwidth_kbps'', uint64_t)]"

subsection \<open>\<^verbatim>\<open>agent/src/capabilities.c\<close>\<close>

definition agent_capabilities_c_VomCpuArch :: "ctype" where [decls]:
  "agent_capabilities_c_VomCpuArch =
     c_enum [(''VOM_ARCH_X86_64'', 0), (''VOM_ARCH_AARCH64'', 1), (''VOM_ARCH_ARMV7'', 2), (''VOM_ARCH_UNKNOWN'', 3)]"

definition agent_capabilities_c_VomLinkType :: "ctype" where [decls]:
  "agent_capabilities_c_VomLinkType =
     c_enum [(''VOM_LINK_ETH'', 0), (''VOM_LINK_WIFI'', 1), (''VOM_LINK_CELLULAR'', 2), (''VOM_LINK_UNKNOWN'', 3)]"

definition agent_capabilities_c_vom_worker_capabilities :: "ctype" where [decls]:
  "agent_capabilities_c_vom_worker_capabilities =
     CStruct [(''arch'', agent_capabilities_c_VomCpuArch), (''cores_online'', uint32_t), (''cores_total'', uint32_t),
             (''feature_bitmap'', uint32_t), (''ram_total_mb'', uint64_t), (''ram_free_mb'', uint64_t),
             (''battery_percent'', int32_t), (''is_charging'', c_bool), (''is_ac_online'', c_bool),
             (''display_attached'', c_bool), (''display_width'', uint32_t), (''display_height'', uint32_t),
             (''touch_supported'', c_bool), (''network_link_type'', agent_capabilities_c_VomLinkType),
             (''network_bandwidth_kbps'', uint64_t)]"

subsection \<open>\<^verbatim>\<open>cli/src/main.c\<close>\<close>

definition cli_main_c_CLI_MAX_PATH_LEN :: nat where [decls]: "cli_main_c_CLI_MAX_PATH_LEN = 256"
definition cli_main_c_CLI_MAX_ARGS_LEN :: nat where [decls]: "cli_main_c_CLI_MAX_ARGS_LEN = 128"

definition cli_main_c_CliCommandType :: "ctype" where [decls]:
  "cli_main_c_CliCommandType =
     c_enum [(''CMD_TYPE_CLUSTER_STATUS'', 0), (''CMD_TYPE_WORKLOAD_SUBMIT'', 1), (''CMD_TYPE_WORKLOAD_INSPECT'', 2),
            (''CMD_TYPE_WORKLOAD_CANCEL'', 3), (''CMD_TYPE_WORKER_DRAIN'', 4), (''CMD_TYPE_WORKER_RESUME'', 5),
            (''CMD_TYPE_WORKER_APPROVE'', 6), (''CMD_TYPE_UI_MODE_SET'', 7), (''CMD_TYPE_UNKNOWN'', 8)]"

definition cli_main_c_CliOutputFormat :: "ctype" where [decls]:
  "cli_main_c_CliOutputFormat =
     c_enum [(''CLI_OUTPUT_HUMAN_READABLE'', 0), (''CLI_OUTPUT_JSON_STRUCTURABLE'', 1),
            (''CLI_OUTPUT_PLAIN_SCRIPT_TABLE'', 2)]"

definition cli_main_c_CliExitCode :: "ctype" where [decls]:
  "cli_main_c_CliExitCode =
     c_enum [(''CLI_EXIT_SUCCESS'', 0), (''CLI_EXIT_ERR_BAD_SYNTAX'', 1), (''CLI_EXIT_ERR_UNKNOWN_CMD'', 2),
            (''CLI_EXIT_ERR_MISSING_ARG'', 3), (''CLI_EXIT_ERR_INVALID_VAL'', 4),
            (''CLI_EXIT_ERR_NETWORK_FAULT'', 5), (''CLI_EXIT_ERR_INTERNAL'', 6)]"

definition cli_main_c_CmdSubmitOpts :: "ctype" where [decls]:
  "cli_main_c_CmdSubmitOpts =
     CStruct [(''workload_path'', CArray cli_main_c_CLI_MAX_PATH_LEN c_char),
             (''simulated_priority_level'', uint32_t)]"

definition cli_main_c_CmdTargetIdOpts :: "ctype" where [decls]:
  "cli_main_c_CmdTargetIdOpts =
     CStruct [(''target_id'', uint64_t)]"

definition cli_main_c_CmdWorkerOpts :: "ctype" where [decls]:
  "cli_main_c_CmdWorkerOpts =
     CStruct [(''target_worker_id'', CArray cli_main_c_CLI_MAX_ARGS_LEN c_char)]"

definition cli_main_c_CmdUiOpts :: "ctype" where [decls]:
  "cli_main_c_CmdUiOpts =
     CStruct [(''mode_name'', CArray cli_main_c_CLI_MAX_ARGS_LEN c_char)]"

definition cli_main_c_CliParsedCommand :: "ctype" where [decls]:
  "cli_main_c_CliParsedCommand =
     CStruct [(''type'', cli_main_c_CliCommandType), (''format_strategy'', cli_main_c_CliOutputFormat),
             (''options'', CUnion [(''submit'', cli_main_c_CmdSubmitOpts), (''inspect'', cli_main_c_CmdTargetIdOpts),
                (''cancel'', cli_main_c_CmdTargetIdOpts), (''worker_drain'', cli_main_c_CmdWorkerOpts),
                (''worker_resume'', cli_main_c_CmdWorkerOpts), (''worker_approve'', cli_main_c_CmdWorkerOpts),
                (''ui_mode'', cli_main_c_CmdUiOpts)])]"

subsection \<open>\<^verbatim>\<open>ui/src/model.c\<close>\<close>

definition ui_model_c_HOSTNAME_STR_MAX :: nat where [decls]: "ui_model_c_HOSTNAME_STR_MAX = 64"
definition ui_model_c_UUID_STR_MAX :: nat where [decls]: "ui_model_c_UUID_STR_MAX = 64"
definition ui_model_c_CLUSTER_MAX_WORKERS :: nat where [decls]: "ui_model_c_CLUSTER_MAX_WORKERS = 32"
definition ui_model_c_CLUSTER_MAX_ACTIVE_LEASES_M :: nat where [decls]: "ui_model_c_CLUSTER_MAX_ACTIVE_LEASES_M = 128"

definition ui_model_c_WorkerHealth :: "ctype" where [decls]:
  "ui_model_c_WorkerHealth =
     c_enum [(''WORKER_HEALTH_ONLINE'', 0), (''WORKER_HEALTH_DRAINING'', 1), (''WORKER_HEALTH_OFFLINE'', 2),
            (''WORKER_HEALTH_SUSPECT'', 3)]"

definition ui_model_c_ClusterStatus :: "ctype" where [decls]:
  "ui_model_c_ClusterStatus =
     c_enum [(''CLUSTER_STATUS_BOOSTRAP'', 0), (''CLUSTER_STATUS_OPERATIONAL'', 1), (''CLUSTER_STATUS_DEGRADED'', 2),
            (''CLUSTER_STATUS_MAINTENANCE'', 3), (''CLUSTER_STATUS_PANIC'', 4)]"

definition ui_model_c_LeaseStatus :: "ctype" where [decls]:
  "ui_model_c_LeaseStatus =
     c_enum [(''LEASE_STATUS_IDLE'', 0), (''LEASE_STATUS_ASSIGNED'', 1), (''LEASE_STATUS_EXECUTING'', 2),
            (''LEASE_STATUS_COMMITTED'', 3), (''LEASE_STATUS_TIMED_OUT'', 4), (''LEASE_STATUS_FAILED'', 5)]"

definition ui_model_c_WorkerResources :: "ctype" where [decls]:
  "ui_model_c_WorkerResources =
     CStruct [(''total_memory_bytes'', uint64_t), (''reserved_memory_bytes'', uint64_t), (''total_cores'', uint32_t),
             (''reserved_cores'', uint32_t)]"

definition ui_model_c_WorkerMember :: "ctype" where [decls]:
  "ui_model_c_WorkerMember =
     CStruct [(''worker_id'', uint32_t), (''hostname'', CArray ui_model_c_HOSTNAME_STR_MAX c_char),
             (''health'', ui_model_c_WorkerHealth), (''last_heartbeat_monotonic_ms'', uint64_t),
             (''resources'', ui_model_c_WorkerResources)]"

definition ui_model_c_ChunkLease :: "ctype" where [decls]:
  "ui_model_c_ChunkLease =
     CStruct [(''chunk_id'', uint64_t), (''workload_id'', uint64_t), (''assigned_worker_id'', uint32_t),
             (''status'', ui_model_c_LeaseStatus), (''progress_percentage'', c_float),
             (''failure_retry_count'', uint32_t)]"

definition ui_model_c_ClusterMetrics :: "ctype" where [decls]:
  "ui_model_c_ClusterMetrics =
     CStruct [(''cluster_aggregate_memory_bytes'', uint64_t), (''cluster_allocated_memory_bytes'', uint64_t),
             (''cluster_aggregate_cores'', uint32_t), (''cluster_allocated_cores'', uint32_t),
             (''active_worker_count'', uint32_t)]"

definition ui_model_c_ClusterStateSnapshot :: "ctype" where [decls]:
  "ui_model_c_ClusterStateSnapshot =
     CStruct [(''cluster_uuid'', CArray ui_model_c_UUID_STR_MAX c_char), (''master_epoch'', uint64_t),
             (''state_generation_version'', uint64_t), (''global_status'', ui_model_c_ClusterStatus),
             (''active_workers'', CArray ui_model_c_CLUSTER_MAX_WORKERS ui_model_c_WorkerMember),
             (''total_registered_workers'', c_int),
             (''active_leases'', CArray ui_model_c_CLUSTER_MAX_ACTIVE_LEASES_M ui_model_c_ChunkLease),
             (''total_active_leases'', c_int), (''metrics'', ui_model_c_ClusterMetrics)]"

subsection \<open>Constants of the ZeroMQ library\<close>

definition common_zmq_helpers_h_zmq_constants :: "(string \<times> int) list" where [decls]:
  "common_zmq_helpers_h_zmq_constants =
     [(''ZMQ_IDENTITY'', 6), (''ZMQ_LINGER'', 17), (''ZMQ_SNDHWM'', 23), (''ZMQ_RCVHWM'', 24),
      (''ZMQ_RCVMORE'', 13), (''ZMQ_CURVE_SERVER'', 43), (''ZMQ_CURVE_PUBLICKEY'', 44),
      (''ZMQ_CURVE_SECRETKEY'', 45), (''ZMQ_CURVE_SERVERKEY'', 46)]"

definition common_zmq_sockets_c_zmq_constants :: "(string \<times> int) list" where [decls]:
  "common_zmq_sockets_c_zmq_constants =
     [(''ZMQ_IDENTITY'', 6), (''ZMQ_LINGER'', 17), (''ZMQ_SNDHWM'', 23), (''ZMQ_RCVHWM'', 24),
      (''ZMQ_RCVMORE'', 13), (''ZMQ_CURVE_SERVER'', 43), (''ZMQ_CURVE_PUBLICKEY'', 44),
      (''ZMQ_CURVE_SECRETKEY'', 45), (''ZMQ_CURVE_SERVERKEY'', 46)]"

definition master_router_c_zmq_constants :: "(string \<times> int) list" where [decls]:
  "master_router_c_zmq_constants =
     [(''ZMQ_IDENTITY'', 6), (''ZMQ_LINGER'', 17), (''ZMQ_SNDHWM'', 23), (''ZMQ_RCVHWM'', 24),
      (''ZMQ_RCVMORE'', 13), (''ZMQ_DONTWAIT'', 1)]"

definition master_main_c_zmq_constants :: "(string \<times> int) list" where [decls]:
  "master_main_c_zmq_constants =
     [(''ZMQ_ROUTER'', 6), (''ZMQ_DONTWAIT'', 1), (''ZMQ_SNDMORE'', 2), (''ZMQ_RCVMORE'', 13),
      (''ZMQ_LINGER'', 17), (''ZMQ_SNDHWM'', 23), (''ZMQ_RCVHWM'', 24)]"

definition worker_transport_c_zmq_constants :: "(string \<times> int) list" where [decls]:
  "worker_transport_c_zmq_constants =
     [(''ZMQ_IDENTITY'', 6), (''ZMQ_LINGER'', 17), (''ZMQ_SNDHWM'', 23), (''ZMQ_RCVHWM'', 24),
      (''ZMQ_RCVMORE'', 13), (''ZMQ_CURVE_SERVER'', 43), (''ZMQ_CURVE_PUBLICKEY'', 44),
      (''ZMQ_CURVE_SECRETKEY'', 45), (''ZMQ_CURVE_SERVERKEY'', 46), (''ZMQ_DONTWAIT'', 1)]"

definition worker_main_c_zmq_constants :: "(string \<times> int) list" where [decls]:
  "worker_main_c_zmq_constants =
     [(''ZMQ_DEALER'', 5), (''ZMQ_DONTWAIT'', 1), (''ZMQ_SNDMORE'', 2), (''ZMQ_RCVMORE'', 13),
      (''ZMQ_LINGER'', 17), (''ZMQ_SNDHWM'', 23), (''ZMQ_RCVHWM'', 24), (''ZMQ_IDENTITY'', 6)]"

end
