(* ===== verification/Wire.thy ===== *)
theory Wire
  imports Prelude
begin

text \<open>
  The wire format that the master and its workers share: the 24-byte envelope (the same structure in
  \<^verbatim>\<open>master/src/router.c\<close>, \<^verbatim>\<open>master/src/main.c\<close>, \<^verbatim>\<open>worker/src/transport.c\<close> and
  \<^verbatim>\<open>worker/src/main.c\<close>), copied to and from the wire with \<open>memcpy\<close>, and the view of a socket
  as a stream of frames.

  The structure has no padding (2, 2, 4, 8 and 8 bytes at their natural alignment) and the supported
  targets are little-endian. \<open>zmq_recv\<close> is a parameter; \<open>zmq_stream\<close> names what its
  documentation promises: it takes the next frame, stores at most the given number of bytes and
  returns the length of the whole frame, or a negative value when no frame is pending.

  Proved: the encoding of words and envelopes round-trips.
\<close>

section \<open>Bytes\<close>

type_synonym bytes = "u8 list"

fun le_bytes :: "nat \<Rightarrow> 'a::len word \<Rightarrow> bytes" where
  "le_bytes 0 w = []"
| "le_bytes (Suc n) w = ucast w # le_bytes n (drop_bit 8 w)"

fun le_word :: "bytes \<Rightarrow> 'a::len word" where
  "le_word [] = 0"
| "le_word (b # bs) = ucast b OR push_bit 8 (le_word bs)"

lemma length_le_bytes [simp]: "length (le_bytes n w) = n"
  by (induction n w rule: le_bytes.induct) simp_all

lemma le_word_step:
  fixes w :: "'a::len word"
  shows "ucast (ucast w :: u8) OR push_bit 8 (take_bit m (drop_bit 8 w)) = take_bit (8 + m) w"
proof (rule bit_word_eqI)
  fix n assume "n < LENGTH('a)"
  then show "bit (ucast (ucast w :: u8) OR push_bit 8 (take_bit m (drop_bit 8 w)) :: 'a word) n =
      bit (take_bit (8 + m) w) n"
    by (cases "n < 8") (auto simp: bit_simps not_less)
qed

lemma le_word_le_bytes: "le_word (le_bytes n w) = take_bit (8 * n) w"
proof (induction n w rule: le_bytes.induct)
  case (2 n w)
  then show ?case using le_word_step [of w "8 * n"] by simp
qed simp

lemma le_roundtrip [simp]:
  "le_word (le_bytes 2 (w2 :: u16)) = w2" "le_word (le_bytes 4 (w4 :: u32)) = w4"
  "le_word (le_bytes 8 (w8 :: u64)) = w8"
  by (simp_all add: le_word_le_bytes take_bit_word_eq_self)

section \<open>Envelopes\<close>

record vom_router_envelope_t =
  protocol_version :: u16
  message_code :: u16
  payload_length :: u32
  sequence_id :: u64
  timestamp_ms :: u64

definition ENVELOPE_SIZE :: nat where "ENVELOPE_SIZE = 24"

definition ROUTER_MSG_AUTH_REQ :: u16 where "ROUTER_MSG_AUTH_REQ = 1"
definition ROUTER_MSG_AUTH_RESP :: u16 where "ROUTER_MSG_AUTH_RESP = 2"
definition ROUTER_MSG_JOIN_REQ :: u16 where "ROUTER_MSG_JOIN_REQ = 3"
definition ROUTER_MSG_JOIN_RESP :: u16 where "ROUTER_MSG_JOIN_RESP = 4"
definition ROUTER_MSG_HEARTBEAT :: u16 where "ROUTER_MSG_HEARTBEAT = 5"
definition ROUTER_MSG_CHUNK_ASSIGN :: u16 where "ROUTER_MSG_CHUNK_ASSIGN = 6"
definition ROUTER_MSG_CHUNK_ACK :: u16 where "ROUTER_MSG_CHUNK_ACK = 7"
definition ROUTER_MSG_CHUNK_REPORT :: u16 where "ROUTER_MSG_CHUNK_REPORT = 8"

lemmas msg_codes = ROUTER_MSG_AUTH_REQ_def ROUTER_MSG_AUTH_RESP_def ROUTER_MSG_JOIN_REQ_def
  ROUTER_MSG_JOIN_RESP_def ROUTER_MSG_HEARTBEAT_def ROUTER_MSG_CHUNK_ASSIGN_def
  ROUTER_MSG_CHUNK_ACK_def ROUTER_MSG_CHUNK_REPORT_def

definition encode_env :: "vom_router_envelope_t \<Rightarrow> bytes" where
  "encode_env env = le_bytes 2 (protocol_version env) @ le_bytes 2 (message_code env)
     @ le_bytes 4 (payload_length env) @ le_bytes 8 (sequence_id env) @ le_bytes 8 (timestamp_ms env)"

definition decode_env :: "bytes \<Rightarrow> vom_router_envelope_t" where
  "decode_env bs = \<lparr>protocol_version = le_word (take 2 bs), message_code = le_word (take 2 (drop 2 bs)),
     payload_length = le_word (take 4 (drop 4 bs)), sequence_id = le_word (take 8 (drop 8 bs)),
     timestamp_ms = le_word (take 8 (drop 16 bs))\<rparr>"

lemma length_encode_env [simp]: "length (encode_env env) = ENVELOPE_SIZE"
  by (simp add: encode_env_def ENVELOPE_SIZE_def)

lemma decode_encode [simp]: "decode_env (encode_env env @ payload) = env"
  by (simp add: decode_env_def encode_env_def)

lemma drop_encode [simp]: "drop ENVELOPE_SIZE (encode_env env @ payload) = payload"
  by simp

lemma decode_env_take: "24 \<le> n \<Longrightarrow> decode_env (take n f) = decode_env f"
  by (simp add: decode_env_def drop_take min_def)

section \<open>Strings in buffers\<close>

definition c_string :: "bytes \<Rightarrow> string" where
  "c_string bs = map (\<lambda>b. char_of (unat b)) (takeWhile (\<lambda>b. b \<noteq> 0) bs)"

definition string_bytes :: "string \<Rightarrow> bytes" where
  "string_bytes s = map (\<lambda>c. of_nat (of_char c)) s"

definition zero_free :: "string \<Rightarrow> bool" where
  "zero_free s \<longleftrightarrow> CHR 0x00 \<notin> set s"

lemma unat_char_byte [simp]: "unat (of_nat (of_char c) :: u8) = of_char c"
proof -
  have "(of_char c :: nat) < 256" by (cases c) (simp add: of_char_def horner_sum_simps of_bool_def)
  then show ?thesis by (simp add: unat_of_nat)
qed

lemma char_byte_zero: "(of_nat (of_char c) :: u8) = 0 \<longleftrightarrow> c = CHR 0x00"
proof -
  have "(of_nat (of_char c) :: u8) = 0 \<longleftrightarrow> (of_char c :: nat) = 0"
    using unat_eq_zero [of "of_nat (of_char c) :: u8"] by simp
  also have "\<dots> \<longleftrightarrow> (of_char c :: nat) = of_char (CHR 0x00)" by simp
  also have "\<dots> \<longleftrightarrow> c = CHR 0x00" by (simp only: of_char_eq_iff)
  finally show ?thesis .
qed

lemma length_string_bytes [simp]: "length (string_bytes s) = length s"
  by (simp add: string_bytes_def)

lemma c_string_bytes:
  assumes "zero_free s"
  shows "c_string (string_bytes s @ 0 # rest) = s"
proof -
  have "b \<noteq> 0" if "b \<in> set (string_bytes s)" for b
    using that assms by (auto simp: string_bytes_def zero_free_def char_byte_zero)
  then have "takeWhile (\<lambda>b. b \<noteq> 0) (string_bytes s @ 0 # rest) = string_bytes s"
    by (simp add: takeWhile_append2)
  then show ?thesis by (simp add: c_string_def string_bytes_def comp_def)
qed

section \<open>Sockets\<close>

text \<open>
  \<open>recv cap s\<close> is the return value of \<open>zmq_recv\<close> with a buffer of \<open>cap\<close> bytes, what it
  stored, and the socket afterwards.
\<close>

type_synonym 's zmq_recv = "nat \<Rightarrow> 's \<Rightarrow> int \<times> bytes \<times> 's"

definition zmq_stream :: "'s zmq_recv \<Rightarrow> ('s \<Rightarrow> bytes list) \<Rightarrow> bool" where
  "zmq_stream recv frames \<longleftrightarrow> (\<forall>cap s.
     case frames s of
       [] \<Rightarrow> fst (recv cap s) < 0 \<and> frames (snd (snd (recv cap s))) = []
     | f # fs \<Rightarrow> fst (recv cap s) = int (length f) \<and> fst (snd (recv cap s)) = take cap f
                \<and> frames (snd (snd (recv cap s))) = fs)"

lemma zmq_stream_next:
  assumes "zmq_stream recv frames" "frames s = f # fs"
  obtains s' where "recv cap s = (int (length f), take cap f, s')" "frames s' = fs"
proof -
  obtain n b s' where r: "recv cap s = (n, b, s')" by (metis prod_cases3)
  have "case frames s of [] \<Rightarrow> fst (recv cap s) < 0 \<and> frames (snd (snd (recv cap s))) = []
     | f # fs \<Rightarrow> fst (recv cap s) = int (length f) \<and> fst (snd (recv cap s)) = take cap f
                \<and> frames (snd (snd (recv cap s))) = fs"
    using assms(1) by (simp add: zmq_stream_def)
  with r assms(2) that show thesis by simp
qed

lemma zmq_stream_empty:
  assumes "zmq_stream recv frames" "frames s = []"
  shows "fst (recv cap s) < 0 \<and> frames (snd (snd (recv cap s))) = []"
proof -
  have "case frames s of [] \<Rightarrow> fst (recv cap s) < 0 \<and> frames (snd (snd (recv cap s))) = []
     | f # fs \<Rightarrow> fst (recv cap s) = int (length f) \<and> fst (snd (recv cap s)) = take cap f
                \<and> frames (snd (snd (recv cap s))) = fs"
    using assms(1) by (simp add: zmq_stream_def)
  with assms(2) show ?thesis by simp
qed

text \<open>A queue of frames behaves as documented.\<close>

fun queue_recv :: "bytes list zmq_recv" where
  "queue_recv cap [] = (-1, [], [])"
| "queue_recv cap (f # fs) = (int (length f), take cap f, fs)"

lemma queue_stream: "zmq_stream queue_recv (\<lambda>s. s)"
  by (auto simp: zmq_stream_def split: list.splits)

text \<open>
  Frames come in messages. \<open>pend\<close> lists the pending frames, each with the flag that more frames
  of its message follow; \<open>rcvmore s\<close> is the return value of \<open>zmq_getsockopt\<close> for
  \<open>ZMQ_RCVMORE\<close> and the value it stores, which tell about the frame received last.
\<close>

definition zmq_socket :: "'s zmq_recv \<Rightarrow> ('s \<Rightarrow> int \<times> int) \<Rightarrow> ('s \<Rightarrow> (bytes \<times> bool) list) \<Rightarrow> bool" where
  "zmq_socket recv rcvmore pend \<longleftrightarrow> (\<forall>cap s.
     case pend s of
       [] \<Rightarrow> fst (recv cap s) < 0 \<and> pend (snd (snd (recv cap s))) = []
     | (f, m) # fs \<Rightarrow> fst (recv cap s) = int (length f) \<and> fst (snd (recv cap s)) = take cap f
         \<and> pend (snd (snd (recv cap s))) = fs
         \<and> fst (rcvmore (snd (snd (recv cap s)))) = 0 \<and> (snd (rcvmore (snd (snd (recv cap s)))) \<noteq> 0) = m)"

lemma zmq_socket_next:
  assumes "zmq_socket recv rcvmore pend" "pend s = (f, m) # fs"
  obtains s' where "recv cap s = (int (length f), take cap f, s')" "pend s' = fs"
    "fst (rcvmore s') = 0" "snd (rcvmore s') \<noteq> 0 \<longleftrightarrow> m"
proof -
  obtain n b s' where r: "recv cap s = (n, b, s')" by (metis prod_cases3)
  have "case pend s of
       [] \<Rightarrow> fst (recv cap s) < 0 \<and> pend (snd (snd (recv cap s))) = []
     | (f, m) # fs \<Rightarrow> fst (recv cap s) = int (length f) \<and> fst (snd (recv cap s)) = take cap f
         \<and> pend (snd (snd (recv cap s))) = fs
         \<and> fst (rcvmore (snd (snd (recv cap s)))) = 0 \<and> (snd (rcvmore (snd (snd (recv cap s)))) \<noteq> 0) = m"
    using assms(1) by (simp add: zmq_socket_def)
  with r assms(2) that show thesis by simp
qed

type_synonym frame_queue = "(bytes \<times> bool) list \<times> bool"

fun mqueue_recv :: "frame_queue zmq_recv" where
  "mqueue_recv cap ([], b) = (-1, [], ([], b))"
| "mqueue_recv cap ((f, m) # fs, b) = (int (length f), take cap f, (fs, m))"

definition mqueue_more :: "frame_queue \<Rightarrow> int \<times> int" where
  "mqueue_more s = (0, if snd s then 1 else 0)"

lemma mqueue_socket: "zmq_socket mqueue_recv mqueue_more fst"
  unfolding zmq_socket_def
proof (intro allI)
  fix cap and s :: frame_queue
  obtain q b where "s = (q, b)" by fastforce
  then show "case fst s of
       [] \<Rightarrow> fst (mqueue_recv cap s) < 0 \<and> fst (snd (snd (mqueue_recv cap s))) = []
     | (f, m) # fs \<Rightarrow> fst (mqueue_recv cap s) = int (length f) \<and> fst (snd (mqueue_recv cap s)) = take cap f
         \<and> fst (snd (snd (mqueue_recv cap s))) = fs
         \<and> fst (mqueue_more (snd (snd (mqueue_recv cap s)))) = 0
         \<and> (snd (mqueue_more (snd (snd (mqueue_recv cap s)))) \<noteq> 0) = m"
    by (cases q) (auto simp: mqueue_more_def)
qed

text \<open>
  A receive without \<open>ZMQ_DONTWAIT\<close> waits for a frame, as long as no signal is handled meanwhile. \<open>wrecv\<close> is such a
  call that no signal interrupts, \<open>frames s\<close> lists the frames that are pending or still arrive; \<open>None\<close> stands for a
  call that waits for ever.
\<close>

type_synonym 's zmq_wait = "nat \<Rightarrow> 's \<Rightarrow> (int \<times> bytes \<times> 's) option"

definition zmq_waiting :: "'s zmq_wait \<Rightarrow> ('s \<Rightarrow> bytes list) \<Rightarrow> bool" where
  "zmq_waiting wrecv frames \<longleftrightarrow> (\<forall>cap s.
     case frames s of
       [] \<Rightarrow> wrecv cap s = None
     | f # fs \<Rightarrow> (\<exists>s'. wrecv cap s = Some (int (length f), take cap f, s') \<and> frames s' = fs))"

lemma zmq_waiting_next:
  assumes "zmq_waiting wrecv frames" "frames s = f # fs"
  obtains s' where "wrecv cap s = Some (int (length f), take cap f, s')" "frames s' = fs"
proof -
  have "case frames s of
       [] \<Rightarrow> wrecv cap s = None
     | f # fs \<Rightarrow> (\<exists>s'. wrecv cap s = Some (int (length f), take cap f, s') \<and> frames s' = fs)"
    using assms(1) by (simp add: zmq_waiting_def)
  with assms(2) that show thesis by auto
qed

lemma zmq_waiting_empty:
  assumes "zmq_waiting wrecv frames" "frames s = []"
  shows "wrecv cap s = None"
proof -
  have "case frames s of
       [] \<Rightarrow> wrecv cap s = None
     | f # fs \<Rightarrow> (\<exists>s'. wrecv cap s = Some (int (length f), take cap f, s') \<and> frames s' = fs)"
    using assms(1) by (simp add: zmq_waiting_def)
  with assms(2) show ?thesis by simp
qed

fun queue_wait :: "bytes list zmq_wait" where
  "queue_wait cap [] = None"
| "queue_wait cap (f # fs) = Some (int (length f), take cap f, fs)"

lemma queue_waiting: "zmq_waiting queue_wait (\<lambda>s. s)"
  by (auto simp: zmq_waiting_def split: list.splits)

text \<open>
  A signal whose handler returns, installed without \<open>SA_RESTART\<close>, makes a waiting call return -1 (\<open>EINTR\<close>) without
  a frame. Which of the waits of a program are interrupted is an input, kept beside the socket: for each
  receive, in order, the signal that arrives during its wait, if any. Receives behind the end of the list are not
  interrupted.
\<close>

type_synonym irqs = "int option list"

fun interruptible :: "'s zmq_wait \<Rightarrow> ('s \<times> irqs) zmq_wait" where
  "interruptible wrecv cap (s, Some signum # qs) = Some (-1, [], (s, qs))"
| "interruptible wrecv cap (s, qs) = map_option (\<lambda>(n, b, s'). (n, b, (s', tl qs))) (wrecv cap s)"

definition beside :: "'s zmq_recv \<Rightarrow> ('s \<times> irqs) zmq_recv" where
  "beside recv cap sq = (case sq of (s, qs) \<Rightarrow> let (n, b, s') = recv cap s in (n, b, (s', qs)))"

text \<open>The signals that were delivered while a list shrank to its rest.\<close>

definition delivered :: "irqs \<Rightarrow> irqs \<Rightarrow> int list" where
  "delivered qs rest = List.map_filter id (take (length qs - length rest) qs)"

lemma interruptible_uninterrupted:
  "interruptible wrecv cap (s, []) = map_option (\<lambda>(n, b, s'). (n, b, (s', []))) (wrecv cap s)"
  by simp

lemma delivered_simps [simp]: "delivered [] rest = []" "delivered qs qs = []"
  by (simp_all add: delivered_def map_filter_def)

definition signals :: "int option \<Rightarrow> int list" where
  "signals sg = (case sg of None \<Rightarrow> [] | Some signum \<Rightarrow> [signum])"

lemma signals_simps [simp]: "signals None = []" "signals (Some g) = [g]" "signals sg = [] \<longleftrightarrow> sg = None"
  "delivered [q] [] = signals q"
  by (auto simp: signals_def delivered_def map_filter_def split: option.splits)

end
