(* ===== verification/Interfaces.thy ===== *)
theory Interfaces
  imports Header_Declarations Source_Declarations Wire
begin

text \<open>
  The interfaces between the files of the program, as far as they are structures: which declarations of the same type
  in different files agree, what that means for the objects passed between them, and where they do not agree.

  The declarations that agree are in \<open>program_declarations\<close> (files of one program: the store and the main function
  of the master, the logger and its caller, the hardware probe and its callers), \<open>wire_declarations\<close> (programs that
  exchange bytes) and \<open>header_declarations\<close> (a source file and its header); those that do not agree in
  \<open>differing_declarations\<close>: the header of the cluster store, the interface model's own snapshot, the arguments of the
  master, the result header and the capability header.

  Lemmas: of the listed pairs, the first kind are equal and the second differ; a member written through one declaration of an
  equal pair is read through the other, and no other member changes; the model's encoding of the envelope
  has the layout of the declared structure; the header of the store and its source number their enumerations differently.
\<close>

section \<open>Declarations of the same type\<close>

definition program_declarations :: "ctype \<Rightarrow> (ctype \<times> ctype) list" where
  "program_declarations mutex =
     [(common_log_c_VomLogLevel, master_main_c_VomLogLevel),
      (common_sys_info_c_VomCpuArch, master_registry_c_VomCpuArch),
      (common_sys_info_c_VomCpuArch, worker_executor_c_VomCpuArch),
      (common_sys_info_c_VomCpuArch, agent_heartbeat_c_VomCpuArch),
      (common_sys_info_c_VomCpuArch, agent_capabilities_c_VomCpuArch),
      (common_sys_info_c_VomLinkType, master_registry_c_VomLinkType),
      (common_sys_info_c_VomLinkType, worker_executor_c_VomLinkType),
      (common_sys_info_c_VomLinkType, agent_heartbeat_c_VomLinkType),
      (common_sys_info_c_VomLinkType, agent_capabilities_c_VomLinkType),
      (common_sys_info_c_vom_worker_capabilities, master_registry_c_vom_worker_capabilities),
      (common_sys_info_c_vom_worker_capabilities, worker_executor_c_vom_worker_capabilities),
      (common_sys_info_c_vom_worker_capabilities, agent_heartbeat_c_vom_worker_capabilities),
      (common_sys_info_c_vom_worker_capabilities, agent_capabilities_c_vom_worker_capabilities),
      (master_cluster_state_c_ClusterStatus, master_main_c_ClusterStatus),
      (master_cluster_state_c_WorkerHealth, master_main_c_WorkerHealth),
      (master_cluster_state_c_LeaseStatus, master_main_c_LeaseStatus),
      (master_cluster_state_c_WorkerMember, master_main_c_WorkerMember),
      (master_cluster_state_c_ChunkLease, master_main_c_ChunkLease),
      (master_cluster_state_c_ClusterStateSnapshot, master_main_c_ClusterStateSnapshot),
      (master_cluster_state_c_WorkerResources, master_main_c_WorkerResources),
      (master_cluster_state_c_WorkerResources, ui_model_c_WorkerResources),
      (master_cluster_state_c_ClusterMetrics, master_main_c_ClusterMetrics),
      (master_cluster_state_c_ClusterMetrics, ui_model_c_ClusterMetrics),
      (master_cluster_state_c_ClusterStateContext mutex, master_main_c_ClusterStateContext mutex)]"

definition wire_declarations :: "(ctype \<times> ctype) list" where
  "wire_declarations =
     [(master_main_c_VomRouterMsgCode, master_router_c_VomRouterMsgCode),
      (master_main_c_VomRouterMsgCode, worker_main_c_VomRouterMsgCode),
      (master_main_c_vom_router_envelope_t, master_router_c_vom_router_envelope_t),
      (master_main_c_vom_router_envelope_t, worker_main_c_vom_router_envelope_t),
      (master_router_c_vom_router_envelope_t, worker_transport_c_vom_transport_envelope_t)]"

definition header_declarations :: "(ctype \<times> ctype) list" where
  "header_declarations =
     [(master_scheduler_c_vom_chunk_plan, master_scheduler_h_vom_chunk_plan),
      (master_recovery_c_VomRetryAction, common_result_h_VomRetryAction),
      (common_log_c_VomLogLevel, common_log_h_VomLogLevel),
      (common_sys_info_c_VomCpuArch, common_sys_info_h_VomCpuArch),
      (common_sys_info_c_VomLinkType, common_sys_info_h_VomLinkType),
      (common_sys_info_c_vom_worker_capabilities, common_sys_info_h_vom_worker_capabilities),
      (common_config_c_vom_config_t, common_config_h_vom_config_t),
      (master_scheduler_c_vom_worker_view, master_scheduler_h_vom_worker_view),
      (master_scheduler_c_vom_assignment_lease, master_scheduler_h_vom_assignment_lease),
      (master_router_c_VomRouterEvent, master_router_h_VomRouterEvent),
      (master_main_c_VomRouterMsgCode, master_router_h_VomRouterMsgCode),
      (master_router_c_VomRouterStatus, master_router_h_VomRouterStatus),
      (master_main_c_vom_router_envelope_t, master_router_h_vom_router_envelope_t),
      (worker_transport_c_VomTransportEvent, worker_transport_h_VomTransportEvent),
      (worker_transport_c_VomMsgCode, worker_transport_h_VomMsgCode),
      (worker_transport_c_VomTransportStatus, worker_transport_h_VomTransportStatus),
      (worker_transport_c_vom_transport_envelope_t, worker_transport_h_vom_transport_envelope_t),
      (worker_transport_c_vom_transport_config_t, worker_transport_h_vom_transport_config_t),
      (worker_display_bridge_c_VomUiMode, worker_display_bridge_h_VomUiMode),
      (worker_display_bridge_c_VomPeripheralEventKind, worker_display_bridge_h_VomPeripheralEventKind),
      (worker_display_bridge_c_VomInputKind, worker_display_bridge_h_VomInputKind),
      (worker_display_bridge_c_vom_input_data_t, worker_display_bridge_h_vom_input_data_t),
      (worker_display_bridge_c_vom_ui_input_event_t, worker_display_bridge_h_vom_ui_input_event_t),
      (worker_display_bridge_c_vom_display_descriptor_t, worker_display_bridge_h_vom_display_descriptor_t),
      (worker_capabilities_c_VomCapArchitecture, worker_capabilities_h_VomCapArchitecture),
      (worker_capabilities_c_VomCapAbi, worker_capabilities_h_VomCapAbi),
      (worker_capabilities_c_VomCapAccelerator, worker_capabilities_h_VomCapAccelerator),
      (worker_capabilities_c_VomCapThermal, worker_capabilities_h_VomCapThermal),
      (worker_capabilities_c_vom_cpu_features_t, worker_capabilities_h_vom_cpu_features_t),
      (worker_capabilities_c_vom_peripheral_spec_t, worker_capabilities_h_vom_peripheral_spec_t),
      (worker_capabilities_c_vom_worker_dynamic_resources_t, worker_capabilities_h_vom_worker_dynamic_resources_t),
      (worker_discovery_c_VomDiscoveryStatus, worker_discovery_h_VomDiscoveryStatus),
      (worker_cli_c_vom_worker_args_t, worker_cli_h_vom_worker_args_t),
      (master_cli_c_vom_master_args_t, master_cli_h_vom_master_args_t),
      (cli_main_c_CliCommandType, cli_commands_h_CliCommandType),
      (cli_main_c_CliOutputFormat, cli_commands_h_CliOutputFormat),
      (cli_main_c_CliExitCode, cli_commands_h_CliExitCode),
      (cli_main_c_CmdSubmitOpts, cli_commands_h_CmdSubmitOpts),
      (cli_main_c_CmdTargetIdOpts, cli_commands_h_CmdTargetIdOpts),
      (cli_main_c_CmdWorkerOpts, cli_commands_h_CmdWorkerOpts),
      (cli_main_c_CmdUiOpts, cli_commands_h_CmdUiOpts),
      (cli_main_c_CliParsedCommand, cli_commands_h_CliParsedCommand)]"

text \<open>
  The names that are declared in more than one file and not alike. With the pairs above, these are all types of the
  sources and headers with more than one declaration, each further declaration beside the first one in a source file;
  only the envelope of the transport stands beside a type of another name.
\<close>

definition differing_declarations :: "(ctype \<times> ctype) list" where
  "differing_declarations =
     [(master_scheduler_c_vom_chunk_plan, common_domain_h_vom_chunk_plan),
      (master_recovery_c_VomErrorCategory, common_result_h_VomErrorCategory),
      (master_cluster_state_c_ClusterStatus, ui_model_c_ClusterStatus),
      (master_cluster_state_c_ClusterStatus, master_cluster_state_h_ClusterStatus),
      (master_cluster_state_c_WorkerHealth, ui_model_c_WorkerHealth),
      (master_cluster_state_c_WorkerHealth, master_cluster_state_h_WorkerHealth),
      (master_cluster_state_c_LeaseStatus, ui_model_c_LeaseStatus),
      (master_cluster_state_c_LeaseStatus, master_cluster_state_h_LeaseStatus),
      (master_cluster_state_c_WorkerMember, ui_model_c_WorkerMember),
      (master_cluster_state_c_WorkerMember, master_cluster_state_h_WorkerMember),
      (master_cluster_state_c_ChunkLease, ui_model_c_ChunkLease),
      (master_cluster_state_c_ChunkLease, master_cluster_state_h_ChunkLease),
      (master_cluster_state_c_ClusterStateSnapshot, ui_model_c_ClusterStateSnapshot),
      (master_cluster_state_c_ClusterStateSnapshot, master_cluster_state_h_ClusterStateSnapshot),
      (master_ui_coordinator_c_vom_ui_user_intent_t, master_ui_coordinator_h_vom_ui_user_intent_t),
      (master_main_c_vom_master_args_t, master_cli_c_vom_master_args_t),
      (master_main_c_vom_master_args_t, master_cli_h_vom_master_args_t),
      (worker_capabilities_c_VomCapRuntime, worker_capabilities_h_VomCapRuntime),
      (worker_capabilities_c_vom_worker_static_capabilities_t, worker_capabilities_h_vom_worker_static_capabilities_t)]"

definition shared_declarations :: "ctype \<Rightarrow> (ctype \<times> ctype) list" where
  "shared_declarations mutex = program_declarations mutex @ wire_declarations @ header_declarations"

lemma program_agree: "list_all (\<lambda>(t, u). t = u) (program_declarations mutex)"
  unfolding program_declarations_def decls by simp

lemma wire_agree: "list_all (\<lambda>(t, u). t = u) wire_declarations"
  unfolding wire_declarations_def decls by simp

lemma header_agree: "list_all (\<lambda>(t, u). t = u) header_declarations"
  unfolding header_declarations_def decls by simp

lemma shared_agree: "(t, u) \<in> set (shared_declarations mutex) \<Longrightarrow> t = u"
  using program_agree [of mutex] wire_agree header_agree by (auto simp: shared_declarations_def list_all_iff)

lemma differing_differ: "list_all (\<lambda>(t, u). t \<noteq> u) differing_declarations"
  unfolding differing_declarations_def decls by simp

section \<open>Objects shared by two files\<close>

text \<open>
  For a pair of declarations that agree, a member that one file writes is read with the same bytes by the other,
  lies inside the object at its alignment, and, in a structure without unions, no member that neither contains it nor lies
  in it changes for the other file.
\<close>

lemma shared_objects_read_as_written:
  assumes "(t, u) \<in> set (shared_declarations mutex)"
    and "member_at t p = Some (a, ty)" "length bs = csize t" "length w = csize ty"
  shows "read_member u p (write_member t p w bs) = Some w
    \<and> a + csize ty \<le> csize u \<and> calign ty dvd a
    \<and> (union_free t \<and> member_at u q \<noteq> None \<and> \<not> prefix p q \<and> \<not> prefix q p \<longrightarrow>
        read_member u q (write_member t p w bs) = read_member u q bs)"
proof -
  have tu: "t = u" using shared_agree [OF assms(1)] .
  have "read_member u q (write_member t p w bs) = read_member u q bs"
    if q: "union_free t" "member_at u q \<noteq> None" "\<not> prefix p q" "\<not> prefix q p"
  proof -
    obtain b v where "member_at u q = Some (b, v)" using q(2) by auto
    with q assms(2-4) tu show ?thesis
      using members_do_not_alias [of t p a ty q b v bs w] by simp
  qed
  then show ?thesis
    using tu read_written [OF assms(2-4)] member_at_bounds [OF assms(2)] by auto
qed

section \<open>The envelope\<close>

definition envelope_declarations :: "ctype list" where
  "envelope_declarations = [master_router_c_vom_router_envelope_t, master_main_c_vom_router_envelope_t,
     worker_main_c_vom_router_envelope_t, worker_transport_c_vom_transport_envelope_t,
     master_router_h_vom_router_envelope_t, worker_transport_h_vom_transport_envelope_t]"

text \<open>
  A check of the model: the program copies the structure itself, and the model's encoder gives the bytes of that
  structure, 24 of them without padding, each member at its little-endian value, in whichever file's declaration.
\<close>

lemma envelope_is_the_declared_structure:
  "list_all (\<lambda>t. csize t = ENVELOPE_SIZE
    \<and> read_member t [Fld ''protocol_version''] (encode_env e) = Some (le_bytes 2 (protocol_version e))
    \<and> read_member t [Fld ''message_code''] (encode_env e) = Some (le_bytes 2 (message_code e))
    \<and> read_member t [Fld ''payload_length''] (encode_env e) = Some (le_bytes 4 (payload_length e))
    \<and> read_member t [Fld ''sequence_id''] (encode_env e) = Some (le_bytes 8 (sequence_id e))
    \<and> read_member t [Fld ''timestamp_ms''] (encode_env e) = Some (le_bytes 8 (timestamp_ms e))) envelope_declarations"
  by (simp add: envelope_declarations_def decls read_member_def encode_env_def ENVELOPE_SIZE_def round_up_def)

section \<open>Declarations that differ\<close>

text \<open>The number of an enumeration constant, and the constant a number stands for.\<close>

fun enum_value :: "ctype \<Rightarrow> string \<Rightarrow> int option" where
  "enum_value (CScalar (CEnum cs)) c = map_of cs c"
| "enum_value t c = None"

fun enum_name :: "ctype \<Rightarrow> int \<Rightarrow> string option" where
  "enum_name (CScalar (CEnum cs)) v = map_of (map (\<lambda>(c, v). (v, c)) cs) v"
| "enum_name t v = None"

definition reinterpreted :: "ctype \<Rightarrow> ctype \<Rightarrow> string \<Rightarrow> string option" where
  "reinterpreted t u c = Option.bind (enum_value t c) (enum_name u)"

text \<open>
  The numbers of the enumeration constants depend on the file: an offline worker of the header of the store is
  online for the store, an online one offline; a lease whose execution is running for the header has failed for the
  store; a transport error of the result header is an execution error for the recovery engine; and the constant for native
  programs of the capability header is no runtime of the capability manager. Neither the header's snapshot nor its
  workers have the store's size.
\<close>

theorem headers_renumber_constants:
  "reinterpreted master_cluster_state_h_WorkerHealth master_cluster_state_c_WorkerHealth ''WORKER_HEALTH_OFFLINE''
     = Some ''WORKER_HEALTH_ONLINE''
   \<and> reinterpreted master_cluster_state_h_WorkerHealth master_cluster_state_c_WorkerHealth ''WORKER_HEALTH_ONLINE''
     = Some ''WORKER_HEALTH_OFFLINE''
   \<and> reinterpreted master_cluster_state_h_LeaseStatus master_cluster_state_c_LeaseStatus ''LEASE_STATUS_EXECUTING''
     = Some ''LEASE_STATUS_FAILED''
   \<and> reinterpreted common_result_h_VomErrorCategory master_recovery_c_VomErrorCategory ''VOM_CAT_TRANSPORT''
     = Some ''VOM_CAT_WORKER_EXECUTION''
   \<and> reinterpreted worker_capabilities_h_VomCapRuntime worker_capabilities_c_VomCapRuntime ''CAP_RUN_NATIVE'' = None
   \<and> csize master_cluster_state_h_ClusterStateSnapshot = 90760 \<and> csize master_cluster_state_c_ClusterStateSnapshot = 4488
   \<and> csize master_cluster_state_h_WorkerMember = 776 \<and> csize master_cluster_state_c_WorkerMember = 40"
  by (simp add: reinterpreted_def decls round_up_def)

text \<open>
  The files that talk to each other number their messages alike under different names, an intent of the coordinator has
  the storage its header gives it although its members are named differently, and no constant of the ZeroMQ library has
  two values.
\<close>

definition zmq_constants :: "(string \<times> int) list" where
  "zmq_constants = common_zmq_helpers_h_zmq_constants @ common_zmq_sockets_c_zmq_constants
     @ master_router_c_zmq_constants @ master_main_c_zmq_constants
     @ worker_transport_c_zmq_constants @ worker_main_c_zmq_constants"

fun enum_numbers :: "ctype \<Rightarrow> int list" where
  "enum_numbers (CScalar (CEnum cs)) = map snd cs"
| "enum_numbers t = []"

fun member_offsets :: "ctype \<Rightarrow> (nat \<times> nat) list" where
  "member_offsets (CStruct fs) = map (\<lambda>(f, t). (fst (the (field_offset 0 fs f)), csize t)) fs"
| "member_offsets t = []"

lemma names_differ_storage_agrees:
  "enum_numbers worker_transport_c_VomMsgCode = enum_numbers master_router_c_VomRouterMsgCode"
  "member_offsets master_ui_coordinator_h_vom_ui_user_intent_t = member_offsets master_ui_coordinator_c_vom_ui_user_intent_t"
  "csize master_ui_coordinator_h_vom_ui_user_intent_t = csize master_ui_coordinator_c_vom_ui_user_intent_t"
  by (simp_all add: decls round_up_def)

lemma zmq_constants_agree: "list_all (\<lambda>(c, v). map_of zmq_constants c = Some v) zmq_constants"
  by (simp add: zmq_constants_def decls)

end
