(* ===== verification/Result.thy ===== *)
theory Result
  imports Prelude
begin

text \<open>
  The result record of the shared header \<^verbatim>\<open>common/include/common/result.h\<close> and its two inline functions.

  Proved: which records count as successes; the numeric code plays no part in it.
\<close>

datatype VomErrorCategory = VOM_CAT_SUCCESS | VOM_CAT_INVALID_INPUT | VOM_CAT_TRANSPORT | VOM_CAT_PROTOCOL
  | VOM_CAT_SCHEDULER_REJECT | VOM_CAT_WORKER_EXECUTION | VOM_CAT_TIMEOUT | VOM_CAT_CANCELLATION
  | VOM_CAT_AUTHENTICATION | VOM_CAT_INTERNAL

datatype VomRetryAction = VOM_RETRY_NONE | VOM_RETRY_IMMEDIATE | VOM_RETRY_BACKOFF | VOM_RETRY_REPLAN

record vom_result_t =
  category :: VomErrorCategory
  stable_code :: u32
  retry_policy :: VomRetryAction
  human_detail :: string

definition vom_result_success :: vom_result_t where
  "vom_result_success = \<lparr>category = VOM_CAT_SUCCESS, stable_code = 0, retry_policy = VOM_RETRY_NONE,
     human_detail = ''Operation completed successfully''\<rparr>"

definition vom_result_is_success :: "vom_result_t \<Rightarrow> bool" where
  "vom_result_is_success res \<longleftrightarrow> category res = VOM_CAT_SUCCESS \<and> retry_policy res = VOM_RETRY_NONE"

text \<open>
  The predicate holds of the success record, and of a record exactly when replacing its code and text gives the
  success record; the text of the success record fits its field of 128 bytes.
\<close>

lemma result_success_iff:
  "vom_result_is_success vom_result_success"
  "vom_result_is_success res \<longleftrightarrow>
     res\<lparr>stable_code := 0, human_detail := human_detail vom_result_success\<rparr> = vom_result_success"
  "length (human_detail vom_result_success) < 128"
  by (cases res; simp add: vom_result_is_success_def vom_result_success_def)+

end
