(* ===== verification/Test_Programs.thy ===== *)
theory Test_Programs
  imports Scheduler_Progress Interfaces Result
begin

text \<open>
  The three test programs of \<^verbatim>\<open>tests\<close>, run on the models of what they test: the scheduler
  (\<^verbatim>\<open>test_scheduler_logic.c\<close>), the constants and structures of the shared header
  (\<^verbatim>\<open>test_common_log.c\<close>) and the result record (\<^verbatim>\<open>test_capnp_roundtrip.c\<close>). A test is a truth
  value; the exit code of a program is 0 when all its tests hold.

  Proved: all three programs exit with 0, that of the scheduler in every rounding mode. So the models agree with the
  expectations the authors of the program wrote down.
\<close>

definition exit_code :: "bool list \<Rightarrow> int" where
  "exit_code passed = (if length (filter id passed) = length passed then 0 else 1)"

section \<open>The scheduler\<close>

text \<open>Every structure starts as zero bytes.\<close>

definition zero_worker :: vom_worker_view where
  "zero_worker = \<lparr>worker_id = [], platform = 0, runtime = 0, cpu_units = 0, reserv_cpu = 0, free_memory_mb = 0,
     reserv_mem_mb = 0, battery_pct = Fin 0, active_chunks = 0, has_touch_input = 0, draining = 0, healthy = 0,
     reliability_score = Fin 0\<rparr>"

definition zero_chunk :: vom_chunk_plan where
  "zero_chunk = \<lparr>chunk_id = 0, workload_id = 0, required_platform = 0, required_runtime = 0, required_cpu = 0,
     required_memory_mb = 0, requires_touch = 0, is_blocked = False, preferred_node = 0\<rparr>"

definition test_worker :: "string \<Rightarrow> u8 \<Rightarrow> u64 \<Rightarrow> fp \<Rightarrow> vom_worker_view" where
  "test_worker wid cpu mem rel = zero_worker\<lparr>worker_id := c_strncpy 63 wid, cpu_units := cpu, free_memory_mb := mem,
     healthy := 1, reliability_score := rel\<rparr>"

definition test_chunk :: "u64 \<Rightarrow> u64 \<Rightarrow> u8 \<Rightarrow> u64 \<Rightarrow> vom_chunk_plan" where
  "test_chunk cid wid cpu mem = zero_chunk\<lparr>chunk_id := cid, workload_id := wid, required_cpu := cpu, required_memory_mb := mem\<rparr>"

definition with_both :: "vom_worker_view \<Rightarrow> vom_chunk_plan \<Rightarrow> scheduler_state" where
  "with_both w c = snd (vom_scheduler_submit_ready_chunk (Some c)
     (snd (vom_scheduler_register_worker (Some w) vom_scheduler_init)))"

definition test_register_worker :: "rounding \<Rightarrow> bool" where
  "test_register_worker rnd \<longleftrightarrow>
     fst (vom_scheduler_register_worker (Some (test_worker ''worker-01'' 8 16384 (rnd (95 / 100)))) vom_scheduler_init) = 0"

definition test_submit_chunk :: bool where
  "test_submit_chunk \<longleftrightarrow> fst (vom_scheduler_submit_ready_chunk (Some (test_chunk 1001 501 2 1024)) vom_scheduler_init) = 0"

definition test_tick_assigns_chunk :: "rounding \<Rightarrow> bool" where
  "test_tick_assigns_chunk rnd \<longleftrightarrow>
     (let leases = snd (vom_scheduler_tick rnd 1000 10
          (with_both (test_worker ''worker-01'' 8 16384 (rnd (9 / 10))) (test_chunk 2001 601 2 512)))
      in length leases = 1 \<and> is_active (leases ! 0) \<and> lease_chunk_id (leases ! 0) = 2001)"

definition test_reject_insufficient_cpu :: "rounding \<Rightarrow> bool" where
  "test_reject_insufficient_cpu rnd \<longleftrightarrow>
     length (snd (vom_scheduler_tick rnd 1000 10
       (with_both (test_worker ''worker-tiny'' 1 4096 (rnd 1)) (test_chunk 3001 701 8 512)))) = 0"

definition test_reject_draining_worker :: "rounding \<Rightarrow> bool" where
  "test_reject_draining_worker rnd \<longleftrightarrow>
     length (snd (vom_scheduler_tick rnd 1000 10
       (with_both ((test_worker ''worker-drain'' 8 16384 (rnd 1))\<lparr>draining := 1\<rparr>) (test_chunk 4001 801 1 256)))) = 0"

definition test_lease_release :: "rounding \<Rightarrow> bool" where
  "test_lease_release rnd \<longleftrightarrow>
     (let c = test_chunk 5001 901 2 1024;
          st1 = fst (vom_scheduler_tick rnd 1000 10 (with_both (test_worker ''worker-01'' 4 4096 (rnd 1)) c));
          st2 = vom_scheduler_release_lease 5001 st1;
          st3 = snd (vom_scheduler_submit_ready_chunk (Some (c\<lparr>chunk_id := 5002\<rparr>)) st2)
      in length (snd (vom_scheduler_tick rnd 2000 10 st3)) \<ge> 1)"

definition scheduler_tests_main :: "rounding \<Rightarrow> int" where
  "scheduler_tests_main rnd = exit_code [True, test_register_worker rnd, test_submit_chunk, test_tick_assigns_chunk rnd,
     test_reject_insufficient_cpu rnd, test_reject_draining_worker rnd, test_lease_release rnd]"

lemma select_single:
  assumes "score_rounding rnd" "plausible w" "reserv_cpu w \<le> cpu_units w"
  shows "select_worker rnd c [w] = (if evaluate_hard_filters c w then Some 0 else None)"
  using plausible_selectable [OF assms(1), of "[w]" c] assms(2,3) select_worker_less [of rnd c "[w]"]
  by (cases "select_worker rnd c [w]") auto

text \<open>One worker and one chunk without a lease: the chunk is assigned exactly when it fits.\<close>

lemma with_both_eq: "with_both w c = \<lparr>g_workers = [w], g_chunks = [c], g_leases = []\<rparr>"
  by (simp add: with_both_def vom_scheduler_register_worker_def vom_scheduler_submit_ready_chunk_def vom_scheduler_init_def
      MAX_SWORKERS_def MAX_SCHUNKS_def)

lemma tick_single:
  assumes "score_rounding rnd" "plausible w" "reserv_cpu w \<le> cpu_units w" "\<not> is_blocked c" "\<not> list_ex is_active ls"
    and "length ls < MAX_SCHUNKS"
  shows "vom_scheduler_tick rnd now 10 \<lparr>g_workers = [w], g_chunks = [c], g_leases = ls\<rparr> =
    (if evaluate_hard_filters c w
     then (\<lparr>g_workers = [add_reservation c w], g_chunks = [c], g_leases = put_lease (mk_lease now c w) ls\<rparr>, [mk_lease now c w])
     else (\<lparr>g_workers = [w], g_chunks = [c], g_leases = ls\<rparr>, []))"
proof -
  have "List.find (leases_chunk (chunk_id c)) ls = None"
    using assms(5) by (auto simp: find_None_iff leases_chunk_def list_ex_iff)
  then show ?thesis
    using assms(4,6) select_single [OF assms(1-3), of c]
    by (auto simp: vom_scheduler_tick_def tick_chunk_def expire_lease_def assign_chunk_def put_lease_def Let_def)
qed

lemma test_worker_plausible:
  assumes "score_rounding rnd" "0 < cpu" "0 \<le> x" "x \<le> 1"
  shows "plausible ((test_worker wid cpu mem (rnd x))\<lparr>draining := d\<rparr>)" "plausible (test_worker wid cpu mem (rnd x))"
  using rounded_between [OF assms(1,3), of 1] assms(2,4)
  by (simp_all add: plausible_def test_worker_def zero_worker_def fp_ge_def)

lemmas test_object_defs = test_worker_def test_chunk_def zero_worker_def zero_chunk_def

lemma test_lease_release_holds:
  assumes "score_rounding rnd"
  shows "test_lease_release rnd"
proof -
  let ?w = "test_worker ''worker-01'' 4 4096 (rnd 1)" and ?c = "test_chunk 5001 901 2 1024"
  let ?d = "?c\<lparr>chunk_id := 5002\<rparr>" and ?l = "mk_lease 1000 (test_chunk 5001 901 2 1024) (test_worker ''worker-01'' 4 4096 (rnd 1))"
  have w: "plausible ?w" using test_worker_plausible(2) [OF assms, of 4 1] by simp
  have fits: "evaluate_hard_filters ?c ?w" "evaluate_hard_filters ?d ?w"
    by (simp_all add: evaluate_hard_filters_def test_object_defs)
  have ids: "chunk_id ?c = 5001" "\<not> is_blocked ?c" "\<not> is_blocked ?d" "c_strncpy 63 (worker_id ?w) = worker_id ?w"
    "reserv_cpu ?w \<le> cpu_units ?w" by (simp_all add: test_object_defs)
  have st1: "fst (vom_scheduler_tick rnd 1000 10 (with_both ?w ?c)) =
      \<lparr>g_workers = [add_reservation ?c ?w], g_chunks = [?c], g_leases = [?l]\<rparr>"
    using tick_single [OF assms w ids(5,2), of "[]" 1000] fits
    by (simp add: with_both_eq put_lease_def MAX_SCHUNKS_def)
  have rel: "release_reservation ?c (add_reservation ?c ?w) = ?w"
    by (simp add: release_reservation_def add_reservation_def test_object_defs)
  have st2: "vom_scheduler_release_lease 5001 \<lparr>g_workers = [add_reservation ?c ?w], g_chunks = [?c], g_leases = [?l]\<rparr> =
      \<lparr>g_workers = [?w], g_chunks = [], g_leases = [?l\<lparr>is_active := False\<rparr>]\<rparr>"
    by (simp add: vom_scheduler_release_lease_def leases_chunk_def deactivate_lease_def lookup_by_def ids rel)
  have "snd (vom_scheduler_tick rnd 2000 10 \<lparr>g_workers = [?w], g_chunks = [?d], g_leases = [?l\<lparr>is_active := False\<rparr>]\<rparr>) =
      [mk_lease 2000 ?d ?w]"
    using tick_single [OF assms w ids(5,3), of "[?l\<lparr>is_active := False\<rparr>]" 2000] fits by (simp add: MAX_SCHUNKS_def)
  then show ?thesis
    unfolding test_lease_release_def Let_def st1 st2 by (simp add: vom_scheduler_submit_ready_chunk_def MAX_SCHUNKS_def)
qed

lemma scheduler_tests_pass:
  assumes "score_rounding rnd"
  shows "scheduler_tests_main rnd = 0"
proof -
  have p: "plausible (test_worker ''worker-01'' 8 16384 (rnd (9 / 10)))" "plausible (test_worker ''worker-tiny'' 1 4096 (rnd 1))"
    "plausible ((test_worker ''worker-drain'' 8 16384 (rnd 1))\<lparr>draining := 1\<rparr>)"
    using assms by (simp_all add: test_worker_plausible)
  have "test_register_worker rnd" "test_submit_chunk"
    by (simp_all add: test_register_worker_def test_submit_chunk_def vom_scheduler_register_worker_def
        vom_scheduler_submit_ready_chunk_def vom_scheduler_init_def MAX_SWORKERS_def MAX_SCHUNKS_def)
  moreover have "test_tick_assigns_chunk rnd"
    using tick_single [OF assms p(1), of "test_chunk 2001 601 2 512" "[]"]
    by (simp add: test_tick_assigns_chunk_def with_both_eq evaluate_hard_filters_def test_object_defs MAX_SCHUNKS_def)
  moreover have "test_reject_insufficient_cpu rnd"
    using tick_single [OF assms p(2), of "test_chunk 3001 701 8 512" "[]"]
    by (simp add: test_reject_insufficient_cpu_def with_both_eq evaluate_hard_filters_def test_object_defs MAX_SCHUNKS_def)
  moreover have "test_reject_draining_worker rnd"
    using tick_single [OF assms p(3), of "test_chunk 4001 801 1 256" "[]"]
    by (simp add: test_reject_draining_worker_def with_both_eq evaluate_hard_filters_def test_object_defs MAX_SCHUNKS_def)
  ultimately show ?thesis
    using test_lease_release_holds [OF assms] by (simp add: scheduler_tests_main_def exit_code_def)
qed

section \<open>The shared types\<close>

definition test_domain_workload_states :: bool where
  "test_domain_workload_states \<longleftrightarrow> enum_value common_domain_h_VomWorkloadState ''VOM_WORKLOAD_STATE_SUBMITTED'' = Some 0"

definition test_domain_chunk_states :: bool where
  "test_domain_chunk_states \<longleftrightarrow> enum_value common_domain_h_VomChunkState ''VOM_CHUNK_PENDING'' = Some 0"

definition test_domain_worker_status :: bool where
  "test_domain_worker_status \<longleftrightarrow> (let v = enum_value common_domain_h_VomWorkerStatus
     in v ''VOM_WORKER_OFFLINE'' \<noteq> v ''VOM_WORKER_HEALTHY'' \<and> v ''VOM_WORKER_HEALTHY'' \<noteq> v ''VOM_WORKER_DRAINING'')"

definition test_domain_struct_sizes :: bool where
  "test_domain_struct_sizes \<longleftrightarrow> csize common_domain_h_vom_workload_state > 0 \<and> csize common_domain_h_vom_chunk_plan > 0
     \<and> csize common_domain_h_vom_worker_observation > 0"

definition test_result_type :: bool where
  "test_result_type \<longleftrightarrow> vom_result_is_success vom_result_success \<and> category vom_result_success = VOM_CAT_SUCCESS"

definition test_domain_constants :: bool where
  "test_domain_constants \<longleftrightarrow> common_domain_h_DOMAIN_UUID_LEN = 40 \<and> common_domain_h_DOMAIN_NAME_MAX = 64"

definition common_tests_main :: int where
  "common_tests_main = exit_code [test_domain_workload_states, test_domain_chunk_states, test_domain_worker_status,
     test_domain_struct_sizes, test_result_type, test_domain_constants]"

lemma common_tests_pass: "common_tests_main = 0"
  by (simp add: common_tests_main_def exit_code_def test_domain_workload_states_def test_domain_chunk_states_def
      test_domain_worker_status_def test_domain_struct_sizes_def test_result_type_def test_domain_constants_def
      vom_result_is_success_def vom_result_success_def decls round_up_def)

section \<open>The result record\<close>

fun all_pairs :: "('a \<Rightarrow> 'a \<Rightarrow> bool) \<Rightarrow> 'a list \<Rightarrow> bool" where
  "all_pairs P [] = True"
| "all_pairs P (x # xs) = (list_all (P x) xs \<and> all_pairs P xs)"

definition test_result_failure :: bool where
  "test_result_failure \<longleftrightarrow> \<not> vom_result_is_success \<lparr>category = VOM_CAT_TIMEOUT, stable_code = 9,
     retry_policy = VOM_RETRY_BACKOFF, human_detail = ''Timed out''\<rparr>"

definition test_result_categories :: bool where
  "test_result_categories \<longleftrightarrow> all_pairs (\<noteq>) (map (enum_value common_result_h_VomErrorCategory)
     [''VOM_CAT_SUCCESS'', ''VOM_CAT_INVALID_INPUT'', ''VOM_CAT_TRANSPORT'', ''VOM_CAT_PROTOCOL'', ''VOM_CAT_SCHEDULER_REJECT'',
      ''VOM_CAT_WORKER_EXECUTION'', ''VOM_CAT_TIMEOUT'', ''VOM_CAT_CANCELLATION'', ''VOM_CAT_AUTHENTICATION'', ''VOM_CAT_INTERNAL''])"

definition test_retry_actions :: bool where
  "test_retry_actions \<longleftrightarrow> all_pairs (\<noteq>) (map (enum_value common_result_h_VomRetryAction)
     [''VOM_RETRY_NONE'', ''VOM_RETRY_IMMEDIATE'', ''VOM_RETRY_BACKOFF'', ''VOM_RETRY_REPLAN''])"

definition result_tests_main :: int where
  "result_tests_main = exit_code [True, vom_result_is_success vom_result_success, test_result_failure, test_result_categories,
     test_retry_actions]"

lemma result_tests_pass: "result_tests_main = 0"
  by (simp add: result_tests_main_def exit_code_def test_result_failure_def test_result_categories_def test_retry_actions_def
      vom_result_is_success_def vom_result_success_def decls)

end
