(* ===== verification/Executor.thy ===== *)
theory Executor
  imports Prelude
begin

text \<open>
  The chunk executor of a worker (\<^verbatim>\<open>worker/src/executor.c\<close>): validation, the shared reservation of
  cores and memory, the supervision loop of a sub-process, and the sequence of status reports.

  What the operating system answers is a parameter, as is what the uninitialised local
  \<open>host_caps\<close> holds before two of its fields are set: whether the binary is executable, whether
  \<open>pipe\<close> and \<open>fork\<close> succeed, what a file holds, and for each round of the supervision loop the
  clock, the cancel flag, the result of \<open>read\<close> and the result of \<open>waitpid\<close>. The loop may run
  forever, so it is a \<^theory_text>\<open>partial_function (option)\<close>. A run returns its flag, the reservations it
  leaves, and the statuses passed to the callback.

  Reservation and release are atomic (they hold \<open>g_resource_mutex\<close>); runs of several threads
  interleave between them, which \<open>exec_step\<close> describes.

  Proved: reservations never exceed the host and are the sum over the running assignments, over any
  interleaving; a run ends once the clock reaches the timeout, gives back what it reserved and ends
  with a report of its outcome; what is reported on each failure; that the result hash is constant.
\<close>

section \<open>Data\<close>

datatype ExecState = EXEC_STATE_IDLE | EXEC_STATE_ACCEPTED | EXEC_STATE_STARTED | EXEC_STATE_PROGRESS
  | EXEC_STATE_COMPLETED | EXEC_STATE_FAILED | EXEC_STATE_CANCELLED

datatype VomCpuArch = VOM_ARCH_X86_64 | VOM_ARCH_AARCH64 | VOM_ARCH_ARMV7 | VOM_ARCH_UNKNOWN

datatype VomLinkType = VOM_LINK_ETH | VOM_LINK_WIFI | VOM_LINK_CELLULAR | VOM_LINK_UNKNOWN

record vom_worker_capabilities =
  arch :: VomCpuArch
  cores_online :: u32
  cores_total :: u32
  feature_bitmap :: u32
  ram_total_mb :: u64
  ram_free_mb :: u64
  battery_percent :: "32 word"
  is_charging :: bool
  is_ac_online :: bool
  display_attached :: bool
  display_width :: u32
  display_height :: u32
  touch_supported :: bool
  network_link_type :: VomLinkType
  network_bandwidth_kbps :: u64

record ChunkAssignment =
  chunk_id :: u64
  workload_id :: u64
  runtime_type :: string
  binary_path :: string
  required_cores :: u32
  required_memory_bytes :: u64
  timeout_seconds :: u32
  is_idempotent :: bool
  expected_input_sha256 :: string

record ChunkExecStatus =
  status_chunk_id :: u64
  state :: ExecState
  progress_percentage :: fp
  exit_code :: u32
  result_sha256 :: string
  error_message :: string

record reservations =
  g_reserved_cores :: u32
  g_reserved_memory_bytes :: u64

text \<open>The answers of the operating system.\<close>

datatype wait_result = WaitRunning | WaitExited nat | WaitAbnormal | WaitError bool

record loop_obs =
  tv_sec :: int
  cancelled :: bool
  bytes_read :: int
  waited :: wait_result

record exec_env =
  stack_caps :: vom_worker_capabilities
  access_ok :: "string \<Rightarrow> bool"
  pipe_ok :: bool
  fork_ok :: bool
  start_sec :: int
  obs :: "nat \<Rightarrow> loop_obs"
  read_file :: "string \<Rightarrow> string option"

section \<open>Operations\<close>

definition vom_sys_info_collect :: "vom_worker_capabilities \<Rightarrow> vom_worker_capabilities" where
  "vom_sys_info_collect out = out\<lparr>cores_online := 8, ram_total_mb := 16384\<rparr>"

definition vom_executor_validate :: "(string \<Rightarrow> bool) \<Rightarrow> ChunkAssignment \<Rightarrow> vom_worker_capabilities \<Rightarrow> bool" where
  "vom_executor_validate accessible assignment host_caps =
     (if runtime_type assignment \<noteq> ''posix_subproc'' then False
      else if required_cores assignment > cores_online host_caps then False
      else if required_memory_bytes assignment > ram_total_mb host_caps * 1024 * 1024 then False
      else if \<not> accessible (binary_path assignment) then False
      else True)"

definition reserve_local_resources ::
  "ChunkAssignment \<Rightarrow> vom_worker_capabilities \<Rightarrow> reservations \<Rightarrow> bool \<times> reservations" where
  "reserve_local_resources assignment host_caps r =
     (if g_reserved_cores r + required_cores assignment > cores_online host_caps
         \<or> g_reserved_memory_bytes r + required_memory_bytes assignment > ram_total_mb host_caps * 1024 * 1024
      then (False, r)
      else (True, r\<lparr>g_reserved_cores := g_reserved_cores r + required_cores assignment,
                    g_reserved_memory_bytes := g_reserved_memory_bytes r + required_memory_bytes assignment\<rparr>))"

definition release_local_resources :: "ChunkAssignment \<Rightarrow> reservations \<Rightarrow> reservations" where
  "release_local_resources assignment r =
     r\<lparr>g_reserved_cores := (if g_reserved_cores r \<ge> required_cores assignment
                            then g_reserved_cores r - required_cores assignment else g_reserved_cores r),
       g_reserved_memory_bytes :=
         (if g_reserved_memory_bytes r \<ge> required_memory_bytes assignment
          then g_reserved_memory_bytes r - required_memory_bytes assignment else g_reserved_memory_bytes r)\<rparr>"

definition integrity_step :: "char \<Rightarrow> u64 \<times> u64 \<Rightarrow> u64 \<times> u64" where
  "integrity_step ch h =
     ((fst h XOR of_nat (of_char ch)) * 0x100000001b3, (snd h XOR of_nat (of_char ch)) * 0xcbf29ce484222325)"

definition compute_deterministic_integrity :: "string option \<Rightarrow> string" where
  "compute_deterministic_integrity contents =
     (let (hash1, hash2) = (case contents of None \<Rightarrow> (0xcbf29ce484222325, 0x517cc1b727220a95)
            | Some s \<Rightarrow> fold integrity_step s (0xcbf29ce484222325, 0x517cc1b727220a95))
      in take 64 (hex16 hash1 @ hex16 hash2 @ hex16 (hash1 XOR hash2) @ hex16 (hash1 + hash2)))"

definition report :: "bool \<Rightarrow> ChunkExecStatus \<Rightarrow> ChunkExecStatus list \<Rightarrow> ChunkExecStatus list" where
  "report cb status trace = (if cb then trace @ [status] else trace)"

definition fail_with :: "string \<Rightarrow> ChunkExecStatus \<Rightarrow> ChunkExecStatus" where
  "fail_with msg status = status\<lparr>state := EXEC_STATE_FAILED, error_message := c_strncpy 127 msg\<rparr>"

definition progress_report :: "rounding \<Rightarrow> bool \<Rightarrow> loop_obs
    \<Rightarrow> ChunkExecStatus \<times> ChunkExecStatus list \<Rightarrow> ChunkExecStatus \<times> ChunkExecStatus list" where
  "progress_report rnd cb ob st =
     (case st of (status, trace) \<Rightarrow>
        if bytes_read ob > 0
        then (let status' = (if fp_gt (Fin 90) (progress_percentage status)
                             then status\<lparr>progress_percentage := fp_add rnd (progress_percentage status) (Fin 10)\<rparr>
                             else status)
              in (status', report cb status' trace))
        else (status, trace))"

text \<open>The outcome of \<open>waitpid\<close>: the new status, or nothing while the loop goes on.\<close>

definition wait_outcome :: "wait_result \<Rightarrow> ChunkExecStatus \<Rightarrow> ChunkExecStatus option" where
  "wait_outcome w status =
     (case w of
        WaitRunning \<Rightarrow> None
      | WaitExited code \<Rightarrow>
          (let status' = status\<lparr>exit_code := of_nat code\<rparr>
           in Some (if exit_code status' = 0
                    then status'\<lparr>state := EXEC_STATE_COMPLETED, progress_percentage := Fin 100\<rparr>
                    else status'\<lparr>state := EXEC_STATE_FAILED,
                           error_message := c_strncpy 127 (''Runtime error code: '' @ c_decimal (unat (exit_code status')))\<rparr>))
      | WaitAbnormal \<Rightarrow> Some (fail_with ''Sub-process terminated abnormally'' status)
      | WaitError is_echild \<Rightarrow> if is_echild then None else Some (status\<lparr>state := EXEC_STATE_FAILED\<rparr>))"

partial_function (option) exec_loop ::
  "rounding \<Rightarrow> bool \<Rightarrow> ChunkAssignment \<Rightarrow> exec_env \<Rightarrow> nat \<Rightarrow> ChunkExecStatus \<times> ChunkExecStatus list
    \<Rightarrow> (ChunkExecStatus \<times> ChunkExecStatus list) option" where
  "exec_loop rnd cb assignment env i st =
     (let ob = obs env i;
          elapsed_seconds = word_of_int (tv_sec ob - start_sec env) :: u32
      in if cancelled ob then Some ((fst st)\<lparr>state := EXEC_STATE_CANCELLED\<rparr>, snd st)
         else if elapsed_seconds \<ge> timeout_seconds assignment
         then Some (fail_with ''Execution timeout exceeded'' (fst st), snd st)
         else
           (let st' = progress_report rnd cb ob st
            in case wait_outcome (waited ob) (fst st') of
                 Some status \<Rightarrow> Some (status, snd st')
               | None \<Rightarrow> exec_loop rnd cb assignment env (i + 1) st'))"

definition initial_status :: "ChunkAssignment \<Rightarrow> ChunkExecStatus" where
  "initial_status assignment = \<lparr>status_chunk_id = chunk_id assignment, state = EXEC_STATE_IDLE,
     progress_percentage = Fin 0, exit_code = 0, result_sha256 = [], error_message = []\<rparr>"

definition vom_executor_run ::
  "rounding \<Rightarrow> bool \<Rightarrow> ChunkAssignment \<Rightarrow> exec_env \<Rightarrow> reservations
    \<Rightarrow> (bool \<times> reservations \<times> ChunkExecStatus list) option" where
  "vom_executor_run rnd cb assignment env r =
     (let host_caps = vom_sys_info_collect (stack_caps env); status = initial_status assignment in
      if \<not> vom_executor_validate (access_ok env) assignment host_caps
      then Some (False, r, report cb (fail_with ''Validation failed'' status) [])
      else
        (let accepted = status\<lparr>state := EXEC_STATE_ACCEPTED\<rparr>; trace1 = report cb accepted [];
             (reserved, r1) = reserve_local_resources assignment host_caps r in
         if \<not> reserved
         then Some (False, r1, report cb (fail_with ''Resource reservation rejected'' accepted) trace1)
         else if \<not> pipe_ok env
         then Some (False, release_local_resources assignment r1,
                report cb (fail_with ''Pipe generation failed'' accepted) trace1)
         else
           (let started = accepted\<lparr>state := EXEC_STATE_STARTED\<rparr>; trace2 = report cb started trace1 in
            if \<not> fork_ok env then Some (False, release_local_resources assignment r1, trace2)
            else
              (case exec_loop rnd cb assignment env 0 (started\<lparr>state := EXEC_STATE_PROGRESS\<rparr>, trace2) of
                 None \<Rightarrow> None
               | Some (final, trace3) \<Rightarrow>
                   (let final' = (if state final = EXEC_STATE_COMPLETED
                          then final\<lparr>result_sha256 := compute_deterministic_integrity (read_file env ''/dev/null'')\<rparr>
                          else final)
                    in Some (state final' = EXEC_STATE_COMPLETED, release_local_resources assignment r1,
                             report cb final' trace3))))))"

section \<open>Reservations\<close>

definition host_cores :: nat where "host_cores = 8"
definition host_memory :: nat where "host_memory = 16384 * 1024 * 1024"

definition within_host :: "reservations \<Rightarrow> bool" where
  "within_host r \<longleftrightarrow> unat (g_reserved_cores r) \<le> host_cores \<and> unat (g_reserved_memory_bytes r) \<le> host_memory"

definition fits :: "ChunkAssignment \<Rightarrow> bool" where
  "fits a \<longleftrightarrow> unat (required_cores a) \<le> host_cores \<and> unat (required_memory_bytes a) \<le> host_memory"

lemma validate_fits:
  "vom_executor_validate acc a (vom_sys_info_collect caps) \<Longrightarrow> fits a"
  by (auto simp: vom_executor_validate_def vom_sys_info_collect_def fits_def host_cores_def host_memory_def
      word_le_nat_alt not_less split: if_splits)

lemma reserve_exact:
  assumes "within_host r" "fits a"
    and "reserve_local_resources a (vom_sys_info_collect caps) r = (ok, r')"
  shows "ok \<longleftrightarrow> unat (g_reserved_cores r) + unat (required_cores a) \<le> host_cores
      \<and> unat (g_reserved_memory_bytes r) + unat (required_memory_bytes a) \<le> host_memory"
    and "\<not> ok \<Longrightarrow> r' = r"
    and "ok \<Longrightarrow> unat (g_reserved_cores r') = unat (g_reserved_cores r) + unat (required_cores a)
      \<and> unat (g_reserved_memory_bytes r') = unat (g_reserved_memory_bytes r) + unat (required_memory_bytes a)"
proof -
  have c: "unat (g_reserved_cores r + required_cores a) = unat (g_reserved_cores r) + unat (required_cores a)"
    using assms(1,2) by (simp add: within_host_def fits_def host_cores_def unat_word_ariths)
  have m: "unat (g_reserved_memory_bytes r + required_memory_bytes a) =
      unat (g_reserved_memory_bytes r) + unat (required_memory_bytes a)"
    using assms(1,2) by (simp add: within_host_def fits_def host_memory_def unat_word_ariths)
  show "ok \<longleftrightarrow> unat (g_reserved_cores r) + unat (required_cores a) \<le> host_cores
      \<and> unat (g_reserved_memory_bytes r) + unat (required_memory_bytes a) \<le> host_memory"
    using assms(3)
    by (auto simp: reserve_local_resources_def vom_sys_info_collect_def word_less_nat_alt c m
        host_cores_def host_memory_def split: if_splits)
  show "\<not> ok \<Longrightarrow> r' = r" using assms(3) by (auto simp: reserve_local_resources_def split: if_splits)
  show "ok \<Longrightarrow> unat (g_reserved_cores r') = unat (g_reserved_cores r) + unat (required_cores a)
      \<and> unat (g_reserved_memory_bytes r') = unat (g_reserved_memory_bytes r) + unat (required_memory_bytes a)"
    using assms(3) by (auto simp: reserve_local_resources_def c m split: if_splits)
qed

lemma release_exact:
  assumes "unat (required_cores a) \<le> unat (g_reserved_cores r)"
    "unat (required_memory_bytes a) \<le> unat (g_reserved_memory_bytes r)"
  shows "unat (g_reserved_cores (release_local_resources a r)) = unat (g_reserved_cores r) - unat (required_cores a)
    \<and> unat (g_reserved_memory_bytes (release_local_resources a r)) =
        unat (g_reserved_memory_bytes r) - unat (required_memory_bytes a)"
  using assms by (simp add: release_local_resources_def word_le_nat_alt unat_sub)

lemma reserve_release:
  assumes "within_host r" "fits a"
    and "reserve_local_resources a (vom_sys_info_collect caps) r = (True, r')"
  shows "release_local_resources a r' = r"
proof -
  have u: "unat (g_reserved_cores r') = unat (g_reserved_cores r) + unat (required_cores a)"
    "unat (g_reserved_memory_bytes r') = unat (g_reserved_memory_bytes r) + unat (required_memory_bytes a)"
    using reserve_exact(3) [OF assms] by simp_all
  have "g_reserved_cores (release_local_resources a r') = g_reserved_cores r"
    "g_reserved_memory_bytes (release_local_resources a r') = g_reserved_memory_bytes r"
    using release_exact [of a r'] u by (simp_all add: word_unat_eq_iff)
  then show ?thesis by (intro reservations.equality) simp_all
qed

text \<open>Threads that run assignments: one reserves after validation, another gives back.\<close>

inductive exec_step :: "(string \<Rightarrow> bool) \<Rightarrow> vom_worker_capabilities
    \<Rightarrow> reservations \<times> ChunkAssignment list \<Rightarrow> reservations \<times> ChunkAssignment list \<Rightarrow> bool"
  for acc caps where
  es_start: "vom_executor_validate acc a (vom_sys_info_collect caps) \<Longrightarrow>
    reserve_local_resources a (vom_sys_info_collect caps) r = (True, r') \<Longrightarrow>
    exec_step acc caps (r, running) (r', a # running)"
| es_reject: "vom_executor_validate acc a (vom_sys_info_collect caps) \<Longrightarrow>
    reserve_local_resources a (vom_sys_info_collect caps) r = (False, r') \<Longrightarrow>
    exec_step acc caps (r, running) (r', running)"
| es_finish: "a \<in> set running \<Longrightarrow>
    exec_step acc caps (r, running) (release_local_resources a r, remove1 a running)"

definition exec_inv :: "reservations \<times> ChunkAssignment list \<Rightarrow> bool" where
  "exec_inv s \<longleftrightarrow> within_host (fst s)
     \<and> unat (g_reserved_cores (fst s)) = (\<Sum>a \<leftarrow> snd s. unat (required_cores a))
     \<and> unat (g_reserved_memory_bytes (fst s)) = (\<Sum>a \<leftarrow> snd s. unat (required_memory_bytes a))"

lemma sum_remove1: "a \<in> set xs \<Longrightarrow> (\<Sum>x \<leftarrow> xs. f x :: nat) = f a + (\<Sum>x \<leftarrow> remove1 a xs. f x)"
  by (induction xs) auto

lemma exec_step_inv: "exec_step acc caps s s' \<Longrightarrow> exec_inv s \<Longrightarrow> exec_inv s'"
proof (induction rule: exec_step.induct)
  case (es_start a r r' running)
  then show ?case using reserve_exact [OF _ validate_fits [OF es_start(1)] es_start(2)]
    by (auto simp: exec_inv_def within_host_def)
next
  case (es_reject a r r' running)
  then show ?case using reserve_exact(2) [OF _ validate_fits [OF es_reject(1)] es_reject(2)]
    by (simp add: exec_inv_def)
next
  case (es_finish a running r)
  then show ?case
    using release_exact [of a r] sum_remove1 [OF es_finish(1), of "\<lambda>a. unat (required_cores a)"]
      sum_remove1 [OF es_finish(1), of "\<lambda>a. unat (required_memory_bytes a)"]
    by (auto simp: exec_inv_def within_host_def)
qed

lemma exec_steps_inv: "(exec_step acc caps)\<^sup>*\<^sup>* s s' \<Longrightarrow> exec_inv s \<Longrightarrow> exec_inv s'"
  by (induction rule: rtranclp_induct) (auto intro: exec_step_inv)

section \<open>The supervision loop\<close>

abbreviation timed_out :: "ChunkAssignment \<Rightarrow> exec_env \<Rightarrow> nat \<Rightarrow> bool" where
  "timed_out a env n \<equiv> (word_of_int (tv_sec (obs env n) - start_sec env) :: u32) \<ge> timeout_seconds a"

definition terminal_state :: "ExecState \<Rightarrow> bool" where
  "terminal_state s \<longleftrightarrow> s = EXEC_STATE_COMPLETED \<or> s = EXEC_STATE_FAILED \<or> s = EXEC_STATE_CANCELLED"

lemma wait_outcome_terminal: "wait_outcome w st = Some st' \<Longrightarrow> terminal_state (state st')"
  by (auto simp: wait_outcome_def terminal_state_def fail_with_def Let_def split: wait_result.splits if_splits)

lemma progress_report_trace:
  assumes "state status = EXEC_STATE_PROGRESS" "progress_report rnd True ob (status, trace) = (status', trace')"
  shows "state status' = EXEC_STATE_PROGRESS
    \<and> (\<exists>k. map state trace' = map state trace @ replicate k EXEC_STATE_PROGRESS)"
proof (cases "bytes_read ob > 0")
  case True
  with assms have "map state trace' = map state trace @ replicate 1 EXEC_STATE_PROGRESS"
    by (auto simp: progress_report_def report_def Let_def)
  moreover have "state status' = EXEC_STATE_PROGRESS"
    using True assms by (auto simp: progress_report_def Let_def)
  ultimately show ?thesis by blast
next
  case False
  with assms have "map state trace' = map state trace @ replicate 0 EXEC_STATE_PROGRESS"
    by (auto simp: progress_report_def)
  with False assms show ?thesis by (auto simp: progress_report_def)
qed

lemma exec_loop_returns:
  assumes "timed_out a env n" "i \<le> n" "state status = EXEC_STATE_PROGRESS"
  shows "\<exists>final trace' k. exec_loop rnd True a env i (status, trace) = Some (final, trace')
    \<and> terminal_state (state final) \<and> map state trace' = map state trace @ replicate k EXEC_STATE_PROGRESS"
  using assms(2,3)
proof (induction "n - i" arbitrary: i status trace)
  case 0
  then have "i = n" by simp
  with assms(1) have "exec_loop rnd True a env i (status, trace) =
      (if cancelled (obs env i) then Some (status\<lparr>state := EXEC_STATE_CANCELLED\<rparr>, trace)
       else Some (fail_with ''Execution timeout exceeded'' status, trace))"
    by (subst exec_loop.simps) (simp add: Let_def)
  moreover have "map state trace = map state trace @ replicate 0 EXEC_STATE_PROGRESS" by simp
  ultimately show ?case by (auto simp: terminal_state_def fail_with_def intro!: exI [of _ 0])
next
  case (Suc d)
  let ?ob = "obs env i"
  show ?case
  proof (cases "cancelled ?ob \<or> timed_out a env i")
    case True
    then show ?thesis
      by (subst exec_loop.simps) (auto simp: Let_def terminal_state_def fail_with_def intro!: exI [of _ 0])
  next
    case False
    obtain status1 trace1 where p: "progress_report rnd True ?ob (status, trace) = (status1, trace1)" by fastforce
    from progress_report_trace [OF Suc.prems(2) p] obtain k where
      k: "state status1 = EXEC_STATE_PROGRESS" "map state trace1 = map state trace @ replicate k EXEC_STATE_PROGRESS"
      by blast
    show ?thesis
    proof (cases "wait_outcome (waited ?ob) status1")
      case (Some final)
      with False p k wait_outcome_terminal [OF Some] show ?thesis
        by (subst exec_loop.simps) (auto simp: Let_def)
    next
      case None
      have "d = n - Suc i" "Suc i \<le> n" using Suc.hyps(2) by simp_all
      from Suc.hyps(1) [OF this k(1), of trace1] obtain final trace' k' where
        IH: "exec_loop rnd True a env (Suc i) (status1, trace1) = Some (final, trace')" "terminal_state (state final)"
        "map state trace' = map state trace1 @ replicate k' EXEC_STATE_PROGRESS" by blast
      have "map state trace' = map state trace @ replicate (k + k') EXEC_STATE_PROGRESS"
        using IH(3) k(2) by (simp add: replicate_add)
      moreover have "exec_loop rnd True a env i (status, trace) = Some (final, trace')"
        using False p None IH(1) by (subst exec_loop.simps) (simp add: Let_def)
      ultimately show ?thesis using IH(2) by blast
    qed
  qed
qed

lemma loop_run_trace:
  assumes "timed_out a env n" "map state trace = [EXEC_STATE_ACCEPTED, EXEC_STATE_STARTED]"
    and "state status = EXEC_STATE_PROGRESS"
    and "exec_loop rnd True a env 0 (status, trace) = Some (final, trace')"
    and "state final' = state final"
  shows "\<exists>k. terminal_state (state final) \<and> map state (report True final' trace') =
    [EXEC_STATE_ACCEPTED, EXEC_STATE_STARTED] @ replicate k EXEC_STATE_PROGRESS @ [state final]"
proof -
  from exec_loop_returns [OF assms(1) _ assms(3), of 0 rnd trace] assms(4)
  obtain k where "terminal_state (state final)" "map state trace' = map state trace @ replicate k EXEC_STATE_PROGRESS"
    by auto
  with assms(2,5) show ?thesis by (auto simp: report_def)
qed

text \<open>The reports of a run, by how far it gets: validated, resources reserved, pipe opened, child forked.\<close>

definition run_trace :: "bool \<Rightarrow> bool \<Rightarrow> bool \<Rightarrow> bool \<Rightarrow> ExecState list \<Rightarrow> bool" where
  "run_trace valid reserved piped forked ss \<longleftrightarrow>
     (if \<not> valid then ss = [EXEC_STATE_FAILED]
      else if \<not> reserved \<or> \<not> piped then ss = [EXEC_STATE_ACCEPTED, EXEC_STATE_FAILED]
      else if \<not> forked then ss = [EXEC_STATE_ACCEPTED, EXEC_STATE_STARTED]
      else (\<exists>k s. terminal_state s \<and>
          ss = [EXEC_STATE_ACCEPTED, EXEC_STATE_STARTED] @ replicate k EXEC_STATE_PROGRESS @ [s]))"

lemma run_after_start:
  assumes "timed_out a env n" "fits a" "within_host r"
    and "vom_executor_validate (access_ok env) a (vom_sys_info_collect (stack_caps env))"
    and "reserve_local_resources a (vom_sys_info_collect (stack_caps env)) r = (True, r1)"
    and "pipe_ok env" "fork_ok env"
  shows "\<exists>ok trace. vom_executor_run rnd True a env r = Some (ok, r, trace)
    \<and> run_trace True True True True (map state trace) \<and> (ok \<longleftrightarrow> state (last trace) = EXEC_STATE_COMPLETED)"
proof -
  let ?acc = "(initial_status a)\<lparr>state := EXEC_STATE_ACCEPTED\<rparr>"
  let ?prog = "?acc\<lparr>state := EXEC_STATE_STARTED\<rparr>\<lparr>state := EXEC_STATE_PROGRESS\<rparr>"
  let ?tr = "[?acc, ?acc\<lparr>state := EXEC_STATE_STARTED\<rparr>]"
  have rel: "release_local_resources a r1 = r" using reserve_release [OF assms(3,2,5)] .
  obtain final tr' where loop: "exec_loop rnd True a env 0 (?prog, ?tr) = Some (final, tr')"
    using exec_loop_returns [OF assms(1), of 0 ?prog rnd ?tr] by auto
  let ?fin = "if state final = EXEC_STATE_COMPLETED
      then final\<lparr>result_sha256 := compute_deterministic_integrity (read_file env ''/dev/null'')\<rparr> else final"
  have fin: "state ?fin = state final" by simp
  from loop_run_trace [OF assms(1) _ _ loop fin] obtain k where
    k: "terminal_state (state final)" "map state (report True ?fin tr') =
      [EXEC_STATE_ACCEPTED, EXEC_STATE_STARTED] @ replicate k EXEC_STATE_PROGRESS @ [state final]" by auto
  have run: "vom_executor_run rnd True a env r = Some (state ?fin = EXEC_STATE_COMPLETED, r, report True ?fin tr')"
    using assms(4-7) loop rel by (simp add: vom_executor_run_def Let_def report_def)
  have "run_trace True True True True (map state (report True ?fin tr'))"
    unfolding k(2) run_trace_def using k(1) by auto
  moreover have "last (report True ?fin tr') = ?fin" by (simp add: report_def)
  ultimately show ?thesis using run by simp
qed

section \<open>Properties\<close>

text \<open>
  C14: over any interleaving of runs in several threads the reserved cores and memory are exactly the
  sums over the assignments that are running, and never exceed the eight cores and 16384 MB of the
  host; the 32- and 64-bit additions never wrap.\<close>

theorem reservations_exact:
  assumes "(exec_step acc caps)\<^sup>*\<^sup>* (\<lparr>g_reserved_cores = 0, g_reserved_memory_bytes = 0\<rparr>, []) (r, running)"
  shows "unat (g_reserved_cores r) = (\<Sum>a \<leftarrow> running. unat (required_cores a))
    \<and> unat (g_reserved_memory_bytes r) = (\<Sum>a \<leftarrow> running. unat (required_memory_bytes a))
    \<and> (\<Sum>a \<leftarrow> running. unat (required_cores a)) \<le> 8
    \<and> (\<Sum>a \<leftarrow> running. unat (required_memory_bytes a)) \<le> 16384 * 1024 * 1024"
proof -
  have "exec_inv (\<lparr>g_reserved_cores = 0, g_reserved_memory_bytes = 0\<rparr>, [])"
    by (simp add: exec_inv_def within_host_def)
  from exec_steps_inv [OF assms this] show ?thesis
    by (simp add: exec_inv_def within_host_def host_cores_def host_memory_def)
qed

definition demo_assignment :: ChunkAssignment where
  "demo_assignment = \<lparr>chunk_id = 7, workload_id = 1, runtime_type = ''posix_subproc'', binary_path = ''/bin/true'',
     required_cores = 3, required_memory_bytes = 1024, timeout_seconds = 2, is_idempotent = True,
     expected_input_sha256 = []\<rparr>"

definition demo_caps :: vom_worker_capabilities where
  "demo_caps = \<lparr>arch = VOM_ARCH_X86_64, cores_online = 0, cores_total = 0, feature_bitmap = 0, ram_total_mb = 0,
     ram_free_mb = 0, battery_percent = 0, is_charging = False, is_ac_online = False, display_attached = False,
     display_width = 0, display_height = 0, touch_supported = False, network_link_type = VOM_LINK_ETH,
     network_bandwidth_kbps = 0\<rparr>"

theorem reservations_exact_witness:
  "\<exists>r. (exec_step (\<lambda>_. True) demo_caps)\<^sup>*\<^sup>* (\<lparr>g_reserved_cores = 0, g_reserved_memory_bytes = 0\<rparr>, []) (r, [demo_assignment])
    \<and> unat (g_reserved_cores r) = 3"
proof -
  let ?r = "\<lparr>g_reserved_cores = 3, g_reserved_memory_bytes = 1024\<rparr>"
  have "exec_step (\<lambda>_. True) demo_caps (\<lparr>g_reserved_cores = 0, g_reserved_memory_bytes = 0\<rparr>, []) (?r, [demo_assignment])"
    by (rule es_start) (simp_all add: vom_executor_validate_def vom_sys_info_collect_def
        reserve_local_resources_def demo_assignment_def demo_caps_def)
  then have s: "(exec_step (\<lambda>_. True) demo_caps)\<^sup>*\<^sup>* (\<lparr>g_reserved_cores = 0, g_reserved_memory_bytes = 0\<rparr>, []) (?r, [demo_assignment])"
    by (rule r_into_rtranclp)
  from reservations_exact [OF s] s show ?thesis by (auto simp: demo_assignment_def)
qed

text \<open>
  C6: a run returns whenever the clock reaches the assignment's timeout in some round of the supervision loop (it may
  return earlier), if the reservations were within the host's resources. It leaves the reservations as it found them, and
  returns true exactly when its last report is completed. Its reports are: a single failure when validation
  fails; accepted and failed when the resources cannot be reserved or no pipe is available; accepted and started, with no
  terminal report, when the fork fails; and otherwise accepted, started, any number of progress reports and one terminal
  state (completed, failed or cancelled), in this order.\<close>

theorem executor_run_sound:
  assumes "within_host r" "\<exists>n. timed_out a env n"
  shows "\<exists>ok trace. vom_executor_run rnd True a env r = Some (ok, r, trace)
    \<and> run_trace (vom_executor_validate (access_ok env) a (vom_sys_info_collect (stack_caps env)))
        (fst (reserve_local_resources a (vom_sys_info_collect (stack_caps env)) r)) (pipe_ok env) (fork_ok env)
        (map state trace)
    \<and> (ok \<longleftrightarrow> state (last trace) = EXEC_STATE_COMPLETED)"
proof -
  let ?caps = "vom_sys_info_collect (stack_caps env)"
  obtain n where n: "timed_out a env n" using assms(2) by blast
  obtain reserved r1 where res: "reserve_local_resources a ?caps r = (reserved, r1)" by fastforce
  consider "\<not> vom_executor_validate (access_ok env) a ?caps"
    | "vom_executor_validate (access_ok env) a ?caps" "\<not> reserved"
    | "vom_executor_validate (access_ok env) a ?caps" "reserved" "\<not> pipe_ok env \<or> \<not> fork_ok env"
    | "vom_executor_validate (access_ok env) a ?caps" "reserved" "pipe_ok env" "fork_ok env" by blast
  then show ?thesis
  proof cases
    case 1
    then show ?thesis
      by (auto simp: vom_executor_run_def Let_def report_def run_trace_def fail_with_def intro: exI [of _ False])
  next
    case 2
    have "r1 = r" using reserve_exact(2) [OF assms(1) validate_fits [OF 2(1)] res 2(2)] .
    with 2 res show ?thesis
      by (auto simp: vom_executor_run_def Let_def report_def run_trace_def fail_with_def intro: exI [of _ False])
  next
    case 3
    have "release_local_resources a r1 = r"
      using reserve_release [OF assms(1) validate_fits [OF 3(1)]] res 3(2) by simp
    with 3 res show ?thesis
      by (auto simp: vom_executor_run_def Let_def report_def run_trace_def fail_with_def intro: exI [of _ False])
  next
    case 4
    with res show ?thesis using run_after_start [OF n validate_fits [OF 4(1)] assms(1) 4(1), of r1 rnd] by simp
  qed
qed

definition demo_env :: exec_env where
  "demo_env = \<lparr>stack_caps = demo_caps, access_ok = (\<lambda>_. True), pipe_ok = True, fork_ok = True, start_sec = 100,
     obs = (\<lambda>i. \<lparr>tv_sec = 100 + int i, cancelled = False, bytes_read = 0,
       waited = (if i = 1 then WaitExited 0 else WaitRunning)\<rparr>), read_file = (\<lambda>_. Some [])\<rparr>"

theorem executor_run_sound_witness:
  "\<exists>ok trace k st. vom_executor_run Fin True demo_assignment demo_env \<lparr>g_reserved_cores = 0, g_reserved_memory_bytes = 0\<rparr> =
      Some (ok, \<lparr>g_reserved_cores = 0, g_reserved_memory_bytes = 0\<rparr>, trace) \<and> terminal_state st
    \<and> map state trace = [EXEC_STATE_ACCEPTED, EXEC_STATE_STARTED] @ replicate k EXEC_STATE_PROGRESS @ [st]"
proof -
  let ?r = "\<lparr>g_reserved_cores = 0, g_reserved_memory_bytes = 0\<rparr>"
  have 1: "within_host ?r" by (simp add: within_host_def)
  have "timed_out demo_assignment demo_env 2" by (simp add: demo_env_def demo_assignment_def)
  then have 2: "\<exists>n. timed_out demo_assignment demo_env n" ..
  have "vom_executor_validate (access_ok demo_env) demo_assignment (vom_sys_info_collect (stack_caps demo_env))"
    "fst (reserve_local_resources demo_assignment (vom_sys_info_collect (stack_caps demo_env)) ?r)" "pipe_ok demo_env" "fork_ok demo_env"
    by (simp_all add: vom_executor_validate_def vom_sys_info_collect_def reserve_local_resources_def demo_assignment_def demo_env_def)
  with executor_run_sound [OF 1 2, of Fin] show ?thesis unfolding run_trace_def by auto
qed

text \<open>
  The reported result hash does not depend on the work: it is the hash of the null device, whose
  contents are empty.
\<close>

lemma result_hash_constant:
  "compute_deterministic_integrity (Some []) = compute_deterministic_integrity None
   \<and> length (compute_deterministic_integrity (Some [])) = 64"
  by (simp add: compute_deterministic_integrity_def)

end
