(* ===== verification/Compat.thy ===== *)
theory Compat
  imports Executor
begin

text \<open>
  The Windows half of the portability layer (\<^verbatim>\<open>common/include/common/compat.h\<close>), apart from its
  \<open>getopt\<close>, and what becomes of the chunk executor on it.

  The Windows calls are the parameter \<open>win_api\<close>: whether \<open>OpenProcess\<close> gives a handle, what
  \<open>GetExitCodeProcess\<close> and \<open>WaitForSingleObject\<close> report, the system time and the processor count. There,
  \<open>pid_t\<close> is the unsigned \<open>DWORD\<close> and \<open>long\<close> has 32 bits. The contents of a variable that a call leaves unset are an argument.

  Threads, locks, signals, polling and sleeping are the shims of the same file.

  Proved: the time shim is exact until 2038 and its microseconds are in range; exit codes that the shims
  lose; and that on Windows the executor never notices that no process was started.
\<close>

section \<open>The shims\<close>

record win_api =
  open_process :: "u32 \<Rightarrow> bool"
  get_exit_code :: "u32 \<Rightarrow> u32 option"
  wait_object :: "u32 \<Rightarrow> bool"
  system_time :: u64
  processors :: u32

record timeval =
  tv_sec :: int
  tv_usec :: int

definition gettimeofday :: "win_api \<Rightarrow> timeval" where
  "gettimeofday api =
     (let q = system_time api - 116444736000000000
      in \<lparr> tv_sec = signed_take_bit 31 (uint (q div 10000000)), tv_usec = signed_take_bit 31 (uint ((q mod 10000000) div 10)) \<rparr>)"

definition sysconf :: "win_api \<Rightarrow> int \<Rightarrow> int" where
  "sysconf api name = (if name = 1 \<or> name = 2 then sint (processors api) else -1)"

definition fork :: u32 where
  "fork = word_of_int (-1)"

definition WNOHANG :: int where "WNOHANG = 1"
definition STILL_ACTIVE :: u32 where "STILL_ACTIVE = 259"

text \<open>The result's process identifier and the status variable afterwards; \<open>junk\<close> is an exit code that was never stored.\<close>

definition vom_waitpid_wrap :: "win_api \<Rightarrow> u32 \<Rightarrow> u32 \<Rightarrow> int \<Rightarrow> int \<Rightarrow> u32 \<times> int" where
  "vom_waitpid_wrap api junk pid status options =
     (if \<not> open_process api pid then (word_of_int (-1), status)
      else if options AND WNOHANG \<noteq> 0
      then (case get_exit_code api pid of
              Some exitCode \<Rightarrow> if exitCode = STILL_ACTIVE then (0, 0) else (pid, sint exitCode)
            | None \<Rightarrow> (word_of_int (-1), status))
      else if wait_object api pid
      then (pid, sint (case get_exit_code api pid of Some exitCode \<Rightarrow> exitCode | None \<Rightarrow> junk))
      else (word_of_int (-1), status))"

definition WIFEXITED :: "int \<Rightarrow> bool" where "WIFEXITED status = True"
definition WEXITSTATUS :: "int \<Rightarrow> int" where "WEXITSTATUS status = status AND 255"

text \<open>The return code, and whether the process is terminated.\<close>

definition kill :: "win_api \<Rightarrow> u32 \<Rightarrow> int \<Rightarrow> int \<times> bool" where
  "kill api pid sig = (if (sig = 9 \<or> sig = 15) \<and> open_process api pid then (0, True) else (-1, False))"

text \<open>
  Threads: the argument block of a new thread (\<open>struct _vom_thread_arg\<close>) is allocated at the address \<open>malloc\<close>
  gives and lives in a map of blocks. \<open>h\<close> is the handle that \<open>_beginthreadex\<close> returns.
\<close>

record ('f, 'a) vom_thread_arg =
  func :: 'f
  arg :: 'a

definition pthread_create ::
  "nat option \<Rightarrow> nat \<Rightarrow> 'f \<Rightarrow> 'a \<Rightarrow> (nat \<rightharpoonup> ('f, 'a) vom_thread_arg) \<Rightarrow> int \<times> nat option \<times> (nat \<rightharpoonup> ('f, 'a) vom_thread_arg)" where
  "pthread_create malloc h start_routine a blocks =
     (case malloc of None \<Rightarrow> (-1, None, blocks)
      | Some targ \<Rightarrow>
          (let blocks' = blocks(targ \<mapsto> \<lparr>func = start_routine, arg = a\<rparr>)
           in if h = 0 then (-1, None, blocks'(targ := None)) else (0, Some h, blocks')))"

text \<open>The thread's entry: no result when the block is not there. \<open>run\<close> is the effect of calling a routine.\<close>

definition vom_thread_entry ::
  "('f \<Rightarrow> 'a \<Rightarrow> 's \<Rightarrow> 's) \<Rightarrow> nat \<Rightarrow> (nat \<rightharpoonup> ('f, 'a) vom_thread_arg) \<times> 's \<Rightarrow> (nat \<times> (nat \<rightharpoonup> ('f, 'a) vom_thread_arg) \<times> 's) option" where
  "vom_thread_entry run targ st =
     (case fst st targ of None \<Rightarrow> None
      | Some b \<Rightarrow> Some (0, (fst st)(targ := None), run (func b) (arg b) (snd st)))"

text \<open>
  The join waits and closes the handle; the result location of the caller is not written. The four mutex functions
  forward to the slim lock, whose operations are parameters, and always return 0.
\<close>

definition pthread_join :: "nat \<Rightarrow> 'r \<Rightarrow> nat set \<Rightarrow> int \<times> 'r \<times> nat set" where
  "pthread_join thread retval handles = (0, retval, handles - {thread})"

definition pthread_mutex_init :: "('m \<Rightarrow> 'm) \<Rightarrow> 'm \<Rightarrow> int \<times> 'm" where
  "pthread_mutex_init initialize_lock mutex = (0, initialize_lock mutex)"

definition pthread_mutex_destroy :: "'m \<Rightarrow> int \<times> 'm" where
  "pthread_mutex_destroy mutex = (0, mutex)"

definition pthread_mutex_lock :: "('m \<Rightarrow> 'm) \<Rightarrow> 'm \<Rightarrow> int \<times> 'm" where
  "pthread_mutex_lock acquire_exclusive mutex = (0, acquire_exclusive mutex)"

definition pthread_mutex_unlock :: "('m \<Rightarrow> 'm) \<Rightarrow> 'm \<Rightarrow> int \<times> 'm" where
  "pthread_mutex_unlock release_exclusive mutex = (0, release_exclusive mutex)"

text \<open>Signals: \<open>sigaction\<close> registers the handler and ignores the mask; waiting and sleeping.\<close>

record 'h sigaction_t =
  sa_handler :: 'h
  sa_mask :: int

definition sigemptyset :: "int option \<Rightarrow> int option" where
  "sigemptyset s = map_option (\<lambda>_. 0) s"

definition sigaction :: "int \<Rightarrow> 'h sigaction_t \<Rightarrow> (int \<rightharpoonup> 'h) \<Rightarrow> (int \<rightharpoonup> 'h)" where
  "sigaction sig sa handlers = handlers(sig \<mapsto> sa_handler sa)"

definition poll_shim :: "('fds \<Rightarrow> u32 \<Rightarrow> int \<Rightarrow> int \<times> 'fds) \<Rightarrow> 'fds \<Rightarrow> int \<Rightarrow> int \<Rightarrow> int \<times> 'fds" where
  "poll_shim wsa_poll fds nfds timeout_ms = wsa_poll fds (word_of_int nfds) timeout_ms"

definition sleep_ms :: "nat \<Rightarrow> u32" where
  "sleep_ms seconds = of_nat (seconds * 1000)"

definition usleep_ms :: "nat \<Rightarrow> u32" where
  "usleep_ms usec = of_nat (usec div 1000)"

section \<open>Time\<close>

text \<open>From 1970 to the 19th of January 2038 the shim splits the system time exactly.\<close>

lemma gettimeofday_exact:
  assumes "116444736000000000 \<le> system_time api" and "unat (system_time api) - 116444736000000000 < 10000000 * 2 ^ 31"
  shows "tv_usec (gettimeofday api) \<in> {0..<1000000}
    \<and> tv_sec (gettimeofday api) * 1000000 + tv_usec (gettimeofday api) = int ((unat (system_time api) - 116444736000000000) div 10)"
proof -
  define n where "n = unat (system_time api) - 116444736000000000"
  have q: "unat (system_time api - 116444736000000000) = n"
    using assms(1) by (simp add: n_def unat_sub)
  have "n < 10000000 * 2 ^ 31" using assms(2) by (simp add: n_def)
  then have s: "n div 10000000 < 2 ^ 31" by (simp add: less_mult_imp_div_less mult.commute)
  have u: "n mod 10000000 div 10 < 1000000" by (simp add: less_mult_imp_div_less)
  have "uint ((system_time api - 116444736000000000) div 10000000) = int (n div 10000000)"
    "uint ((system_time api - 116444736000000000) mod 10000000 div 10) = int (n mod 10000000 div 10)"
    by (simp_all add: uint_nat q unat_div unat_mod)
  then have "tv_sec (gettimeofday api) = int (n div 10000000)" "tv_usec (gettimeofday api) = int (n mod 10000000 div 10)"
    using s u by (simp_all add: gettimeofday_def Let_def signed_take_bit_int_eq_self)
  moreover have "n div 10 = n div 10000000 * 1000000 + n mod 10000000 div 10"
  proof -
    have "n div 10 = (n mod 10000000 + n div 10000000 * 1000000 * 10) div 10" by (simp add: mult.assoc)
    also have "\<dots> = n div 10000000 * 1000000 + n mod 10000000 div 10" by (rule div_mult_self1) simp
    finally show ?thesis .
  qed
  ultimately show ?thesis using u by (simp add: n_def [symmetric])
qed

section \<open>Threads\<close>

text \<open>
  A thread that was created at a fresh address runs its routine once, with the argument it was given, and its block is freed
  when it ends; a creation that fails leaves no block behind. A block cannot be used a second time.
\<close>

lemma thread_block_lifetime:
  assumes "blocks targ = None" "pthread_create (Some targ) h f a blocks = (rc, th, blocks')"
  shows "(rc = 0 \<longleftrightarrow> h \<noteq> 0) \<and> (rc \<noteq> 0 \<longrightarrow> blocks' = blocks)
    \<and> (rc = 0 \<longrightarrow> vom_thread_entry run targ (blocks', st) = Some (0, blocks, run f a st))
    \<and> vom_thread_entry run targ (blocks, st) = None"
  using assms by (auto simp: pthread_create_def vom_thread_entry_def Let_def fun_upd_idem split: if_splits)

text \<open>Pauses of less than a millisecond become none.\<close>

lemma usleep_below_millisecond: "usec < 1000 \<Longrightarrow> usleep_ms usec = 0"
  by (simp add: usleep_ms_def)

section \<open>The executor on Windows\<close>

text \<open>How the executor reads \<open>waitpid\<close>: its answer compared with the process identifier, both unsigned, so the
  test for a negative answer never holds.\<close>

definition win_wait :: "win_api \<Rightarrow> u32 \<Rightarrow> int \<Rightarrow> wait_result" where
  "win_wait api pid status_flags =
     (let (result_pid, flags) = vom_waitpid_wrap api 0 pid status_flags WNOHANG
      in if result_pid = pid then (if WIFEXITED flags then WaitExited (nat (WEXITSTATUS flags)) else WaitAbnormal)
         else WaitRunning)"

text \<open>An environment of the executor on Windows: \<open>fork\<close> seems to succeed, and each wait reads the shim.\<close>

definition windows_env :: "win_api \<Rightarrow> (nat \<Rightarrow> int) \<Rightarrow> exec_env \<Rightarrow> exec_env" where
  "windows_env api stack env = env\<lparr>fork_ok := \<not> fork < 0, obs := (\<lambda>i. (obs env i)\<lparr>waited := win_wait api fork (stack i)\<rparr>)\<rparr>"

lemma win_wait_no_process: "\<not> open_process api fork \<Longrightarrow> win_wait api fork flags = WaitExited (nat (flags AND 255))"
  by (simp add: win_wait_def vom_waitpid_wrap_def fork_def WIFEXITED_def WEXITSTATUS_def)

text \<open>A process that ends with code 259 looks alive for ever, and one that ends with 256 looks successful.\<close>

lemma exit_codes_lost:
  assumes "open_process api pid" "0 < pid"
  shows "get_exit_code api pid = Some 259 \<Longrightarrow> win_wait api pid flags = WaitRunning"
    and "get_exit_code api pid = Some 256 \<Longrightarrow> win_wait api pid flags = WaitExited 0"
  using assms by (auto simp: win_wait_def vom_waitpid_wrap_def WNOHANG_def STILL_ACTIVE_def WIFEXITED_def WEXITSTATUS_def)

text \<open>The exit code the executor derives from the unset status is zero exactly when the status' low byte is.\<close>

lemma low_byte_exit_code:
  fixes flags :: int
  shows "(word_of_int (flags AND 255) :: 32 word) = 0 \<longleftrightarrow> flags AND 255 = 0"
proof -
  have "flags AND 255 = flags mod 2 ^ 8" using take_bit_eq_mask [of 8 flags] by (simp add: take_bit_eq_mod mask_eq_exp_minus_1)
  then have "0 \<le> flags AND 255" "flags AND 255 < 2 ^ 32" using pos_mod_bound [of "2 ^ 8" flags] by simp_all
  then have "uint (word_of_int (flags AND 255) :: 32 word) = flags AND 255" by (simp add: unsigned_of_int take_bit_int_eq_self del: take_bit_and)
  then show ?thesis by (metis uint_0_eq word_of_int_0)
qed

lemma windows_wait_outcome:
  "\<exists>final. wait_outcome (WaitExited (nat (flags AND 255))) status = Some final
     \<and> (if flags AND 255 = 0 then state final = EXEC_STATE_COMPLETED \<and> progress_percentage final = Fin 100
         else state final = EXEC_STATE_FAILED)"
  using low_byte_exit_code [of flags] by (simp add: wait_outcome_def Let_def)

text \<open>
  C36: On Windows, where no process can be opened under the identifier that the \<open>fork\<close> shim returns, nothing is ever
  started, and yet a chunk that is admitted, has its pipe and is neither cancelled nor past its deadline in the first round of
  the supervision loop is finished in that round: the failed wait is taken for the end of the process. The verdict is what the
  uninitialised status variable happens to hold: completed, with full progress, if its low byte is zero, and failed otherwise.
\<close>

theorem windows_verdict_is_uninitialised:
  assumes "\<not> open_process api fork"
    and "vom_executor_validate (access_ok env) a (vom_sys_info_collect (stack_caps env))"
    and "fst (reserve_local_resources a (vom_sys_info_collect (stack_caps env)) r)" and "pipe_ok env"
    and "\<not> cancelled (obs env 0)"
    and "(word_of_int (Executor.tv_sec (obs env 0) - start_sec env) :: u32) < timeout_seconds a"
  shows "\<exists>r' trace. vom_executor_run rnd True a (windows_env api stack env) r = Some (stack 0 AND 255 = 0, r', trace)
    \<and> (if stack 0 AND 255 = 0
        then state (last trace) = EXEC_STATE_COMPLETED \<and> progress_percentage (last trace) = Fin 100
        else state (last trace) = EXEC_STATE_FAILED)"
proof -
  let ?env = "windows_env api stack env"
  let ?caps = "vom_sys_info_collect (stack_caps env)"
  have env: "stack_caps ?env = stack_caps env" "access_ok ?env = access_ok env" "pipe_ok ?env" "fork_ok ?env" "start_sec ?env = start_sec env"
    "obs ?env 0 = (obs env 0)\<lparr>waited := WaitExited (nat (stack 0 AND 255))\<rparr>"
    using assms(4) win_wait_no_process [OF assms(1), of "stack 0"] by (simp_all add: windows_env_def)
  have loop: "\<exists>final trace. exec_loop rnd True a ?env 0 st = Some (final, trace)
      \<and> (if stack 0 AND 255 = 0 then state final = EXEC_STATE_COMPLETED \<and> progress_percentage final = Fin 100
          else state final = EXEC_STATE_FAILED)" for st
  proof -
    obtain final where "wait_outcome (WaitExited (nat (stack 0 AND 255))) (fst (progress_report rnd True (obs ?env 0) st)) = Some final"
      "if stack 0 AND 255 = 0 then state final = EXEC_STATE_COMPLETED \<and> progress_percentage final = Fin 100
       else state final = EXEC_STATE_FAILED" using windows_wait_outcome by blast
    then show ?thesis using assms(5,6) by (subst exec_loop.simps) (auto simp: env Let_def dest: leD)
  qed
  obtain r1 where "reserve_local_resources a ?caps r = (True, r1)" using assms(3) by (cases "reserve_local_resources a ?caps r") simp
  moreover obtain final trace where "exec_loop rnd True a ?env 0 (initial_status a\<lparr>state := EXEC_STATE_PROGRESS\<rparr>,
      [initial_status a\<lparr>state := EXEC_STATE_ACCEPTED\<rparr>, initial_status a\<lparr>state := EXEC_STATE_STARTED\<rparr>]) = Some (final, trace)"
    "if stack 0 AND 255 = 0 then state final = EXEC_STATE_COMPLETED \<and> progress_percentage final = Fin 100
     else state final = EXEC_STATE_FAILED" using loop by blast
  ultimately show ?thesis using assms(2) by (auto simp: vom_executor_run_def env report_def Let_def split: if_splits)
qed

definition no_windows_process :: win_api where
  "no_windows_process = \<lparr> open_process = (\<lambda>p. False), get_exit_code = (\<lambda>p. None), wait_object = (\<lambda>p. False),
     system_time = 116444736000000000, processors = 4 \<rparr>"

theorem windows_verdict_is_uninitialised_witness:
  "(\<exists>r' trace. vom_executor_run Fin True demo_assignment (windows_env no_windows_process (\<lambda>i. 0) demo_env)
      \<lparr>g_reserved_cores = 0, g_reserved_memory_bytes = 0\<rparr> = Some (True, r', trace)
      \<and> state (last trace) = EXEC_STATE_COMPLETED)
   \<and> (\<exists>r' trace. vom_executor_run Fin True demo_assignment (windows_env no_windows_process (\<lambda>i. 1) demo_env)
      \<lparr>g_reserved_cores = 0, g_reserved_memory_bytes = 0\<rparr> = Some (False, r', trace)
      \<and> state (last trace) = EXEC_STATE_FAILED)"
proof -
  let ?r = "\<lparr>g_reserved_cores = 0, g_reserved_memory_bytes = 0\<rparr>"
  have 1: "\<not> open_process no_windows_process fork" by (simp add: no_windows_process_def)
  have 2: "vom_executor_validate (access_ok demo_env) demo_assignment (vom_sys_info_collect (stack_caps demo_env))"
    "fst (reserve_local_resources demo_assignment (vom_sys_info_collect (stack_caps demo_env)) ?r)"
    by (simp_all add: vom_executor_validate_def vom_sys_info_collect_def reserve_local_resources_def demo_assignment_def demo_env_def)
  have "pipe_ok demo_env" "\<not> cancelled (obs demo_env 0)"
    "(word_of_int (Executor.tv_sec (obs demo_env 0) - start_sec demo_env) :: u32) < timeout_seconds demo_assignment"
    by (simp_all add: demo_env_def demo_assignment_def)
  note verdict = windows_verdict_is_uninitialised [where rnd = Fin, OF 1 2 this]
  from verdict [where stack = "\<lambda>i. 0"] verdict [where stack = "\<lambda>i. 1"] show ?thesis by auto
qed

end
