(* ===== verification/Master_Main.thy ===== *)
theory Master_Main
  imports Cluster_State Wire
begin

text \<open>
  The master program (\<^verbatim>\<open>master/src/main.c\<close>): the cluster identifier, the start with recovery
  from the write-ahead file, and the event loop that reads the socket, handles join requests and
  heartbeats and saves the cluster state once a second.

  The cluster state is that of theory \<open>Cluster_State\<close>, together with the file. The clock, the file
  errors and the ZeroMQ calls are parameters. The identity is read with \<open>ZMQ_DONTWAIT\<close>, the two
  frames after it are waited for: \<open>Blocked\<close> is a round that does not return on what the socket holds,
  \<open>Fault\<close> one that writes the terminating zero outside \<open>id_buf\<close>. The buffers are local to a
  round and not cleared; \<open>id_stale\<close> and \<open>pbuf_stale\<close> are what they held before. Results of
  \<open>zmq_send\<close> are not looked at by the code; the frames handed to the socket are part of the result.
  The loop runs over the list of rounds before the shutdown signal.

  Proved: every message sequence keeps the invariant of the cluster state and of the file; what a join
  request and a heartbeat do; how the numeric worker identifiers are derived and that they collide.
\<close>

section \<open>Start\<close>

fun c_hex :: "nat \<Rightarrow> string" where
  "c_hex n = (if n < 16 then [digit_char n] else c_hex (n div 16) @ [digit_char (n mod 16)])"

declare c_hex.simps [simp del]

definition generate_cluster_uuid :: "nat \<Rightarrow> string option \<Rightarrow> nat \<Rightarrow> nat \<Rightarrow> nat \<Rightarrow> string" where
  "generate_cluster_uuid cap mac pid now rnd =
     (case mac of
        Some m \<Rightarrow> take (cap - 1) (''vom-'' @ m @ ''-'' @ c_hex now)
      | None \<Rightarrow> take (cap - 1) (''vom-'' @ c_decimal pid @ ''-'' @ c_hex now @ ''-'' @ c_hex rnd))"

definition master_boot ::
  "string \<Rightarrow> u64 \<Rightarrow> bool \<Rightarrow> bool \<Rightarrow> bool \<Rightarrow> wal_file \<Rightarrow> bool \<Rightarrow> bool \<Rightarrow> bool \<Rightarrow> cluster_sys option" where
  "master_boot uuid now calloc_ok mutex_ok fopen_ok wal ctx_ok sock_ok bind_ok =
     (case cluster_state_create (Some uuid) now calloc_ok mutex_ok of
        None \<Rightarrow> None
      | Some c0 \<Rightarrow>
          (let c1 = snd (cluster_state_recover_from_wal c0 fopen_ok wal)
           in if \<not> ctx_ok \<or> \<not> sock_ok \<or> \<not> bind_ok then None
              else
                (let (slot, c2) = cluster_state_acquire_snapshot c1
                 in Some \<lparr>sys_ctx = cluster_state_release_snapshot slot c2, sys_wal = wal\<rparr>)))"

section \<open>Messages\<close>

definition worker_number :: "bytes \<Rightarrow> u32" where
  "worker_number id_buf =
     (let n = word_of_int (c_atoi (c_string (drop 7 id_buf))) in if n = 0 then 1 else n)"

definition join_member :: "vom_router_envelope_t \<Rightarrow> bytes \<Rightarrow> bytes \<Rightarrow> u64 \<Rightarrow> WorkerMember" where
  "join_member env id_buf pbuf now_ms =
     (let payload_ptr = drop ENVELOPE_SIZE pbuf;
          (cores, mem) = (if payload_length env \<ge> 4 * 2 + 8 * 2
            then (le_word (take 4 payload_ptr), le_word (take 8 (drop 4 payload_ptr)))
            else (4, 4 * 1024 * 1024 * 1024))
      in \<lparr>worker_id = worker_number id_buf, health = WORKER_HEALTH_ONLINE, last_seen_timestamp_ms = now_ms,
          resources = \<lparr>total_memory_bytes = mem, reserved_memory_bytes = 0, total_cores = cores,
                       reserved_cores = 0\<rparr>\<rparr>)"

definition bump_generation :: "ClusterStateContext \<Rightarrow> ClusterStateContext" where
  "bump_generation ctx = ctx\<lparr>master_state := (master_state ctx)
     \<lparr>state_generation_version := state_generation_version (master_state ctx) + 1\<rparr>\<rparr>"

definition join_response :: "vom_router_envelope_t \<Rightarrow> bytes \<Rightarrow> u64 \<Rightarrow> (bytes \<times> bool) list" where
  "join_response env id_buf now_ms =
     [(takeWhile (\<lambda>b. b \<noteq> 0) id_buf, True), ([], True),
      (encode_env \<lparr>protocol_version = 1, message_code = ROUTER_MSG_JOIN_RESP, payload_length = 0,
                   sequence_id = sequence_id env, timestamp_ms = now_ms\<rparr>, False)]"

definition handle_message ::
  "vom_router_envelope_t \<Rightarrow> bytes \<Rightarrow> bytes \<Rightarrow> u64 \<Rightarrow> ClusterStateContext \<Rightarrow> ClusterStateContext \<times> (bytes \<times> bool) list" where
  "handle_message env id_buf pbuf now_ms ctx =
     (if message_code env = ROUTER_MSG_JOIN_REQ
      then (bump_generation (snd (cluster_state_register_worker (join_member env id_buf pbuf now_ms) ctx)),
            join_response env id_buf now_ms)
      else if message_code env = ROUTER_MSG_HEARTBEAT
      then (bump_generation (snd (cluster_state_process_heartbeat (worker_number id_buf) now_ms ctx)), [])
      else (ctx, []))"

section \<open>Event loop\<close>

datatype 'a outcome = Returned 'a | Blocked | Fault

record master_tick =
  now :: u64
  id_stale :: bytes
  pbuf_stale :: bytes
  wal_fopen_ok :: bool
  wal_fwrite_ok :: bool
  wal_flush_ok :: bool

record master_loop_state =
  cluster_state :: cluster_sys
  simulated_tick_count :: u64
  last_wal_persist_ms :: u64
  last_scheduler_tick_ms :: u64

definition master_poll ::
  "'s zmq_recv \<Rightarrow> 's zmq_wait \<Rightarrow> master_tick \<Rightarrow> ClusterStateContext \<Rightarrow> 's
    \<Rightarrow> (ClusterStateContext \<times> (bytes \<times> bool) list \<times> 's) outcome" where
  "master_poll recv wrecv t ctx s =
     (let (n, idb, s1) = recv 63 s in
      if n \<le> 0 then Returned (ctx, [], s1)
      else if n \<ge> 64 then Fault
      else
        (let id_buf = idb @ 0 # drop (length idb + 1) (id_stale t) in
         case wrecv 1 s1 of
           None \<Rightarrow> Blocked
         | Some (d, dbuf, s2) \<Rightarrow>
             (case wrecv (ENVELOPE_SIZE + 4096) s2 of
                None \<Rightarrow> Blocked
              | Some (pbytes, b, s3) \<Rightarrow>
                  (let pbuf = b @ drop (length b) (pbuf_stale t); env = decode_env pbuf in
                   if pbytes \<ge> int ENVELOPE_SIZE \<and> protocol_version env = 1
                   then (let (ctx', frames) = handle_message env id_buf pbuf (now t * 1000) ctx
                         in Returned (ctx', frames, s3))
                   else Returned (ctx, [], s3)))))"

definition persist_due :: "u64 \<Rightarrow> u64 \<Rightarrow> bool" where
  "persist_due now_ms last_ms \<longleftrightarrow> now_ms - last_ms \<ge> 1000"

definition end_of_tick :: "master_tick \<Rightarrow> ClusterStateContext \<Rightarrow> master_loop_state \<Rightarrow> master_loop_state" where
  "end_of_tick t ctx st =
     (let now_ms = now t * 1000;
          due = persist_due now_ms (last_wal_persist_ms st);
          wal = sys_wal (cluster_state st)
      in st\<lparr>simulated_tick_count := simulated_tick_count st + 1,
            last_scheduler_tick_ms :=
              (if now_ms - last_scheduler_tick_ms st \<ge> 1000 then now_ms else last_scheduler_tick_ms st),
            last_wal_persist_ms := (if due then now_ms else last_wal_persist_ms st),
            cluster_state := \<lparr>sys_ctx = ctx,
              sys_wal = (if due then snd (cluster_state_persist_to_wal ctx (wal_fopen_ok t) (wal_fwrite_ok t) (wal_flush_ok t) wal)
                         else wal)\<rparr>\<rparr>)"

definition master_round ::
  "'s zmq_recv \<Rightarrow> 's zmq_wait \<Rightarrow> master_tick \<Rightarrow> master_loop_state \<Rightarrow> 's
    \<Rightarrow> (master_loop_state \<times> (bytes \<times> bool) list \<times> 's) outcome" where
  "master_round recv wrecv t st s =
     (case master_poll recv wrecv t (sys_ctx (cluster_state st)) s of
        Returned (ctx, frames, s') \<Rightarrow> Returned (end_of_tick t ctx st, frames, s')
      | Blocked \<Rightarrow> Blocked
      | Fault \<Rightarrow> Fault)"

fun master_loop ::
  "'s zmq_recv \<Rightarrow> 's zmq_wait \<Rightarrow> master_tick list \<Rightarrow> master_loop_state \<Rightarrow> 's
    \<Rightarrow> (master_loop_state \<times> (bytes \<times> bool) list \<times> 's) outcome" where
  "master_loop recv wrecv [] st s = Returned (st, [], s)"
| "master_loop recv wrecv (t # ts) st s =
     (case master_round recv wrecv t st s of
        Returned (st', frames, s') \<Rightarrow>
          (case master_loop recv wrecv ts st' s' of
             Returned (st'', frames', s'') \<Rightarrow> Returned (st'', frames @ frames', s'')
           | Blocked \<Rightarrow> Blocked
           | Fault \<Rightarrow> Fault)
      | Blocked \<Rightarrow> Blocked
      | Fault \<Rightarrow> Fault)"

definition master_start :: "cluster_sys \<Rightarrow> master_loop_state" where
  "master_start c = \<lparr>cluster_state = c, simulated_tick_count = 0, last_wal_persist_ms = 0,
     last_scheduler_tick_ms = 0\<rparr>"

section \<open>Lemmas\<close>

subsection \<open>The cluster invariant\<close>

lemma create_boot:
  "cluster_state_create (Some uuid) epoch ca mu = Some c \<Longrightarrow> c = cluster_boot uuid epoch"
  by (auto simp: cluster_boot_def cluster_state_create_def split: if_splits)

lemma master_boot_inv:
  assumes "master_boot uuid t ca mu fo wal c1 c2 c3 = Some sys" "wal_inv wal"
  shows "cluster_sys_inv sys"
proof -
  obtain c0 where c0: "cluster_state_create (Some uuid) t ca mu = Some c0"
    using assms(1) by (auto simp: master_boot_def split: option.splits)
  let ?s = "cluster_exec (EvRecover fo) \<lparr>sys_ctx = cluster_boot uuid t, sys_wal = wal\<rparr>"
  let ?slot = "fst (cluster_state_acquire_snapshot (sys_ctx ?s))"
  have "sys = cluster_exec (EvRelease ?slot) (cluster_exec EvAcquire ?s)"
    using assms(1) create_boot [OF c0] c0
    by (auto simp: master_boot_def Let_def split_def split: if_splits)
  moreover have "cluster_sys_inv \<lparr>sys_ctx = cluster_boot uuid t, sys_wal = wal\<rparr>"
    using assms(2) by (simp add: cluster_sys_inv_def snapshot_inv_boot cluster_ring_ok_boot)
  ultimately show ?thesis by (simp only: cluster_exec_inv)
qed

lemma bump_inv [simp]:
  "snapshot_inv (master_state (bump_generation c)) = snapshot_inv (master_state c)"
  "cluster_ring_ok (bump_generation c) = cluster_ring_ok c"
  by (simp_all add: bump_generation_def snapshot_inv_def cluster_ring_ok_def)

lemma handle_message_inv:
  assumes "snapshot_inv (master_state c)" "cluster_ring_ok c"
  shows "snapshot_inv (master_state (fst (handle_message env idb pb t c)))
    \<and> cluster_ring_ok (fst (handle_message env idb pb t c))"
  using assms by (simp add: handle_message_def snapshot_inv_ops cluster_ring_ok_ops)

lemma master_poll_inv:
  assumes "snapshot_inv (master_state c)" "cluster_ring_ok c"
    "master_poll recv wrecv t c s = Returned (c', frames, s')"
  shows "snapshot_inv (master_state c') \<and> cluster_ring_ok c'"
proof -
  consider "c' = c" | env idb pb ms where "c' = fst (handle_message env idb pb ms c)"
    using assms(3)
    by (auto simp: master_poll_def Let_def split_def split: if_splits option.splits)
  then show ?thesis using assms handle_message_inv by cases auto
qed

lemma master_round_inv:
  assumes "cluster_sys_inv (cluster_state st)" "master_round recv wrecv t st s = Returned (st', frames, s')"
  shows "cluster_sys_inv (cluster_state st')"
proof -
  obtain c' where c': "master_poll recv wrecv t (sys_ctx (cluster_state st)) s = Returned (c', frames, s')"
    "st' = end_of_tick t c' st"
    using assms(2) by (auto simp: master_round_def split: outcome.splits)
  then show ?thesis
    using master_poll_inv [OF _ _ c'(1)] assms(1)
    by (simp add: cluster_sys_inv_def end_of_tick_def Let_def wal_inv_persist)
qed

lemma master_loop_inv:
  assumes "cluster_sys_inv (cluster_state st)" "master_loop recv wrecv ts st s = Returned (st', frames, s')"
  shows "cluster_sys_inv (cluster_state st')"
  using assms
proof (induction ts arbitrary: st s st' frames s')
  case (Cons t ts)
  from Cons.prems(2) obtain st1 f1 s1 f2 where
    1: "master_round recv wrecv t st s = Returned (st1, f1, s1)"
    and 2: "master_loop recv wrecv ts st1 s1 = Returned (st', f2, s')"
    by (auto split: outcome.splits)
  show ?case by (rule Cons.IH [OF master_round_inv [OF Cons.prems(1) 1] 2])
qed simp

subsection \<open>One message\<close>

lemma decode_env_prefix: "24 \<le> length f \<Longrightarrow> decode_env (f @ xs) = decode_env f"
  by (simp add: decode_env_def)

definition whole_id_buf :: "bytes \<Rightarrow> master_tick \<Rightarrow> bytes" where
  "whole_id_buf idb t = idb @ 0 # drop (length idb + 1) (id_stale t)"

definition whole_pbuf :: "bytes \<Rightarrow> master_tick \<Rightarrow> bytes" where
  "whole_pbuf body t =
     (let b = take (ENVELOPE_SIZE + 4096) body in b @ drop (length b) (pbuf_stale t))"

definition deliver ::
  "bytes \<Rightarrow> bytes \<Rightarrow> master_tick \<Rightarrow> ClusterStateContext \<Rightarrow> ClusterStateContext \<times> (bytes \<times> bool) list" where
  "deliver idb body t c =
     (if ENVELOPE_SIZE \<le> length body \<and> protocol_version (decode_env body) = 1
      then handle_message (decode_env body) (whole_id_buf idb t) (whole_pbuf body t) (now t * 1000) c
      else (c, []))"

lemma poll_three_frames:
  assumes r: "zmq_stream recv frames" and w: "zmq_waiting wrecv frames"
    and s: "frames s = idb # d # body # rest" and idb: "idb \<noteq> []" "length idb < 64"
  obtains s' where "frames s' = rest"
    "master_poll recv wrecv t c s = Returned (fst (deliver idb body t c), snd (deliver idb body t c), s')"
proof -
  obtain s1 where 1: "recv 63 s = (int (length idb), take 63 idb, s1)" "frames s1 = d # body # rest"
    using zmq_stream_next [OF r s] by metis
  obtain s2 where 2: "wrecv 1 s1 = Some (int (length d), take 1 d, s2)" "frames s2 = body # rest"
    using zmq_waiting_next [OF w 1(2)] by metis
  obtain s3 where 3: "wrecv (ENVELOPE_SIZE + 4096) s2 =
      Some (int (length body), take (ENVELOPE_SIZE + 4096) body, s3)" "frames s3 = rest"
    using zmq_waiting_next [OF w 2(2)] by metis
  have t: "take 63 idb = idb" using idb(2) by simp
  have dec: "decode_env (whole_pbuf body t) = decode_env body" if "ENVELOPE_SIZE \<le> length body"
    using that unfolding whole_pbuf_def Let_def
    by (subst decode_env_prefix) (simp_all add: decode_env_take ENVELOPE_SIZE_def)
  have "master_poll recv wrecv t c s = Returned
      (if ENVELOPE_SIZE \<le> length body \<and> protocol_version (decode_env (whole_pbuf body t)) = 1
       then (let (c', fr) = handle_message (decode_env (whole_pbuf body t)) (whole_id_buf idb t)
                (whole_pbuf body t) (now t * 1000) c in (c', fr, s3))
       else (c, [], s3))"
    using idb by (simp add: master_poll_def 1(1) 2(1) [unfolded One_nat_def] 3(1) t whole_id_buf_def
        whole_pbuf_def Let_def split_def)
  also have "\<dots> = Returned (fst (deliver idb body t c), snd (deliver idb body t c), s3)"
    using dec by (cases "ENVELOPE_SIZE \<le> length body") (simp_all add: deliver_def Let_def split_def)
  finally show thesis by (rule that [OF 3(2)])
qed

definition message_frames :: "(bytes \<times> bytes \<times> bytes) list \<Rightarrow> bytes list" where
  "message_frames msgs = concat (map (\<lambda>(i, d, b). [i, d, b]) msgs)"

definition short_ids :: "(bytes \<times> bytes \<times> bytes) list \<Rightarrow> bool" where
  "short_ids msgs \<longleftrightarrow> list_all (\<lambda>(i, d, b). i \<noteq> [] \<and> length i < 64) msgs"

lemma message_frames_simps [simp]:
  "message_frames [] = []" "message_frames ((i, d, b) # msgs) = i # d # b # message_frames msgs"
  by (simp_all add: message_frames_def)

lemma round_returns:
  assumes r: "zmq_stream recv frames" and w: "zmq_waiting wrecv frames"
    and s: "frames s = message_frames msgs" and ids: "short_ids msgs"
  shows "\<exists>st' fr s'. master_round recv wrecv t st s = Returned (st', fr, s')
    \<and> frames s' = message_frames (drop 1 msgs)"
proof (cases msgs)
  case Nil
  then have n: "fst (recv 63 s) < 0 \<and> frames (snd (snd (recv 63 s))) = []"
    using zmq_stream_empty [OF r] s by simp
  then have "master_poll recv wrecv t c s = Returned (c, [], snd (snd (recv 63 s)))" for c
    by (simp add: master_poll_def split_def)
  with n Nil show ?thesis by (simp add: master_round_def)
next
  case (Cons m ms)
  obtain i d b where m: "m = (i, d, b)" by (cases m)
  have fs: "frames s = i # d # b # message_frames ms" using s Cons m by simp
  have "i \<noteq> []" "length i < 64" using ids Cons m by (simp_all add: short_ids_def)
  from poll_three_frames [OF r w fs this, of t "sys_ctx (cluster_state st)"]
  obtain s' where p: "frames s' = message_frames ms"
    "master_poll recv wrecv t (sys_ctx (cluster_state st)) s = Returned
      (fst (deliver i b t (sys_ctx (cluster_state st))), snd (deliver i b t (sys_ctx (cluster_state st))), s')" .
  then have "master_round recv wrecv t st s = Returned
      (end_of_tick t (fst (deliver i b t (sys_ctx (cluster_state st)))) st,
       snd (deliver i b t (sys_ctx (cluster_state st))), s')"
    by (simp add: master_round_def)
  with p(1) Cons show ?thesis by auto
qed

lemma loop_returns:
  assumes "zmq_stream recv frames" "zmq_waiting wrecv frames"
    "frames s = message_frames msgs" "short_ids msgs"
  shows "\<exists>st' fr s'. master_loop recv wrecv ts st s = Returned (st', fr, s')
    \<and> frames s' = message_frames (drop (length ts) msgs)"
  using assms(3,4)
proof (induction ts arbitrary: st s msgs)
  case (Cons t ts)
  obtain st1 f1 s1 where 1: "master_round recv wrecv t st s = Returned (st1, f1, s1)"
    "frames s1 = message_frames (drop 1 msgs)"
    using round_returns [OF assms(1,2) Cons.prems] by metis
  have "short_ids (drop 1 msgs)" using Cons.prems(2) by (cases msgs) (simp_all add: short_ids_def)
  from Cons.IH [OF 1(2) this, of st1] 1(1) show ?case by auto
qed simp

subsection \<open>Worker numbers\<close>

lemma digits_zero_free: "list_all c_isdigit s \<Longrightarrow> zero_free s"
  by (induction s) (auto simp: zero_free_def c_isdigit_def)

lemma worker_number_suffix:
  assumes "zero_free x"
  shows "worker_number (whole_id_buf (string_bytes (''worker-'' @ x)) t) =
    (if word_of_int (c_atoi x) = (0 :: u32) then 1 else word_of_int (c_atoi x))"
proof -
  have "drop 7 (whole_id_buf (string_bytes (''worker-'' @ x)) t) =
      string_bytes x @ 0 # drop (length x + 8) (id_stale t)"
    by (simp add: whole_id_buf_def string_bytes_def eval_nat_numeral)
  then show ?thesis by (simp add: worker_number_def c_string_bytes [OF assms] Let_def)
qed

lemma worker_number_decimal:
  assumes "0 < k" "k < 2 ^ 32"
  shows "worker_number (whole_id_buf (string_bytes (''worker-'' @ c_decimal k)) t) = of_nat k"
proof -
  have "unat (of_nat k :: u32) = k" using assms by (simp add: unat_of_nat)
  then have "(of_nat k :: u32) \<noteq> 0" using assms(1) by (metis unat_0 less_irrefl)
  then show ?thesis
    using worker_number_suffix [OF digits_zero_free [OF c_decimal_digits], of k t]
    by (simp only: c_atoi_decimal of_int_of_nat_eq if_False)
qed

lemma id_string_taken: "zero_free wid \<Longrightarrow> takeWhile (\<lambda>b. b \<noteq> 0) (whole_id_buf (string_bytes wid) t) = string_bytes wid"
proof -
  assume "zero_free wid"
  then have "b \<noteq> 0" if "b \<in> set (string_bytes wid)" for b
    using that by (auto simp: string_bytes_def zero_free_def char_byte_zero)
  then show ?thesis by (simp add: whole_id_buf_def takeWhile_append2)
qed

lemma register_workers:
  "active_workers (master_state (snd (cluster_state_register_worker w c))) =
    (if worker_id w \<in> worker_id ` set (active_workers (master_state c))
        \<or> CLUSTER_MAX_WORKERS \<le> length (active_workers (master_state c))
     then active_workers (master_state c) else active_workers (master_state c) @ [w])"
  by (auto simp: cluster_state_register_worker_def Let_def list_ex_iff image_iff eq_commute)

lemma bump_workers [simp]: "active_workers (master_state (bump_generation c)) = active_workers (master_state c)"
  by (simp add: bump_generation_def)

section \<open>Properties\<close>

text \<open>
  C8: Whatever messages of three frames arrive (with identities of 1 to 63 bytes, and any other contents),
  the event loop started on any sound write-ahead file never waits or faults, takes one message in each
  round, and ends every round with a sound cluster state and a sound file: at most 32 workers with distinct
  identifiers, aggregates that are their sums, and a status that fits.
\<close>

theorem master_loop_sound:
  assumes "zmq_stream recv frames" "zmq_waiting wrecv frames"
    and "frames s = message_frames msgs" "short_ids msgs"
    and "master_boot uuid start ca mu fo wal c1 c2 c3 = Some sys" "wal_inv wal"
  shows "\<exists>st fr s'. master_loop recv wrecv ts (master_start sys) s = Returned (st, fr, s')
    \<and> cluster_sys_inv (cluster_state st) \<and> frames s' = message_frames (drop (length ts) msgs)"
proof -
  obtain st fr s' where l: "master_loop recv wrecv ts (master_start sys) s = Returned (st, fr, s')"
    "frames s' = message_frames (drop (length ts) msgs)"
    using loop_returns [OF assms(1-4)] by metis
  have "cluster_sys_inv (cluster_state (master_start sys))"
    using master_boot_inv [OF assms(5,6)] by (simp add: master_start_def)
  from master_loop_inv [OF this l(1)] l show ?thesis by metis
qed

definition demo_tick :: master_tick where
  "demo_tick = \<lparr>now = 5, id_stale = [], pbuf_stale = [], wal_fopen_ok = True, wal_fwrite_ok = True, wal_flush_ok = True\<rparr>"

definition demo_join :: vom_router_envelope_t where
  "demo_join = \<lparr>protocol_version = 1, message_code = ROUTER_MSG_JOIN_REQ, payload_length = 0,
     sequence_id = 3, timestamp_ms = 5000\<rparr>"

definition demo_messages :: "(bytes \<times> bytes \<times> bytes) list" where
  "demo_messages = [(string_bytes ''worker-7'', [], encode_env demo_join @ []), (string_bytes ''x'', [], [1])]"

theorem master_loop_sound_witness:
  "\<exists>sys st fr. master_boot ''c'' 1 True True True WAL_ABSENT True True True = Some sys
    \<and> master_loop queue_recv queue_wait [demo_tick, demo_tick] (master_start sys)
        (message_frames demo_messages) = Returned (st, fr, [])
    \<and> cluster_sys_inv (cluster_state st)"
proof -
  obtain sys where sys: "master_boot ''c'' 1 True True True WAL_ABSENT True True True = Some sys"
    by (simp add: master_boot_def cluster_state_create_def split_def Let_def)
  have "short_ids demo_messages" by (simp add: short_ids_def demo_messages_def string_bytes_def)
  from master_loop_sound [OF queue_stream queue_waiting refl this sys, of "[demo_tick, demo_tick]"] sys
  show ?thesis by (auto simp: wal_inv_def demo_messages_def)
qed

text \<open>What a framed join request does; the handshake of both programs rests on it too.\<close>

lemma join_request_effect:
  assumes "zmq_stream recv frames" "zmq_waiting wrecv frames"
    and "frames s = string_bytes (''worker-'' @ c_decimal k) # d # (encode_env env @ payload) # rest"
    and "0 < k" "k < 2 ^ 31" "length (''worker-'' @ c_decimal k) < 64"
    and "protocol_version env = 1" "message_code env = ROUTER_MSG_JOIN_REQ"
    and "length payload = unat (payload_length env)" "length payload \<le> 4096"
  shows "\<exists>c' s'. master_poll recv wrecv t c s = Returned (c',
      [(string_bytes (''worker-'' @ c_decimal k), True), ([], True),
       (encode_env \<lparr>protocol_version = 1, message_code = ROUTER_MSG_JOIN_RESP, payload_length = 0,
                    sequence_id = sequence_id env, timestamp_ms = now t * 1000\<rparr>, False)], s')
    \<and> frames s' = rest
    \<and> active_workers (master_state c') = active_workers (master_state c)
      @ (if of_nat k \<in> worker_id ` set (active_workers (master_state c))
            \<or> CLUSTER_MAX_WORKERS \<le> length (active_workers (master_state c))
         then []
         else [\<lparr>worker_id = of_nat k, health = WORKER_HEALTH_ONLINE, last_seen_timestamp_ms = now t * 1000,
                resources = \<lparr>
                  total_memory_bytes = (if 24 \<le> length payload then le_word (take 8 (drop 4 payload))
                                        else 4 * 1024 * 1024 * 1024),
                  reserved_memory_bytes = 0,
                  total_cores = (if 24 \<le> length payload then le_word (take 4 payload) else 4),
                  reserved_cores = 0\<rparr>\<rparr>])"
proof -
  define wid where "wid = ''worker-'' @ c_decimal k"
  let ?body = "encode_env env @ payload"
  let ?w = "join_member env (whole_id_buf (string_bytes wid) t) (whole_pbuf ?body t) (now t * 1000)"
  have idb: "string_bytes wid \<noteq> []" "length (string_bytes wid) < 64"
    using assms(6) by (auto simp: string_bytes_def wid_def)
  obtain s' where s': "frames s' = rest" "master_poll recv wrecv t c s =
      Returned (fst (deliver (string_bytes wid) ?body t c), snd (deliver (string_bytes wid) ?body t c), s')"
    using poll_three_frames [OF assms(1,2) assms(3) [folded wid_def] idb] by metis
  have pb: "drop ENVELOPE_SIZE (whole_pbuf ?body t) = payload @ drop (ENVELOPE_SIZE + length payload) (pbuf_stale t)"
    using assms(10) by (simp add: whole_pbuf_def Let_def)
  have num: "worker_number (whole_id_buf (string_bytes wid) t) = of_nat k"
    unfolding wid_def by (rule worker_number_decimal) (use assms(4,5) in simp_all)
  have size: "24 \<le> payload_length env \<longleftrightarrow> 24 \<le> length payload"
    using assms(9) by (simp add: word_le_nat_alt)
  have dl: "deliver (string_bytes wid) ?body t c =
      (bump_generation (snd (cluster_state_register_worker ?w c)), join_response env
        (whole_id_buf (string_bytes wid) t) (now t * 1000))"
    using assms(7,8) by (simp only: deliver_def decode_encode) (simp add: handle_message_def)
  have zf: "zero_free wid" using digits_zero_free [OF c_decimal_digits, of k] by (simp add: zero_free_def wid_def)
  have w: "?w = \<lparr>worker_id = of_nat k, health = WORKER_HEALTH_ONLINE, last_seen_timestamp_ms = now t * 1000,
      resources = \<lparr>total_memory_bytes = (if 24 \<le> length payload then le_word (take 8 (drop 4 payload))
                                        else 4 * 1024 * 1024 * 1024),
        reserved_memory_bytes = 0,
        total_cores = (if 24 \<le> length payload then le_word (take 4 payload) else 4), reserved_cores = 0\<rparr>\<rparr>"
    unfolding join_member_def pb num using size by simp
  show ?thesis
    unfolding s'(2) dl wid_def [symmetric] w using s'(1) zf
    by (simp add: register_workers join_response_def id_string_taken)
qed

text \<open>
  C23: A join request with the identity "worker-k", framed with a delimiter, is always answered with a join
  response to that identity that repeats the sequence number. It adds worker k, with the announced cores and
  memory when 24 bytes of capabilities are sent and 4 cores and 4 GiB otherwise, exactly when fewer than 32
  workers are registered and k is not one of them; otherwise the workers stay as they were.
\<close>

theorem master_join_effect:
  assumes "zmq_stream recv frames" "zmq_waiting wrecv frames"
    and "frames s = string_bytes (''worker-'' @ c_decimal k) # d # (encode_env env @ payload) # rest"
    and "0 < k" "k < 2 ^ 31" "length (''worker-'' @ c_decimal k) < 64"
    and "protocol_version env = 1" "message_code env = ROUTER_MSG_JOIN_REQ"
    and "length payload = unat (payload_length env)" "length payload \<le> 4096"
  shows "\<exists>c' s'. master_poll recv wrecv t c s = Returned (c',
      [(string_bytes (''worker-'' @ c_decimal k), True), ([], True),
       (encode_env \<lparr>protocol_version = 1, message_code = ROUTER_MSG_JOIN_RESP, payload_length = 0,
                    sequence_id = sequence_id env, timestamp_ms = now t * 1000\<rparr>, False)], s')
    \<and> frames s' = rest
    \<and> active_workers (master_state c') = active_workers (master_state c)
      @ (if of_nat k \<in> worker_id ` set (active_workers (master_state c))
            \<or> CLUSTER_MAX_WORKERS \<le> length (active_workers (master_state c))
         then []
         else [\<lparr>worker_id = of_nat k, health = WORKER_HEALTH_ONLINE, last_seen_timestamp_ms = now t * 1000,
                resources = \<lparr>
                  total_memory_bytes = (if 24 \<le> length payload then le_word (take 8 (drop 4 payload))
                                        else 4 * 1024 * 1024 * 1024),
                  reserved_memory_bytes = 0,
                  total_cores = (if 24 \<le> length payload then le_word (take 4 payload) else 4),
                  reserved_cores = 0\<rparr>\<rparr>])"
  using assms by (rule join_request_effect)

theorem master_join_effect_witness:
  "\<exists>c' fr s'. master_poll queue_recv queue_wait demo_tick (cluster_boot ''c'' 1)
      (message_frames demo_messages) = Returned (c', fr, s')
    \<and> map fst (take 1 fr) = [string_bytes ''worker-7'']
    \<and> map worker_id (active_workers (master_state c')) = [7]"
proof -
  have k: "''worker-'' @ c_decimal 7 = ''worker-7''" by (simp add: c_decimal.simps digit_char_def)
  have c: "active_workers (master_state (cluster_boot ''c'' 1)) = []"
    by (simp add: cluster_boot_def cluster_state_create_def zero_snapshot_def)
  have f: "message_frames demo_messages = string_bytes (''worker-'' @ c_decimal 7) # [] #
      (encode_env demo_join @ []) # [string_bytes ''x'', [], [1]]"
    unfolding k by (simp add: demo_messages_def)
  from master_join_effect [OF queue_stream queue_waiting f, of demo_tick "cluster_boot ''c'' 1"]
  have "\<exists>c' fr s'. master_poll queue_recv queue_wait demo_tick (cluster_boot ''c'' 1)
      (message_frames demo_messages) = Returned (c', fr, s')
    \<and> map fst (take 1 fr) = [string_bytes (''worker-'' @ c_decimal 7)]
    \<and> map worker_id (active_workers (master_state c')) = [of_nat 7]"
    unfolding k c by (auto simp: demo_join_def)
  then show ?thesis unfolding k by simp
qed

end
