(* ===== verification/Getopt.thy ===== *)
theory Getopt
  imports Prelude
begin

text \<open>
  The option parser that \<^verbatim>\<open>common/include/common/compat.h\<close> supplies where the platform has none
  (\<open>getopt\<close> and \<open>getopt_long\<close>), with its static variables as a record. \<open>argv\<close> is the list of
  arguments with the program's name first. The pointer to the current short option is the rest of the
  argument it points into. \<open>None\<close> is the read behind the end of \<open>optstring\<close>.

  Proved: long options, with their argument attached or following, are returned one by one; a short option
  with an argument yields its own letter as the argument, and a call after any other short option at the
  end of its group reads behind \<open>optstring\<close>.
\<close>

section \<open>Data\<close>

definition NUL :: char where "NUL = CHR 0x00"

datatype has_arg = no_argument | required_argument | optional_argument

record long_option =
  name :: string
  has_arg :: has_arg
  flag :: bool
  val :: char

record getopt_state =
  optind :: nat
  optopt :: char
  optarg :: "string option"
  getopt_next :: "string option"
  longindex :: nat

definition getopt_initial :: getopt_state where
  "getopt_initial = \<lparr>optind = 1, optopt = NUL, optarg = None, getopt_next = None, longindex = 0\<rparr>"

datatype getopt_ret = GetoptEnd | GetoptChar char

section \<open>Operations\<close>

text \<open>The character at an index, where the index may be that of the terminating zero.\<close>

definition c_at :: "string \<Rightarrow> nat \<Rightarrow> char" where
  "c_at s i = (if i < length s then s ! i else NUL)"

definition getopt_char :: "string list \<Rightarrow> string \<Rightarrow> string \<Rightarrow> getopt_state \<Rightarrow> (getopt_ret \<times> getopt_state) option" where
  "getopt_char argv optstring next st =
     (let c = c_at next 0; st = st\<lparr>getopt_next := Some next\<rparr> in
      if c = NUL then None
      else
        (case c_strchr c optstring of
           None \<Rightarrow> Some (GetoptChar (CHR ''?''), st\<lparr>optopt := c\<rparr>)
         | Some place \<Rightarrow>
             if c = CHR '':'' then Some (GetoptChar (CHR ''?''), st\<lparr>optopt := c\<rparr>)
             else if c_at optstring (place + 1) = CHR '':''
             then (if c_at next 0 \<noteq> NUL
                   then Some (GetoptChar c, st\<lparr>optarg := Some next, getopt_next := None\<rparr>)
                   else if optind st < length argv
                   then Some (GetoptChar c, st\<lparr>optarg := Some (argv ! optind st), optind := optind st + 1\<rparr>)
                   else Some (GetoptChar (if c_at optstring 0 = CHR '':'' then CHR '':'' else CHR ''?''),
                              st\<lparr>optopt := c\<rparr>))
             else Some (GetoptChar c, st)))"

definition getopt :: "string list \<Rightarrow> string \<Rightarrow> getopt_state \<Rightarrow> (getopt_ret \<times> getopt_state) option" where
  "getopt argv optstring st0 =
     (let st = (if getopt_next st0 = None \<and> optind st0 = 0 then st0\<lparr>optind := 1\<rparr> else st0) in
      case getopt_next st of
        Some (x # next) \<Rightarrow> getopt_char argv optstring next st
      | _ \<Rightarrow>
          if optind st \<ge> length argv then Some (GetoptEnd, st)
          else
            (let arg = argv ! optind st in
             if c_at arg 0 \<noteq> CHR ''-'' \<or> c_at arg 1 = NUL then Some (GetoptEnd, st)
             else if c_at arg 1 = CHR ''-'' \<and> c_at arg 2 = NUL
             then Some (GetoptEnd, st\<lparr>optind := optind st + 1\<rparr>)
             else getopt_char argv optstring (drop 1 arg) (st\<lparr>optind := optind st + 1\<rparr>)))"

definition long_matches :: "string \<Rightarrow> long_option \<Rightarrow> bool" where
  "long_matches arg opt \<longleftrightarrow> take (length (name opt)) arg = name opt
     \<and> (c_at arg (length (name opt)) = CHR ''='' \<or> c_at arg (length (name opt)) = NUL)"

definition long_result :: "string list \<Rightarrow> string \<Rightarrow> nat \<Rightarrow> long_option \<Rightarrow> getopt_state \<Rightarrow> getopt_ret \<times> getopt_state" where
  "long_result argv arg i opt st0 =
     (let len = length (name opt); st = st0\<lparr>longindex := i, optind := optind st0 + 1\<rparr>;
          (missing, st1) =
            (case has_arg opt of
               required_argument \<Rightarrow>
                 if c_at arg len = CHR ''='' then (False, st\<lparr>optarg := Some (drop (len + 1) arg)\<rparr>)
                 else if optind st < length argv
                 then (False, st\<lparr>optarg := Some (argv ! optind st), optind := optind st + 1\<rparr>)
                 else (True, st)
             | optional_argument \<Rightarrow>
                 (False, st\<lparr>optarg := (if c_at arg len = CHR ''='' then Some (drop (len + 1) arg) else None)\<rparr>)
             | no_argument \<Rightarrow> (False, st\<lparr>optarg := None\<rparr>))
      in if missing then (GetoptChar (CHR ''?''), st1)
         else (GetoptChar (if flag opt then NUL else val opt), st1))"

fun long_search :: "string \<Rightarrow> nat \<Rightarrow> long_option list \<Rightarrow> (nat \<times> long_option) option" where
  "long_search arg i [] = None"
| "long_search arg i (opt # os) = (if long_matches arg opt then Some (i, opt) else long_search arg (i + 1) os)"

definition getopt_long ::
  "string list \<Rightarrow> string \<Rightarrow> long_option list \<Rightarrow> getopt_state \<Rightarrow> (getopt_ret \<times> getopt_state) option" where
  "getopt_long argv optstring longopts st =
     (if optind st < length argv \<and> c_at (argv ! optind st) 0 = CHR ''-'' \<and> c_at (argv ! optind st) 1 = CHR ''-''
      then
        (if c_at (argv ! optind st) 2 = NUL then Some (GetoptEnd, st\<lparr>optind := optind st + 1\<rparr>)
         else
           (let arg = drop 2 (argv ! optind st) in
            case long_search arg 0 longopts of
              Some (i, opt) \<Rightarrow> Some (long_result argv arg i opt st)
            | None \<Rightarrow> Some (GetoptChar (CHR ''?''), st\<lparr>optind := optind st + 1\<rparr>)))
      else getopt argv optstring st)"

section \<open>Lemmas\<close>

lemma c_at_append: "c_at (s @ t) (length s) = c_at t 0"
  by (cases t) (simp_all add: c_at_def nth_append)

lemma long_search_hit:
  assumes "opt \<in> set os" "list_all (\<lambda>p. long_matches arg p \<longrightarrow> p = opt) os" "long_matches arg opt"
  shows "\<exists>j. long_search arg i os = Some (j, opt)"
  using assms by (induction os arbitrary: i) auto

lemma getopt_long_hit:
  assumes "optind st < length argv" "argv ! optind st = ''--'' @ arg" "arg \<noteq> []" "hd arg \<noteq> NUL"
    and "opt \<in> set os" "list_all (\<lambda>p. long_matches arg p \<longrightarrow> p = opt) os" "long_matches arg opt"
  shows "\<exists>j. getopt_long argv optstring os st = Some (long_result argv arg j opt st)"
proof -
  obtain j where "long_search arg 0 os = Some (j, opt)" using long_search_hit [OF assms(5-7)] by blast
  moreover have "c_at (argv ! optind st) 2 \<noteq> NUL"
    using assms(2-4) by (cases arg) (simp_all add: c_at_def)
  moreover have "c_at (argv ! optind st) 0 = CHR ''-''" "c_at (argv ! optind st) 1 = CHR ''-''"
    "drop 2 (argv ! optind st) = arg"
    by (simp_all add: assms(2) c_at_def)
  ultimately show ?thesis using assms(1) unfolding getopt_long_def by auto
qed

lemma getopt_long_done:
  assumes "optind st \<ge> length argv" "getopt_next st = None" "optind st \<noteq> 0"
  shows "getopt_long argv optstring os st = Some (GetoptEnd, st)"
  using assms by (simp add: getopt_long_def getopt_def Let_def)

section \<open>Properties\<close>

definition starts_long :: "string list \<Rightarrow> nat \<Rightarrow> bool" where
  "starts_long argv i \<longleftrightarrow> i < length argv \<and> c_at (argv ! i) 0 = CHR ''-'' \<and> c_at (argv ! i) 1 = CHR ''-''"

text \<open>
  The short options of the replacement parser do not work. A short option that takes an argument is
  returned with its own letter (and what is attached to it) as the argument, never with the following
  argument; after a short option without an argument, the next call reads behind the option string unless
  it starts a long option.
\<close>

theorem short_options_broken:
  assumes "optind st < length argv" "optind st \<noteq> 0" "getopt_next st = None"
    and "argv ! optind st = ''-'' @ [c] @ attached" "c \<notin> {NUL, CHR ''-'', CHR '':''}"
    and "c_strchr c optstring = Some i"
    and "getopt_long argv optstring os st = Some (ret, st')"
  shows "ret = GetoptChar c \<and>
    (if c_at optstring (i + 1) = CHR '':'' then optarg st' = Some ([c] @ attached) \<and> optind st' = optind st + 1
     else attached = [] \<longrightarrow> \<not> starts_long argv (optind st') \<longrightarrow> getopt_long argv optstring os st' = None)"
proof -
  have c: "c \<noteq> NUL" "c \<noteq> CHR ''-''" "c \<noteq> CHR '':''" using assms(5) by simp_all
  have at: "c_at (argv ! optind st) 0 = CHR ''-''" "c_at (argv ! optind st) 1 = c"
    "drop 1 (argv ! optind st) = c # attached"
    by (simp_all add: assms(4) c_at_def)
  have first: "getopt_long argv optstring os st =
      getopt_char argv optstring (c # attached) (st\<lparr>optind := optind st + 1\<rparr>)"
    using assms(1-3) at c by (simp add: getopt_long_def getopt_def Let_def)
  have c0: "c_at (c # attached) 0 = c" by (simp add: c_at_def)
  show ?thesis
  proof (cases "c_at optstring (i + 1) = CHR '':''")
    case True
    then show ?thesis using assms(6,7) c first c0 by (auto simp: getopt_char_def Let_def)
  next
    case False
    then have r: "ret = GetoptChar c" "st' = st\<lparr>optind := optind st + 1, getopt_next := Some (c # attached)\<rparr>"
      using assms(6,7) c first c0 by (auto simp: getopt_char_def Let_def)
    have "getopt_long argv optstring os st' = None"
      if "attached = []" "\<not> starts_long argv (optind st')"
      using that by (auto simp: getopt_long_def getopt_def r(2) Let_def getopt_char_def c_at_def starts_long_def)
    then show ?thesis using False r(1) by simp
  qed
qed

theorem short_options_broken_witness:
  "\<exists>st. getopt_long [''vom'', ''-d''] ''hVc:l:b:fdus:'' [] getopt_initial = Some (GetoptChar (CHR ''d''), st)
    \<and> getopt_long [''vom'', ''-d''] ''hVc:l:b:fdus:'' [] st = None"
proof -
  let ?argv = "[''vom'', ''-d'']" and ?os = "''hVc:l:b:fdus:''"
  have i: "c_strchr (CHR ''d'') ?os = Some 9" by simp
  obtain ret st where r: "getopt_long ?argv ?os [] getopt_initial = Some (ret, st)"
    by (simp add: getopt_long_def getopt_def getopt_initial_def getopt_char_def Let_def c_at_def NUL_def)
  then have "optind st = 2"
    by (auto simp: getopt_long_def getopt_def getopt_initial_def getopt_char_def Let_def c_at_def NUL_def)
  moreover have "ret = GetoptChar (CHR ''d'') \<and>
    (if c_at ?os (9 + 1) = CHR '':'' then optarg st = Some ([CHR ''d''] @ []) \<and> optind st = optind getopt_initial + 1
     else ([] :: string) = [] \<longrightarrow> \<not> starts_long ?argv (optind st) \<longrightarrow> getopt_long ?argv ?os [] st = None)"
    by (rule short_options_broken [OF _ _ _ _ _ i r]) (simp_all add: getopt_initial_def NUL_def)
  ultimately show ?thesis using r by (simp add: c_at_def starts_long_def)
qed

end
