(* ===== verification/Master_Cli.thy ===== *)
theory Master_Cli
  imports Getopt
begin

text \<open>
  The command line of the master (\<^verbatim>\<open>master/src/cli.c\<close>). The option parser is a parameter, a function
  that returns the next option; on platforms without one it is that of theory \<open>Getopt\<close>. The hardware
  address, the process number and the time are parameters. A run ends with the parsed arguments, with an
  exit (after the help, the version or a fresh identifier, whose text is part of the result) or with an
  error; \<open>None\<close> is a fault of the option parser or a loop that does not end.

  Proved: on the replacement parser any sequence of long options is read back, in both notations; endpoints
  are checked; negative worker numbers are refused.
\<close>

record vom_master_args =
  help_flag :: bool
  version_flag :: bool
  config_file :: "string option"
  log_level :: string
  bind_endpoint :: "string option"
  daemonize :: bool
  print_uuid :: bool
  simulate_workers_count :: int

datatype cli_outcome = CliParsed vom_master_args | CliExit string | CliFail

definition cli_defaults :: vom_master_args where
  "cli_defaults = \<lparr>help_flag = False, version_flag = False, config_file = None, log_level = ''info'', bind_endpoint = None,
     daemonize = False, print_uuid = False, simulate_workers_count = 0\<rparr>"

definition short_options :: string where "short_options = ''hVc:l:b:fdus:''"

definition lopt :: "string \<Rightarrow> has_arg \<Rightarrow> char \<Rightarrow> long_option" where
  "lopt n a v = \<lparr>name = n, has_arg = a, flag = False, val = v\<rparr>"

definition long_options :: "long_option list" where
  "long_options = [lopt ''help'' no_argument (CHR ''h''), lopt ''version'' no_argument (CHR ''V''),
     lopt ''config'' required_argument (CHR ''c''), lopt ''log-level'' required_argument (CHR ''l''),
     lopt ''bind'' required_argument (CHR ''b''), lopt ''foreground'' no_argument (CHR ''f''),
     lopt ''daemon'' no_argument (CHR ''d''), lopt ''print-uuid'' no_argument (CHR ''u''),
     lopt ''simulate'' required_argument (CHR ''s'')]"

definition vom_master_cli_validate_endpoint :: "string option \<Rightarrow> bool" where
  "vom_master_cli_validate_endpoint endpoint =
     (case endpoint of
        None \<Rightarrow> False
      | Some e \<Rightarrow> (take 6 e = ''tcp://'' \<or> take 6 e = ''ipc://'') \<and> length e > 6)"

record cli_host =
  host_mac :: "string option"
  host_pid :: nat
  host_time :: nat

definition uuid_text :: "cli_host \<Rightarrow> string" where
  "uuid_text h =
     (let buf = (case host_mac h of Some mac \<Rightarrow> take 63 (''vom-'' @ mac @ ''-'' @ c_decimal (host_time h)) | None \<Rightarrow> [])
      in if buf = [] then take 63 (''vom-'' @ c_decimal (host_pid h) @ ''-'' @ c_decimal (host_time h)) else buf)"

definition cli_option :: "cli_host \<Rightarrow> char \<Rightarrow> string option \<Rightarrow> vom_master_args \<Rightarrow> cli_outcome + vom_master_args" where
  "cli_option host opt arg out =
     (if opt = CHR ''h'' then Inl (CliExit [])
      else if opt = CHR ''V'' then Inl (CliExit [])
      else if opt = CHR ''c'' then Inr (out\<lparr>config_file := arg\<rparr>)
      else if opt = CHR ''l'' then Inr (out\<lparr>log_level := the arg\<rparr>)
      else if opt = CHR ''b''
      then (if \<not> vom_master_cli_validate_endpoint arg then Inl CliFail else Inr (out\<lparr>bind_endpoint := arg\<rparr>))
      else if opt = CHR ''f'' then Inr (out\<lparr>daemonize := False\<rparr>)
      else if opt = CHR ''d'' then Inr (out\<lparr>daemonize := True\<rparr>)
      else if opt = CHR ''u'' then Inl (CliExit (uuid_text host))
      else if opt = CHR ''s''
      then (if c_atoi (the arg) < 0 then Inl CliFail else Inr (out\<lparr>simulate_workers_count := c_atoi (the arg)\<rparr>))
      else Inl CliFail)"

partial_function (option) cli_loop ::
  "(getopt_state \<Rightarrow> (getopt_ret \<times> getopt_state) option) \<Rightarrow> cli_host \<Rightarrow> vom_master_args \<Rightarrow> getopt_state \<Rightarrow> cli_outcome option"
where
  "cli_loop next host out st =
     Option.bind (next st) (\<lambda>(r, st').
       case r of
         GetoptEnd \<Rightarrow> Some (CliParsed out)
       | GetoptChar c \<Rightarrow>
           (case cli_option host c (optarg st') out of
              Inl res \<Rightarrow> Some res
            | Inr out' \<Rightarrow> cli_loop next host out' st'))"

definition vom_master_cli_parse ::
  "(getopt_state \<Rightarrow> (getopt_ret \<times> getopt_state) option) \<Rightarrow> cli_host \<Rightarrow> cli_outcome option" where
  "vom_master_cli_parse next host = cli_loop next host cli_defaults getopt_initial"

section \<open>Lemmas\<close>

text \<open>The options as a user means them, and how they are written.\<close>

datatype cli_choice = ConfigFile string | LogLevelName string | BindTo string | Foreground | Daemon | Simulate string

fun choice_name :: "cli_choice \<Rightarrow> string" where
  "choice_name (ConfigFile s) = ''config''"
| "choice_name (LogLevelName s) = ''log-level''"
| "choice_name (BindTo s) = ''bind''"
| "choice_name Foreground = ''foreground''"
| "choice_name Daemon = ''daemon''"
| "choice_name (Simulate s) = ''simulate''"

fun choice_arg :: "cli_choice \<Rightarrow> string option" where
  "choice_arg (ConfigFile s) = Some s"
| "choice_arg (LogLevelName s) = Some s"
| "choice_arg (BindTo s) = Some s"
| "choice_arg (Simulate s) = Some s"
| "choice_arg _ = None"

fun choice_effect :: "cli_choice \<Rightarrow> vom_master_args \<Rightarrow> vom_master_args" where
  "choice_effect (ConfigFile s) a = a\<lparr>config_file := Some s\<rparr>"
| "choice_effect (LogLevelName s) a = a\<lparr>log_level := s\<rparr>"
| "choice_effect (BindTo s) a = a\<lparr>bind_endpoint := Some s\<rparr>"
| "choice_effect Foreground a = a\<lparr>daemonize := False\<rparr>"
| "choice_effect Daemon a = a\<lparr>daemonize := True\<rparr>"
| "choice_effect (Simulate s) a = a\<lparr>simulate_workers_count := c_atoi s\<rparr>"

fun choice_valid :: "cli_choice \<Rightarrow> bool" where
  "choice_valid (BindTo s) = vom_master_cli_validate_endpoint (Some s)"
| "choice_valid (Simulate s) = (c_atoi s \<ge> 0)"
| "choice_valid _ = True"

definition choice_words :: "bool \<times> cli_choice \<Rightarrow> string list" where
  "choice_words c =
     (case choice_arg (snd c) of
        None \<Rightarrow> [''--'' @ choice_name (snd c)]
      | Some s \<Rightarrow> if fst c then [''--'' @ choice_name (snd c) @ ''='' @ s] else [''--'' @ choice_name (snd c), s])"

fun choice_option :: "cli_choice \<Rightarrow> long_option" where
  "choice_option (ConfigFile s) = lopt ''config'' required_argument (CHR ''c'')"
| "choice_option (LogLevelName s) = lopt ''log-level'' required_argument (CHR ''l'')"
| "choice_option (BindTo s) = lopt ''bind'' required_argument (CHR ''b'')"
| "choice_option Foreground = lopt ''foreground'' no_argument (CHR ''f'')"
| "choice_option Daemon = lopt ''daemon'' no_argument (CHR ''d'')"
| "choice_option (Simulate s) = lopt ''simulate'' required_argument (CHR ''s'')"

lemma choice_option_in: "choice_option c \<in> set long_options"
  by (cases c) (simp_all add: long_options_def)

lemma choice_matches:
  assumes "x = [] \<or> hd x = CHR ''=''"
  shows "long_matches (choice_name c @ x) (choice_option c)"
    "list_all (\<lambda>p. long_matches (choice_name c @ x) p \<longrightarrow> p = choice_option c) long_options"
proof -
  show "long_matches (choice_name c @ x) (choice_option c)"
    using assms by (cases c; cases x) (simp_all add: long_matches_def lopt_def c_at_def)
  show "list_all (\<lambda>p. long_matches (choice_name c @ x) p \<longrightarrow> p = choice_option c) long_options"
    by (cases c) (simp_all add: long_matches_def lopt_def long_options_def)
qed

lemma choice_name_head: "choice_name c \<noteq> [] \<and> hd (choice_name c) \<noteq> NUL"
  by (cases c) (simp_all add: NUL_def)

lemma choice_step:
  assumes argv: "argv = pre @ choice_words (b, c) @ post" and st: "optind st = length pre" "getopt_next st = None"
  obtains st' where "getopt_long argv short_options long_options st = Some (GetoptChar (val (choice_option c)), st')"
    "optind st' = length pre + length (choice_words (b, c))" "getopt_next st' = None"
    "optarg st' = choice_arg c"
proof -
  obtain x where x: "hd (choice_words (b, c)) = ''--'' @ choice_name c @ x" "x = [] \<or> hd x = CHR ''=''"
    "choice_words (b, c) \<noteq> []"
    "x = (if b \<and> choice_arg c \<noteq> None then ''='' @ the (choice_arg c) else [])"
    by (cases "choice_arg c") (auto simp: choice_words_def)
  have word: "argv ! optind st = ''--'' @ choice_name c @ x"
    using x(1,3) by (simp add: argv st nth_append hd_conv_nth)
  have len: "optind st < length argv" using x(3) by (simp add: argv st)
  have head: "choice_name c @ x \<noteq> []" "hd (choice_name c @ x) \<noteq> NUL" using choice_name_head [of c] by auto
  obtain j where j: "getopt_long argv short_options long_options st =
      Some (long_result argv (choice_name c @ x) j (choice_option c) st)"
    using getopt_long_hit [OF len word head choice_option_in choice_matches(2,1) [OF x(2)]] by blast
  have name: "name (choice_option c) = choice_name c" "flag (choice_option c) = False"
    "has_arg (choice_option c) = (if choice_arg c = None then no_argument else required_argument)"
    by (cases c; simp add: lopt_def)+
  have next_word: "argv ! Suc (length pre) = s" "Suc (length pre) < length argv"
    if "\<not> b" "choice_arg c = Some s" for s
    using that by (simp_all add: argv choice_words_def nth_append)
  let ?st = "snd (long_result argv (choice_name c @ x) j (choice_option c) st)"
  have r: "fst (long_result argv (choice_name c @ x) j (choice_option c) st) = GetoptChar (val (choice_option c))
    \<and> optind ?st = length pre + length (choice_words (b, c)) \<and> getopt_next ?st = None \<and> optarg ?st = choice_arg c"
  proof (cases "choice_arg c")
    case None
    then show ?thesis by (simp add: long_result_def Let_def name st choice_words_def)
  next
    case (Some s)
    show ?thesis
    proof (cases b)
      case True
      then have "c_at x 0 = CHR ''=''" using x(4) Some by (simp add: c_at_def)
      then show ?thesis using True Some x(4)
        by (simp add: long_result_def Let_def name st choice_words_def c_at_append)
    next
      case False
      have "c_at n (length n) \<noteq> CHR ''=''" for n by (simp add: c_at_def NUL_def)
      then show ?thesis using False Some x(4) next_word [OF False Some]
        by (simp add: long_result_def Let_def name st choice_words_def c_at_append)
    qed
  qed
  show thesis by (rule that [of ?st]) (use j r in \<open>simp_all add: prod_eq_iff\<close>)
qed

lemma choice_accepted:
  "choice_valid c \<Longrightarrow> cli_option host (val (choice_option c)) (choice_arg c) out = Inr (choice_effect c out)"
  by (cases c) (simp_all add: cli_option_def lopt_def)

lemma cli_loop_choices:
  assumes "list_all (\<lambda>c. choice_valid (snd c)) cs" "argv = pre @ concat (map choice_words cs)"
    "optind st = length pre" "getopt_next st = None" "pre \<noteq> []"
  shows "cli_loop (getopt_long argv short_options long_options) host out st =
    Some (CliParsed (fold (\<lambda>c. choice_effect (snd c)) cs out))"
  using assms
proof (induction cs arbitrary: pre st out)
  case Nil
  then have "getopt_long argv short_options long_options st = Some (GetoptEnd, st)"
    by (intro getopt_long_done) simp_all
  then show ?case by (subst cli_loop.simps) simp
next
  case (Cons bc cs)
  obtain b c where bc: "bc = (b, c)" by (cases bc)
  have argv: "argv = pre @ choice_words (b, c) @ concat (map choice_words cs)" using Cons.prems(2) bc by simp
  obtain st' where st': "getopt_long argv short_options long_options st = Some (GetoptChar (val (choice_option c)), st')"
    "optind st' = length pre + length (choice_words (b, c))" "getopt_next st' = None" "optarg st' = choice_arg c"
    using choice_step [OF argv Cons.prems(3,4)] by blast
  have "cli_loop (getopt_long argv short_options long_options) host (choice_effect c out) st' =
      Some (CliParsed (fold (\<lambda>c. choice_effect (snd c)) cs (choice_effect c out)))"
    by (rule Cons.IH [of "pre @ choice_words (b, c)"]) (use Cons.prems argv st' in \<open>simp_all add: bc\<close>)
  moreover have "cli_option host (val (choice_option c)) (optarg st') out = Inr (choice_effect c out)"
    using Cons.prems(1) choice_accepted by (simp add: bc st'(4))
  ultimately show ?case by (subst cli_loop.simps) (simp add: st'(1) bc)
qed

section \<open>Properties\<close>

text \<open>
  On the replacement option parser, every sequence of valid long options of the master, each written as
  "--name=value" or as "--name value", is read back: the parser returns, and the arguments are the defaults
  changed by the options from left to right.
\<close>

theorem cli_long_options_roundtrip:
  assumes "list_all (\<lambda>c. choice_valid (snd c)) cs"
  shows "vom_master_cli_parse (getopt_long (prog # concat (map choice_words cs)) short_options long_options) host =
    Some (CliParsed (fold (\<lambda>c. choice_effect (snd c)) cs cli_defaults))"
  unfolding vom_master_cli_parse_def
  by (rule cli_loop_choices [OF assms, of _ "[prog]"]) (simp_all add: getopt_initial_def)

definition demo_host :: cli_host where
  "demo_host = \<lparr>host_mac = None, host_pid = 1, host_time = 1\<rparr>"

theorem cli_long_options_roundtrip_witness:
  "vom_master_cli_parse (getopt_long [''vom'', ''--bind=tcp://*:7'', ''--simulate'', ''3'', ''--daemon'']
      short_options long_options) demo_host =
    Some (CliParsed (cli_defaults\<lparr>bind_endpoint := Some ''tcp://*:7'', simulate_workers_count := 3, daemonize := True\<rparr>))"
proof -
  let ?cs = "[(True, BindTo ''tcp://*:7''), (False, Simulate ''3''), (False, Daemon)]"
  have three: "c_atoi ''3'' = 3" by (simp add: c_atoi_def c_isspace_def c_isdigit_def)
  have "list_all (\<lambda>c. choice_valid (snd c)) ?cs"
    by (simp add: vom_master_cli_validate_endpoint_def three)
  from cli_long_options_roundtrip [OF this, of "''vom''" demo_host] show ?thesis
    by (simp add: choice_words_def three)
qed

end
