(* ===== verification/Zmq.thy ===== *)
theory Zmq
  imports Prelude
begin

text \<open>
  The shared ZeroMQ context (\<^verbatim>\<open>common/src/zmq_context.c\<close>) and the socket helpers
  (\<^verbatim>\<open>common/src/zmq_sockets.c\<close>).

  The ZeroMQ library is not part of the repository: what it answers is the parameter \<open>zmq_lib\<close>, whose functions
  see the calls made so far, and every call is appended to a log together with the calling process. Contexts and sockets are
  handles. The mutex makes each context operation one step. A child process continues with a copy of
  its parent's variables, so the history of one address space is a list of operations with the identifier of the
  process at each.

  Proved: the reference count is positive exactly while there is a context; a process never terminates
  a context it did not create; n acquisitions followed by n releases terminate it exactly once; a socket handed out is configured
  before it is bound and one that is not handed out is closed; the identity text fits its buffer; and, with the
  option numbers of the library's documentation, that encryption cannot be switched on.
\<close>

section \<open>The library\<close>

datatype optval = Opt_Int int | Opt_Text string

datatype zmq_call =
    Zmq_ctx_new "nat option"
  | Zmq_ctx_set nat int int
  | Zmq_ctx_term nat
  | Zmq_socket nat int "nat option"
  | Zmq_setsockopt nat int optval
  | Zmq_bind nat string
  | Zmq_connect nat string
  | Zmq_close nat
  | Zmq_msg_init
  | Zmq_msg_recv nat
  | Zmq_getsockopt nat int
  | Zmq_msg_close

type_synonym zmq_log = "(int \<times> zmq_call) list"

record zmq_lib =
  ctx_new :: "zmq_log \<Rightarrow> nat option"
  socket_new :: "zmq_log \<Rightarrow> nat \<Rightarrow> int \<Rightarrow> nat option"
  setsockopt :: "zmq_log \<Rightarrow> nat \<Rightarrow> int \<Rightarrow> optval \<Rightarrow> int"
  bind :: "zmq_log \<Rightarrow> nat \<Rightarrow> string \<Rightarrow> int"
  connect :: "zmq_log \<Rightarrow> nat \<Rightarrow> string \<Rightarrow> int"
  msg_init :: "zmq_log \<Rightarrow> int"
  msg_recv :: "zmq_log \<Rightarrow> nat \<Rightarrow> string option"
  recv_more :: "zmq_log \<Rightarrow> nat \<Rightarrow> int"

record zmq_state =
  g_zmq_context :: "nat option"
  g_context_ref_count :: int
  g_context_owner_pid :: int
  log :: zmq_log

definition zmq_initial :: zmq_state where
  "zmq_initial = \<lparr> g_zmq_context = None, g_context_ref_count = 0, g_context_owner_pid = 0, log = [] \<rparr>"

definition record_call :: "int \<Rightarrow> zmq_call \<Rightarrow> zmq_state \<Rightarrow> zmq_state" where
  "record_call pid c s = s\<lparr>log := log s @ [(pid, c)]\<rparr>"

lemma record_call_simps [simp]:
  "g_zmq_context (record_call p c s) = g_zmq_context s"
  "g_context_ref_count (record_call p c s) = g_context_ref_count s"
  "g_context_owner_pid (record_call p c s) = g_context_owner_pid s"
  "log (record_call p c s) = log s @ [(p, c)]"
  by (simp_all add: record_call_def)

section \<open>The shared context\<close>

definition forget_foreign :: "int \<Rightarrow> zmq_state \<Rightarrow> zmq_state" where
  "forget_foreign current_pid s =
     (if g_zmq_context s \<noteq> None \<and> current_pid \<noteq> g_context_owner_pid s
      then s\<lparr>g_zmq_context := None, g_context_ref_count := 0\<rparr> else s)"

definition vom_zmq_context :: "zmq_lib \<Rightarrow> int \<Rightarrow> zmq_state \<Rightarrow> nat option \<times> zmq_state" where
  "vom_zmq_context lib current_pid s0 =
     (let s = forget_foreign current_pid s0;
          t = (case g_zmq_context s of
                 None \<Rightarrow>
                   (let h = ctx_new lib (log s); s1 = record_call current_pid (Zmq_ctx_new h) (s\<lparr>g_zmq_context := h\<rparr>)
                    in case h of
                         None \<Rightarrow> s1
                       | Some c \<Rightarrow> (record_call current_pid (Zmq_ctx_set c 3 2) s1)
                                     \<lparr>g_context_owner_pid := current_pid, g_context_ref_count := 1\<rparr>)
               | Some c \<Rightarrow> s\<lparr>g_context_ref_count := g_context_ref_count s + 1\<rparr>)
      in (g_zmq_context t, t))"

definition vom_zmq_context_term :: "int \<Rightarrow> zmq_state \<Rightarrow> zmq_state" where
  "vom_zmq_context_term current_pid s =
     (case g_zmq_context s of
        None \<Rightarrow> s
      | Some c \<Rightarrow>
          if current_pid = g_context_owner_pid s
          then (let s1 = s\<lparr>g_context_ref_count := g_context_ref_count s - 1\<rparr>
                in if g_context_ref_count s1 \<le> 0
                   then (record_call current_pid (Zmq_ctx_term c) s1)
                          \<lparr>g_zmq_context := None, g_context_owner_pid := 0, g_context_ref_count := 0\<rparr>
                   else s1)
          else s)"

section \<open>Sockets\<close>

definition VOM_ZMQ_IDENTITY :: int where "VOM_ZMQ_IDENTITY = 6"
definition VOM_ZMQ_LINGER :: int where "VOM_ZMQ_LINGER = 17"
definition VOM_ZMQ_SNDHWM :: int where "VOM_ZMQ_SNDHWM = 23"
definition VOM_ZMQ_RCVHWM :: int where "VOM_ZMQ_RCVHWM = 24"
definition VOM_ZMQ_RCVMORE :: int where "VOM_ZMQ_RCVMORE = 13"
definition VOM_ZMQ_CURVE_SERVER :: int where "VOM_ZMQ_CURVE_SERVER = 43"
definition VOM_ZMQ_CURVE_PUBLICKEY :: int where "VOM_ZMQ_CURVE_PUBLICKEY = 44"
definition VOM_ZMQ_CURVE_SECRETKEY :: int where "VOM_ZMQ_CURVE_SECRETKEY = 45"
definition VOM_ZMQ_CURVE_SERVERKEY :: int where "VOM_ZMQ_CURVE_SERVERKEY = 46"

definition do_setsockopt :: "zmq_lib \<Rightarrow> int \<Rightarrow> nat \<Rightarrow> int \<Rightarrow> optval \<Rightarrow> zmq_state \<Rightarrow> int \<times> zmq_state" where
  "do_setsockopt lib pid sock opt v s = (setsockopt lib (log s) sock opt v, record_call pid (Zmq_setsockopt sock opt v) s)"

definition vom_zmq_make_socket :: "zmq_lib \<Rightarrow> int \<Rightarrow> int \<Rightarrow> string option \<Rightarrow> int \<Rightarrow> zmq_state \<Rightarrow> nat option \<times> zmq_state" where
  "vom_zmq_make_socket lib pid type endpoint is_bind s0 =
     (let (local_ctx, s1) = vom_zmq_context lib pid s0
      in case (local_ctx, endpoint) of
           (Some c, Some ep) \<Rightarrow>
             (let sock = socket_new lib (log s1) c type; s2 = record_call pid (Zmq_socket c type sock) s1
              in case sock of
                   None \<Rightarrow> (None, s2)
                 | Some k \<Rightarrow>
                     (let s3 = snd (do_setsockopt lib pid k VOM_ZMQ_LINGER (Opt_Int 1000) s2);
                          s4 = snd (do_setsockopt lib pid k VOM_ZMQ_SNDHWM (Opt_Int 5000) s3);
                          s5 = snd (do_setsockopt lib pid k VOM_ZMQ_RCVHWM (Opt_Int 5000) s4);
                          st = (if is_bind \<noteq> 0 then bind lib (log s5) k ep else connect lib (log s5) k ep);
                          s6 = record_call pid (if is_bind \<noteq> 0 then Zmq_bind k ep else Zmq_connect k ep) s5
                      in if st \<noteq> 0 then (None, record_call pid (Zmq_close k) s6) else (Some k, s6)))
         | _ \<Rightarrow> (None, s1))"

text \<open>A sequence of options of which the first failure stops the function.\<close>

fun set_all :: "zmq_lib \<Rightarrow> int \<Rightarrow> nat \<Rightarrow> (int \<times> optval) list \<Rightarrow> zmq_state \<Rightarrow> bool \<times> zmq_state" where
  "set_all lib pid sock [] s = (True, s)"
| "set_all lib pid sock ((opt, v) # os) s =
     (let (r, t) = do_setsockopt lib pid sock opt v s in if r \<noteq> 0 then (False, t) else set_all lib pid sock os t)"

definition vom_zmq_apply_curve_security ::
  "zmq_lib \<Rightarrow> int \<Rightarrow> nat option \<Rightarrow> string option \<Rightarrow> string option \<Rightarrow> string option \<Rightarrow> zmq_state \<Rightarrow> bool \<times> zmq_state" where
  "vom_zmq_apply_curve_security lib pid sock server_public_key client_public_key client_secret_key s =
     (case (sock, server_public_key) of
        (Some k, Some server) \<Rightarrow>
          (case (client_public_key, client_secret_key) of
             (Some pk, Some sk) \<Rightarrow> set_all lib pid k [(VOM_ZMQ_CURVE_SERVER, Opt_Int 1), (VOM_ZMQ_CURVE_PUBLICKEY, Opt_Text pk),
                                     (VOM_ZMQ_CURVE_SECRETKEY, Opt_Text sk), (VOM_ZMQ_CURVE_SERVERKEY, Opt_Text server)] s
           | _ \<Rightarrow> set_all lib pid k [(VOM_ZMQ_CURVE_SERVER, Opt_Int 1), (VOM_ZMQ_CURVE_SERVERKEY, Opt_Text server)] s)
      | _ \<Rightarrow> (False, s))"

definition vom_zmq_set_identity :: "zmq_lib \<Rightarrow> int \<Rightarrow> nat option \<Rightarrow> string option \<Rightarrow> zmq_state \<Rightarrow> bool \<times> zmq_state" where
  "vom_zmq_set_identity lib pid sock ident s =
     (case (sock, ident) of
        (Some k, Some i) \<Rightarrow> if length i > 255 then (False, s)
          else (let (r, t) = do_setsockopt lib pid k VOM_ZMQ_IDENTITY (Opt_Text i) s in (r = 0, t))
      | _ \<Rightarrow> (False, s))"

text \<open>The result, the text stored in the buffer if one is stored, and the state.\<close>

definition vom_zmq_recv_identity :: "zmq_lib \<Rightarrow> int \<Rightarrow> nat option \<Rightarrow> nat \<Rightarrow> zmq_state \<Rightarrow> int \<times> string option \<times> zmq_state" where
  "vom_zmq_recv_identity lib pid sock cap s =
     (case sock of
        None \<Rightarrow> (-1, None, s)
      | Some k \<Rightarrow>
          if cap = 0 then (-1, None, s)
          else (let r0 = msg_init lib (log s); s1 = record_call pid Zmq_msg_init s
                in if r0 \<noteq> 0 then (-1, None, s1)
                   else (let m = msg_recv lib (log s1) k; s2 = record_call pid (Zmq_msg_recv k) s1
                         in case m of
                              None \<Rightarrow> (-1, None, record_call pid Zmq_msg_close s2)
                            | Some bytes \<Rightarrow>
                                (let copy_bytes = (if length bytes < cap - 1 then length bytes else cap - 1);
                                     s3 = record_call pid (Zmq_getsockopt k VOM_ZMQ_RCVMORE) s2
                                 in (recv_more lib (log s2) k, Some (take copy_bytes bytes), record_call pid Zmq_msg_close s3)))))"

section \<open>The reference count\<close>

definition zmq_ok :: "zmq_state \<Rightarrow> bool" where
  "zmq_ok s \<longleftrightarrow>
     (case g_zmq_context s of
        None \<Rightarrow> g_context_ref_count s = 0
      | Some c \<Rightarrow> 0 < g_context_ref_count s \<and> (g_context_owner_pid s, Zmq_ctx_new (Some c)) \<in> set (log s))
     \<and> (\<forall>p c. (p, Zmq_ctx_term c) \<in> set (log s) \<longrightarrow> (p, Zmq_ctx_new (Some c)) \<in> set (log s))"

lemma zmq_ok_initial: "zmq_ok zmq_initial"
  by (simp add: zmq_ok_def zmq_initial_def)

lemma forget_foreign_ok: "zmq_ok s \<Longrightarrow> zmq_ok (forget_foreign p s)"
  by (auto simp: zmq_ok_def forget_foreign_def)

lemma context_ok: "zmq_ok s \<Longrightarrow> zmq_ok (snd (vom_zmq_context lib p s))"
proof -
  assume "zmq_ok s"
  then have "zmq_ok (forget_foreign p s)" by (rule forget_foreign_ok)
  then show ?thesis
    by (auto simp: vom_zmq_context_def zmq_ok_def Let_def split: option.splits)
qed

lemma context_term_ok: "zmq_ok s \<Longrightarrow> zmq_ok (vom_zmq_context_term p s)"
  by (auto simp: vom_zmq_context_term_def zmq_ok_def Let_def split: option.splits)

datatype zmq_op = Acquire | Release

fun zmq_exec :: "zmq_lib \<Rightarrow> int \<times> zmq_op \<Rightarrow> zmq_state \<Rightarrow> zmq_state" where
  "zmq_exec lib (p, Acquire) s = snd (vom_zmq_context lib p s)"
| "zmq_exec lib (p, Release) s = vom_zmq_context_term p s"

lemma zmq_exec_ok: "zmq_ok s \<Longrightarrow> zmq_ok (zmq_exec lib op s)"
  by (cases "(lib, op, s)" rule: zmq_exec.cases) (simp_all add: context_ok context_term_ok)

lemma zmq_run_ok: "zmq_ok s \<Longrightarrow> zmq_ok (fold (zmq_exec lib) ops s)"
  by (induction ops arbitrary: s) (simp_all add: zmq_exec_ok)

text \<open>
  Whatever the library answers and however processes fork between the calls, the reference count is positive
  exactly while a context is kept, and no process ever terminates a context that it did not create itself: a
  child leaves its parent's alone.
\<close>

theorem context_never_terminated_by_child:
  "(case g_zmq_context (fold (zmq_exec lib) ops zmq_initial) of
      None \<Rightarrow> g_context_ref_count (fold (zmq_exec lib) ops zmq_initial) = 0
    | Some _ \<Rightarrow> 0 < g_context_ref_count (fold (zmq_exec lib) ops zmq_initial))
   \<and> {(p, c). (p, Zmq_ctx_term c) \<in> set (log (fold (zmq_exec lib) ops zmq_initial))}
       \<subseteq> {(p, c). (p, Zmq_ctx_new (Some c)) \<in> set (log (fold (zmq_exec lib) ops zmq_initial))}"
  using zmq_run_ok [OF zmq_ok_initial, of lib ops] by (auto simp: zmq_ok_def split: option.splits)

text \<open>In one process, the count is what was acquired less what was released.\<close>

lemma acquire_more:
  "g_zmq_context s = Some c \<Longrightarrow> g_context_owner_pid s = p \<Longrightarrow>
    fold (zmq_exec lib) (replicate n (p, Acquire)) s = s\<lparr>g_context_ref_count := g_context_ref_count s + int n\<rparr>"
  by (induction n arbitrary: s) (simp_all add: vom_zmq_context_def forget_foreign_def)

lemma release_some:
  "g_zmq_context s = Some c \<Longrightarrow> g_context_owner_pid s = p \<Longrightarrow> int n < g_context_ref_count s \<Longrightarrow>
    fold (zmq_exec lib) (replicate n (p, Release)) s = s\<lparr>g_context_ref_count := g_context_ref_count s - int n\<rparr>"
  by (induction n arbitrary: s) (simp_all add: vom_zmq_context_term_def Let_def)

text \<open>
  In one process, a context acquired n + 1 times is created once, survives n releases and is terminated by the
  next one, after which the variables are as at the start.
\<close>

theorem context_balanced:
  assumes "ctx_new lib [] = Some c"
  shows "fold (zmq_exec lib) (replicate (Suc n) (p, Acquire) @ replicate n (p, Release)) zmq_initial
       = \<lparr> g_zmq_context = Some c, g_context_ref_count = 1, g_context_owner_pid = p,
           log = [(p, Zmq_ctx_new (Some c)), (p, Zmq_ctx_set c 3 2)] \<rparr>
   \<and> fold (zmq_exec lib) (replicate (Suc n) (p, Acquire) @ replicate (Suc n) (p, Release)) zmq_initial
       = zmq_initial\<lparr>log := [(p, Zmq_ctx_new (Some c)), (p, Zmq_ctx_set c 3 2), (p, Zmq_ctx_term c)]\<rparr>"
proof -
  let ?l = "[(p, Zmq_ctx_new (Some c)), (p, Zmq_ctx_set c 3 2)]"
  have first: "zmq_exec lib (p, Acquire) zmq_initial
      = \<lparr> g_zmq_context = Some c, g_context_ref_count = 1, g_context_owner_pid = p, log = ?l \<rparr>"
    using assms by (simp add: vom_zmq_context_def forget_foreign_def zmq_initial_def record_call_def Let_def)
  have up: "fold (zmq_exec lib) (replicate (Suc n) (p, Acquire)) zmq_initial
      = \<lparr> g_zmq_context = Some c, g_context_ref_count = 1 + int n, g_context_owner_pid = p, log = ?l \<rparr>"
    using acquire_more [of "\<lparr> g_zmq_context = Some c, g_context_ref_count = 1, g_context_owner_pid = p, log = ?l \<rparr>" c p lib n]
    by (simp add: first del: zmq_exec.simps)
  have down: "fold (zmq_exec lib) (replicate (Suc n) (p, Acquire) @ replicate n (p, Release)) zmq_initial
      = \<lparr> g_zmq_context = Some c, g_context_ref_count = 1, g_context_owner_pid = p, log = ?l \<rparr>"
    using release_some [of "\<lparr> g_zmq_context = Some c, g_context_ref_count = 1 + int n, g_context_owner_pid = p, log = ?l \<rparr>" c p n lib]
    by (simp only: fold_append comp_apply up) simp
  have "replicate (Suc n) (p, Release) = replicate n (p, Release) @ [(p, Release)]" by (simp add: replicate_append_same)
  then have "fold (zmq_exec lib) (replicate (Suc n) (p, Acquire) @ replicate (Suc n) (p, Release)) zmq_initial
      = zmq_exec lib (p, Release) (fold (zmq_exec lib) (replicate (Suc n) (p, Acquire) @ replicate n (p, Release)) zmq_initial)"
    by (simp only: fold_append comp_apply fold.simps id_apply)
  also have "\<dots> = zmq_initial\<lparr>log := ?l @ [(p, Zmq_ctx_term c)]\<rparr>"
    by (simp only: down) (simp add: vom_zmq_context_term_def zmq_initial_def record_call_def)
  finally show ?thesis using down by simp
qed

definition sample_lib :: zmq_lib where
  "sample_lib = \<lparr> ctx_new = (\<lambda>l. Some (length l)), socket_new = (\<lambda>l c t. Some (length l)),
     setsockopt = (\<lambda>l s opt v. if opt = 43 then -1 else 0), bind = (\<lambda>l s e. -1), connect = (\<lambda>l s e. 0), msg_init = (\<lambda>l. 0),
     msg_recv = (\<lambda>l s. Some ''worker-7''), recv_more = (\<lambda>l s. 1) \<rparr>"

theorem context_balanced_witness:
  "ctx_new sample_lib [] = Some 0
   \<and> fold (zmq_exec sample_lib) (replicate (Suc 2) (9, Acquire) @ replicate (Suc 2) (9, Release)) zmq_initial
       = zmq_initial\<lparr>log := [(9, Zmq_ctx_new (Some 0)), (9, Zmq_ctx_set 0 3 2), (9, Zmq_ctx_term 0)]\<rparr>"
proof -
  have c: "ctx_new sample_lib [] = Some 0" by (simp add: sample_lib_def)
  from context_balanced [OF c, of 2 9] c show ?thesis by blast
qed

section \<open>Sockets\<close>

text \<open>A socket that is handed out was configured and then bound or connected successfully; one that is not is closed
  again. Either way the call keeps a reference to the context, which nothing gives back.\<close>

lemma make_socket_cases:
  assumes "vom_zmq_context lib p s = (Some c, s1)" and "socket_new lib (log s1) c t = Some k"
  shows "\<exists>st. vom_zmq_make_socket lib p t (Some ep) b s
      = (if st \<noteq> (0 :: int) then None else Some k,
         s1\<lparr>log := log s1 @ map (Pair p) ([Zmq_socket c t (Some k), Zmq_setsockopt k 17 (Opt_Int 1000),
              Zmq_setsockopt k 23 (Opt_Int 5000), Zmq_setsockopt k 24 (Opt_Int 5000), if b \<noteq> 0 then Zmq_bind k ep else Zmq_connect k ep]
              @ (if st \<noteq> 0 then [Zmq_close k] else []))\<rparr>)"
proof (cases "fst (vom_zmq_make_socket lib p t (Some ep) b s) = None")
  case True
  then show ?thesis using assms
    by (intro exI [of _ 1]) (auto simp: vom_zmq_make_socket_def do_setsockopt_def record_call_def Let_def
        VOM_ZMQ_LINGER_def VOM_ZMQ_SNDHWM_def VOM_ZMQ_RCVHWM_def split: if_splits)
next
  case False
  then show ?thesis using assms
    by (intro exI [of _ 0]) (auto simp: vom_zmq_make_socket_def do_setsockopt_def record_call_def Let_def
        VOM_ZMQ_LINGER_def VOM_ZMQ_SNDHWM_def VOM_ZMQ_RCVHWM_def split: if_splits)
qed

text \<open>
  A socket that cannot be bound or connected is closed again and not handed out, but the failed call still
  keeps one more reference to the shared context than before, so the context outlives its matching release.
\<close>

theorem failed_socket_keeps_reference:
  assumes "zmq_ok s" and "vom_zmq_context lib p s = (Some c, s1)" and "socket_new lib (log s1) c t = Some k"
    and "vom_zmq_make_socket lib p t (Some ep) b s = (None, s2)"
  shows "last (log s2) = (p, Zmq_close k) \<and> g_zmq_context s2 = Some c
    \<and> g_context_ref_count s2 = g_context_ref_count (forget_foreign p s) + 1"
proof -
  have "g_context_ref_count s1 = g_context_ref_count (forget_foreign p s) + 1" "g_zmq_context s1 = Some c"
    using assms(2) forget_foreign_ok [OF assms(1), of p]
    by (auto simp: vom_zmq_context_def Let_def zmq_ok_def split: option.splits)
  moreover obtain st where "vom_zmq_make_socket lib p t (Some ep) b s
      = (if st \<noteq> (0 :: int) then None else Some k,
         s1\<lparr>log := log s1 @ map (Pair p) ([Zmq_socket c t (Some k), Zmq_setsockopt k 17 (Opt_Int 1000),
              Zmq_setsockopt k 23 (Opt_Int 5000), Zmq_setsockopt k 24 (Opt_Int 5000), if b \<noteq> 0 then Zmq_bind k ep else Zmq_connect k ep]
              @ (if st \<noteq> 0 then [Zmq_close k] else []))\<rparr>)"
    using make_socket_cases [OF assms(2,3)] by blast
  ultimately show ?thesis using assms(4) by (auto split: if_splits)
qed

theorem failed_socket_keeps_reference_witness:
  "g_context_ref_count (snd (vom_zmq_make_socket sample_lib 9 6 (Some ''tcp://*:5555'') 1 zmq_initial)) = 1"
proof -
  let ?s1 = "snd (vom_zmq_context sample_lib 9 zmq_initial)"
  let ?s2 = "snd (vom_zmq_make_socket sample_lib 9 6 (Some ''tcp://*:5555'') 1 zmq_initial)"
  have 1: "vom_zmq_context sample_lib 9 zmq_initial = (Some 0, ?s1)"
    by (simp add: vom_zmq_context_def sample_lib_def forget_foreign_def zmq_initial_def Let_def)
  have 2: "socket_new sample_lib (log ?s1) 0 6 = Some 2"
    by (simp add: vom_zmq_context_def sample_lib_def forget_foreign_def zmq_initial_def Let_def)
  have "fst (vom_zmq_make_socket sample_lib 9 6 (Some ''tcp://*:5555'') 1 zmq_initial) = None" by code_simp
  then have 3: "vom_zmq_make_socket sample_lib 9 6 (Some ''tcp://*:5555'') 1 zmq_initial = (None, ?s2)"
    by (metis prod.collapse)
  from failed_socket_keeps_reference [OF zmq_ok_initial 1 2 3] show ?thesis
    by (simp add: forget_foreign_def zmq_initial_def)
qed

text \<open>
  The library documents option 43 as the security mechanism in use, which can only be read: setting it fails. Then
  encryption can never be enabled, for a client or a server, whatever the keys.
\<close>

theorem curve_never_enabled:
  assumes "\<And>l s v. setsockopt lib l s 43 v \<noteq> 0"
  shows "\<not> fst (vom_zmq_apply_curve_security lib pid sock server pk sk s)"
  using assms by (auto simp: vom_zmq_apply_curve_security_def do_setsockopt_def VOM_ZMQ_CURVE_SERVER_def Let_def split: option.splits)

theorem curve_never_enabled_witness:
  "\<not> fst (vom_zmq_apply_curve_security sample_lib 9 (Some 3) (Some ''server'') (Some ''public'') (Some ''secret'') zmq_initial)"
proof -
  have "setsockopt sample_lib l s 43 v \<noteq> 0" for l s v by (simp add: sample_lib_def)
  from curve_never_enabled [OF this] show ?thesis .
qed

text \<open>The identity text is a prefix of the message that fits the buffer, and every message that was initialised is closed.\<close>

lemma recv_identity_fits:
  assumes "vom_zmq_recv_identity lib p sock cap s = (r, Some txt, t)"
  shows "length txt < cap \<and> last (log t) = (p, Zmq_msg_close)
    \<and> (\<exists>k bytes. sock = Some k \<and> msg_recv lib (log s @ [(p, Zmq_msg_init)]) k = Some bytes \<and> txt = take (cap - 1) bytes)"
  using assms by (auto simp: vom_zmq_recv_identity_def Let_def split: option.splits if_splits)

end
