(* ===== verification/Log.thy ===== *)
theory Log
  imports Prelude
begin

text \<open>
  The logger (\<^verbatim>\<open>common/src/log.c\<close>): the level filter, the line it prints and the post-mortem file
  that it writes round and round.

  The time and the formatted message (what \<open>vfprintf\<close> makes of the format and its arguments) are
  parameters; what is printed is part of the result. The post-mortem file is its contents with the write
  position. \<open>None\<close> is a read outside a buffer: the tables of names and colours have six entries,
  and \<open>snprintf\<close> returns the length of the whole text, which may be more than the buffer holds.

  Proved: the post-mortem file never grows beyond its limit while texts are shorter than the buffers, and
  each write is stored in one piece right before the write position; a longer message makes the logger
  read outside its buffer; the name printed for a source file has no directories.
\<close>

section \<open>Data\<close>

datatype VomLogLevel = VOM_LOG_LEVEL_TRACE | VOM_LOG_LEVEL_DEBUG | VOM_LOG_LEVEL_INFO | VOM_LOG_LEVEL_WARN
  | VOM_LOG_LEVEL_ERROR | VOM_LOG_LEVEL_FATAL | VOM_LOG_LEVEL_NONE

primrec level_code :: "VomLogLevel \<Rightarrow> nat" where
  "level_code VOM_LOG_LEVEL_TRACE = 0"
| "level_code VOM_LOG_LEVEL_DEBUG = 1"
| "level_code VOM_LOG_LEVEL_INFO = 2"
| "level_code VOM_LOG_LEVEL_WARN = 3"
| "level_code VOM_LOG_LEVEL_ERROR = 4"
| "level_code VOM_LOG_LEVEL_FATAL = 5"
| "level_code VOM_LOG_LEVEL_NONE = 6"

datatype log_stream = Stdout | Stderr | OtherStream

record ring_file =
  ring_data :: string
  ring_pos :: nat

record log_state =
  g_current_level :: VomLogLevel
  g_target_stream :: "log_stream option"
  g_colors_enabled :: bool
  g_ring_file :: "ring_file option"
  g_ring_max_size :: int

definition log_initial :: log_state where
  "log_initial = \<lparr>g_current_level = VOM_LOG_LEVEL_INFO, g_target_stream = None, g_colors_enabled = True,
     g_ring_file = None, g_ring_max_size = 0\<rparr>"

definition esc :: string where "esc = [CHR 0x1B]"

definition ANSI_RESET :: string where "ANSI_RESET = esc @ ''[0m''"

definition g_level_colors :: "string list" where
  "g_level_colors = [esc @ ''[35m'', esc @ ''[36m'', esc @ ''[32m'', esc @ ''[33m'', esc @ ''[31m'',
     esc @ ''[41m'' @ esc @ ''[37m'']"

definition g_level_tags :: "string list" where
  "g_level_tags = [''TRACE'', ''DEBUG'', ''INFO'', ''WARN'', ''ERROR'', ''FATAL'']"

section \<open>Operations\<close>

definition vom_log_set_level :: "VomLogLevel \<Rightarrow> log_state \<Rightarrow> log_state" where
  "vom_log_set_level level st = st\<lparr>g_current_level := level\<rparr>"

definition vom_log_set_stream :: "log_stream option \<Rightarrow> log_state \<Rightarrow> log_state" where
  "vom_log_set_stream stream st = st\<lparr>g_target_stream := stream\<rparr>"

definition vom_log_enable_colors :: "bool \<Rightarrow> log_state \<Rightarrow> log_state" where
  "vom_log_enable_colors enable st = st\<lparr>g_colors_enabled := enable\<rparr>"

definition vom_log_init_postmortem_ring_buffer :: "bool \<Rightarrow> int \<Rightarrow> log_state \<Rightarrow> bool \<times> log_state" where
  "vom_log_init_postmortem_ring_buffer fopen_ok max_file_size_bytes st =
     (if \<not> fopen_ok then (False, st\<lparr>g_ring_file := None\<rparr>)
      else (True, st\<lparr>g_ring_file := Some \<lparr>ring_data = [], ring_pos = 0\<rparr>,
                    g_ring_max_size := max_file_size_bytes\<rparr>))"

definition write_to_ring_buffer :: "string \<Rightarrow> log_state \<Rightarrow> log_state" where
  "write_to_ring_buffer buf st =
     (case g_ring_file st of
        None \<Rightarrow> st
      | Some r \<Rightarrow>
          (let len = length buf;
               pos = (if int (ring_pos r) + int len > g_ring_max_size st then 0 else ring_pos r)
           in st\<lparr>g_ring_file := Some \<lparr>ring_data = take pos (ring_data r) @ buf @ drop (pos + len) (ring_data r),
                                       ring_pos = pos + len\<rparr>\<rparr>))"

text \<open>What a buffer of \<open>cap\<close> bytes holds after \<open>snprintf\<close>, of which \<open>length text\<close> bytes are then read.\<close>

definition snprintf_read :: "nat \<Rightarrow> string \<Rightarrow> string option" where
  "snprintf_read cap txt =
     (if length txt < cap then Some txt
      else if length txt = cap then Some (take (cap - 1) txt @ [CHR 0x00])
      else None)"

fun short_file :: "string \<Rightarrow> string \<Rightarrow> string" where
  "short_file cur [] = cur"
| "short_file cur (c # p) = (if c = CHR 0x5C \<or> c = CHR ''/'' then short_file p p else short_file cur p)"

definition usec6 :: "nat \<Rightarrow> string" where
  "usec6 n = replicate (6 - length (c_decimal n)) (CHR ''0'') @ c_decimal n"

definition meta_text :: "string \<Rightarrow> nat \<Rightarrow> string \<Rightarrow> string \<Rightarrow> nat \<Rightarrow> string" where
  "meta_text time_str usec tag fname line =
     time_str @ ''.'' @ usec6 usec @ '' ['' @ tag @ ''] ['' @ fname @ '':'' @ c_decimal line @ ''] ''"

definition color_text :: "string \<Rightarrow> nat \<Rightarrow> string \<Rightarrow> string \<Rightarrow> string \<Rightarrow> nat \<Rightarrow> string" where
  "color_text time_str usec color tag fname line =
     time_str @ ''.'' @ usec6 usec @ '' '' @ color @ ''['' @ tag @ '']'' @ ANSI_RESET @ '' ['' @ fname @ '':''
     @ c_decimal line @ ''] ''"

definition ring_record :: "string \<Rightarrow> string \<Rightarrow> log_state \<Rightarrow> log_state option" where
  "ring_record meta msg st =
     (if g_ring_file st = None then Some st
      else
        (case snprintf_read 256 meta of
           None \<Rightarrow> None
         | Some meta_buf \<Rightarrow>
             (let st1 = (if length meta > 0 then write_to_ring_buffer meta_buf st else st) in
              case snprintf_read 1024 msg of
                None \<Rightarrow> None
              | Some msg_buf \<Rightarrow>
                  Some (if length msg > 0
                        then write_to_ring_buffer [CHR 0x0A] (write_to_ring_buffer msg_buf st1) else st1))))"

definition vom_log_emit ::
  "VomLogLevel \<Rightarrow> string \<Rightarrow> nat \<Rightarrow> string \<Rightarrow> nat \<Rightarrow> string \<Rightarrow> log_state \<Rightarrow> (string \<times> log_state) option" where
  "vom_log_emit level fname line time_str usec msg st =
     (if level_code level < level_code (g_current_level st) \<or> g_current_level st = VOM_LOG_LEVEL_NONE
      then Some ([], st)
      else if level_code level \<ge> length g_level_tags then None
      else
        (let stream = (case g_target_stream st of Some s \<Rightarrow> s | None \<Rightarrow> Stderr);
             tag = g_level_tags ! level_code level;
             short = short_file fname fname;
             head = (if g_colors_enabled st \<and> (stream = Stdout \<or> stream = Stderr)
                     then color_text time_str usec (g_level_colors ! level_code level) tag short line
                     else meta_text time_str usec tag short line)
         in case ring_record (meta_text time_str usec tag short line) msg st of
              None \<Rightarrow> None
            | Some st' \<Rightarrow> Some (head @ msg @ [CHR 0x0A], st')))"

section \<open>Lemmas\<close>

lemma short_file_spec: "short_file cur p = (if list_ex (\<lambda>c. c = CHR 0x5C \<or> c = CHR ''/'') p
    then rev (takeWhile (\<lambda>c. c \<noteq> CHR 0x5C \<and> c \<noteq> CHR ''/'') (rev p)) else cur)"
proof (induction cur p rule: short_file.induct)
  case (2 cur c p)
  show ?case
  proof (cases "list_ex (\<lambda>c. c = CHR 0x5C \<or> c = CHR ''/'') p")
    case True
    then have "takeWhile (\<lambda>c. c \<noteq> CHR 0x5C \<and> c \<noteq> CHR ''/'') (rev p @ [c]) =
        takeWhile (\<lambda>c. c \<noteq> CHR 0x5C \<and> c \<noteq> CHR ''/'') (rev p)"
      by (auto simp: list_ex_iff intro: takeWhile_append1)
    then show ?thesis using 2 True by simp
  next
    case False
    then have "takeWhile (\<lambda>c. c \<noteq> CHR 0x5C \<and> c \<noteq> CHR ''/'') (rev p @ [c]) = rev p @
        takeWhile (\<lambda>c. c \<noteq> CHR 0x5C \<and> c \<noteq> CHR ''/'') [c]"
      by (intro takeWhile_append2) (auto simp: list_ex_iff)
    then show ?thesis using 2 False by simp
  qed
qed simp

definition ring_ok :: "log_state \<Rightarrow> bool" where
  "ring_ok st = (case g_ring_file st of None \<Rightarrow> True
     | Some r \<Rightarrow> ring_pos r \<le> length (ring_data r) \<and> int (length (ring_data r)) \<le> g_ring_max_size st)"

lemma write_fields [simp]:
  "g_ring_max_size (write_to_ring_buffer b st) = g_ring_max_size st"
  "g_current_level (write_to_ring_buffer b st) = g_current_level st"
  "g_target_stream (write_to_ring_buffer b st) = g_target_stream st"
  "g_colors_enabled (write_to_ring_buffer b st) = g_colors_enabled st"
  "g_ring_file (write_to_ring_buffer b st) = None \<longleftrightarrow> g_ring_file st = None"
  by (simp_all add: write_to_ring_buffer_def Let_def split: option.splits)

lemma write_ring_ok:
  assumes "ring_ok st" "int (length b) \<le> g_ring_max_size st"
  shows "ring_ok (write_to_ring_buffer b st)"
proof (cases "g_ring_file st")
  case None
  then show ?thesis using assms(1) by (simp add: write_to_ring_buffer_def)
next
  case (Some r)
  let ?pos = "if int (ring_pos r) + int (length b) > g_ring_max_size st then 0 else ring_pos r"
  have r: "ring_pos r \<le> length (ring_data r)" "int (length (ring_data r)) \<le> g_ring_max_size st"
    using assms(1) Some by (simp_all add: ring_ok_def)
  have "int ?pos + int (length b) \<le> g_ring_max_size st" using assms(2) by simp
  with r show ?thesis by (simp add: write_to_ring_buffer_def Some ring_ok_def Let_def)
qed

definition ring_tail :: "nat \<Rightarrow> log_state \<Rightarrow> string" where
  "ring_tail n st = (case g_ring_file st of None \<Rightarrow> [] | Some r \<Rightarrow> drop (ring_pos r - n) (take (ring_pos r) (ring_data r)))"

lemma write_tail:
  assumes "ring_ok st" "g_ring_file st \<noteq> None"
  shows "ring_tail (length b) (write_to_ring_buffer b st) = b"
proof -
  obtain r where r: "g_ring_file st = Some r" using assms(2) by auto
  then have "ring_pos r \<le> length (ring_data r)" using assms(1) by (simp add: ring_ok_def)
  then show ?thesis by (simp add: ring_tail_def write_to_ring_buffer_def r Let_def)
qed

lemma snprintf_read_length: "snprintf_read cap txt = Some b \<Longrightarrow> 0 < cap \<Longrightarrow> length b = length txt \<and> length b \<le> cap"
  by (auto simp: snprintf_read_def split: if_splits)

lemma ring_record_ok:
  assumes "ring_ok st" "1024 \<le> g_ring_max_size st" "ring_record meta msg st = Some st'"
  shows "ring_ok st' \<and> g_ring_max_size st' = g_ring_max_size st \<and> (g_ring_file st' = None) = (g_ring_file st = None)"
proof (cases "g_ring_file st = None")
  case True
  then show ?thesis using assms by (simp add: ring_record_def)
next
  case False
  then obtain m b where mb: "snprintf_read 256 meta = Some m" "snprintf_read 1024 msg = Some b"
    using assms(3) by (auto simp: ring_record_def Let_def split: option.splits)
  then have len: "length m \<le> 256" "length b \<le> 1024" using snprintf_read_length by force+
  define st1 where "st1 = (if length meta > 0 then write_to_ring_buffer m st else st)"
  have st1: "ring_ok st1" "g_ring_max_size st1 = g_ring_max_size st" "g_ring_file st1 \<noteq> None"
    using assms(1,2) len(1) False by (simp_all add: st1_def write_ring_ok del: not_None_eq)
  have st': "st' = (if length msg > 0 then write_to_ring_buffer [CHR 0x0A] (write_to_ring_buffer b st1) else st1)"
    using assms(3) False mb by (auto simp: ring_record_def Let_def st1_def)
  have "ring_ok (write_to_ring_buffer b st1)" using st1 assms(2) len(2) by (intro write_ring_ok) simp_all
  then have "ring_ok (write_to_ring_buffer [CHR 0x0A] (write_to_ring_buffer b st1))"
    using st1(2) assms(2) by (intro write_ring_ok [of "write_to_ring_buffer b st1"]) simp_all
  then show ?thesis using st1 False by (simp add: st' del: not_None_eq)
qed

lemma emit_ring:
  assumes "vom_log_emit level fname line time_str usec msg st = Some (outp, st')"
  shows "st' = st \<or> (\<exists>meta. ring_record meta msg st = Some st')"
  using assms unfolding vom_log_emit_def Let_def
  by (simp split: if_splits option.splits) blast+

section \<open>Runs\<close>

datatype log_call =
    LogLevel VomLogLevel
  | LogStream "log_stream option"
  | LogColors bool
  | LogEmit VomLogLevel string nat string nat string

fun log_exec :: "log_call \<Rightarrow> log_state \<Rightarrow> log_state option" where
  "log_exec (LogLevel l) st = Some (vom_log_set_level l st)"
| "log_exec (LogStream s) st = Some (vom_log_set_stream s st)"
| "log_exec (LogColors b) st = Some (vom_log_enable_colors b st)"
| "log_exec (LogEmit l f n t u m) st = map_option snd (vom_log_emit l f n t u m st)"

fun log_run :: "log_call list \<Rightarrow> log_state \<Rightarrow> log_state option" where
  "log_run [] st = Some st"
| "log_run (c # cs) st = (case log_exec c st of None \<Rightarrow> None | Some st' \<Rightarrow> log_run cs st')"

lemma log_exec_ok:
  assumes "ring_ok st" "1024 \<le> g_ring_max_size st" "log_exec c st = Some st'"
  shows "ring_ok st' \<and> g_ring_max_size st' = g_ring_max_size st \<and> (g_ring_file st' = None) = (g_ring_file st = None)"
proof (cases c)
  case (LogEmit l f n t u m)
  with assms(3) obtain outp where "vom_log_emit l f n t u m st = Some (outp, st')" by auto
  from emit_ring [OF this] show ?thesis using assms(1,2) ring_record_ok by blast
qed (use assms in \<open>auto simp: ring_ok_def vom_log_set_level_def vom_log_set_stream_def vom_log_enable_colors_def
  split: option.splits\<close>)

lemma log_run_ok:
  "ring_ok st \<Longrightarrow> 1024 \<le> g_ring_max_size st \<Longrightarrow> log_run cs st = Some st' \<Longrightarrow>
    ring_ok st' \<and> g_ring_max_size st' = g_ring_max_size st \<and> (g_ring_file st' = None) = (g_ring_file st = None)"
proof (induction cs arbitrary: st)
  case (Cons c cs)
  then obtain st1 where "log_exec c st = Some st1" "log_run cs st1 = Some st'" by (auto split: option.splits)
  with Cons.prems log_exec_ok [of st c st1] Cons.IH [of st1] show ?case by simp
qed simp

text \<open>Calls whose texts fit the buffers.\<close>

fun call_fits :: "log_call \<Rightarrow> bool" where
  "call_fits (LogEmit l f n t u m) \<longleftrightarrow> l \<noteq> VOM_LOG_LEVEL_NONE \<and> length m \<le> 1024
     \<and> length (meta_text t u ''ERROR'' (short_file f f) n) \<le> 256"
| "call_fits _ \<longleftrightarrow> True"

lemma tag_length: "l \<noteq> VOM_LOG_LEVEL_NONE \<Longrightarrow> level_code l < 6 \<and> length (g_level_tags ! level_code l) \<le> 5"
  by (cases l) (simp_all add: g_level_tags_def)

lemma snprintf_read_fits: "length txt \<le> cap \<Longrightarrow> \<exists>b. snprintf_read cap txt = Some b"
  by (auto simp: snprintf_read_def)

lemma ring_record_returns:
  assumes "length meta \<le> 256" "length msg \<le> 1024"
  shows "\<exists>st'. ring_record meta msg st = Some st'"
  using snprintf_read_fits [OF assms(1)] snprintf_read_fits [OF assms(2)]
  by (auto simp: ring_record_def Let_def)

lemma log_exec_returns:
  assumes "call_fits c"
  shows "\<exists>st'. log_exec c st = Some st'"
proof (cases c)
  case (LogEmit l f n t u m)
  let ?tag = "g_level_tags ! level_code l"
  have fits: "l \<noteq> VOM_LOG_LEVEL_NONE" "length m \<le> 1024"
    "length (meta_text t u ''ERROR'' (short_file f f) n) \<le> 256"
    using assms by (simp_all add: LogEmit)
  have "length (meta_text t u ?tag (short_file f f) n) \<le> 256"
    using fits(3) tag_length [OF fits(1)] by (simp add: meta_text_def)
  then obtain st' where "ring_record (meta_text t u ?tag (short_file f f) n) m st = Some st'"
    using ring_record_returns fits(2) by blast
  then show ?thesis
    using tag_length [OF fits(1)] by (simp add: LogEmit vom_log_emit_def Let_def g_level_tags_def)
qed simp_all

lemma log_run_returns: "list_all call_fits cs \<Longrightarrow> \<exists>st'. log_run cs st = Some st'"
proof (induction cs arbitrary: st)
  case (Cons c cs)
  then obtain st1 where "log_exec c st = Some st1" using log_exec_returns by fastforce
  with Cons show ?case by simp
qed simp

section \<open>Properties\<close>

text \<open>
  With a limit of at least 1024 bytes, any sequence of logger calls whose texts fit the buffers returns
  and leaves the post-mortem file within its limit, with the write position inside the file.
\<close>

theorem log_ring_bounded:
  assumes "vom_log_init_postmortem_ring_buffer True limit st = (True, st0)" "1024 \<le> limit" "list_all call_fits cs"
  shows "\<exists>st' r. log_run cs st0 = Some st' \<and> g_ring_file st' = Some r
    \<and> ring_pos r \<le> length (ring_data r) \<and> int (length (ring_data r)) \<le> limit"
proof -
  have st0: "ring_ok st0" "g_ring_max_size st0 = limit" "g_ring_file st0 \<noteq> None"
    using assms(1,2) by (auto simp: vom_log_init_postmortem_ring_buffer_def ring_ok_def)
  obtain st' where st': "log_run cs st0 = Some st'" using log_run_returns [OF assms(3)] by blast
  have "ring_ok st' \<and> g_ring_max_size st' = limit \<and> g_ring_file st' \<noteq> None"
    using log_run_ok [OF st0(1) _ st'] st0(2,3) assms(2) by simp
  with st' show ?thesis by (auto simp: ring_ok_def)
qed

definition demo_calls :: "log_call list" where
  "demo_calls = [LogLevel VOM_LOG_LEVEL_DEBUG,
     LogEmit VOM_LOG_LEVEL_WARN ''src/a.c'' 7 ''2024-01-01 00:00:00'' 5 ''late heartbeat'']"

theorem log_ring_bounded_witness:
  "\<exists>st' r. log_run demo_calls (snd (vom_log_init_postmortem_ring_buffer True 4096 log_initial)) = Some st'
    \<and> g_ring_file st' = Some r \<and> int (length (ring_data r)) \<le> 4096"
proof -
  have "list_all call_fits demo_calls"
    by (simp add: demo_calls_def meta_text_def usec6_def c_decimal.simps)
  from log_ring_bounded [OF _ _ this, of 4096 log_initial] show ?thesis
    by (simp add: vom_log_init_postmortem_ring_buffer_def) blast
qed

text \<open>
  With the post-mortem file open, every message of more than 1024 characters that passes the level
  filter makes the logger read beyond its message buffer.
\<close>

theorem long_message_overreads:
  assumes "g_ring_file st \<noteq> None" "level_code (g_current_level st) \<le> level_code level"
    and "level \<noteq> VOM_LOG_LEVEL_NONE" "1024 < length msg"
  shows "vom_log_emit level fname line time_str usec msg st = None"
proof -
  have "ring_record meta msg st = None" for meta
    using assms(1,4) by (auto simp: ring_record_def snprintf_read_def Let_def split: option.splits)
  moreover have "g_current_level st \<noteq> VOM_LOG_LEVEL_NONE"
    using assms(2) tag_length [OF assms(3)] by auto
  ultimately show ?thesis using assms(2) by (simp add: vom_log_emit_def Let_def)
qed

theorem long_message_overreads_witness:
  "vom_log_emit VOM_LOG_LEVEL_ERROR ''a.c'' 1 ''now'' 0 (replicate 1025 (CHR ''x''))
     (snd (vom_log_init_postmortem_ring_buffer True 4096 log_initial)) = None"
  by (rule long_message_overreads) (simp_all add: vom_log_init_postmortem_ring_buffer_def log_initial_def)

end
