(* ===== verification/Startup.thy ===== *)
theory Startup
  imports Master_Main Worker_Main Master_Cli Zmq C_Scan Log
begin

text \<open>
  Start and stop of the two programs: the parts of \<open>main\<close> of \<^verbatim>\<open>master/src/main.c\<close> and
  \<^verbatim>\<open>worker/src/main.c\<close> around their loops.

  Which calls succeed is a parameter. A run is the list of resources it acquires and releases and its exit code, or none
  when the program reaches its loop. The data the master starts with is \<open>master_boot\<close> of theory
  \<open>Master_Main\<close>, which succeeds exactly when this start does. Signal registration, option
  settings of the sockets, the daemon mode (never requested) and printing are left out.

  Proved: every failing start gives back, in reverse order, exactly what it acquired; so does a start
  followed by a stop; and the master's command line has no influence.
\<close>

section \<open>Resources\<close>

datatype resource = Res_Cluster_State | Res_Zmq_Context | Res_Socket

datatype resource_event = Acquire_Res resource | Release_Res resource

text \<open>What is held, newest first; releasing anything but the newest is an error.\<close>

fun held :: "resource_event list \<Rightarrow> resource list \<Rightarrow> resource list option" where
  "held [] rs = Some rs"
| "held (Acquire_Res r # es) rs = (if r \<in> set rs then None else held es (r # rs))"
| "held (Release_Res r # es) rs = (case rs of [] \<Rightarrow> None | x # xs \<Rightarrow> if x = r then held es xs else None)"

section \<open>The master\<close>

record master_args =
  log_level :: string
  daemonize :: bool

text \<open>\<open>main.c\<close> has its own parser, which looks at no argument.\<close>

definition vom_master_cli_parse_local :: "string list \<Rightarrow> int \<times> master_args" where
  "vom_master_cli_parse_local argv = (0, \<lparr> log_level = c_strncpy 127 ''info'', daemonize = False \<rparr>)"

definition select_log_level :: "string \<Rightarrow> VomLogLevel" where
  "select_log_level s =
     (if strcasecmp_eq s ''trace'' then VOM_LOG_LEVEL_TRACE
      else if strcasecmp_eq s ''debug'' then VOM_LOG_LEVEL_DEBUG
      else if strcasecmp_eq s ''warn'' then VOM_LOG_LEVEL_WARN
      else if strcasecmp_eq s ''error'' then VOM_LOG_LEVEL_ERROR
      else if strcasecmp_eq s ''fatal'' then VOM_LOG_LEVEL_FATAL
      else VOM_LOG_LEVEL_INFO)"

record start_answers =
  state_created :: bool
  ctx_created :: bool
  sock_created :: bool
  bound :: bool

definition master_startup :: "string list \<Rightarrow> start_answers \<Rightarrow> int option \<times> VomLogLevel \<times> resource_event list" where
  "master_startup argv a =
     (let (rc, args) = vom_master_cli_parse_local argv; lvl = select_log_level (log_level args)
      in if rc \<noteq> 0 then (Some 1, VOM_LOG_LEVEL_INFO, [])
         else if \<not> state_created a then (Some 1, lvl, [])
         else (let e1 = [Acquire_Res Res_Cluster_State]
               in if \<not> ctx_created a then (Some 1, lvl, e1 @ [Release_Res Res_Cluster_State])
                  else (let e2 = e1 @ [Acquire_Res Res_Zmq_Context]
                        in if \<not> sock_created a
                           then (Some 1, lvl, e2 @ [Release_Res Res_Zmq_Context, Release_Res Res_Cluster_State])
                           else (let e3 = e2 @ [Acquire_Res Res_Socket]
                                 in if \<not> bound a
                                    then (Some 1, lvl, e3 @ [Release_Res Res_Socket, Release_Res Res_Zmq_Context,
                                                             Release_Res Res_Cluster_State])
                                    else (None, lvl, e3)))))"

text \<open>The stop also releases the shared context, which the master never acquired.\<close>

definition master_shutdown :: "int \<Rightarrow> zmq_state \<Rightarrow> int \<times> resource_event list \<times> zmq_state" where
  "master_shutdown pid z =
     (0, [Release_Res Res_Socket, Release_Res Res_Zmq_Context, Release_Res Res_Cluster_State], vom_zmq_context_term pid z)"

section \<open>The worker\<close>

definition worker_self_test :: "string list \<Rightarrow> resource_event list option" where
  "worker_self_test args =
     (case args of
        a # _ \<Rightarrow> if a = ''--test''
          then Some [Acquire_Res Res_Zmq_Context, Acquire_Res Res_Socket, Release_Res Res_Socket, Release_Res Res_Zmq_Context]
          else None
      | [] \<Rightarrow> None)"

text \<open>The identity comes from the hardware and is then overwritten by the command line; no identity means the
  program printed its usage and left.\<close>

definition worker_identity :: "string option \<Rightarrow> nat \<Rightarrow> nat \<Rightarrow> string list \<Rightarrow> worker_options option" where
  "worker_identity mac pid tm args =
     vom_worker_cli_parse args \<lparr> g_master_endpoint = ''tcp://127.0.0.1:5555'', g_worker_id = generate_worker_id 64 mac pid tm \<rparr>"

record worker_answers =
  w_ctx :: bool
  w_sock :: bool
  w_connect :: bool
  w_malloc :: bool
  w_send :: int

definition worker_startup ::
  "string option \<Rightarrow> nat \<Rightarrow> nat \<Rightarrow> string list \<Rightarrow> worker_answers \<Rightarrow> int option \<times> resource_event list \<times> bytes list" where
  "worker_startup mac pid tm args a =
     (case worker_self_test args of
        Some es \<Rightarrow> (Some 0, es, [])
      | None \<Rightarrow>
          (case worker_identity mac pid tm args of
             None \<Rightarrow> (Some 0, [], [])
           | Some opts \<Rightarrow>
               if \<not> w_ctx a then (Some 1, [], [])
               else (let e1 = [Acquire_Res Res_Zmq_Context]
                     in if \<not> w_sock a then (Some 1, e1 @ [Release_Res Res_Zmq_Context], [])
                        else (let e2 = e1 @ [Acquire_Res Res_Socket]; cleanup = [Release_Res Res_Socket, Release_Res Res_Zmq_Context]
                              in if \<not> w_connect a then (Some 1, e2 @ cleanup, [])
                                 else (let (sent, fs) = send_join (of_nat tm) (w_malloc a) (w_send a)
                                       in if \<not> sent then (Some 1, e2 @ cleanup, fs) else (None, e2, fs))))))"

definition worker_shutdown :: "int \<times> resource_event list" where
  "worker_shutdown = (0, [Release_Res Res_Socket, Release_Res Res_Zmq_Context])"

section \<open>Nothing is left behind\<close>

lemma held_append: "held (es @ fs) rs = (case held es rs of None \<Rightarrow> None | Some qs \<Rightarrow> held fs qs)"
  by (induction es rs rule: held.induct) (auto split: list.splits)

lemmas startup_defs = master_startup_def vom_master_cli_parse_local_def worker_startup_def worker_self_test_def Let_def

text \<open>
  Whichever call fails, a start of the master or of the worker that does not reach its loop has released, newest
  first, exactly what it had acquired; and a start that does, followed by the stop, leaves nothing held. The stop of the master
  does not disturb the shared context, which it never used.
\<close>

theorem programs_release_everything:
  "(case master_startup argv a of
      (Some _, _, es) \<Rightarrow> held es [] = Some []
    | (None, _, es) \<Rightarrow> held es [] = Some [Res_Socket, Res_Zmq_Context, Res_Cluster_State]
         \<and> held (es @ fst (snd (master_shutdown pid zmq_initial))) [] = Some []
         \<and> snd (snd (master_shutdown pid zmq_initial)) = zmq_initial)
   \<and> (case worker_startup mac wpid tm args b of
      (Some _, es, _) \<Rightarrow> held es [] = Some []
    | (None, es, _) \<Rightarrow> held es [] = Some [Res_Socket, Res_Zmq_Context] \<and> held (es @ snd worker_shutdown) [] = Some [])"
  by (auto simp: startup_defs master_shutdown_def worker_shutdown_def vom_zmq_context_term_def zmq_initial_def
      split: option.splits prod.splits list.splits)

text \<open>The start reaches the loop exactly when the data of \<open>master_boot\<close> exists.\<close>

lemma startup_matches_boot:
  "fst (master_startup argv \<lparr> state_created = calloc_ok \<and> mutex_ok, ctx_created = c, sock_created = s, bound = b \<rparr>) = None
     \<longleftrightarrow> master_boot uuid tm calloc_ok mutex_ok fopen_ok wal c s b \<noteq> None"
  by (auto simp: startup_defs master_boot_def cluster_state_create_def split: prod.splits)

text \<open>
  The master program ignores its command line: for every list of arguments, those that the option parser of
  \<open>cli.c\<close> accepts with another log level included, it starts with the log level INFO.
\<close>

theorem master_ignores_command_line:
  "fst (snd (master_startup argv a)) = VOM_LOG_LEVEL_INFO"
  by (simp add: startup_defs select_log_level_def strcasecmp_eq_def c_tolower_def)

end
