(* ===== verification/Cluster_Spec.thy ===== *)
theory Cluster_Spec
  imports Cluster_State
begin

text \<open>
  The abstract specification of the cluster store, and that \<^verbatim>\<open>master/src/cluster_state.c\<close> refines it.

  The specification has no arrays, no search loops, no ring and no file: a directory is a pair of finite maps with a generation
  counter, the store is the current directory and the saved one. The abstraction reads the tables by key. It commutes with every operation,
  file errors and restarts included, and the codes the operations return are those of the specification; the
  status and the resource totals of the store are functions of the abstract directory.
\<close>

section \<open>Specification\<close>

record directory =
  members :: "u32 \<rightharpoonup> WorkerMember"
  leases :: "u64 \<rightharpoonup> ChunkLease"
  generation :: u64

record cluster_spec =
  current :: directory
  saved :: "directory option"

definition empty_directory :: directory where
  "empty_directory = \<lparr> members = Map.empty, leases = Map.empty, generation = 1 \<rparr>"

definition spec_initial :: cluster_spec where
  "spec_initial = \<lparr> current = empty_directory, saved = None \<rparr>"

definition next_generation :: "directory \<Rightarrow> directory" where
  "next_generation d = d\<lparr>generation := generation d + 1\<rparr>"

definition retries :: "LeaseStatus \<Rightarrow> u32 \<Rightarrow> u32" where
  "retries ls n = (if ls \<in> {LEASE_STATUS_FAILED, LEASE_STATUS_TIMED_OUT} then n + 1 else n)"

definition lease_retries :: "u64 \<Rightarrow> directory \<Rightarrow> u32" where
  "lease_retries cid d = (case leases d cid of None \<Rightarrow> 0 | Some l \<Rightarrow> failure_retry_count l)"

definition seen :: "u64 \<Rightarrow> WorkerMember \<Rightarrow> WorkerMember" where
  "seen ts w = w\<lparr>last_seen_timestamp_ms := ts,
     health := (case health w of WORKER_HEALTH_OFFLINE \<Rightarrow> WORKER_HEALTH_ONLINE | h \<Rightarrow> h)\<rparr>"

fun spec_answer :: "cluster_event \<Rightarrow> cluster_spec \<Rightarrow> bool" where
  "spec_answer (EvRegister w) s \<longleftrightarrow> worker_id w \<notin> dom (members (current s)) \<and> card (dom (members (current s))) < 32"
| "spec_answer (EvLease cid ls pr) s \<longleftrightarrow> cid \<in> dom (leases (current s)) \<or> card (dom (leases (current s))) < 128"
| "spec_answer (EvHeartbeat wid ts) s \<longleftrightarrow> wid \<in> dom (members (current s))"
| "spec_answer (EvPersist fo fw ff) s \<longleftrightarrow> fo \<and> fw"
| "spec_answer (EvRecover fo) s \<longleftrightarrow> fo \<and> saved s \<noteq> None"
| "spec_answer _ s \<longleftrightarrow> True"

fun spec_effect :: "cluster_event \<Rightarrow> cluster_spec \<Rightarrow> cluster_spec" where
  "spec_effect (EvRegister w) s =
     s\<lparr>current := next_generation ((current s)\<lparr>members := (members (current s))(worker_id w \<mapsto> w)\<rparr>)\<rparr>"
| "spec_effect (EvLease cid ls pr) s =
     s\<lparr>current := next_generation ((current s)\<lparr>leases := (leases (current s))
        (cid \<mapsto> \<lparr>chunk_id = cid, status = ls, progress_percentage = pr,
                 failure_retry_count = retries ls (lease_retries cid (current s))\<rparr>)\<rparr>)\<rparr>"
| "spec_effect (EvHeartbeat wid ts) s =
     s\<lparr>current := next_generation ((current s)\<lparr>members := (members (current s))(wid := map_option (seen ts) (members (current s) wid))\<rparr>)\<rparr>"
| "spec_effect (EvPersist fo fw ff) s = s\<lparr>saved := (if ff then Some (current s) else None)\<rparr>"
| "spec_effect (EvRecover fo) s = s\<lparr>current := next_generation (the (saved s))\<rparr>"
| "spec_effect (EvRestart uuid epoch) s = s\<lparr>current := empty_directory\<rparr>"
| "spec_effect _ s = s"

text \<open>A refused operation has no effect, except that a failed write has already destroyed the saved directory. A save whose flush
  fails is not refused but destroys it too.\<close>

definition spec_exec :: "cluster_event \<Rightarrow> cluster_spec \<Rightarrow> cluster_spec" where
  "spec_exec e s =
     (if spec_answer e s then spec_effect e s
      else if e \<in> {EvPersist True False True, EvPersist True False False} then s\<lparr>saved := None\<rparr> else s)"

section \<open>Abstraction\<close>

definition abs_directory :: "ClusterStateSnapshot \<Rightarrow> directory" where
  "abs_directory st = \<lparr> members = (\<lambda>k. lookup_by worker_id k (active_workers st)),
     leases = (\<lambda>k. lookup_by chunk_id k (active_leases st)), generation = state_generation_version st \<rparr>"

definition abs_wal :: "wal_file \<Rightarrow> directory option" where
  "abs_wal wal = (case wal of WAL_IMAGE img \<Rightarrow> Some (abs_directory img) | _ \<Rightarrow> None)"

definition abs_cluster :: "cluster_sys \<Rightarrow> cluster_spec" where
  "abs_cluster s = \<lparr> current = abs_directory (master_state (sys_ctx s)), saved = abs_wal (sys_wal s) \<rparr>"

fun cluster_answer :: "cluster_event \<Rightarrow> cluster_sys \<Rightarrow> bool" where
  "cluster_answer (EvRegister w) s = fst (cluster_state_register_worker w (sys_ctx s))"
| "cluster_answer (EvLease cid ls pr) s = fst (cluster_state_update_lease cid ls pr (sys_ctx s))"
| "cluster_answer (EvHeartbeat wid ts) s = fst (cluster_state_process_heartbeat wid ts (sys_ctx s))"
| "cluster_answer (EvPersist fo fw ff) s = fst (cluster_state_persist_to_wal (sys_ctx s) fo fw ff (sys_wal s))"
| "cluster_answer (EvRecover fo) s = fst (cluster_state_recover_from_wal (sys_ctx s) fo (sys_wal s))"
| "cluster_answer _ s = True"

section \<open>Simulation\<close>

lemma inv_tables:
  assumes "cluster_sys_inv s"
  shows "card (dom (\<lambda>k. lookup_by worker_id k (active_workers (master_state (sys_ctx s))))) = length (active_workers (master_state (sys_ctx s)))"
    "card (dom (\<lambda>k. lookup_by chunk_id k (active_leases (master_state (sys_ctx s))))) = length (active_leases (master_state (sys_ctx s)))"
  using assms by (simp_all add: cluster_sys_inv_def snapshot_inv_def table_ok_def card_dom_lookup_by)

lemma cluster_answer_sim: "cluster_sys_inv s \<Longrightarrow> cluster_answer e s = spec_answer e (abs_cluster s)"
  by (cases e)
    (auto simp: abs_cluster_def abs_directory_def abs_wal_def inv_tables lookup_by_ex domIff
      cluster_state_register_worker_def cluster_state_update_lease_def cluster_state_process_heartbeat_def
      cluster_state_persist_to_wal_def cluster_state_recover_from_wal_def Let_def split: wal_file.splits)

lemma touch_is_seen: "touch_worker ts = seen ts"
proof
  show "touch_worker ts w = seen ts w" for w by (cases "health w") (simp_all add: touch_worker_def seen_def)
qed

lemma lookup_lease:
  assumes "fst (cluster_state_update_lease cid ls pr c)"
  shows "lookup_by chunk_id k (active_leases (master_state (snd (cluster_state_update_lease cid ls pr c))))
    = ((leases (abs_directory (master_state c)))
        (cid \<mapsto> \<lparr>chunk_id = cid, status = ls, progress_percentage = pr,
                 failure_retry_count = retries ls (lease_retries cid (abs_directory (master_state c)))\<rparr>)) k"
proof (cases "k = cid")
  case False
  then show ?thesis using lease_table.put_lookup_other [where a = "(cid, ls, pr)" and k = k and s = c] by (simp add: abs_directory_def)
next
  case True
  have "lookup_by chunk_id cid (active_leases (master_state (snd (cluster_state_update_lease cid ls pr c))))
      = Some (case lookup_by chunk_id cid (active_leases (master_state c)) of
          None \<Rightarrow> apply_lease_update ls pr (zero_lease cid) | Some l \<Rightarrow> apply_lease_update ls pr l)"
    using lease_table.put_lookup_same [where a = "(cid, ls, pr)" and s = c] assms by (simp split: option.split)
  then show ?thesis using True lookup_by_SomeD [of chunk_id cid "active_leases (master_state c)"]
    by (auto simp: abs_directory_def lease_retries_def retries_def apply_lease_update_def zero_lease_def split: option.split)
qed

lemma exec_refused:
  "cluster_sys_inv s \<Longrightarrow> \<not> cluster_answer e s \<Longrightarrow>
    abs_cluster (cluster_exec e s) = (if e \<in> {EvPersist True False True, EvPersist True False False} then (abs_cluster s)\<lparr>saved := None\<rparr> else abs_cluster s)"
  by (cases e)
    (auto simp: abs_cluster_def abs_wal_def cluster_state_register_worker_def cluster_state_update_lease_def
      cluster_state_process_heartbeat_def cluster_state_persist_to_wal_def cluster_state_recover_from_wal_def Let_def
      split: if_splits wal_file.splits)

lemma exec_accepted:
  assumes inv: "cluster_sys_inv s" and ok: "cluster_answer e s"
  shows "abs_cluster (cluster_exec e s) = spec_effect e (abs_cluster s)"
proof (cases e)
  case (EvRegister w)
  with ok have "\<not> list_ex (\<lambda>v. worker_id v = worker_id w) (active_workers (master_state (sys_ctx s)))"
    "length (active_workers (master_state (sys_ctx s))) < CLUSTER_MAX_WORKERS"
    by (auto simp: cluster_state_register_worker_def Let_def split: if_splits)
  then show ?thesis
    by (auto simp: EvRegister abs_cluster_def abs_directory_def next_generation_def cluster_state_register_worker_def Let_def
        lookup_by_ex lookup_by_append fun_eq_iff split: option.splits)
next
  case (EvLease cid ls pr)
  have look: "(\<lambda>k. lookup_by chunk_id k (active_leases (master_state (snd (cluster_state_update_lease cid ls pr (sys_ctx s))))))
    = (leases (abs_directory (master_state (sys_ctx s))))
        (cid \<mapsto> \<lparr>chunk_id = cid, status = ls, progress_percentage = pr,
                 failure_retry_count = retries ls (lease_retries cid (abs_directory (master_state (sys_ctx s))))\<rparr>)"
    using lookup_lease [of cid ls pr "sys_ctx s"] ok by (simp add: EvLease fun_eq_iff)
  have "active_workers (master_state (snd (cluster_state_update_lease cid ls pr (sys_ctx s)))) = active_workers (master_state (sys_ctx s))"
    "state_generation_version (master_state (snd (cluster_state_update_lease cid ls pr (sys_ctx s))))
       = state_generation_version (master_state (sys_ctx s)) + 1"
    using ok by (auto simp: EvLease cluster_state_update_lease_def Let_def split: if_splits)
  then show ?thesis
    by (simp add: EvLease abs_cluster_def abs_directory_def [of "master_state (snd _)"] look next_generation_def)
      (simp add: abs_directory_def)
next
  case (EvHeartbeat wid ts)
  then have "list_ex (\<lambda>w. worker_id w = wid) (active_workers (master_state (sys_ctx s)))"
    using ok by (simp add: cluster_state_process_heartbeat_def Let_def split: if_split_asm)
  with EvHeartbeat show ?thesis
    by (auto simp: abs_cluster_def abs_directory_def next_generation_def cluster_state_process_heartbeat_def Let_def touch_is_seen [symmetric]
        lookup_by_upd_first lookup_by_upd_first_other fun_eq_iff)
next
  case EvAcquire
  then show ?thesis by (simp add: abs_cluster_def cluster_ring.acquire_current)
next
  case (EvRelease i)
  then show ?thesis by (simp add: abs_cluster_def cluster_ring.release_current)
next
  case (EvPersist fo fw ff)
  then show ?thesis using ok by (simp add: abs_cluster_def abs_wal_def cluster_state_persist_to_wal_def split: if_splits)
next
  case (EvRecover fo)
  then show ?thesis using ok
    by (auto simp: abs_cluster_def abs_wal_def abs_directory_def next_generation_def cluster_state_recover_from_wal_def split: if_splits wal_file.splits)
next
  case (EvRestart uuid epoch)
  then show ?thesis
    by (simp add: abs_cluster_def abs_directory_def empty_directory_def cluster_boot_def cluster_state_create_def zero_snapshot_def)
qed

interpretation cluster_store: simulation cluster_sys_inv abs_cluster cluster_exec cluster_answer spec_exec spec_answer
proof
  fix s e
  assume inv: "cluster_sys_inv s"
  then show "cluster_sys_inv (cluster_exec e s)" by (rule cluster_exec_inv)
  show "cluster_answer e s = spec_answer e (abs_cluster s)" using inv by (rule cluster_answer_sim)
  show "abs_cluster (cluster_exec e s) = spec_exec e (abs_cluster s)"
    using inv by (simp add: spec_exec_def exec_accepted exec_refused cluster_answer_sim [symmetric])
qed

definition cluster_start :: "string \<Rightarrow> u64 \<Rightarrow> cluster_sys" where
  "cluster_start uuid epoch = \<lparr>sys_ctx = cluster_boot uuid epoch, sys_wal = WAL_ABSENT\<rparr>"

lemma cluster_start_inv: "cluster_sys_inv (cluster_start uuid epoch)"
  using cluster_reachable_sys_inv [OF reach_start] by (simp add: cluster_start_def)

lemma abs_cluster_start: "abs_cluster (cluster_start uuid epoch) = spec_initial"
  by (simp add: cluster_start_def abs_cluster_def abs_directory_def abs_wal_def spec_initial_def empty_directory_def
      cluster_boot_def cluster_state_create_def zero_snapshot_def)

text \<open>
  C2: The cluster store refines the specification: after every history of registrations, lease updates, heartbeats,
  snapshots, persists and recoveries (with any errors of opening, writing and flushing the file) and restarts, reading its tables by key gives the
  directory and the saved directory of the specification after the same history, and every operation of the history
  returned the code the specification gives.
\<close>

theorem cluster_store_refines_spec:
  "abs_cluster (fold cluster_exec es (cluster_start uuid epoch)) = fold spec_exec es spec_initial
   \<and> answers_of cluster_answer cluster_exec es (cluster_start uuid epoch) = answers_of spec_answer spec_exec es spec_initial"
  using cluster_store.run_sim [OF cluster_start_inv, of es uuid epoch]
    cluster_store.run_answers [OF cluster_start_inv, of es uuid epoch] by (simp add: abs_cluster_start)

section \<open>What the store displays\<close>

lemma sum_live:
  fixes f :: "WorkerMember \<Rightarrow> 'n :: comm_monoid_add"
  assumes "distinct (map worker_id ws)"
  shows "(\<Sum>w\<leftarrow>filter is_live ws. f w) = (\<Sum>w \<in> {w \<in> ran (\<lambda>k. lookup_by worker_id k ws). is_live w}. f w)"
proof -
  have "ran (\<lambda>k. lookup_by worker_id k ws) = set ws"
    using assms by (auto simp: ran_def lookup_by_Some_iff)
  moreover have "distinct (filter is_live ws)" using assms by (auto simp: distinct_map)
  ultimately show ?thesis by (simp add: sum_list_distinct_conv_sum_set)
qed

text \<open>
  C32: After every history, the status the store displays is operational exactly when the specification has a member,
  and its core and memory totals are the sums over the members of the specification that are online or draining.
\<close>

theorem cluster_displays_spec:
  fixes es :: "cluster_event list" and uuid :: string and epoch :: u64
  defines "st \<equiv> master_state (sys_ctx (fold cluster_exec es (cluster_start uuid epoch)))"
  defines "ws \<equiv> ran (members (current (fold spec_exec es spec_initial)))"
  shows "(global_status st = CLUSTER_STATUS_OPERATIONAL \<longleftrightarrow> ws \<noteq> {})
    \<and> cluster_aggregate_cores (metrics st) = (\<Sum>w \<in> {w \<in> ws. is_live w}. total_cores (resources w))
    \<and> cluster_allocated_cores (metrics st) = (\<Sum>w \<in> {w \<in> ws. is_live w}. reserved_cores (resources w))
    \<and> cluster_aggregate_memory_bytes (metrics st) = (\<Sum>w \<in> {w \<in> ws. is_live w}. total_memory_bytes (resources w))
    \<and> cluster_allocated_memory_bytes (metrics st) = (\<Sum>w \<in> {w \<in> ws. is_live w}. reserved_memory_bytes (resources w))"
proof -
  have inv: "snapshot_inv st"
    using cluster_store.run_inv [OF cluster_start_inv, of es uuid epoch] by (simp add: st_def cluster_sys_inv_def)
  then have d: "distinct (map worker_id (active_workers st))" by (simp add: snapshot_inv_def table_ok_def)
  have "members (current (abs_cluster (fold cluster_exec es (cluster_start uuid epoch)))) = (\<lambda>k. lookup_by worker_id k (active_workers st))"
    by (simp add: abs_cluster_def abs_directory_def st_def)
  then have ws: "ws = ran (\<lambda>k. lookup_by worker_id k (active_workers st))"
    using cluster_store.run_sim [OF cluster_start_inv, of es uuid epoch] by (simp add: ws_def abs_cluster_start)
  moreover have "ran (\<lambda>k. lookup_by worker_id k (active_workers st)) = set (active_workers st)"
    using d by (auto simp: ran_def lookup_by_Some_iff)
  ultimately show ?thesis
    using inv d by (simp add: snapshot_inv_def fold_add_worker_metrics zero_metrics_def sum_live)
qed

end
