(* ===== verification/Chunk_Planner.thy ===== *)
theory Chunk_Planner
  imports Prelude
begin

text \<open>
  The workload-to-chunk planner (\<^verbatim>\<open>master/src/chunk_planner.c\<close>): deterministic chunk
  identifiers, the strategy registry, the two planning strategies, and the queue-based topological
  check of a plan.

  \<open>size_t\<close> has 64 bits and \<open>char\<close> is signed, as on the supported targets. A plan's
  arrays with their counts are lists. The check's \<open>while\<close> loop is a
  \<^theory_text>\<open>partial_function (option)\<close>, so that it returns at all is part of what is proved.

  Proved: chunk identifiers of one plan are pairwise distinct (the mixing function is a bijection);
  the check returns, never writes past its queue array, and answers true exactly for plans whose
  dependency relation is acyclic and whose edges into chunks start at chunks; every plan that the
  planner produces passes it; the rejection branches.
\<close>

section \<open>Data\<close>

definition MAX_STRATEGIES :: nat where "MAX_STRATEGIES = 16"
definition MAX_CHUNKS :: nat where "MAX_CHUNKS = 64"
definition MAX_EDGES :: nat where "MAX_EDGES = 128"
definition MAX_NAME_LEN :: nat where "MAX_NAME_LEN = 64"
definition HASH_SEED :: u64 where "HASH_SEED = 0x9E3779B97F4A7C15"

datatype StrategyType = STRATEGY_INDEPENDENT_BATCH | STRATEGY_SEQUENTIAL_PIPELINE
  | STRATEGY_MAP_REDUCE | STRATEGY_UNSUPPORTED

record Workload =
  workload_name :: string
  strategy_type :: StrategyType
  total_input_size_bytes :: u64
  compute_intensity_factor :: u64
  is_splittable :: bool
  raw_data_node_id :: u32

record ChunkNode =
  chunk_id :: u64
  memory_demand_bytes :: u64
  cpu_cores_demand :: u64
  target_node_id :: u32
  data_locality_score :: fp

record DependencyEdge =
  src_chunk_id :: u64
  dst_chunk_id :: u64

record ExecutionPlan =
  chunks :: "ChunkNode list"
  edges :: "DependencyEdge list"
  is_valid :: bool

type_synonym PlanGenerationFunc = "Workload \<Rightarrow> ExecutionPlan \<Rightarrow> bool \<times> ExecutionPlan"

type_synonym StrategyRegistry = "(StrategyType \<times> PlanGenerationFunc option) list"

section \<open>Operations\<close>

definition xor_shift_33 :: "u64 \<Rightarrow> u64" where
  "xor_shift_33 hash = hash XOR drop_bit 33 hash"

definition generate_deterministic_chunk_id :: "u64 \<Rightarrow> nat \<Rightarrow> u64" where
  "generate_deterministic_chunk_id base_hash chunk_index =
     (let hash0 = base_hash XOR of_nat chunk_index;
          hash1 = xor_shift_33 hash0 * 0xff51afd7ed558ccd;
          hash2 = xor_shift_33 hash1 * 0xc4ceb9fe1a85ec53
      in xor_shift_33 hash2)"

fun strategy_code :: "StrategyType \<Rightarrow> u64" where
  "strategy_code STRATEGY_INDEPENDENT_BATCH = 0"
| "strategy_code STRATEGY_SEQUENTIAL_PIPELINE = 1"
| "strategy_code STRATEGY_MAP_REDUCE = 2"
| "strategy_code STRATEGY_UNSUPPORTED = 3"

definition compute_workload_base_hash :: "Workload \<Rightarrow> u64" where
  "compute_workload_base_hash wl =
     (let h = fold (\<lambda>ch hash. (hash XOR scast (of_char ch :: u8)) * 1099511628211)
                (take MAX_NAME_LEN (workload_name wl)) HASH_SEED
      in h XOR total_input_size_bytes wl XOR strategy_code (strategy_type wl))"

definition register_planning_strategy ::
  "StrategyType \<Rightarrow> PlanGenerationFunc option \<Rightarrow> StrategyRegistry \<Rightarrow> bool \<times> StrategyRegistry" where
  "register_planning_strategy ty fn reg =
     (if length reg \<ge> MAX_STRATEGIES then (False, reg) else (True, reg @ [(ty, fn)]))"

fun find_strategy :: "StrategyType \<Rightarrow> StrategyRegistry \<Rightarrow> PlanGenerationFunc option" where
  "find_strategy ty [] = None"
| "find_strategy ty ((t, fn) # reg) =
     (if t = ty \<and> fn \<noteq> None then fn else find_strategy ty reg)"

definition batch_chunk :: "Workload \<Rightarrow> nat \<Rightarrow> ChunkNode" where
  "batch_chunk wl i =
     (let scheduled_node = of_nat (i mod 4) :: u32
      in \<lparr>chunk_id = generate_deterministic_chunk_id (compute_workload_base_hash wl) i,
          memory_demand_bytes = total_input_size_bytes wl div 4 + 1024 * 1024 * 64,
          cpu_cores_demand = compute_intensity_factor wl * 2,
          target_node_id = scheduled_node,
          data_locality_score = (if scheduled_node = raw_data_node_id wl then Fin 1 else Fin 0)\<rparr>)"

definition plan_independent_batch_strategy :: PlanGenerationFunc where
  "plan_independent_batch_strategy wl out_plan =
     (True, out_plan\<lparr>chunks := map (batch_chunk wl) [0..<4], edges := [], is_valid := True\<rparr>)"

definition pipeline_chunk :: "Workload \<Rightarrow> nat \<Rightarrow> ChunkNode" where
  "pipeline_chunk wl i =
     \<lparr>chunk_id = generate_deterministic_chunk_id (compute_workload_base_hash wl) i,
      memory_demand_bytes = total_input_size_bytes wl div 2,
      cpu_cores_demand = compute_intensity_factor wl,
      target_node_id = raw_data_node_id wl,
      data_locality_score = Fin 1\<rparr>"

definition plan_sequential_pipeline_strategy :: PlanGenerationFunc where
  "plan_sequential_pipeline_strategy wl out_plan =
     (let cs = map (pipeline_chunk wl) [0..<4]
      in (True, out_plan\<lparr>chunks := cs,
            edges := map (\<lambda>i. \<lparr>src_chunk_id = chunk_id (cs ! i),
                              dst_chunk_id = chunk_id (cs ! (i + 1))\<rparr>) [0..<3],
            is_valid := True\<rparr>))"

definition zero_plan :: ExecutionPlan where
  "zero_plan = \<lparr>chunks = [], edges = [], is_valid = False\<rparr>"

definition generate_chunk_graph :: "StrategyRegistry \<Rightarrow> Workload \<Rightarrow> bool \<times> ExecutionPlan" where
  "generate_chunk_graph reg wl =
     (if \<not> is_splittable wl then (False, zero_plan\<lparr>is_valid := False\<rparr>)
      else case find_strategy (strategy_type wl) reg of
        None \<Rightarrow> (False, zero_plan\<lparr>is_valid := False\<rparr>)
      | Some strategy_call \<Rightarrow> strategy_call wl zero_plan)"

subsection \<open>The topological check\<close>

definition count_in_degrees :: "ExecutionPlan \<Rightarrow> int list" where
  "count_in_degrees plan =
     fold (\<lambda>e deg. fold (\<lambda>j deg. if chunk_id (chunks plan ! j) = dst_chunk_id e
                                then deg[j := deg ! j + 1] else deg)
                 [0..<length (chunks plan)] deg)
       (edges plan) (replicate MAX_CHUNKS 0)"

definition decrement_targets ::
  "ExecutionPlan \<Rightarrow> u64 \<Rightarrow> int list \<times> nat list \<Rightarrow> int list \<times> nat list" where
  "decrement_targets plan neighbor_id st =
     fold (\<lambda>j (deg, q). if chunk_id (chunks plan ! j) = neighbor_id
             then (let deg' = deg[j := deg ! j - 1] in (deg', if deg' ! j = 0 then q @ [j] else q))
             else (deg, q))
       [0..<length (chunks plan)] st"

definition relax_edges ::
  "ExecutionPlan \<Rightarrow> u64 \<Rightarrow> int list \<times> nat list \<Rightarrow> int list \<times> nat list" where
  "relax_edges plan current_id st =
     fold (\<lambda>e st. if src_chunk_id e = current_id then decrement_targets plan (dst_chunk_id e) st
                 else st) (edges plan) st"

partial_function (option) topo_loop ::
  "ExecutionPlan \<Rightarrow> int list \<Rightarrow> nat list \<Rightarrow> nat \<Rightarrow> nat option" where
  "topo_loop plan in_degree queue head =
     (if head < length queue then
        (let (in_degree', queue') =
               relax_edges plan (chunk_id (chunks plan ! (queue ! head))) (in_degree, queue)
         in topo_loop plan in_degree' queue' (head + 1))
      else Some head)"

definition verify_plan_topology_is_dag :: "ExecutionPlan \<Rightarrow> bool option" where
  "verify_plan_topology_is_dag plan =
     (if \<not> is_valid plan \<or> chunks plan = [] then Some False
      else
        (let in_degree = count_in_degrees plan;
             queue = filter (\<lambda>i. in_degree ! i = 0) [0..<length (chunks plan)]
         in map_option (\<lambda>processed. processed = length (chunks plan))
              (topo_loop plan in_degree queue 0)))"

subsection \<open>The built-in harness\<close>

text \<open>
  \<open>execute_test_suite\<close> registers the two strategies and prints four verdicts; the model
  gives the registry it leaves and the tests it evaluates, in order. The fields of the forged plan
  that the C code leaves uninitialised are zero here; the check does not read them.
\<close>

definition forged_cycle :: ExecutionPlan where
  "forged_cycle = (let c = \<lparr>chunk_id = 0xDEADE, memory_demand_bytes = 0, cpu_cores_demand = 0,
       target_node_id = 0, data_locality_score = Fin 0\<rparr>
     in \<lparr>chunks = [c, c\<lparr>chunk_id := 0xBEEFE\<rparr>],
         edges = [\<lparr>src_chunk_id = 0xDEADE, dst_chunk_id = 0xBEEFE\<rparr>,
                  \<lparr>src_chunk_id = 0xBEEFE, dst_chunk_id = 0xDEADE\<rparr>],
         is_valid = True\<rparr>)"

definition execute_test_suite :: "StrategyRegistry \<Rightarrow> StrategyRegistry \<times> bool option list" where
  "execute_test_suite reg0 =
     (let reg = snd (register_planning_strategy STRATEGY_SEQUENTIAL_PIPELINE
                       (Some plan_sequential_pipeline_strategy)
                  (snd (register_planning_strategy STRATEGY_INDEPENDENT_BATCH
                          (Some plan_independent_batch_strategy) reg0)));
          monolithic_wl = \<lparr>workload_name = ''LegacyMonolithicDBDump'',
            strategy_type = STRATEGY_SEQUENTIAL_PIPELINE,
            total_input_size_bytes = 1024 * 1024 * 1024 * 50, compute_intensity_factor = 4,
            is_splittable = False, raw_data_node_id = 0\<rparr>;
          (res_1, plan_1) = generate_chunk_graph reg monolithic_wl;
          batch_wl = \<lparr>workload_name = ''ParallelETLJob'',
            strategy_type = STRATEGY_INDEPENDENT_BATCH,
            total_input_size_bytes = 1024 * 1024 * 1024 * 8, compute_intensity_factor = 2,
            is_splittable = True, raw_data_node_id = 1\<rparr>;
          (res_2, plan_2) = generate_chunk_graph reg batch_wl;
          is_dag_2 = verify_plan_topology_is_dag plan_2;
          pipeline_wl = \<lparr>workload_name = ''OrderedDataTransform'',
            strategy_type = STRATEGY_SEQUENTIAL_PIPELINE,
            total_input_size_bytes = 1024 * 1024 * 1024 * 16, compute_intensity_factor = 3,
            is_splittable = True, raw_data_node_id = 2\<rparr>;
          (res_3, plan_3) = generate_chunk_graph reg pipeline_wl;
          is_dag_3 = verify_plan_topology_is_dag plan_3;
          is_dag_4 = verify_plan_topology_is_dag forged_cycle
      in (reg, [Some (\<not> res_1 \<and> \<not> is_valid plan_1), Some res_2, is_dag_2, Some res_3, is_dag_3,
                map_option Not is_dag_4]))"

section \<open>Chunk identifiers\<close>

lemma xor_shift_33_inverse: "xor_shift_33 (xor_shift_33 x) = x"
proof (rule bit_word_eqI)
  fix n assume "n < LENGTH(64)"
  then show "bit (xor_shift_33 (xor_shift_33 x)) n = bit x n"
    by (auto simp: xor_shift_33_def bit_simps dest: bit_imp_le_length)
qed

lemma xor_shift_33_inject: "xor_shift_33 x = xor_shift_33 y \<longleftrightarrow> x = y"
  by (metis xor_shift_33_inverse)

lemma mult_odd_inject:
  fixes a :: u64
  assumes "c * c' = 1"
  shows "a * c = b * c \<longleftrightarrow> a = b"
proof
  assume "a * c = b * c"
  then have "a * c * c' = b * c * c'" by simp
  with assms show "a = b" by (simp add: mult.assoc)
qed simp

lemmas mix_mult_inject =
  mult_odd_inject [of "0xff51afd7ed558ccd" "5725274745694666757"]
  mult_odd_inject [of "0xc4ceb9fe1a85ec53" "11291846944257947611"]

lemma chunk_id_inject:
  assumes "i < 2 ^ 64" "j < 2 ^ 64"
  shows "generate_deterministic_chunk_id h i = generate_deterministic_chunk_id h j \<longleftrightarrow> i = j"
proof -
  have "h XOR a = h XOR b \<longleftrightarrow> a = b" for a b :: u64
  proof
    assume "h XOR a = h XOR b"
    then have "h XOR (h XOR a) = h XOR (h XOR b)" by simp
    then show "a = b" by (simp add: xor.assoc [symmetric])
  qed simp
  moreover have "(of_nat i :: u64) = of_nat j \<longleftrightarrow> i = j"
    using assms by (simp add: word_of_nat_eq_iff take_bit_nat_eq_self)
  ultimately show ?thesis
    by (simp add: generate_deterministic_chunk_id_def Let_def xor_shift_33_inject mix_mult_inject)
qed

section \<open>Correctness of the topological check\<close>

definition node_id :: "ExecutionPlan \<Rightarrow> nat \<Rightarrow> u64" where
  "node_id plan j = chunk_id (chunks plan ! j)"

definition plan_ids :: "ExecutionPlan \<Rightarrow> u64 set" where
  "plan_ids plan = chunk_id ` set (chunks plan)"

definition plan_shape :: "ExecutionPlan \<Rightarrow> bool" where
  "plan_shape plan \<longleftrightarrow> distinct (map chunk_id (chunks plan)) \<and> length (chunks plan) \<le> MAX_CHUNKS"

text \<open>The dependencies between chunks of the plan, and the edges into a chunk from nowhere.\<close>

definition dependency_rel :: "ExecutionPlan \<Rightarrow> (u64 \<times> u64) set" where
  "dependency_rel plan = {(s, d). s \<in> plan_ids plan \<and> d \<in> plan_ids plan \<and>
     (\<exists>e \<in> set (edges plan). s = src_chunk_id e \<and> d = dst_chunk_id e)}"

definition sources_known :: "ExecutionPlan \<Rightarrow> bool" where
  "sources_known plan \<longleftrightarrow> (\<forall>e \<in> set (edges plan).
     dst_chunk_id e \<in> plan_ids plan \<longrightarrow> src_chunk_id e \<in> plan_ids plan)"

subsection \<open>Loops over the chunk array\<close>

lemma fold_if_none:
  "(\<And>j. j \<in> set xs \<Longrightarrow> \<not> P j) \<Longrightarrow> fold (\<lambda>j st. if P j then g j st else st) xs st = st"
  by (induction xs arbitrary: st) auto

lemma fold_if_unique:
  "distinct xs \<Longrightarrow> j \<in> set xs \<Longrightarrow> P j \<Longrightarrow> (\<And>i. i \<in> set xs \<Longrightarrow> P i \<Longrightarrow> i = j) \<Longrightarrow>
    fold (\<lambda>j st. if P j then g j st else st) xs st = g j st"
proof (induction xs arbitrary: st)
  case (Cons x xs)
  show ?case
  proof (cases "x = j")
    case True
    then have "\<not> P i" if "i \<in> set xs" for i
      using that Cons.prems(1) Cons.prems(4) [of i] by auto
    then have "fold (\<lambda>j st. if P j then g j st else st) xs (g j st) = g j st"
      by (rule fold_if_none)
    with True Cons.prems(3) show ?thesis by simp
  next
    case False
    then have "\<not> P x" using Cons.prems(4) [of x] by auto
    moreover have "fold (\<lambda>j st. if P j then g j st else st) xs st = g j st"
      using False Cons.prems by (intro Cons.IH) auto
    ultimately show ?thesis by simp
  qed
qed simp

lemma node_id_inject:
  "plan_shape plan \<Longrightarrow> i < length (chunks plan) \<Longrightarrow> j < length (chunks plan) \<Longrightarrow>
    node_id plan i = node_id plan j \<longleftrightarrow> i = j"
  by (simp add: plan_shape_def node_id_def distinct_conv_nth) metis

lemma plan_ids_nth: "x \<in> plan_ids plan \<longleftrightarrow> (\<exists>j < length (chunks plan). x = node_id plan j)"
proof
  assume "x \<in> plan_ids plan"
  then obtain c where "c \<in> set (chunks plan)" "x = chunk_id c" by (auto simp: plan_ids_def)
  then show "\<exists>j < length (chunks plan). x = node_id plan j"
    by (auto simp: in_set_conv_nth node_id_def)
qed (auto simp: plan_ids_def node_id_def)

lemma chunk_scan_hit:
  assumes "plan_shape plan" "j < length (chunks plan)"
  shows "fold (\<lambda>i st. if chunk_id (chunks plan ! i) = node_id plan j then g i st else st)
      [0..<length (chunks plan)] st = g j st"
  using assms node_id_inject [OF assms(1)]
  by (intro fold_if_unique) (auto simp: node_id_def)

lemma chunk_scan_miss:
  assumes "x \<notin> plan_ids plan"
  shows "fold (\<lambda>i st. if chunk_id (chunks plan ! i) = x then g i st else st)
      [0..<length (chunks plan)] st = st"
  using assms by (intro fold_if_none) (auto simp: plan_ids_nth node_id_def)

lemma decrement_targets_alt:
  "decrement_targets plan x st =
    fold (\<lambda>j st. if chunk_id (chunks plan ! j) = x
       then (case st of (deg, q) \<Rightarrow>
              (deg[j := deg ! j - 1], if deg[j := deg ! j - 1] ! j = 0 then q @ [j] else q))
       else st) [0..<length (chunks plan)] st"
  unfolding decrement_targets_def
  by (rule fold_cong) (auto simp: Let_def)

lemma decrement_targets_hit:
  assumes "plan_shape plan" "j < length (chunks plan)" "length deg = MAX_CHUNKS"
  shows "decrement_targets plan (node_id plan j) (deg, q) =
    (deg[j := deg ! j - 1], if deg ! j = 1 then q @ [j] else q)"
proof -
  have "j < length deg" using assms by (simp add: plan_shape_def)
  then show ?thesis
    unfolding decrement_targets_alt by (subst chunk_scan_hit [OF assms(1,2)]) auto
qed

lemma decrement_targets_miss: "x \<notin> plan_ids plan \<Longrightarrow> decrement_targets plan x st = st"
  unfolding decrement_targets_alt by (rule chunk_scan_miss)

subsection \<open>In-degrees\<close>

definition edges_into :: "DependencyEdge list \<Rightarrow> (DependencyEdge \<Rightarrow> bool) \<Rightarrow> u64 \<Rightarrow> nat" where
  "edges_into es P x = length (filter (\<lambda>e. dst_chunk_id e = x \<and> P e) es)"

lemma edges_into_Nil [simp]: "edges_into [] P x = 0"
  by (simp add: edges_into_def)

lemma edges_into_Cons [simp]:
  "edges_into (e # es) P x = (if dst_chunk_id e = x \<and> P e then 1 else 0) + edges_into es P x"
  by (simp add: edges_into_def)

lemma edges_into_split:
  "edges_into es P x = edges_into es (\<lambda>e. P e \<and> Q e) x + edges_into es (\<lambda>e. P e \<and> \<not> Q e) x"
  by (induction es) auto

lemma edges_into_cong:
  "(\<And>e. e \<in> set es \<Longrightarrow> dst_chunk_id e = x \<Longrightarrow> P e = Q e) \<Longrightarrow> edges_into es P x = edges_into es Q x"
  by (induction es) auto

lemma edges_into_0: "edges_into es P x = 0 \<longleftrightarrow> (\<forall>e \<in> set es. dst_chunk_id e = x \<longrightarrow> \<not> P e)"
  by (induction es) auto

definition bump_targets :: "ExecutionPlan \<Rightarrow> u64 \<Rightarrow> int list \<Rightarrow> int list" where
  "bump_targets plan x deg =
     fold (\<lambda>j deg. if chunk_id (chunks plan ! j) = x then deg[j := deg ! j + 1] else deg)
       [0..<length (chunks plan)] deg"

lemma bump_targets_nth:
  assumes "plan_shape plan" "j < length (chunks plan)" "length deg = MAX_CHUNKS"
  shows "length (bump_targets plan x deg) = MAX_CHUNKS"
    "bump_targets plan x deg ! j = deg ! j + (if x = node_id plan j then 1 else 0)"
proof -
  have "length (bump_targets plan x deg) = MAX_CHUNKS
    \<and> bump_targets plan x deg ! j = deg ! j + (if x = node_id plan j then 1 else 0)"
  proof (cases "x \<in> plan_ids plan")
    case True
    then obtain i where i: "i < length (chunks plan)" "x = node_id plan i" by (auto simp: plan_ids_nth)
    then have "bump_targets plan x deg = deg[i := deg ! i + 1]"
      unfolding bump_targets_def by (simp add: chunk_scan_hit [OF assms(1)])
    moreover have "j < length deg" using assms by (simp add: plan_shape_def)
    ultimately show ?thesis
      using assms i node_id_inject [OF assms(1), of i j] by (auto simp: nth_list_update)
  next
    case False
    then have "x \<noteq> node_id plan j" using assms(2) by (auto simp: plan_ids_nth)
    with False assms(3) show ?thesis
      unfolding bump_targets_def by (simp add: chunk_scan_miss)
  qed
  then show "length (bump_targets plan x deg) = MAX_CHUNKS"
    "bump_targets plan x deg ! j = deg ! j + (if x = node_id plan j then 1 else 0)" by auto
qed

lemma count_in_degrees_fold:
  assumes "plan_shape plan" "j < length (chunks plan)" "length deg = MAX_CHUNKS"
  shows "length (fold (\<lambda>e. bump_targets plan (dst_chunk_id e)) es deg) = MAX_CHUNKS
    \<and> fold (\<lambda>e. bump_targets plan (dst_chunk_id e)) es deg ! j =
      deg ! j + int (edges_into es (\<lambda>_. True) (node_id plan j))"
  using assms(3)
proof (induction es arbitrary: deg)
  case (Cons e es)
  from Cons.IH [of "bump_targets plan (dst_chunk_id e) deg"] Cons.prems show ?case
    by (simp add: bump_targets_nth [OF assms(1,2)])
qed simp

lemma count_in_degrees_nth:
  assumes "plan_shape plan" "j < length (chunks plan)"
  shows "length (count_in_degrees plan) = MAX_CHUNKS"
    "count_in_degrees plan ! j = int (edges_into (edges plan) (\<lambda>_. True) (node_id plan j))"
proof -
  have "count_in_degrees plan =
      fold (\<lambda>e. bump_targets plan (dst_chunk_id e)) (edges plan) (replicate MAX_CHUNKS 0)"
    unfolding count_in_degrees_def bump_targets_def ..
  moreover have "j < MAX_CHUNKS" using assms by (simp add: plan_shape_def)
  ultimately show "length (count_in_degrees plan) = MAX_CHUNKS"
    "count_in_degrees plan ! j = int (edges_into (edges plan) (\<lambda>_. True) (node_id plan j))"
    using count_in_degrees_fold [OF assms, of "replicate MAX_CHUNKS 0" "edges plan"] by simp_all
qed

subsection \<open>One round of the loop\<close>

abbreviation from_src :: "u64 \<Rightarrow> DependencyEdge \<Rightarrow> bool" where
  "from_src c e \<equiv> src_chunk_id e = c"

definition relaxed :: "nat \<Rightarrow> (nat \<Rightarrow> nat) \<Rightarrow> int list \<Rightarrow> int list \<Rightarrow> nat list \<Rightarrow> bool" where
  "relaxed n cnt deg deg' new \<longleftrightarrow> length deg' = MAX_CHUNKS
   \<and> (\<forall>j < n. deg' ! j = deg ! j - int (cnt j))
   \<and> distinct new \<and> set new = {j. j < n \<and> deg ! j > 0 \<and> deg ! j = int (cnt j)}"

lemma relaxed_cong:
  "(\<And>j. j < n \<Longrightarrow> cnt j = cnt' j) \<Longrightarrow> relaxed n cnt deg deg' new = relaxed n cnt' deg deg' new"
  unfolding relaxed_def by (intro conj_cong refl) auto

lemma relaxed_hit:
  assumes "relaxed n cnt (deg[i := deg ! i - 1]) deg' new" "i < n" "n \<le> length deg"
    and "int (cnt i) + 1 \<le> deg ! i"
  shows "relaxed n (\<lambda>j. (if j = i then 1 else 0) + cnt j) deg deg'
    (if deg ! i = 1 then i # new else new)"
proof -
  let ?deg = "deg[i := deg ! i - 1]"
  have deg: "?deg ! j = (if j = i then deg ! i - 1 else deg ! j)" for j
    using assms(2,3) by (simp add: nth_list_update)
  have new: "j \<in> set new \<longleftrightarrow> j < n \<and> ?deg ! j > 0 \<and> ?deg ! j = int (cnt j)" for j
    using assms(1) by (simp add: relaxed_def)
  have "j \<in> set (if deg ! i = 1 then i # new else new) \<longleftrightarrow>
      j < n \<and> deg ! j > 0 \<and> deg ! j = int ((if j = i then 1 else 0) + cnt j)" for j
    using new [of j] deg [of j] assms(2,4) by (cases "j = i") auto
  then have "set (if deg ! i = 1 then i # new else new) =
      {j. j < n \<and> deg ! j > 0 \<and> deg ! j = int ((if j = i then 1 else 0) + cnt j)}" by blast
  moreover have "distinct (if deg ! i = 1 then i # new else new)"
    using assms(1) new [of i] deg [of i] by (auto simp: relaxed_def)
  moreover have "\<forall>j < n. deg' ! j = deg ! j - int ((if j = i then 1 else 0) + cnt j)"
    using assms(1) deg by (auto simp: relaxed_def)
  ultimately show ?thesis using assms(1) unfolding relaxed_def by blast
qed

lemma relax_fold:
  assumes "plan_shape plan" "length deg = MAX_CHUNKS"
    and "\<And>j. j < length (chunks plan) \<Longrightarrow> int (edges_into es (from_src c) (node_id plan j)) \<le> deg ! j"
  shows "\<exists>deg' new. fold (\<lambda>e st. if src_chunk_id e = c then decrement_targets plan (dst_chunk_id e) st
        else st) es (deg, q) = (deg', q @ new)
    \<and> relaxed (length (chunks plan)) (\<lambda>j. edges_into es (from_src c) (node_id plan j)) deg deg' new"
  (is "\<exists>deg' new. fold ?step es (deg, q) = _ \<and> relaxed ?n _ _ _ _")
  using assms(2,3)
proof (induction es arbitrary: deg q)
  case Nil
  then show ?case by (auto simp: relaxed_def)
next
  case (Cons e es)
  show ?case
  proof (cases "src_chunk_id e = c \<and> dst_chunk_id e \<in> plan_ids plan")
    case False
    then have st: "fold ?step (e # es) (deg, q) = fold ?step es (deg, q)"
      by (auto simp: decrement_targets_miss)
    have same: "edges_into (e # es) (from_src c) (node_id plan j) =
        edges_into es (from_src c) (node_id plan j)" if "j < ?n" for j
      using False that by (auto simp: plan_ids_nth)
    have "relaxed ?n (\<lambda>j. edges_into (e # es) (from_src c) (node_id plan j)) deg deg' new =
        relaxed ?n (\<lambda>j. edges_into es (from_src c) (node_id plan j)) deg deg' new" for deg' new
      by (rule relaxed_cong) (rule same)
    moreover have "int (edges_into es (from_src c) (node_id plan j)) \<le> deg ! j" if "j < ?n" for j
      using Cons.prems(2) [OF that] same [OF that] by simp
    ultimately show ?thesis unfolding st using Cons.IH [of deg q] Cons.prems(1) by presburger
  next
    case True
    then obtain i where i: "i < ?n" "dst_chunk_id e = node_id plan i" by (auto simp: plan_ids_nth)
    let ?deg = "deg[i := deg ! i - 1]" and ?q = "if deg ! i = 1 then q @ [i] else q"
    have st: "fold ?step (e # es) (deg, q) = fold ?step es (?deg, ?q)"
      using True i Cons.prems(1) by (simp add: decrement_targets_hit [OF assms(1)])
    have n: "?n \<le> length deg" using Cons.prems(1) assms(1) by (simp add: plan_shape_def)
    have cnt: "edges_into (e # es) (from_src c) (node_id plan j) =
        (if j = i then 1 else 0) + edges_into es (from_src c) (node_id plan j)" if "j < ?n" for j
      using True i that node_id_inject [OF assms(1), of i j] by auto
    have "int (edges_into es (from_src c) (node_id plan j)) \<le> ?deg ! j" if "j < ?n" for j
      using Cons.prems(2) [OF that] cnt [OF that] n i(1) by (auto simp: nth_list_update)
    with Cons.IH [of ?deg ?q] Cons.prems(1) obtain deg' new where IH:
      "fold ?step es (?deg, ?q) = (deg', ?q @ new)"
      "relaxed ?n (\<lambda>j. edges_into es (from_src c) (node_id plan j)) ?deg deg' new" by auto
    have "relaxed ?n (\<lambda>j. (if j = i then 1 else 0) + edges_into es (from_src c) (node_id plan j))
        deg deg' (if deg ! i = 1 then i # new else new)"
      using Cons.prems(2) [OF i(1)] cnt [OF i(1)] IH(2) i(1) n by (intro relaxed_hit) auto
    then have "relaxed ?n (\<lambda>j. edges_into (e # es) (from_src c) (node_id plan j)) deg deg'
        (if deg ! i = 1 then i # new else new)"
      by (rule relaxed_cong [THEN iffD2, rotated]) (rule cnt)
    then show ?thesis unfolding st IH(1) by (intro exI conjI) auto
  qed
qed

subsection \<open>The loop invariant\<close>

text \<open>
  The chunks taken from the queue so far are \<open>take head q\<close>. The degree of a chunk counts its
  incoming edges that do not start at one of them, the queue holds exactly the chunks of degree
  zero, and every edge into a queued chunk starts at a chunk queued before it.
\<close>

definition done_ids :: "ExecutionPlan \<Rightarrow> nat list \<Rightarrow> nat \<Rightarrow> u64 set" where
  "done_ids plan q head = node_id plan ` set (take head q)"

definition topo_inv :: "ExecutionPlan \<Rightarrow> int list \<Rightarrow> nat list \<Rightarrow> nat \<Rightarrow> bool" where
  "topo_inv plan deg q head \<longleftrightarrow> length deg = MAX_CHUNKS \<and> head \<le> length q \<and> distinct q
   \<and> (\<forall>j < length (chunks plan). deg ! j =
        int (edges_into (edges plan) (\<lambda>e. src_chunk_id e \<notin> done_ids plan q head) (node_id plan j)))
   \<and> set q = {j. j < length (chunks plan) \<and> deg ! j = 0}
   \<and> (\<forall>p < length q. \<forall>e \<in> set (edges plan). dst_chunk_id e = node_id plan (q ! p) \<longrightarrow>
        src_chunk_id e \<in> done_ids plan q p)"

lemma topo_inv_length: "topo_inv plan deg q head \<Longrightarrow> length q \<le> length (chunks plan)"
proof -
  assume inv: "topo_inv plan deg q head"
  then have "distinct q" by (simp add: topo_inv_def)
  then have "length q = card (set q)" by (simp only: distinct_card)
  also have "\<dots> \<le> card {..<length (chunks plan)}"
    using inv by (intro card_mono) (auto simp: topo_inv_def)
  finally show ?thesis by simp
qed

lemma topo_inv_init:
  assumes "plan_shape plan" "chunks plan \<noteq> []"
  shows "topo_inv plan (count_in_degrees plan)
    (filter (\<lambda>i. count_in_degrees plan ! i = 0) [0..<length (chunks plan)]) 0"
proof -
  let ?q = "filter (\<lambda>i. count_in_degrees plan ! i = 0) [0..<length (chunks plan)]"
  have deg: "count_in_degrees plan ! j = int (edges_into (edges plan) (\<lambda>_. True) (node_id plan j))"
    if "j < length (chunks plan)" for j
    by (rule count_in_degrees_nth [OF assms(1) that])
  have "dst_chunk_id e \<noteq> node_id plan (?q ! p)" if "p < length ?q" "e \<in> set (edges plan)" for p e
  proof -
    have "?q ! p \<in> set ?q" using that(1) by (rule nth_mem)
    then have "edges_into (edges plan) (\<lambda>_. True) (node_id plan (?q ! p)) = 0"
      using deg [of "?q ! p"] by simp
    then show ?thesis using that(2) by (auto simp: edges_into_0)
  qed
  moreover have "length (count_in_degrees plan) = MAX_CHUNKS"
    using assms by (intro count_in_degrees_nth(1) [of _ 0]) auto
  ultimately show ?thesis
    by (auto simp: topo_inv_def done_ids_def deg)
qed

lemma done_ids_Suc:
  "head < length q \<Longrightarrow>
    done_ids plan (q @ new) (Suc head) = insert (node_id plan (q ! head)) (done_ids plan q head)"
  by (auto simp: done_ids_def take_Suc_conv_app_nth)

lemma done_ids_append: "p \<le> length q \<Longrightarrow> done_ids plan (q @ new) p = done_ids plan q p"
  by (simp add: done_ids_def)

lemma done_ids_mono: "p \<le> p' \<Longrightarrow> done_ids plan q p \<subseteq> done_ids plan q p'"
  by (auto simp: done_ids_def dest: set_take_subset_set_take [THEN subsetD])

lemma current_not_done:
  assumes "plan_shape plan" "topo_inv plan deg q head" "head < length q"
  shows "node_id plan (q ! head) \<notin> done_ids plan q head"
proof
  assume "node_id plan (q ! head) \<in> done_ids plan q head"
  then obtain i where i: "i < head" "node_id plan (q ! head) = node_id plan (q ! i)"
    using assms(3) by (auto simp: done_ids_def in_set_conv_nth)
  have "q ! i < length (chunks plan)" "q ! head < length (chunks plan)"
    using assms(2,3) i(1) nth_mem [of i q] nth_mem [of head q] by (auto simp: topo_inv_def)
  then have "q ! head = q ! i" using i(2) node_id_inject [OF assms(1)] by blast
  then show False using assms(2,3) i(1) by (simp add: topo_inv_def nth_eq_iff_index_eq)
qed

lemma topo_inv_step:
  assumes shape: "plan_shape plan" and inv: "topo_inv plan deg q head" and head: "head < length q"
  shows "\<exists>deg' q'. relax_edges plan (node_id plan (q ! head)) (deg, q) = (deg', q')
    \<and> topo_inv plan deg' q' (Suc head)"
proof -
  let ?c = "node_id plan (q ! head)" and ?n = "length (chunks plan)"
  let ?left = "\<lambda>D j. edges_into (edges plan) (\<lambda>e. src_chunk_id e \<notin> D) (node_id plan j)"
  let ?D = "done_ids plan q head"
  let ?cnt = "\<lambda>j. edges_into (edges plan) (from_src ?c) (node_id plan j)"
  have deg: "deg ! j = int (?left ?D j)" if "j < ?n" for j
    using inv that by (simp add: topo_inv_def)
  have split: "?left ?D j = ?cnt j + ?left (insert ?c ?D) j" for j
  proof -
    have "edges_into (edges plan) (\<lambda>e. src_chunk_id e \<notin> ?D \<and> src_chunk_id e = ?c) (node_id plan j) = ?cnt j"
      using current_not_done [OF assms] by (intro edges_into_cong) auto
    moreover have "edges_into (edges plan) (\<lambda>e. src_chunk_id e \<notin> ?D \<and> src_chunk_id e \<noteq> ?c)
        (node_id plan j) = ?left (insert ?c ?D) j"
      by (intro edges_into_cong) auto
    ultimately show ?thesis
      using edges_into_split [of "edges plan" "\<lambda>e. src_chunk_id e \<notin> ?D" "node_id plan j" "from_src ?c"]
      by simp
  qed
  have "length deg = MAX_CHUNKS" using inv by (simp add: topo_inv_def)
  then obtain deg' new where step: "relax_edges plan ?c (deg, q) = (deg', q @ new)"
    and rel: "relaxed ?n ?cnt deg deg' new"
    using relax_fold [OF shape, of deg "edges plan" ?c q] deg split by (auto simp: relax_edges_def)
  have D: "done_ids plan (q @ new) (Suc head) = insert ?c ?D" using head by (rule done_ids_Suc)
  have deg': "deg' ! j = int (?left (insert ?c ?D) j)" if "j < ?n" for j
    using rel that deg [OF that] split [of j] by (simp add: relaxed_def)
  have new: "j \<in> set new \<longleftrightarrow> j < ?n \<and> deg ! j \<noteq> 0 \<and> deg' ! j = 0" for j
    using rel deg [of j] by (auto simp: relaxed_def)
  have q: "j \<in> set q \<longleftrightarrow> j < ?n \<and> deg ! j = 0" for j using inv by (simp add: topo_inv_def)
  have zero: "deg' ! j = 0" if "j < ?n" "deg ! j = 0" for j
    using deg [OF that(1)] deg' [OF that(1)] split [of j] that(2) by simp
  have before: "src_chunk_id e \<in> done_ids plan (q @ new) p"
    if p: "p < length (q @ new)" and e: "e \<in> set (edges plan)" "dst_chunk_id e = node_id plan ((q @ new) ! p)" for p e
  proof (cases "p < length q")
    case True
    then show ?thesis using inv e by (auto simp: topo_inv_def done_ids_append nth_append)
  next
    case False
    then have j: "(q @ new) ! p \<in> set new" using p by (auto simp: nth_append)
    then have "?left (insert ?c ?D) ((q @ new) ! p) = 0" using new deg' by fastforce
    then have "src_chunk_id e \<in> insert ?c ?D" using e by (auto simp: edges_into_0)
    moreover have "insert ?c ?D \<subseteq> done_ids plan (q @ new) p"
      unfolding D [symmetric] using False head by (intro done_ids_mono) simp
    ultimately show ?thesis by blast
  qed
  have "distinct (q @ new)" using inv rel new q by (auto simp: topo_inv_def relaxed_def)
  moreover have "set (q @ new) = {j. j < ?n \<and> deg' ! j = 0}" using q new zero by auto
  moreover have "length deg' = MAX_CHUNKS" using rel by (simp add: relaxed_def)
  ultimately have "topo_inv plan deg' (q @ new) (Suc head)"
    unfolding topo_inv_def D using deg' before head by simp
  with step show ?thesis by blast
qed

lemma topo_loop_returns:
  assumes "plan_shape plan" "topo_inv plan deg q head"
  shows "\<exists>deg' q'. topo_loop plan deg q head = Some (length q') \<and> topo_inv plan deg' q' (length q')"
  using assms(2)
proof (induction "length (chunks plan) - head" arbitrary: deg q head rule: less_induct)
  case less
  show ?case
  proof (cases "head < length q")
    case True
    from topo_inv_step [OF assms(1) less.prems True] obtain deg' q' where
      step: "relax_edges plan (node_id plan (q ! head)) (deg, q) = (deg', q')"
      and inv: "topo_inv plan deg' q' (Suc head)" by blast
    have "length (chunks plan) - Suc head < length (chunks plan) - head"
      using True topo_inv_length [OF less.prems] by simp
    from less.hyps [OF this inv] step True show ?thesis
      by (subst topo_loop.simps) (simp add: node_id_def)
  next
    case False
    then have "head = length q" using less.prems by (simp add: topo_inv_def)
    with less.prems show ?thesis by (subst topo_loop.simps) auto
  qed
qed

subsection \<open>The verdict\<close>

lemma finite_dependency_rel: "finite (dependency_rel plan)"
proof (rule finite_subset)
  show "dependency_rel plan \<subseteq> plan_ids plan \<times> plan_ids plan" by (auto simp: dependency_rel_def)
qed (simp add: plan_ids_def)

lemma done_ids_all: "done_ids plan q (length q) = node_id plan ` set q"
  by (simp add: done_ids_def)

lemma complete_queue:
  assumes "topo_inv plan deg q head" "length q = length (chunks plan)"
  shows "set q = {..<length (chunks plan)}"
proof (rule card_subset_eq)
  show "set q \<subseteq> {..<length (chunks plan)}" using assms(1) by (auto simp: topo_inv_def)
  have "distinct q" using assms(1) by (simp add: topo_inv_def)
  with assms(2) show "card (set q) = card {..<length (chunks plan)}" by (simp only: distinct_card) simp
qed simp

lemma complete_queue_acyclic:
  assumes shape: "plan_shape plan" and inv: "topo_inv plan deg q (length q)"
    and all: "length q = length (chunks plan)"
  shows "sources_known plan \<and> acyclic (dependency_rel plan)"
proof -
  let ?n = "length (chunks plan)" and ?f = "\<lambda>p. node_id plan (q ! p)"
  have q: "set q = {..<?n}" using inv all by (rule complete_queue)
  have lt: "q ! p < ?n" if "p < ?n" for p using nth_mem [of p q] that q all by auto
  have pos: "\<exists>p < ?n. x = ?f p" if "x \<in> plan_ids plan" for x
  proof -
    from that obtain j where "j < ?n" "x = node_id plan j" by (auto simp: plan_ids_nth)
    moreover from this q obtain p where "p < length q" "q ! p = j" by (metis in_set_conv_nth lessThan_iff)
    ultimately show ?thesis using all by auto
  qed
  have before: "\<exists>p' < p. src_chunk_id e = ?f p'"
    if "p < ?n" "e \<in> set (edges plan)" "dst_chunk_id e = ?f p" for p e
  proof -
    have "src_chunk_id e \<in> done_ids plan q p" using inv that all by (simp add: topo_inv_def)
    then obtain p' where "p' < p" "src_chunk_id e = ?f p'"
      using that(1) all by (auto simp: done_ids_def in_set_conv_nth)
    then show ?thesis by blast
  qed
  have inj: "inj_on ?f {..<?n}"
    using node_id_inject [OF shape] lt inv all
    by (intro inj_onI) (simp add: topo_inv_def nth_eq_iff_index_eq)
  have "sources_known plan"
    unfolding sources_known_def using pos before lt plan_ids_nth by (metis less_trans)
  moreover have "dependency_rel plan \<subseteq> measure (the_inv_into {..<?n} ?f)"
  proof (intro subsetI, clarsimp simp: dependency_rel_def)
    fix e assume e: "e \<in> set (edges plan)" "dst_chunk_id e \<in> plan_ids plan"
    from pos [OF e(2)] obtain p where p: "p < ?n" "dst_chunk_id e = ?f p" by blast
    with before e(1) obtain p' where "p' < p" "src_chunk_id e = ?f p'" by blast
    with p the_inv_into_f_f [OF inj, of p] the_inv_into_f_f [OF inj, of p']
    show "the_inv_into {..<?n} ?f (src_chunk_id e) < the_inv_into {..<?n} ?f (dst_chunk_id e)"
      by simp
  qed
  then have "acyclic (dependency_rel plan)" by (rule wf_acyclic [OF wf_subset [OF wf_measure]])
  ultimately show ?thesis by blast
qed

lemma acyclic_complete_queue:
  assumes shape: "plan_shape plan" and inv: "topo_inv plan deg q (length q)"
    and acyc: "sources_known plan" "acyclic (dependency_rel plan)"
  shows "length q = length (chunks plan)"
proof (rule ccontr)
  let ?U = "plan_ids plan - node_id plan ` set q"
  assume short: "length q \<noteq> length (chunks plan)"
  have "set q \<noteq> {..<length (chunks plan)}"
  proof
    assume "set q = {..<length (chunks plan)}"
    moreover have "length q = card (set q)"
      using inv unfolding topo_inv_def by (metis distinct_card)
    ultimately show False using short by simp
  qed
  moreover have "set q \<subseteq> {..<length (chunks plan)}" using inv by (auto simp: topo_inv_def)
  ultimately obtain j where j: "j < length (chunks plan)" "j \<notin> set q" by blast
  then have "node_id plan j \<in> ?U"
    using inv node_id_inject [OF shape] by (auto simp: plan_ids_nth topo_inv_def)
  moreover have "wf (dependency_rel plan)"
    by (rule finite_acyclic_wf [OF finite_dependency_rel acyc(2)])
  ultimately obtain x where x: "x \<in> ?U" and min: "\<And>y. (y, x) \<in> dependency_rel plan \<Longrightarrow> y \<notin> ?U"
    by (metis wf_eq_minimal)
  from x obtain i where i: "i < length (chunks plan)" "x = node_id plan i" by (auto simp: plan_ids_nth)
  with x have "i \<notin> set q" by blast
  with i inv have "edges_into (edges plan) (\<lambda>e. src_chunk_id e \<notin> done_ids plan q (length q)) x \<noteq> 0"
    by (auto simp: topo_inv_def)
  then obtain e where e: "e \<in> set (edges plan)" "dst_chunk_id e = x"
    "src_chunk_id e \<notin> node_id plan ` set q" by (auto simp: edges_into_0 done_ids_all)
  have "src_chunk_id e \<in> plan_ids plan" using acyc(1) e x by (auto simp: sources_known_def)
  with e x have "(src_chunk_id e, x) \<in> dependency_rel plan" by (auto simp: dependency_rel_def)
  from min [OF this] e(3) \<open>src_chunk_id e \<in> plan_ids plan\<close> show False by blast
qed

lemma verify_verdict:
  assumes "plan_shape plan"
  shows "verify_plan_topology_is_dag plan =
    Some (is_valid plan \<and> chunks plan \<noteq> [] \<and> sources_known plan \<and> acyclic (dependency_rel plan))"
proof (cases "is_valid plan \<and> chunks plan \<noteq> []")
  case True
  let ?q = "filter (\<lambda>i. count_in_degrees plan ! i = 0) [0..<length (chunks plan)]"
  from True assms have "topo_inv plan (count_in_degrees plan) ?q 0" by (intro topo_inv_init) auto
  from topo_loop_returns [OF assms this] obtain deg q where
    loop: "topo_loop plan (count_in_degrees plan) ?q 0 = Some (length q)"
    and inv: "topo_inv plan deg q (length q)" by blast
  have "length q = length (chunks plan) \<longleftrightarrow> sources_known plan \<and> acyclic (dependency_rel plan)"
    using complete_queue_acyclic [OF assms inv] acyclic_complete_queue [OF assms inv] by blast
  with loop True show ?thesis by (simp add: verify_plan_topology_is_dag_def Let_def)
qed (auto simp: verify_plan_topology_is_dag_def)

lemma topo_loop_bound:
  assumes "plan_shape plan" "topo_inv plan deg q head"
  shows "\<exists>processed. topo_loop plan deg q head = Some processed \<and> processed \<le> MAX_CHUNKS"
proof -
  from topo_loop_returns [OF assms] obtain deg' q' where
    "topo_loop plan deg q head = Some (length q')" "topo_inv plan deg' q' (length q')" by blast
  with topo_inv_length [of plan deg' q' "length q'"] assms(1) show ?thesis by (auto simp: plan_shape_def)
qed

section \<open>Plans of the planner\<close>

definition builtin_strategies :: StrategyRegistry where
  "builtin_strategies =
     [(STRATEGY_INDEPENDENT_BATCH, Some plan_independent_batch_strategy),
      (STRATEGY_SEQUENTIAL_PIPELINE, Some plan_sequential_pipeline_strategy)]"

lemma upt_4: "[0..<4] = [0, 1, 2, 3]" "[0..<3] = [0, 1, 2 :: nat]"
  by (simp_all add: upt_rec)

lemma four_ids_shape:
  assumes "map chunk_id (chunks plan) = map (generate_deterministic_chunk_id h) [0..<4]"
  shows "plan_shape plan"
proof -
  have "length (chunks plan) = 4" using assms by (metis diff_zero length_map length_upt)
  moreover have "distinct (map (generate_deterministic_chunk_id h) [0..<4])"
    by (simp add: upt_4 chunk_id_inject)
  ultimately show ?thesis by (simp add: plan_shape_def MAX_CHUNKS_def assms)
qed

lemma batch_plan_shape: "plan_shape (snd (plan_independent_batch_strategy wl p))"
  by (rule four_ids_shape [where h = "compute_workload_base_hash wl"])
    (simp add: plan_independent_batch_strategy_def batch_chunk_def Let_def)

lemma pipeline_plan_shape: "plan_shape (snd (plan_sequential_pipeline_strategy wl p))"
  by (rule four_ids_shape [where h = "compute_workload_base_hash wl"])
    (simp add: plan_sequential_pipeline_strategy_def pipeline_chunk_def Let_def)

lemma batch_plan_verified:
  "verify_plan_topology_is_dag (snd (plan_independent_batch_strategy wl p)) = Some True"
  using verify_verdict [OF batch_plan_shape, of wl p]
  by (simp add: plan_independent_batch_strategy_def sources_known_def dependency_rel_def acyclic_def)

lemma pipeline_edges:
  "e \<in> set (edges (snd (plan_sequential_pipeline_strategy wl p))) \<longleftrightarrow>
    (\<exists>i < 3. e = \<lparr>src_chunk_id = generate_deterministic_chunk_id (compute_workload_base_hash wl) i,
       dst_chunk_id = generate_deterministic_chunk_id (compute_workload_base_hash wl) (i + 1)\<rparr>)"
  by (auto simp: plan_sequential_pipeline_strategy_def pipeline_chunk_def Let_def)

lemma pipeline_ids:
  "plan_ids (snd (plan_sequential_pipeline_strategy wl p)) =
    generate_deterministic_chunk_id (compute_workload_base_hash wl) ` {..<4}"
  by (simp add: plan_ids_def plan_sequential_pipeline_strategy_def pipeline_chunk_def Let_def
      image_image atLeast0LessThan)

lemma pipeline_plan_verified:
  "verify_plan_topology_is_dag (snd (plan_sequential_pipeline_strategy wl p)) = Some True"
proof -
  let ?plan = "snd (plan_sequential_pipeline_strategy wl p)"
  let ?id = "generate_deterministic_chunk_id (compute_workload_base_hash wl)"
  have inj: "inj_on ?id {..<4}" by (intro inj_onI) (simp add: chunk_id_inject)
  have "sources_known ?plan" by (auto simp: sources_known_def pipeline_edges pipeline_ids)
  moreover have "dependency_rel ?plan \<subseteq> measure (the_inv_into {..<4} ?id)"
    using inj by (auto simp: dependency_rel_def pipeline_edges the_inv_into_f_f)
  then have "acyclic (dependency_rel ?plan)" by (rule wf_acyclic [OF wf_subset [OF wf_measure]])
  moreover have "is_valid ?plan" "chunks ?plan \<noteq> []"
    by (simp_all add: plan_sequential_pipeline_strategy_def Let_def)
  ultimately show ?thesis unfolding verify_verdict [OF pipeline_plan_shape] by simp
qed

text \<open>
  C5: for every plan with distinct chunk identifiers and at most 64 chunks the topological check
  returns (its loop ends), and its answer is true exactly when the plan is marked valid, has a chunk,
  its dependency relation is acyclic and no edge into a chunk starts outside the plan.\<close>

theorem dag_check_correct:
  assumes "plan_shape plan"
  shows "verify_plan_topology_is_dag plan =
    Some (is_valid plan \<and> chunks plan \<noteq> [] \<and> sources_known plan \<and> acyclic (dependency_rel plan))"
  using assms by (rule verify_verdict)

lemma forged_cycle_shape: "plan_shape forged_cycle"
  by (simp add: plan_shape_def forged_cycle_def MAX_CHUNKS_def)

lemma forged_cycle_cyclic: "\<not> acyclic (dependency_rel forged_cycle)"
proof -
  have "(0xDEADE, 0xBEEFE) \<in> dependency_rel forged_cycle" "(0xBEEFE, 0xDEADE) \<in> dependency_rel forged_cycle"
    by (auto simp: dependency_rel_def forged_cycle_def plan_ids_def)
  then show ?thesis unfolding acyclic_def by (meson trancl.intros)
qed

theorem dag_check_correct_witness:
  "plan_shape forged_cycle \<and> verify_plan_topology_is_dag forged_cycle = Some False"
  using dag_check_correct [OF forged_cycle_shape] forged_cycle_shape forged_cycle_cyclic by simp

text \<open>
  C17: with the two built-in strategies registered, a workload is planned exactly when it is
  splittable and of the batch or the pipeline kind; the plan then has four chunks with distinct
  identifiers and passes the topological check. In every other case planning fails and the plan is
  empty, marked invalid and refused by the check.\<close>

theorem planned_graph_verified:
  "case generate_chunk_graph builtin_strategies wl of (ok, plan) \<Rightarrow>
     ok = (is_splittable wl \<and> strategy_type wl \<in> {STRATEGY_INDEPENDENT_BATCH, STRATEGY_SEQUENTIAL_PIPELINE})
     \<and> (if ok then length (chunks plan) = 4 \<and> distinct (map chunk_id (chunks plan))
           \<and> verify_plan_topology_is_dag plan = Some True
        else plan = zero_plan \<and> verify_plan_topology_is_dag plan = Some False)"
proof -
  have rej: "verify_plan_topology_is_dag zero_plan = Some False" "zero_plan\<lparr>is_valid := False\<rparr> = zero_plan"
    by (simp_all add: verify_plan_topology_is_dag_def zero_plan_def)
  have batch: "fst (plan_independent_batch_strategy wl zero_plan)"
    "length (chunks (snd (plan_independent_batch_strategy wl zero_plan))) = 4"
    by (simp_all add: plan_independent_batch_strategy_def)
  have pipe: "fst (plan_sequential_pipeline_strategy wl zero_plan)"
    "length (chunks (snd (plan_sequential_pipeline_strategy wl zero_plan))) = 4"
    by (simp_all add: plan_sequential_pipeline_strategy_def Let_def)
  show ?thesis
    using rej batch pipe batch_plan_shape [of wl zero_plan] pipeline_plan_shape [of wl zero_plan]
      batch_plan_verified [of wl zero_plan] pipeline_plan_verified [of wl zero_plan]
    by (cases "strategy_type wl")
      (auto simp: generate_chunk_graph_def builtin_strategies_def plan_shape_def split: prod.splits)
qed

section \<open>The harness\<close>

text \<open>
  run on an empty registry, the planner's own harness leaves exactly the two built-in strategies
  registered and reports success in all of its tests: the unsplittable workload is rejected, the
  batch and the pipeline workload are planned and verified, the forged cycle is refused.\<close>

theorem harness_succeeds:
  "execute_test_suite [] = (builtin_strategies, replicate 6 (Some True))"
proof -
  have reg: "snd (register_planning_strategy STRATEGY_SEQUENTIAL_PIPELINE
        (Some plan_sequential_pipeline_strategy) (snd (register_planning_strategy
          STRATEGY_INDEPENDENT_BATCH (Some plan_independent_batch_strategy) []))) = builtin_strategies"
    by (simp add: register_planning_strategy_def builtin_strategies_def MAX_STRATEGIES_def)
  have cyc: "verify_plan_topology_is_dag forged_cycle = Some False"
    using verify_verdict [OF forged_cycle_shape] forged_cycle_cyclic by simp
  have ok: "fst (plan_independent_batch_strategy wl p)" "fst (plan_sequential_pipeline_strategy wl p)"
    for wl p by (simp_all add: plan_independent_batch_strategy_def plan_sequential_pipeline_strategy_def Let_def)
  show ?thesis
    unfolding execute_test_suite_def reg Let_def cyc generate_chunk_graph_def
    by (simp add: builtin_strategies_def ok zero_plan_def case_prod_beta
        batch_plan_verified pipeline_plan_verified numeral_eq_Suc)
qed

end
