(* ===== verification/Router.thy ===== *)
theory Router
  imports Wire
begin

text \<open>
  The master's message router (\<^verbatim>\<open>master/src/router.c\<close>): start and stop, sending a message to a
  worker, and one round of receiving, checking and dispatching.

  The socket pointer is \<open>None\<close> for NULL and otherwise has the type the socket was created with: the
  router asks for type 4, a reply socket (\<open>ZMQ_REP\<close>), where the master's main program uses
  \<open>ZMQ_ROUTER\<close>. The frames of a message are those \<open>zmq_recv\<close> hands out; a reply socket has
  then already taken off the sender's envelope, and drops a message that has none.

  The ZeroMQ calls are parameters: whether the context, the socket and the bind succeed, the results of
  the three \<open>zmq_send\<close> calls, and \<open>zmq_recv\<close> with \<open>zmq_getsockopt\<close>, of which the lemmas
  assume \<open>zmq_socket\<close>. The callbacks are given; what a round passes to them is part of its result.
  The write of the terminating zero at \<open>id_buf[bytes]\<close> is outside the 64-byte buffer when
  \<open>zmq_recv\<close> reports a longer frame; the result is then \<open>None\<close>.

  Proved: which messages of three frames are dispatched, and with what; that every refused message has no
  dispatch; that the length check cannot be fooled by wrap-around. What the type of the socket means for the
  worker's transport is in theory \<open>Endpoints\<close>.
\<close>

section \<open>Data\<close>

definition ROUTER_ID_MAX_LEN :: nat where "ROUTER_ID_MAX_LEN = 64"
definition ROUTER_PAYLOAD_MAX_LEN :: nat where "ROUTER_PAYLOAD_MAX_LEN = 4096"

datatype VomRouterEvent = ROUTER_EVENT_WORKER_JOINED | ROUTER_EVENT_WORKER_HEARTBEAT
  | ROUTER_EVENT_CHUNK_PROGRESS | ROUTER_EVENT_CHUNK_RESULT | ROUTER_EVENT_WORKER_FAILURE
  | ROUTER_EVENT_CLI_CONTROL_REQ | ROUTER_EVENT_TRANSPORT_FAULT

datatype VomRouterStatus = ROUTER_STATUS_SUCCESS | ROUTER_STATUS_ERR_VERSION | ROUTER_STATUS_ERR_SIZE
  | ROUTER_STATUS_ERR_SOCKET | ROUTER_STATUS_ERR_TIMEOUT

record vom_master_router_context =
  zmq_sock :: "int option"
  next_seq_id :: u64
  is_running :: bool

record router_output =
  out_status :: VomRouterStatus
  out_events :: "(string \<times> VomRouterEvent) list"
  out_dispatch :: "(string \<times> vom_router_envelope_t \<times> bytes) list"

section \<open>Operations\<close>

definition vom_master_router_create :: "bool \<Rightarrow> bool \<Rightarrow> vom_master_router_context option" where
  "vom_master_router_create calloc_ok ctx_new_ok =
     (if \<not> calloc_ok \<or> \<not> ctx_new_ok then None
      else Some \<lparr>zmq_sock = None, next_seq_id = 1, is_running = False\<rparr>)"

definition vom_master_router_start ::
  "string option \<Rightarrow> bool \<Rightarrow> bool \<Rightarrow> vom_master_router_context \<Rightarrow> VomRouterStatus \<times> vom_master_router_context" where
  "vom_master_router_start bind_endpoint socket_ok bind_ok ctx =
     (if bind_endpoint = None then (ROUTER_STATUS_ERR_SOCKET, ctx)
      else if \<not> socket_ok then (ROUTER_STATUS_ERR_SOCKET, ctx\<lparr>zmq_sock := None\<rparr>)
      else if \<not> bind_ok then (ROUTER_STATUS_ERR_SOCKET, ctx\<lparr>zmq_sock := None\<rparr>)
      else (ROUTER_STATUS_SUCCESS, ctx\<lparr>zmq_sock := Some 4, is_running := True\<rparr>))"

definition vom_master_router_stop :: "vom_master_router_context \<Rightarrow> vom_master_router_context" where
  "vom_master_router_stop ctx = ctx\<lparr>is_running := False\<rparr>"

text \<open>The result has the frames handed to the socket, each with its "more follows" flag.\<close>

definition vom_master_router_send_to_worker ::
  "string option \<Rightarrow> u16 \<Rightarrow> bytes option \<Rightarrow> nat \<Rightarrow> u64 \<Rightarrow> bytes \<Rightarrow> int \<times> int \<times> int \<Rightarrow> vom_master_router_context
    \<Rightarrow> VomRouterStatus \<times> (bytes \<times> bool) list \<times> vom_master_router_context" where
  "vom_master_router_send_to_worker worker_id code payload len now_ms stale rcs ctx =
     (case worker_id of
        None \<Rightarrow> (ROUTER_STATUS_ERR_SOCKET, [], ctx)
      | Some wid \<Rightarrow>
          if zmq_sock ctx = None \<or> \<not> is_running ctx then (ROUTER_STATUS_ERR_SOCKET, [], ctx)
          else if len > ROUTER_PAYLOAD_MAX_LEN then (ROUTER_STATUS_ERR_SIZE, [], ctx)
          else
            (case rcs of (rc1, rc2, rc3) \<Rightarrow>
               (let env = \<lparr>protocol_version = 1, message_code = code, payload_length = of_nat len,
                           sequence_id = next_seq_id ctx, timestamp_ms = now_ms\<rparr>;
                    ctx' = ctx\<lparr>next_seq_id := next_seq_id ctx + 1\<rparr>;
                    body = (case payload of Some p \<Rightarrow> take len p | None \<Rightarrow> take len stale)
                in if rc1 < 0 then (ROUTER_STATUS_ERR_SOCKET, [], ctx')
                   else if rc2 < 0 then (ROUTER_STATUS_ERR_SOCKET, [(string_bytes wid, True)], ctx')
                   else if rc3 < 0 then (ROUTER_STATUS_ERR_SOCKET, [(string_bytes wid, True), ([], True)], ctx')
                   else (ROUTER_STATUS_SUCCESS,
                         [(string_bytes wid, True), ([], True), (encode_env env @ body, False)], ctx'))))"

definition internal_router_check_frames :: "int \<times> int \<Rightarrow> bool" where
  "internal_router_check_frames opt = (if fst opt \<noteq> 0 then False else snd opt \<noteq> 0)"

definition refuse :: "VomRouterStatus \<Rightarrow> (string \<times> VomRouterEvent) list \<Rightarrow> router_output" where
  "refuse st evs = \<lparr>out_status = st, out_events = evs, out_dispatch = []\<rparr>"

definition code_events :: "string \<Rightarrow> u16 \<Rightarrow> (string \<times> VomRouterEvent) list" where
  "code_events wid code =
     (if code = ROUTER_MSG_JOIN_REQ then [(wid, ROUTER_EVENT_WORKER_JOINED)]
      else if code = ROUTER_MSG_HEARTBEAT then [(wid, ROUTER_EVENT_WORKER_HEARTBEAT)]
      else if code = ROUTER_MSG_CHUNK_REPORT then [(wid, ROUTER_EVENT_CHUNK_RESULT)]
      else [])"

definition check_message :: "string \<Rightarrow> int \<Rightarrow> bytes \<Rightarrow> router_output" where
  "check_message wid pbytes pbuf =
     (if pbytes < int ENVELOPE_SIZE then refuse ROUTER_STATUS_ERR_SIZE [(wid, ROUTER_EVENT_TRANSPORT_FAULT)]
      else
        (let env = decode_env pbuf in
         if protocol_version env \<noteq> 1
         then refuse ROUTER_STATUS_ERR_VERSION [(wid, ROUTER_EVENT_TRANSPORT_FAULT)]
         else if of_nat ENVELOPE_SIZE + payload_length env \<noteq> (word_of_int pbytes :: u32)
         then refuse ROUTER_STATUS_ERR_SIZE [(wid, ROUTER_EVENT_TRANSPORT_FAULT)]
         else \<lparr>out_status = ROUTER_STATUS_SUCCESS, out_events = code_events wid (message_code env),
               out_dispatch = [(wid, env, drop ENVELOPE_SIZE pbuf)]\<rparr>))"

definition vom_master_router_run_once ::
  "'s zmq_recv \<Rightarrow> ('s \<Rightarrow> int \<times> int) \<Rightarrow> vom_master_router_context \<Rightarrow> 's \<Rightarrow> (router_output \<times> 's) option" where
  "vom_master_router_run_once recv rcvmore ctx s =
     (if zmq_sock ctx = None \<or> \<not> is_running ctx then Some (refuse ROUTER_STATUS_ERR_SOCKET [], s)
      else
        (let (n, idb, s1) = recv (ROUTER_ID_MAX_LEN - 1) s in
         if n < 0 then Some (refuse ROUTER_STATUS_SUCCESS [], s1)
         else if n \<ge> int ROUTER_ID_MAX_LEN then None
         else
           (let wid = c_string (idb @ [0]) in
            if \<not> internal_router_check_frames (rcvmore s1) then Some (refuse ROUTER_STATUS_ERR_SIZE [], s1)
            else
              (let (d, dbuf, s2) = recv 1 s1 in
               if d < 0 then Some (refuse ROUTER_STATUS_ERR_SIZE [], s2)
               else if \<not> internal_router_check_frames (rcvmore s2) then Some (refuse ROUTER_STATUS_ERR_SIZE [], s2)
               else
                 (let (p, pbuf, s3) = recv (ENVELOPE_SIZE + ROUTER_PAYLOAD_MAX_LEN) s2
                  in Some (check_message wid p pbuf, s3))))))"

section \<open>Lemmas\<close>

lemmas router_sizes = ROUTER_ID_MAX_LEN_def ROUTER_PAYLOAD_MAX_LEN_def ENVELOPE_SIZE_def

text \<open>The sum in the length check is taken in 32 bits; it can only match a length it does not wrap to.\<close>

lemma length_check_exact:
  fixes len :: u32
  assumes p: "24 \<le> p" "p < 2 ^ 32"
  shows "24 + len = (word_of_int (int p) :: u32) \<longleftrightarrow> unat len + 24 = p"
proof -
  have w: "unat (word_of_int (int p) :: u32) = p" using p(2) by (simp add: unat_of_nat)
  have u: "unat (24 + len) = (24 + unat len) mod 2 ^ 32" by (simp add: unat_word_ariths)
  have b: "unat len < 2 ^ 32" using unsigned_less [of len] by simp
  have "(24 + unat len) mod 2 ^ 32 = p \<longleftrightarrow> 24 + unat len = p"
  proof (cases "24 + unat len < 2 ^ 32")
    case False
    then have "(24 + unat len) mod 2 ^ 32 = 24 + unat len - 2 ^ 32"
      using b by (simp add: mod_if)
    then show ?thesis using False p b by simp
  next
    case True
    then show ?thesis by (simp only: mod_less)
  qed
  then show ?thesis unfolding word_unat_eq_iff w u by (simp only: add.commute)
qed

text \<open>What a well-formed message body is: a whole envelope of version 1 that announces its length.\<close>

definition well_formed_body :: "bytes \<Rightarrow> bool" where
  "well_formed_body f \<longleftrightarrow>
     ENVELOPE_SIZE \<le> length f \<and> protocol_version (decode_env f) = 1
     \<and> unat (payload_length (decode_env f)) + ENVELOPE_SIZE = length f"

lemma check_message_accepts:
  assumes "length f < 2 ^ 31" "well_formed_body f"
  shows "check_message wid (int (length f)) (take (ENVELOPE_SIZE + ROUTER_PAYLOAD_MAX_LEN) f) =
      \<lparr>out_status = ROUTER_STATUS_SUCCESS, out_events = code_events wid (message_code (decode_env f)),
       out_dispatch = [(wid, decode_env f, take ROUTER_PAYLOAD_MAX_LEN (drop ENVELOPE_SIZE f))]\<rparr>"
proof -
  have f: "24 \<le> length f" "protocol_version (decode_env f) = 1"
    "unat (payload_length (decode_env f)) + 24 = length f"
    using assms(2) by (simp_all add: well_formed_body_def router_sizes)
  have len: "24 + payload_length (decode_env f) = (word_of_int (int (length f)) :: u32)"
    using length_check_exact [of "length f" "payload_length (decode_env f)"] assms(1) f by simp
  have d: "decode_env (take 4120 f) = decode_env f" by (simp add: decode_env_take)
  have "drop 24 (take 4120 f) = take 4096 (drop 24 f)" by (simp add: drop_take)
  then show ?thesis
    using f(1,2) len d unfolding check_message_def router_sizes Let_def by simp
qed

lemma check_message_refuses:
  assumes "length f < 2 ^ 31" "\<not> well_formed_body f"
  shows "\<exists>st. st \<noteq> ROUTER_STATUS_SUCCESS \<and>
    check_message wid (int (length f)) (take (ENVELOPE_SIZE + ROUTER_PAYLOAD_MAX_LEN) f) =
      refuse st [(wid, ROUTER_EVENT_TRANSPORT_FAULT)]"
proof -
  have d: "decode_env (take 4120 f) = decode_env f" by (simp add: decode_env_take)
  consider "length f < 24" | "24 \<le> length f" "protocol_version (decode_env f) \<noteq> 1"
    | "24 \<le> length f" "protocol_version (decode_env f) = 1"
      "24 + payload_length (decode_env f) \<noteq> (word_of_int (int (length f)) :: u32)"
    using assms length_check_exact [of "length f" "payload_length (decode_env f)"]
    by (cases "length f < 24") (auto simp: well_formed_body_def router_sizes not_less)
  then show ?thesis
    by cases (auto simp: check_message_def router_sizes Let_def d)
qed

lemma run_once_three_frames:
  assumes z: "zmq_socket recv rcvmore pend" and up: "zmq_sock ctx \<noteq> None" "is_running ctx"
    and p: "pend s = (idb, True) # (delim, True) # (body, m) # rest" and len: "length idb < ROUTER_ID_MAX_LEN"
  obtains s' where "pend s' = rest"
    "vom_master_router_run_once recv rcvmore ctx s =
      Some (check_message (c_string (idb @ [0])) (int (length body))
              (take (ENVELOPE_SIZE + ROUTER_PAYLOAD_MAX_LEN) body), s')"
proof -
  from zmq_socket_next [OF z p] obtain s1 where
    1: "recv (ROUTER_ID_MAX_LEN - 1) s = (int (length idb), take (ROUTER_ID_MAX_LEN - 1) idb, s1)"
      "pend s1 = (delim, True) # (body, m) # rest" "internal_router_check_frames (rcvmore s1)"
    unfolding internal_router_check_frames_def by metis
  from zmq_socket_next [OF z 1(2)] obtain s2 where
    2: "recv 1 s1 = (int (length delim), take 1 delim, s2)" "pend s2 = (body, m) # rest"
      "internal_router_check_frames (rcvmore s2)"
    unfolding internal_router_check_frames_def by metis
  from zmq_socket_next [OF z 2(2)] obtain s3 where
    3: "recv (ENVELOPE_SIZE + ROUTER_PAYLOAD_MAX_LEN) s2 =
        (int (length body), take (ENVELOPE_SIZE + ROUTER_PAYLOAD_MAX_LEN) body, s3)" "pend s3 = rest"
    by metis
  have "take (ROUTER_ID_MAX_LEN - 1) idb = idb" using len by (simp add: router_sizes)
  with 1 2 3 up len that [of s3] show thesis by (auto simp: vom_master_router_run_once_def)
qed

section \<open>Properties\<close>

text \<open>
  C13: On a socket whose \<open>zmq_recv\<close> hands out the pending frames in order, as ZeroMQ documents it, one round of
  a running router takes exactly the three frames of a pending message: the first, which must be shorter than
  64 bytes, it takes for the worker's identity, the second for a delimiter, the third, which must be shorter
  than 2^31 bytes, for the body. It dispatches the message, once, exactly when the body holds an envelope of version 1
  that announces the body's length, with the decoded envelope and the payload up to 4096 bytes; otherwise
  nothing is dispatched, an error is returned and a transport fault is reported.
\<close>

theorem router_dispatch_exact:
  assumes "zmq_socket recv rcvmore pend" "zmq_sock ctx \<noteq> None" "is_running ctx"
    and "pend s = (idb, True) # (delim, True) # (body, m) # rest"
    and "length idb < ROUTER_ID_MAX_LEN" "length body < 2 ^ 31"
  shows "\<exists>out s'. vom_master_router_run_once recv rcvmore ctx s = Some (out, s') \<and> pend s' = rest
    \<and> (let wid = c_string (idb @ [0]) in
        if ENVELOPE_SIZE \<le> length body \<and> protocol_version (decode_env body) = 1
            \<and> unat (payload_length (decode_env body)) + ENVELOPE_SIZE = length body
        then out_status out = ROUTER_STATUS_SUCCESS
          \<and> out_events out = code_events wid (message_code (decode_env body))
          \<and> out_dispatch out = [(wid, decode_env body, take ROUTER_PAYLOAD_MAX_LEN (drop ENVELOPE_SIZE body))]
        else out_status out \<noteq> ROUTER_STATUS_SUCCESS
          \<and> out_events out = [(wid, ROUTER_EVENT_TRANSPORT_FAULT)] \<and> out_dispatch out = [])"
proof -
  obtain s' where s': "pend s' = rest"
    "vom_master_router_run_once recv rcvmore ctx s =
      Some (check_message (c_string (idb @ [0])) (int (length body))
              (take (ENVELOPE_SIZE + ROUTER_PAYLOAD_MAX_LEN) body), s')"
    using run_once_three_frames [OF assms(1-5)] by metis
  show ?thesis
  proof (cases "well_formed_body body")
    case True
    with s' check_message_accepts [OF assms(6) True] show ?thesis
      unfolding well_formed_body_def by (simp add: Let_def)
  next
    case False
    with s' check_message_refuses [OF assms(6) False, of "c_string (idb @ [0])"] show ?thesis
      unfolding well_formed_body_def by (auto simp: Let_def refuse_def)
  qed
qed

definition demo_router :: vom_master_router_context where
  "demo_router = \<lparr>zmq_sock = Some 4, next_seq_id = 1, is_running = True\<rparr>"

definition demo_envelope :: vom_router_envelope_t where
  "demo_envelope = \<lparr>protocol_version = 1, message_code = ROUTER_MSG_HEARTBEAT, payload_length = 2,
     sequence_id = 7, timestamp_ms = 1000\<rparr>"

theorem router_dispatch_exact_witness:
  "\<exists>out s'. vom_master_router_run_once mqueue_recv mqueue_more demo_router
      ([(string_bytes ''w1'', True), ([], True), (encode_env demo_envelope @ [5, 6], False)], False) = Some (out, s')
    \<and> fst s' = [] \<and> out_events out = [(''w1'', ROUTER_EVENT_WORKER_HEARTBEAT)]
    \<and> out_dispatch out = [(''w1'', demo_envelope, [5, 6])]"
proof -
  let ?body = "encode_env demo_envelope @ [5, 6]"
  have c: "c_string (string_bytes ''w1'' @ [0]) = ''w1''"
    by (rule c_string_bytes) (simp add: zero_free_def)
  have e: "code_events ''w1'' (message_code demo_envelope) = [(''w1'', ROUTER_EVENT_WORKER_HEARTBEAT)]"
    by (simp add: code_events_def demo_envelope_def msg_codes)
  have l: "length ?body = 26" by (simp add: router_sizes)
  have "\<exists>out s'. vom_master_router_run_once mqueue_recv mqueue_more demo_router
      ([(string_bytes ''w1'', True), ([], True), (?body, False)], False) = Some (out, s') \<and> fst s' = []
    \<and> (let wid = c_string (string_bytes ''w1'' @ [0]) in
        if ENVELOPE_SIZE \<le> length ?body \<and> protocol_version (decode_env ?body) = 1
            \<and> unat (payload_length (decode_env ?body)) + ENVELOPE_SIZE = length ?body
        then out_status out = ROUTER_STATUS_SUCCESS
          \<and> out_events out = code_events wid (message_code (decode_env ?body))
          \<and> out_dispatch out = [(wid, decode_env ?body, take ROUTER_PAYLOAD_MAX_LEN (drop ENVELOPE_SIZE ?body))]
        else out_status out \<noteq> ROUTER_STATUS_SUCCESS
          \<and> out_events out = [(wid, ROUTER_EVENT_TRANSPORT_FAULT)] \<and> out_dispatch out = [])"
    by (rule router_dispatch_exact [OF mqueue_socket, where delim = "[]" and m = False])
      (simp_all add: demo_router_def router_sizes)
  moreover have "unat (payload_length demo_envelope) = 2" "protocol_version demo_envelope = 1"
    by (simp_all add: demo_envelope_def)
  ultimately show ?thesis
    unfolding c Let_def by (simp add: l e router_sizes) blast
qed

end
