(* ===== verification/Transport.thy ===== *)
theory Transport
  imports Wire
begin

text \<open>
  The worker's transport (\<^verbatim>\<open>worker/src/transport.c\<close>): configuration, connecting and
  disconnecting, sending a message and one poll of the socket.

  The ZeroMQ calls are parameters: whether the context, the socket and the connection succeed, the
  result of \<open>zmq_send\<close>, and \<open>zmq_recv\<close>. What \<open>connect\<close> sets on the socket, what
  \<open>send\<close> hands to it and what \<open>poll\<close> passes to the callbacks (which are given) is part of the
  results. The envelope is the record of theory \<open>Wire\<close>, whose fields \<open>vom_transport_envelope_t\<close>
  repeats.

  Proved: what a poll accepts and dispatches, the session flags it sets, and that flags hold only while
  a socket is open.
\<close>

section \<open>Data\<close>

definition TRANSPORT_ID_MAX_LEN :: nat where "TRANSPORT_ID_MAX_LEN = 64"
definition TRANSPORT_KEY_MAX_LEN :: nat where "TRANSPORT_KEY_MAX_LEN = 40"
definition TRANSPORT_BUFFER_MAX :: nat where "TRANSPORT_BUFFER_MAX = 4096"

lemmas transport_sizes = TRANSPORT_BUFFER_MAX_def ENVELOPE_SIZE_def

definition VOM_ZMQ_IDENTITY :: nat where "VOM_ZMQ_IDENTITY = 6"
definition VOM_ZMQ_CURVE_PUBLICKEY :: nat where "VOM_ZMQ_CURVE_PUBLICKEY = 44"
definition VOM_ZMQ_CURVE_SECRETKEY :: nat where "VOM_ZMQ_CURVE_SECRETKEY = 45"
definition VOM_ZMQ_CURVE_SERVERKEY :: nat where "VOM_ZMQ_CURVE_SERVERKEY = 46"

datatype VomTransportEvent = TRANS_EVENT_CONNECTED | TRANS_EVENT_AUTHENTICATED | TRANS_EVENT_JOINED
  | TRANS_EVENT_HEARTBEAT_SENT | TRANS_EVENT_HEARTBEAT_ACKED | TRANS_EVENT_DISCONNECTED
  | TRANS_EVENT_RECONNECTING | TRANS_EVENT_ERROR

definition MSG_CODE_AUTH_RESP :: u16 where "MSG_CODE_AUTH_RESP = 2"
definition MSG_CODE_JOIN_RESP :: u16 where "MSG_CODE_JOIN_RESP = 4"
definition MSG_CODE_HEARTBEAT :: u16 where "MSG_CODE_HEARTBEAT = 5"

lemmas transport_codes = MSG_CODE_AUTH_RESP_def MSG_CODE_JOIN_RESP_def MSG_CODE_HEARTBEAT_def

datatype VomTransportStatus = TRANS_STATUS_SUCCESS | TRANS_STATUS_ERR_VERSION | TRANS_STATUS_ERR_AUTH
  | TRANS_STATUS_ERR_SIZE | TRANS_STATUS_ERR_TIMEOUT | TRANS_STATUS_ERR_DISCONNECT

record vom_transport_config_t =
  worker_id :: string
  server_public_key :: string
  client_public_key :: string
  client_secret_key :: string

record vom_worker_transport_context =
  zmq_sock :: bool
  config :: vom_transport_config_t
  next_seq_id :: u64
  is_connected :: bool
  is_authenticated :: bool
  is_joined :: bool

record poll_output =
  poll_status :: VomTransportStatus
  poll_events :: "VomTransportEvent list"
  poll_dispatch :: "(vom_router_envelope_t \<times> bytes) list"

section \<open>Operations\<close>

definition vom_worker_transport_create :: "bool \<Rightarrow> bool \<Rightarrow> vom_worker_transport_context option" where
  "vom_worker_transport_create calloc_ok ctx_new_ok =
     (if \<not> calloc_ok \<or> \<not> ctx_new_ok then None
      else Some \<lparr>zmq_sock = False,
        config = \<lparr>worker_id = [], server_public_key = [], client_public_key = [], client_secret_key = []\<rparr>,
        next_seq_id = 1, is_connected = False, is_authenticated = False, is_joined = False\<rparr>)"

definition vom_worker_transport_configure ::
  "vom_transport_config_t option \<Rightarrow> vom_worker_transport_context \<Rightarrow> VomTransportStatus \<times> vom_worker_transport_context" where
  "vom_worker_transport_configure cfg ctx =
     (case cfg of None \<Rightarrow> (TRANS_STATUS_ERR_VERSION, ctx)
      | Some c \<Rightarrow> (TRANS_STATUS_SUCCESS, ctx\<lparr>config := c\<rparr>))"

definition identity_options :: "vom_transport_config_t \<Rightarrow> (nat \<times> string) list" where
  "identity_options c =
     (if length (worker_id c) > 0 then [(VOM_ZMQ_IDENTITY, worker_id c)] else [])
   @ (if length (server_public_key c) > 0 \<and> length (client_secret_key c) > 0
      then [(VOM_ZMQ_CURVE_SERVERKEY, server_public_key c), (VOM_ZMQ_CURVE_PUBLICKEY, client_public_key c),
            (VOM_ZMQ_CURVE_SECRETKEY, client_secret_key c)]
      else [])"

definition vom_worker_transport_connect ::
  "string option \<Rightarrow> bool \<Rightarrow> bool \<Rightarrow> vom_worker_transport_context
    \<Rightarrow> VomTransportStatus \<times> (nat \<times> string) list \<times> vom_worker_transport_context" where
  "vom_worker_transport_connect endpoint socket_ok connect_ok ctx =
     (if endpoint = None then (TRANS_STATUS_ERR_DISCONNECT, [], ctx)
      else if \<not> socket_ok then (TRANS_STATUS_ERR_DISCONNECT, [], ctx\<lparr>zmq_sock := False\<rparr>)
      else if \<not> connect_ok
      then (TRANS_STATUS_ERR_DISCONNECT, identity_options (config ctx), ctx\<lparr>zmq_sock := False\<rparr>)
      else (TRANS_STATUS_SUCCESS, identity_options (config ctx),
            ctx\<lparr>zmq_sock := True, is_connected := True\<rparr>))"

definition vom_worker_transport_disconnect ::
  "vom_worker_transport_context \<Rightarrow> VomTransportStatus \<times> vom_worker_transport_context" where
  "vom_worker_transport_disconnect ctx =
     (if \<not> zmq_sock ctx then (TRANS_STATUS_ERR_DISCONNECT, ctx)
      else (TRANS_STATUS_SUCCESS,
            ctx\<lparr>zmq_sock := False, is_connected := False, is_authenticated := False, is_joined := False\<rparr>))"

text \<open>The frames handed to the socket are part of the result, each with its "more follows" flag.\<close>

definition vom_worker_transport_send ::
  "u16 \<Rightarrow> bytes option \<Rightarrow> nat \<Rightarrow> u64 \<Rightarrow> bytes \<Rightarrow> int \<Rightarrow> vom_worker_transport_context
    \<Rightarrow> VomTransportStatus \<times> (bytes \<times> bool) list \<times> vom_worker_transport_context" where
  "vom_worker_transport_send code payload len now_ms stale rc ctx =
     (if \<not> zmq_sock ctx \<or> \<not> is_connected ctx then (TRANS_STATUS_ERR_DISCONNECT, [], ctx)
      else if len > TRANSPORT_BUFFER_MAX then (TRANS_STATUS_ERR_SIZE, [], ctx)
      else
        (let env = \<lparr>protocol_version = 1, message_code = code, payload_length = of_nat len,
                    sequence_id = next_seq_id ctx, timestamp_ms = now_ms\<rparr>;
             ctx' = ctx\<lparr>next_seq_id := next_seq_id ctx + 1\<rparr>;
             body = (case payload of Some p \<Rightarrow> take len p | None \<Rightarrow> take len stale)
         in if rc < 0 then (TRANS_STATUS_ERR_DISCONNECT, [], ctx')
            else (TRANS_STATUS_SUCCESS, [(encode_env env @ body, False)], ctx')))"

definition session_event :: "u16 \<Rightarrow> vom_worker_transport_context
    \<Rightarrow> VomTransportEvent list \<times> vom_worker_transport_context" where
  "session_event code ctx =
     (if code = MSG_CODE_AUTH_RESP then ([TRANS_EVENT_AUTHENTICATED], ctx\<lparr>is_authenticated := True\<rparr>)
      else if code = MSG_CODE_JOIN_RESP then ([TRANS_EVENT_JOINED], ctx\<lparr>is_joined := True\<rparr>)
      else if code = MSG_CODE_HEARTBEAT then ([TRANS_EVENT_HEARTBEAT_ACKED], ctx)
      else ([], ctx))"

definition vom_worker_transport_poll ::
  "'s zmq_recv \<Rightarrow> vom_worker_transport_context \<Rightarrow> 's \<Rightarrow> poll_output \<times> vom_worker_transport_context \<times> 's" where
  "vom_worker_transport_poll recv ctx s =
     (if \<not> zmq_sock ctx
      then (\<lparr>poll_status = TRANS_STATUS_ERR_DISCONNECT, poll_events = [], poll_dispatch = []\<rparr>, ctx, s)
      else
        (let (rc, buffer, s') = recv (ENVELOPE_SIZE + TRANSPORT_BUFFER_MAX) s in
         if rc < 0 then (\<lparr>poll_status = TRANS_STATUS_SUCCESS, poll_events = [], poll_dispatch = []\<rparr>, ctx, s')
         else if nat rc < ENVELOPE_SIZE
         then (\<lparr>poll_status = TRANS_STATUS_ERR_SIZE, poll_events = [TRANS_EVENT_ERROR], poll_dispatch = []\<rparr>, ctx, s')
         else
           (let env = decode_env buffer in
            if protocol_version env \<noteq> 1
            then (\<lparr>poll_status = TRANS_STATUS_ERR_VERSION, poll_events = [TRANS_EVENT_ERROR], poll_dispatch = []\<rparr>, ctx, s')
            else if ENVELOPE_SIZE + unat (payload_length env) \<noteq> nat rc
            then (\<lparr>poll_status = TRANS_STATUS_ERR_SIZE, poll_events = [TRANS_EVENT_ERROR], poll_dispatch = []\<rparr>, ctx, s')
            else
              (let (evs, ctx') = session_event (message_code env) ctx
               in (\<lparr>poll_status = TRANS_STATUS_SUCCESS, poll_events = evs,
                    poll_dispatch = [(env, drop ENVELOPE_SIZE buffer)]\<rparr>, ctx', s')))))"

section \<open>Lemmas\<close>

lemma poll_next_frame:
  assumes "zmq_socket recv rcvmore pend" "zmq_sock ctx" "pend s = (f, m) # fs"
  obtains s' where "pend s' = fs"
    "vom_worker_transport_poll recv ctx s =
      (if length f < ENVELOPE_SIZE
       then (\<lparr>poll_status = TRANS_STATUS_ERR_SIZE, poll_events = [TRANS_EVENT_ERROR], poll_dispatch = []\<rparr>, ctx, s')
       else if protocol_version (decode_env f) \<noteq> 1
       then (\<lparr>poll_status = TRANS_STATUS_ERR_VERSION, poll_events = [TRANS_EVENT_ERROR], poll_dispatch = []\<rparr>, ctx, s')
       else if ENVELOPE_SIZE + unat (payload_length (decode_env f)) \<noteq> length f
       then (\<lparr>poll_status = TRANS_STATUS_ERR_SIZE, poll_events = [TRANS_EVENT_ERROR], poll_dispatch = []\<rparr>, ctx, s')
       else (\<lparr>poll_status = TRANS_STATUS_SUCCESS, poll_events = fst (session_event (message_code (decode_env f)) ctx),
              poll_dispatch = [(decode_env f, take TRANSPORT_BUFFER_MAX (drop ENVELOPE_SIZE f))]\<rparr>,
             snd (session_event (message_code (decode_env f)) ctx), s'))"
proof -
  from zmq_socket_next [OF assms(1,3), of "ENVELOPE_SIZE + TRANSPORT_BUFFER_MAX"] obtain s' where
    r: "recv (ENVELOPE_SIZE + TRANSPORT_BUFFER_MAX) s =
        (int (length f), take (ENVELOPE_SIZE + TRANSPORT_BUFFER_MAX) f, s')" "pend s' = fs" .
  have d: "decode_env (take (ENVELOPE_SIZE + TRANSPORT_BUFFER_MAX) f) = decode_env f"
    by (rule decode_env_take) (simp add: transport_sizes)
  have t: "drop ENVELOPE_SIZE (take (ENVELOPE_SIZE + TRANSPORT_BUFFER_MAX) f) =
      take TRANSPORT_BUFFER_MAX (drop ENVELOPE_SIZE f)"
    by (simp add: drop_take)
  show thesis
    using r(2) by (rule that) (simp add: vom_worker_transport_poll_def r(1) assms(2) d t Let_def split_def)
qed

end
