(* ===== verification/Registry_Spec.thy ===== *)
theory Registry_Spec
  imports Registry
begin

text \<open>
  The abstract specification of the worker registry, and that \<^verbatim>\<open>master/src/registry.c\<close>
  refines it.

  The specification is a finite map from identifiers to records, the order in which the identifiers first joined, and
  a version: no array, no search loop, no snapshot ring. Reading the table of the registry by identifier commutes with
  every operation, and the specification gives the answer of every operation: the success of an update, the identifiers
  a sweep reports, the contents of the snapshot a reader acquires. Joins are those whose identifier fits its buffer
  (the other ones are the subject of \<open>long_identifier_lost\<close>).

  On the specification a history can be read off: the last contact of a member is the time of the last join or
  heartbeat that names it, and its status tells which of the events of its history came last.
\<close>

section \<open>Specification\<close>

record roster =
  member :: "string \<rightharpoonup> WorkerRecord"
  seniority :: "string list"
  roster_version :: u64

datatype reg_answer = RegOk bool | RegDead "string list" | RegView roster | RegReleased

definition empty_roster :: roster where
  "empty_roster = \<lparr>member = Map.empty, seniority = [], roster_version = 1\<rparr>"

definition update_member :: "string \<Rightarrow> WorkerRecord \<Rightarrow> roster \<Rightarrow> roster" where
  "update_member wid r d = d\<lparr>member := (member d)(wid \<mapsto> r), roster_version := roster_version d + 1\<rparr>"

definition stale_member :: "u64 \<Rightarrow> u64 \<Rightarrow> roster \<Rightarrow> string \<Rightarrow> bool" where
  "stale_member now_ms timeout_ms d wid \<longleftrightarrow>
     (case member d wid of None \<Rightarrow> False
      | Some r \<Rightarrow> status r \<noteq> REG_STATUS_DISCONNECTED \<and> timeout_ms < now_ms - last_seen_ms r)"

fun roster_answer :: "reg_event \<Rightarrow> roster \<Rightarrow> reg_answer" where
  "roster_answer (RegJoin wid tr caps now_ms) d = RegOk (wid \<in> dom (member d) \<or> card (dom (member d)) < 64)"
| "roster_answer (RegHeartbeat wid caps now_ms) d = RegOk (wid \<in> dom (member d))"
| "roster_answer (RegLeave wid) d = RegOk (wid \<in> dom (member d))"
| "roster_answer (RegTrack wid cid) d =
     RegOk (\<exists>r. member d wid = Some r \<and> length (active_chunk_ids r) < 32)"
| "roster_answer (RegUntrack wid cid) d = RegOk (\<exists>r. member d wid = Some r \<and> cid \<in> set (active_chunk_ids r))"
| "roster_answer (RegSweep now_ms timeout_ms m) d =
     RegDead (take (nat m) (filter (stale_member now_ms timeout_ms d) (seniority d)))"
| "roster_answer RegAcquire d = RegView d"
| "roster_answer (RegRelease i) d = RegReleased"

text \<open>The effect of an accepted event on the member it names; a sweep names every member.\<close>

fun member_effect :: "reg_event \<Rightarrow> WorkerRecord \<Rightarrow> WorkerRecord" where
  "member_effect (RegJoin wid tr caps now_ms) r =
     r\<lparr>status := REG_STATUS_APPROVED, last_seen_ms := now_ms, capabilities := caps\<rparr>"
| "member_effect (RegHeartbeat wid dyn now_ms) r =
     r\<lparr>status := (if status r = REG_STATUS_DISCONNECTED then REG_STATUS_HEALTHY else status r),
       last_seen_ms := now_ms,
       capabilities := (capabilities r)\<lparr>ram_free_mb := ram_free_mb dyn, cores_online := cores_online dyn,
         battery_percent := battery_percent dyn, is_charging := is_charging dyn,
         is_ac_online := is_ac_online dyn\<rparr>\<rparr>"
| "member_effect (RegLeave wid) r = r\<lparr>status := REG_STATUS_DISCONNECTED\<rparr>"
| "member_effect (RegTrack wid cid) r = r\<lparr>active_chunk_ids := active_chunk_ids r @ [cid]\<rparr>"
| "member_effect (RegUntrack wid cid) r = r\<lparr>active_chunk_ids := remove1 cid (active_chunk_ids r)\<rparr>"
| "member_effect (RegSweep now_ms timeout_ms m) r =
     (if status r \<noteq> REG_STATUS_DISCONNECTED \<and> timeout_ms < now_ms - last_seen_ms r
      then r\<lparr>status := REG_STATUS_DISCONNECTED\<rparr> else r)"
| "member_effect _ r = r"

fun names_worker :: "reg_event \<Rightarrow> string option" where
  "names_worker (RegJoin wid tr caps now_ms) = Some wid"
| "names_worker (RegHeartbeat wid caps now_ms) = Some wid"
| "names_worker (RegLeave wid) = Some wid"
| "names_worker (RegTrack wid cid) = Some wid"
| "names_worker (RegUntrack wid cid) = Some wid"
| "names_worker _ = None"

definition enrol :: "string \<Rightarrow> string \<Rightarrow> vom_worker_capabilities \<Rightarrow> u64 \<Rightarrow> roster \<Rightarrow> roster" where
  "enrol wid tr caps now_ms d =
     (update_member wid \<lparr>worker_id = wid, transport_endpoint = take 63 tr, status = REG_STATUS_APPROVED,
        last_seen_ms = now_ms, capabilities = caps, active_chunk_ids = []\<rparr> d)\<lparr>seniority := seniority d @ [wid]\<rparr>"

fun roster_exec :: "reg_event \<Rightarrow> roster \<Rightarrow> roster" where
  "roster_exec (RegSweep now_ms timeout_ms m) d =
     (if m \<le> 0 then d
      else d\<lparr>member := (\<lambda>wid. map_option (member_effect (RegSweep now_ms timeout_ms m)) (member d wid)),
             roster_version := roster_version d
               + of_nat (length (filter (stale_member now_ms timeout_ms d) (seniority d)))\<rparr>)"
| "roster_exec e d =
     (if roster_answer e d \<noteq> RegOk True then d
      else (case names_worker e of None \<Rightarrow> d
            | Some wid \<Rightarrow>
                (case (member d wid, e) of
                   (Some r, _) \<Rightarrow> update_member wid (member_effect e r) d
                 | (None, RegJoin _ tr caps now_ms) \<Rightarrow> enrol wid tr caps now_ms d
                 | (None, _) \<Rightarrow> d)))"

section \<open>Abstraction\<close>

definition abs_roster :: "RegistrySnapshot \<Rightarrow> roster" where
  "abs_roster s = \<lparr>member = (\<lambda>wid. lookup_by worker_id wid (records s)), seniority = map worker_id (records s),
     roster_version = snapshot_version s\<rparr>"

fun registry_answer :: "reg_event \<Rightarrow> vom_registry_context \<Rightarrow> reg_answer" where
  "registry_answer (RegJoin wid tr caps now_ms) ctx =
     RegOk (fst (vom_registry_on_worker_join (Some wid) (Some tr) (Some caps) now_ms ctx))"
| "registry_answer (RegHeartbeat wid caps now_ms) ctx =
     RegOk (fst (vom_registry_on_worker_heartbeat (Some wid) (Some caps) now_ms ctx))"
| "registry_answer (RegLeave wid) ctx = RegOk (fst (vom_registry_on_worker_leave (Some wid) ctx))"
| "registry_answer (RegTrack wid cid) ctx = RegOk (fst (vom_registry_track_chunk (Some wid) cid ctx))"
| "registry_answer (RegUntrack wid cid) ctx = RegOk (fst (vom_registry_untrack_chunk (Some wid) cid ctx))"
| "registry_answer (RegSweep now_ms timeout_ms m) ctx =
     RegDead (fst (vom_registry_sweep_stale now_ms timeout_ms m ctx))"
| "registry_answer RegAcquire ctx =
     (let (slot, ctx') = vom_registry_acquire_snapshot ctx in RegView (abs_roster (pool ctx' ! slot)))"
| "registry_answer (RegRelease i) ctx = RegReleased"

section \<open>Simulation\<close>

lemma del_first_remove1: "del_first (\<lambda>x. x = a) xs = remove1 a xs"
  by (induction xs) auto

lemma abs_roster_update:
  assumes "lookup_by worker_id wid (records (state ctx)) = Some r" "\<And>r. worker_id (f r) = worker_id r"
  shows "abs_roster (state (upd_record (\<lambda>r. worker_id r = wid) f ctx)) = update_member wid (f r) (abs_roster (state ctx))"
  using assms
  by (auto simp: abs_roster_def update_member_def map_upd_first lookup_by_upd_first lookup_by_upd_first_other fun_eq_iff)

lemma has_chunk_lookup:
  assumes "distinct (map worker_id rs)"
  shows "list_ex (\<lambda>r. worker_id r = wid \<and> cid \<in> set (active_chunk_ids r)) rs \<longleftrightarrow>
    (\<exists>r. lookup_by worker_id wid rs = Some r \<and> cid \<in> set (active_chunk_ids r))"
  using assms by (auto simp: list_ex_iff lookup_by_Some_iff)

lemma upd_has_chunk:
  assumes "distinct (map worker_id rs)" "lookup_by worker_id wid rs = Some r" "cid \<in> set (active_chunk_ids r)"
  shows "upd_first (\<lambda>r. worker_id r = wid \<and> cid \<in> set (active_chunk_ids r)) f rs
       = upd_first (\<lambda>r. worker_id r = wid) f rs"
  using assms by (induction rs) (auto split: if_splits)

lemma stale_seniority:
  assumes "distinct (map worker_id (records s))"
  shows "filter (stale_member now_ms timeout_ms (abs_roster s)) (seniority (abs_roster s))
       = map worker_id (filter (is_stale now_ms timeout_ms) (records s))"
proof -
  have "stale_member now_ms timeout_ms (abs_roster s) (worker_id r) \<longleftrightarrow> is_stale now_ms timeout_ms r"
    if "r \<in> set (records s)" for r
  proof -
    have "lookup_by worker_id (worker_id r) (records s) = Some r"
      using assms that by (simp add: lookup_by_Some_iff)
    then show ?thesis by (simp add: stale_member_def abs_roster_def is_stale_def)
  qed
  then show ?thesis by (simp add: abs_roster_def filter_map o_def cong: filter_cong)
qed

lemma swept_effect: "swept now_ms timeout_ms = member_effect (RegSweep now_ms timeout_ms m)"
  by (auto simp: swept_def is_stale_def fun_eq_iff)

lemma registry_inv_distinct: "registry_inv ctx \<Longrightarrow> distinct (map worker_id (records (state ctx)))"
  by (simp add: registry_inv_def table_ok_def)

lemma registry_inv_card:
  "registry_inv ctx \<Longrightarrow> card (dom (\<lambda>wid. lookup_by worker_id wid (records (state ctx)))) = length (records (state ctx))"
  by (simp add: registry_inv_distinct card_dom_lookup_by)

lemma member_abs [simp]: "member (abs_roster s) wid = lookup_by worker_id wid (records s)"
  by (simp add: abs_roster_def)

lemma dom_member_abs: "wid \<in> dom (member (abs_roster s)) \<longleftrightarrow> lookup_by worker_id wid (records s) \<noteq> None"
  by (simp add: domIff)

lemma card_member_abs:
  "registry_inv ctx \<Longrightarrow> card (dom (member (abs_roster (state ctx)))) = length (records (state ctx))"
  by (simp add: abs_roster_def registry_inv_card)

lemma sweep_dead:
  assumes "registry_inv ctx"
  shows "fst (vom_registry_sweep_stale now_ms timeout_ms m ctx) =
    take (nat m) (filter (stale_member now_ms timeout_ms (abs_roster (state ctx))) (seniority (abs_roster (state ctx))))"
proof (cases "m > 0")
  case True
  have "c_strncpy (REG_NAME_MAX - 1) (worker_id r) = worker_id r" if "r \<in> set (records (state ctx))" for r
    using assms that by (auto simp: registry_inv_def record_ok_def)
  then have "map (\<lambda>r. c_strncpy (REG_NAME_MAX - 1) (worker_id r)) (filter (is_stale now_ms timeout_ms) (records (state ctx)))
      = map worker_id (filter (is_stale now_ms timeout_ms) (records (state ctx)))" by simp
  then show ?thesis
    unfolding registry_sweep_eq [OF True] stale_seniority [OF registry_inv_distinct [OF assms]] by (simp only: fst_conv)
qed (simp add: vom_registry_sweep_stale_def)

lemma registry_answer_sim:
  assumes inv: "registry_inv ctx"
  shows "registry_answer e ctx = roster_answer e (abs_roster (state ctx))"
proof (cases e)
  case (RegUntrack wid cid)
  then show ?thesis using inv
    by (auto simp: vom_registry_untrack_chunk_def Let_def has_chunk_lookup registry_inv_distinct)
next
  case (RegSweep now_ms timeout_ms m)
  with inv show ?thesis by (simp add: sweep_dead)
next
  case RegAcquire
  have "pool (snd (vom_registry_acquire_snapshot ctx)) ! fst (vom_registry_acquire_snapshot ctx) = state ctx"
    using inv registry_ring.acquire_copies [of ctx] by (simp add: registry_inv_def)
  with RegAcquire show ?thesis by (simp add: case_prod_beta)
qed (use inv in \<open>auto simp: dom_member_abs card_member_abs lookup_by_ex vom_registry_on_worker_join_def
  vom_registry_on_worker_heartbeat_def vom_registry_on_worker_leave_def vom_registry_track_chunk_def split: option.splits\<close>)

lemma join_sim:
  assumes inv: "registry_inv ctx" and wid: "length wid \<le> 63"
  shows "abs_roster (state (reg_exec (RegJoin wid tr caps now_ms) ctx))
       = roster_exec (RegJoin wid tr caps now_ms) (abs_roster (state ctx))"
proof (cases "lookup_by worker_id wid (records (state ctx))")
  case (Some r)
  then show ?thesis
    by (simp add: vom_registry_on_worker_join_def lookup_by_ex abs_roster_update rejoin_record_def dom_member_abs)
next
  case None
  have "new_record wid tr caps now_ms = \<lparr>worker_id = wid, transport_endpoint = take 63 tr, status = REG_STATUS_APPROVED,
      last_seen_ms = now_ms, capabilities = caps, active_chunk_ids = []\<rparr>"
    using wid by (simp add: new_record_def c_strncpy_def)
  with None inv show ?thesis
    by (auto simp: vom_registry_on_worker_join_def lookup_by_ex enrol_def update_member_def dom_member_abs card_member_abs
        abs_roster_def registry_inv_card lookup_by_append fun_eq_iff split: option.splits)
qed

lemma untrack_sim:
  assumes inv: "registry_inv ctx"
  shows "abs_roster (state (reg_exec (RegUntrack wid cid) ctx)) = roster_exec (RegUntrack wid cid) (abs_roster (state ctx))"
proof (cases "\<exists>r. lookup_by worker_id wid (records (state ctx)) = Some r \<and> cid \<in> set (active_chunk_ids r)")
  case True
  then obtain r where r: "lookup_by worker_id wid (records (state ctx)) = Some r" "cid \<in> set (active_chunk_ids r)" by blast
  have "upd_record (\<lambda>r. worker_id r = wid \<and> cid \<in> set (active_chunk_ids r)) f ctx
      = upd_record (\<lambda>r. worker_id r = wid) f ctx" for f
    using upd_has_chunk [OF registry_inv_distinct [OF inv] r] by (simp add: upd_record_def)
  with r inv show ?thesis
    by (simp add: vom_registry_untrack_chunk_def Let_def has_chunk_lookup registry_inv_distinct abs_roster_update
        del_first_remove1)
qed (use inv in \<open>auto simp: vom_registry_untrack_chunk_def Let_def has_chunk_lookup registry_inv_distinct\<close>)

lemma touch_effect: "touch_record caps now_ms = member_effect (RegHeartbeat wid caps now_ms)"
proof
  show "touch_record caps now_ms r = member_effect (RegHeartbeat wid caps now_ms) r" for r
    by (cases r) (simp add: touch_record_def)
qed

lemma sweep_sim:
  assumes inv: "registry_inv ctx"
  shows "abs_roster (state (reg_exec (RegSweep now_ms timeout_ms m) ctx))
       = roster_exec (RegSweep now_ms timeout_ms m) (abs_roster (state ctx))"
proof (cases "m > 0")
  case True
  have "length (filter (stale_member now_ms timeout_ms (abs_roster (state ctx))) (seniority (abs_roster (state ctx))))
      = length (filter (is_stale now_ms timeout_ms) (records (state ctx)))"
    by (simp add: stale_seniority registry_inv_distinct [OF inv])
  moreover have "map worker_id (map (swept now_ms timeout_ms) rs) = map worker_id rs" for rs by simp
  moreover have "lookup_by worker_id k (map (swept now_ms timeout_ms) rs)
      = map_option (member_effect (RegSweep now_ms timeout_ms m)) (lookup_by worker_id k rs)" for k rs
    unfolding swept_effect [symmetric, of now_ms timeout_ms m] by (rule lookup_by_map) simp
  ultimately show ?thesis using True
    by (simp add: registry_sweep_eq abs_roster_def del: member_effect.simps map_map)
qed (simp add: vom_registry_sweep_stale_def)

lemma registry_exec_sim:
  assumes inv: "registry_inv ctx" and "reg_valid e"
  shows "abs_roster (state (reg_exec e ctx)) = roster_exec e (abs_roster (state ctx))"
proof (cases e)
  case (RegJoin wid tr caps now_ms)
  with assms show ?thesis using join_sim by simp
next
  case (RegUntrack wid cid)
  with inv show ?thesis using untrack_sim by simp
next
  case (RegSweep now_ms timeout_ms m)
  with inv show ?thesis using sweep_sim by simp
next
  case RegAcquire
  then show ?thesis by (simp add: registry_ring.acquire_current)
next
  case (RegRelease i)
  then show ?thesis by (simp add: registry_ring.release_current)
next
  case (RegHeartbeat wid caps now_ms)
  then show ?thesis
    by (cases "lookup_by worker_id wid (records (state ctx))")
      (simp_all add: vom_registry_on_worker_heartbeat_def lookup_by_ex abs_roster_update touch_effect [of _ _ wid] dom_member_abs)
next
  case (RegLeave wid)
  then show ?thesis
    by (cases "lookup_by worker_id wid (records (state ctx))")
      (simp_all add: vom_registry_on_worker_leave_def lookup_by_ex abs_roster_update dom_member_abs)
next
  case (RegTrack wid cid)
  then show ?thesis
    by (cases "lookup_by worker_id wid (records (state ctx))")
      (simp_all add: vom_registry_track_chunk_def abs_roster_update)
qed

interpretation registry_store: guarded_simulation registry_inv reg_valid "\<lambda>ctx. abs_roster (state ctx)"
  reg_exec registry_answer roster_exec roster_answer
  by unfold_locales (simp_all add: reg_exec_inv registry_exec_sim registry_answer_sim)

lemma abs_registry_boot: "abs_roster (state registry_boot) = empty_roster"
  by (simp add: registry_boot_def vom_registry_create_def abs_roster_def empty_roster_def)

text \<open>
  C3: The registry refines the specification: after every history of joins (of identifiers of at most 63 characters),
  heartbeats, leaves, chunk tracking, sweeps and snapshot calls, reading its table by identifier gives the roster of
  the specification after the same history, and every operation of the history gave the answer of the specification:
  the success of the updates, the identifiers each sweep reported, the roster each acquired snapshot showed.
\<close>

theorem registry_refines_spec:
  assumes "list_all reg_valid es"
  shows "abs_roster (state (fold reg_exec es registry_boot)) = fold roster_exec es empty_roster
    \<and> answers_of registry_answer reg_exec es registry_boot = answers_of roster_answer roster_exec es empty_roster"
  using registry_store.valid_run_sim [OF registry_boot_inv assms]
    registry_store.valid_run_answers [OF registry_boot_inv assms] by (simp add: abs_registry_boot)

definition demo_history :: "reg_event list" where
  "demo_history = [RegJoin ''worker-1'' ''tcp'' demo_caps 10, RegHeartbeat ''worker-2'' demo_caps 20, RegTrack ''worker-1'' 7,
     RegSweep 100 60 8, RegHeartbeat ''worker-1'' demo_caps 120, RegAcquire]"

theorem registry_refines_spec_witness:
  "map (\<lambda>a. case a of RegView _ \<Rightarrow> RegReleased | _ \<Rightarrow> a) (answers_of registry_answer reg_exec demo_history registry_boot)
     = [RegOk True, RegOk False, RegOk True, RegDead [''worker-1''], RegOk True, RegReleased]
   \<and> map_option status (lookup_by worker_id ''worker-1'' (records (state (fold reg_exec demo_history registry_boot))))
     = Some REG_STATUS_HEALTHY"
proof -
  have v: "list_all reg_valid demo_history" by (simp add: demo_history_def)
  have "map (\<lambda>a. case a of RegView _ \<Rightarrow> RegReleased | _ \<Rightarrow> a) (answers_of roster_answer roster_exec demo_history empty_roster)
      = [RegOk True, RegOk False, RegOk True, RegDead [''worker-1''], RegOk True, RegReleased]"
    "map_option status (member (fold roster_exec demo_history empty_roster) ''worker-1'') = Some REG_STATUS_HEALTHY"
    by (simp_all add: demo_history_def empty_roster_def enrol_def update_member_def stale_member_def domIff)
  then show ?thesis using registry_refines_spec [OF v] by (metis member_abs)
qed

section \<open>What is recorded of a worker\<close>

text \<open>
  The record of one worker as a function of the events that name it and of the sweeps, with no table: its first join
  creates it, later ones and every other event apply their effect, subject to the limit of tracked chunks.
\<close>

fun own_guard :: "reg_event \<Rightarrow> WorkerRecord \<Rightarrow> bool" where
  "own_guard (RegTrack wid cid) r \<longleftrightarrow> length (active_chunk_ids r) < 32"
| "own_guard (RegUntrack wid cid) r \<longleftrightarrow> cid \<in> set (active_chunk_ids r)"
| "own_guard (RegSweep now_ms timeout_ms m) r \<longleftrightarrow> 0 < m"
| "own_guard _ r \<longleftrightarrow> True"

fun concerns :: "string \<Rightarrow> reg_event \<Rightarrow> bool" where
  "concerns wid (RegSweep now_ms timeout_ms m) \<longleftrightarrow> True"
| "concerns wid e \<longleftrightarrow> names_worker e = Some wid"

fun first_record :: "reg_event \<Rightarrow> WorkerRecord option" where
  "first_record (RegJoin wid tr caps now_ms) =
     Some \<lparr>worker_id = wid, transport_endpoint = take 63 tr, status = REG_STATUS_APPROVED,
       last_seen_ms = now_ms, capabilities = caps, active_chunk_ids = []\<rparr>"
| "first_record _ = None"

definition own_step :: "string \<Rightarrow> reg_event \<Rightarrow> WorkerRecord option \<Rightarrow> WorkerRecord option" where
  "own_step wid e m =
     (if \<not> concerns wid e then m
      else (case m of None \<Rightarrow> first_record e
            | Some r \<Rightarrow> Some (if own_guard e r then member_effect e r else r)))"

definition own_record :: "string \<Rightarrow> reg_event list \<Rightarrow> WorkerRecord option" where
  "own_record wid es = fold (own_step wid) es None"

text \<open>A full roster stays full, so that a worker it has turned away stays outside.\<close>

definition turned_away :: "string \<Rightarrow> roster \<Rightarrow> bool" where
  "turned_away wid d \<longleftrightarrow> member d wid = None \<and> 64 \<le> card (dom (member d))"

lemma sweep_dom:
  "dom (\<lambda>wid. map_option f (member d wid)) = dom (member d)"
  by (auto simp: domIff)

lemma update_known_dom: "member d wid = Some r \<Longrightarrow> dom (member (update_member wid r' d)) = dom (member d)"
  by (auto simp: update_member_def)

lemma roster_exec_full:
  assumes "turned_away wid d"
  shows "turned_away wid (roster_exec e d)"
  using assms
  by (cases e) (auto simp: turned_away_def sweep_dom update_known_dom enrol_def update_member_def insert_absorb [OF domI]
      split: option.split)

lemma roster_exec_own:
  assumes "\<not> turned_away wid (roster_exec e d)" "\<not> turned_away wid d"
  shows "member (roster_exec e d) wid = own_step wid e (member d wid)"
  using assms
  by (cases e; cases "member d wid")
    (auto simp: own_step_def turned_away_def update_member_def enrol_def domIff split: option.splits)

lemma roster_own_record:
  "member (fold roster_exec es d) wid = fold (own_step wid) es (member d wid) \<or> turned_away wid (fold roster_exec es d)"
  if "\<not> turned_away wid d"
  using that
proof (induction es arbitrary: d)
  case (Cons e es)
  show ?case
  proof (cases "turned_away wid (roster_exec e d)")
    case True
    have "turned_away wid (fold roster_exec es d')" if "turned_away wid d'" for d'
      using that by (induction es arbitrary: d') (simp_all add: roster_exec_full)
    with True show ?thesis by simp
  next
    case False
    with Cons show ?thesis using roster_exec_own [OF False Cons.prems] by fastforce
  qed
qed simp

text \<open>
  C22: What the registry knows of a worker is a function of the worker's own history: after every history in which
  join requests have identifiers of at most 63 characters (longer ones are stored truncated), its record is the one computed from the events that name it and the sweeps alone, in their order, whatever
  the other workers did; the only exception is a worker the full table of 64 turned away, of which it knows nothing.
\<close>

theorem registry_records_own_history:
  assumes "list_all reg_valid es"
  defines "rs \<equiv> records (state (fold reg_exec es registry_boot))"
  shows "lookup_by worker_id wid rs = own_record wid es
    \<or> lookup_by worker_id wid rs = None \<and> length rs = REG_MAX_WORKERS"
proof -
  have inv: "registry_inv (fold reg_exec es registry_boot)"
    by (rule registry_store.valid_run_inv [OF registry_boot_inv assms(1)])
  have "abs_roster (state (fold reg_exec es registry_boot)) = fold roster_exec es empty_roster"
    using registry_store.valid_run_sim [OF registry_boot_inv assms(1)] by (simp add: abs_registry_boot)
  moreover have "\<not> turned_away wid empty_roster" "member empty_roster wid = None"
    by (simp_all add: turned_away_def empty_roster_def)
  ultimately have "lookup_by worker_id wid rs = own_record wid es
      \<or> turned_away wid (abs_roster (state (fold reg_exec es registry_boot)))"
    using roster_own_record [of wid empty_roster es] unfolding own_record_def rs_def by (metis member_abs)
  then show ?thesis using inv
    by (auto simp: turned_away_def card_member_abs [OF inv] rs_def registry_inv_def table_ok_def)
qed

theorem registry_records_own_history_witness:
  "lookup_by worker_id ''worker-1'' (records (state (fold reg_exec demo_history registry_boot)))
     = own_record ''worker-1'' demo_history
   \<and> map_option last_seen_ms (own_record ''worker-1'' demo_history) = Some 120"
proof -
  have v: "list_all reg_valid demo_history" by (simp add: demo_history_def)
  have "length (records (state (fold reg_exec demo_history registry_boot))) \<noteq> REG_MAX_WORKERS"
  proof -
    have "seniority (fold roster_exec demo_history empty_roster) = [''worker-1'']"
      by (simp add: demo_history_def empty_roster_def enrol_def update_member_def domIff)
    then have "seniority (abs_roster (state (fold reg_exec demo_history registry_boot))) = [''worker-1'']"
      using registry_store.valid_run_sim [OF registry_boot_inv v] by (simp add: abs_registry_boot)
    then show ?thesis by (auto simp: abs_roster_def)
  qed
  then show ?thesis using registry_records_own_history [OF v, of "''worker-1''"]
    by (auto simp: own_record_def own_step_def demo_history_def)
qed

end
