(* ===== verification/Endpoints.thy ===== *)
theory Endpoints
  imports Router Transport
begin

text \<open>
  The lifetime of the sockets of the two endpoints, the master's router (\<^verbatim>\<open>master/src/router.c\<close>) and the
  worker's transport (\<^verbatim>\<open>worker/src/transport.c\<close>): what their operations, their destructors and their
  test suites open and close.

  The contexts are those of theories \<open>Router\<close> and \<open>Transport\<close>, where a socket is present or not; here the calls
  to the ZeroMQ library that open and close sockets are counted. Both endpoints satisfy the contract
  \<open>endpoint_lifetime\<close>: the only step that loses a socket is one that opens a socket while it holds one.

  Proved: over any calls and a final destruction, the sockets opened are those closed and, beyond them, exactly one for each
  time the endpoint was started or connected while it held a socket. The router can only be started once
  without losing a socket, since stopping it keeps the socket.
\<close>

section \<open>Calls\<close>

datatype zmq_call = SockOpen | SockClose | CtxDestroy

definition opens :: "zmq_call list \<Rightarrow> nat" where
  "opens cs = count_list cs SockOpen"

definition closes :: "zmq_call list \<Rightarrow> nat" where
  "closes cs = count_list cs SockClose"

lemma opens_closes_simps [simp]:
  "opens [] = 0" "closes [] = 0" "opens (c # cs) = (if c = SockOpen then Suc (opens cs) else opens cs)"
  "closes (c # cs) = (if c = SockClose then Suc (closes cs) else closes cs)"
  "opens (cs @ ds) = opens cs + opens ds" "closes (cs @ ds) = closes cs + closes ds"
  by (simp_all add: opens_def closes_def)

text \<open>The calls of a history of steps, and the steps that open a socket while one is held.\<close>

fun history_calls :: "('e \<Rightarrow> 's \<Rightarrow> zmq_call list) \<Rightarrow> ('e \<Rightarrow> 's \<Rightarrow> 's) \<Rightarrow> 'e list \<Rightarrow> 's \<Rightarrow> zmq_call list" where
  "history_calls calls exec [] s = []"
| "history_calls calls exec (e # es) s = calls e s @ history_calls calls exec es (exec e s)"

fun lost_sockets :: "('s \<Rightarrow> bool) \<Rightarrow> ('e \<Rightarrow> bool) \<Rightarrow> ('e \<Rightarrow> 's \<Rightarrow> 's) \<Rightarrow> 'e list \<Rightarrow> 's \<Rightarrow> nat" where
  "lost_sockets has_sock takes_sock exec [] s = 0"
| "lost_sockets has_sock takes_sock exec (e # es) s =
     of_bool (takes_sock e \<and> has_sock s) + lost_sockets has_sock takes_sock exec es (exec e s)"

definition destroy_calls :: "bool \<Rightarrow> zmq_call list" where
  "destroy_calls sock = (if sock then [SockClose] else []) @ [CtxDestroy]"

locale endpoint_lifetime =
  fixes has_sock :: "'s \<Rightarrow> bool" and takes_sock :: "'e \<Rightarrow> bool"
    and exec :: "'e \<Rightarrow> 's \<Rightarrow> 's" and calls :: "'e \<Rightarrow> 's \<Rightarrow> zmq_call list"
  assumes balance: "opens (calls e s) + of_bool (has_sock s) =
      closes (calls e s) + of_bool (has_sock (exec e s)) + of_bool (takes_sock e \<and> has_sock s)"
begin

lemma history_balance:
  "opens (history_calls calls exec es s) + of_bool (has_sock s) =
     closes (history_calls calls exec es s) + of_bool (has_sock (fold exec es s)) + lost_sockets has_sock takes_sock exec es s"
proof (induction es arbitrary: s)
  case (Cons e es)
  show ?case using balance [of e s] Cons.IH [of "exec e s"] by simp
qed simp

lemma destroyed_balance:
  assumes "\<not> has_sock s"
  shows "opens (history_calls calls exec es s @ destroy_calls (has_sock (fold exec es s))) =
     closes (history_calls calls exec es s @ destroy_calls (has_sock (fold exec es s))) + lost_sockets has_sock takes_sock exec es s"
  using history_balance [of es s] assms by (simp add: destroy_calls_def)

end

section \<open>The router\<close>

datatype router_event =
    RtStart "string option" bool bool
  | RtStop
  | RtSend "string option" u16 "bytes option" nat u64 bytes "int \<times> int \<times> int"

fun router_exec :: "router_event \<Rightarrow> vom_master_router_context \<Rightarrow> vom_master_router_context" where
  "router_exec (RtStart endpoint socket_ok bind_ok) ctx = snd (vom_master_router_start endpoint socket_ok bind_ok ctx)"
| "router_exec RtStop ctx = vom_master_router_stop ctx"
| "router_exec (RtSend wid code payload len now_ms stale rcs) ctx =
     snd (snd (vom_master_router_send_to_worker wid code payload len now_ms stale rcs ctx))"

definition router_has_sock :: "vom_master_router_context \<Rightarrow> bool" where
  "router_has_sock ctx = (Router.zmq_sock ctx \<noteq> None)"

fun router_calls :: "router_event \<Rightarrow> vom_master_router_context \<Rightarrow> zmq_call list" where
  "router_calls (RtStart endpoint socket_ok bind_ok) ctx =
     (if endpoint = None \<or> \<not> socket_ok then [] else if \<not> bind_ok then [SockOpen, SockClose] else [SockOpen])"
| "router_calls _ ctx = []"

fun router_takes_sock :: "router_event \<Rightarrow> bool" where
  "router_takes_sock (RtStart endpoint socket_ok bind_ok) = (endpoint \<noteq> None)"
| "router_takes_sock _ = False"

definition vom_master_router_destroy :: "vom_master_router_context option \<Rightarrow> zmq_call list" where
  "vom_master_router_destroy ctx = (case ctx of None \<Rightarrow> [] | Some c \<Rightarrow> destroy_calls (router_has_sock c))"

lemma router_send_sock:
  "Router.zmq_sock (snd (snd (vom_master_router_send_to_worker wid code payload len now_ms stale rcs ctx))) = Router.zmq_sock ctx"
  by (auto simp: vom_master_router_send_to_worker_def Let_def split: option.split prod.split)

interpretation router_endpoint: endpoint_lifetime router_has_sock router_takes_sock router_exec router_calls
proof
  show "opens (router_calls e s) + of_bool (router_has_sock s) =
      closes (router_calls e s) + of_bool (router_has_sock (router_exec e s)) + of_bool (router_takes_sock e \<and> router_has_sock s)" for e s
    by (cases e) (auto simp: vom_master_router_start_def vom_master_router_stop_def router_send_sock router_has_sock_def)
qed

section \<open>The transport\<close>

text \<open>\<open>TpSession code\<close> is what a poll does to the context when it accepts a message with this code.\<close>

datatype transport_event =
    TpConfigure "vom_transport_config_t option"
  | TpConnect "string option" bool bool
  | TpDisconnect
  | TpSend u16 "bytes option" nat u64 bytes int
  | TpSession u16

fun transport_exec :: "transport_event \<Rightarrow> vom_worker_transport_context \<Rightarrow> vom_worker_transport_context" where
  "transport_exec (TpConfigure cfg) ctx = snd (vom_worker_transport_configure cfg ctx)"
| "transport_exec (TpConnect endpoint socket_ok connect_ok) ctx =
     snd (snd (vom_worker_transport_connect endpoint socket_ok connect_ok ctx))"
| "transport_exec TpDisconnect ctx = snd (vom_worker_transport_disconnect ctx)"
| "transport_exec (TpSend code payload len now_ms stale rc) ctx =
     snd (snd (vom_worker_transport_send code payload len now_ms stale rc ctx))"
| "transport_exec (TpSession code) ctx = snd (session_event code ctx)"

fun transport_calls :: "transport_event \<Rightarrow> vom_worker_transport_context \<Rightarrow> zmq_call list" where
  "transport_calls (TpConnect endpoint socket_ok connect_ok) ctx =
     (if endpoint = None \<or> \<not> socket_ok then [] else if \<not> connect_ok then [SockOpen, SockClose] else [SockOpen])"
| "transport_calls TpDisconnect ctx = (if Transport.zmq_sock ctx then [SockClose] else [])"
| "transport_calls _ ctx = []"

fun transport_takes_sock :: "transport_event \<Rightarrow> bool" where
  "transport_takes_sock (TpConnect endpoint socket_ok connect_ok) = (endpoint \<noteq> None)"
| "transport_takes_sock _ = False"

definition vom_worker_transport_destroy :: "vom_worker_transport_context option \<Rightarrow> zmq_call list" where
  "vom_worker_transport_destroy ctx = (case ctx of None \<Rightarrow> [] | Some c \<Rightarrow> destroy_calls (Transport.zmq_sock c))"

interpretation transport_endpoint: endpoint_lifetime Transport.zmq_sock transport_takes_sock transport_exec transport_calls
proof
  show "opens (transport_calls e s) + of_bool (Transport.zmq_sock s) =
      closes (transport_calls e s) + of_bool (Transport.zmq_sock (transport_exec e s))
      + of_bool (transport_takes_sock e \<and> Transport.zmq_sock s)" for e s
    by (cases e) (auto simp: vom_worker_transport_configure_def vom_worker_transport_connect_def
        vom_worker_transport_disconnect_def vom_worker_transport_send_def session_event_def Let_def split: option.split)
qed

section \<open>Sockets lost\<close>

text \<open>
  C35: Over any calls of the router and of the transport, failing ones included, followed by the destruction of the
  endpoint, the sockets opened are those closed plus one for each start or connect that was made while the endpoint
  still held a socket.
\<close>

theorem endpoints_lose_reopened_sockets:
  assumes "vom_master_router_create True True = Some r" "vom_worker_transport_create True True = Some w"
  shows "(let cs = history_calls router_calls router_exec es r @ vom_master_router_destroy (Some (fold router_exec es r))
     in opens cs = closes cs + lost_sockets router_has_sock router_takes_sock router_exec es r)
   \<and> (let cs = history_calls transport_calls transport_exec fs w @ vom_worker_transport_destroy (Some (fold transport_exec fs w))
     in opens cs = closes cs + lost_sockets Transport.zmq_sock transport_takes_sock transport_exec fs w)"
proof -
  have "\<not> router_has_sock r" "\<not> Transport.zmq_sock w"
    using assms by (auto simp: router_has_sock_def vom_master_router_create_def vom_worker_transport_create_def)
  with router_endpoint.destroyed_balance [of r es] transport_endpoint.destroyed_balance [of w fs] show ?thesis
    by (simp add: vom_master_router_destroy_def vom_worker_transport_destroy_def Let_def)
qed

text \<open>The history of the witness stops the router and starts it again, and connects the transport twice.\<close>

theorem endpoints_lose_reopened_sockets_witness:
  "let r = the (vom_master_router_create True True); w = the (vom_worker_transport_create True True);
       es = [RtStart (Some ''tcp://127.0.0.1:6555'') True True, RtStop, RtStart (Some ''tcp://127.0.0.1:6555'') True False];
       fs = [TpConnect (Some ''tcp://127.0.0.1:5555'') True True, TpConnect (Some ''tcp://127.0.0.1:5555'') True True];
       cs = history_calls router_calls router_exec es r @ vom_master_router_destroy (Some (fold router_exec es r));
       ds = history_calls transport_calls transport_exec fs w @ vom_worker_transport_destroy (Some (fold transport_exec fs w))
   in opens cs = closes cs + 1 \<and> opens ds = closes ds + 1"
proof -
  obtain r w where rw: "vom_master_router_create True True = Some r" "vom_worker_transport_create True True = Some w"
    by (simp add: vom_master_router_create_def vom_worker_transport_create_def)
  let ?es = "[RtStart (Some ''tcp://127.0.0.1:6555'') True True, RtStop, RtStart (Some ''tcp://127.0.0.1:6555'') True False]"
  let ?fs = "[TpConnect (Some ''tcp://127.0.0.1:5555'') True True, TpConnect (Some ''tcp://127.0.0.1:5555'') True True]"
  have "lost_sockets router_has_sock router_takes_sock router_exec ?es r = 1"
    "lost_sockets Transport.zmq_sock transport_takes_sock transport_exec ?fs w = 1"
    using rw by (auto simp: router_has_sock_def vom_master_router_create_def vom_worker_transport_create_def vom_master_router_start_def
        vom_master_router_stop_def vom_worker_transport_connect_def)
  with endpoints_lose_reopened_sockets [OF rw, of ?es ?fs] rw show ?thesis by (simp add: Let_def)
qed

section \<open>A reply socket between the two modules\<close>

text \<open>
  The router's socket is a reply socket. Of its documented behaviour the lemma below uses, as hypotheses on
  parameters: while no request is being answered (\<open>waiting\<close>), a message without an empty frame is dropped,
  \<open>zmq_recv\<close> then finds nothing, and \<open>zmq_send\<close> is refused (\<open>EFSM\<close>). \<open>arrive\<close> is the arrival
  of a peer's message, \<open>send_rcs\<close> the results of three sends.
\<close>

definition reply_socket ::
  "'s zmq_recv \<Rightarrow> (bytes list \<Rightarrow> 's \<Rightarrow> 's) \<Rightarrow> ('s \<Rightarrow> int \<times> int \<times> int) \<Rightarrow> ('s \<Rightarrow> bool) \<Rightarrow> bool" where
  "reply_socket recv arrive send_rcs waiting \<longleftrightarrow> (\<forall>s. waiting s \<longrightarrow>
     (\<forall>fs. [] \<notin> set fs \<longrightarrow> waiting (arrive fs s))
     \<and> (\<forall>n. fst (recv n s) < 0 \<and> waiting (snd (snd (recv n s))))
     \<and> fst (send_rcs s) < 0)"

datatype exchange =
    XTransport u16 "bytes option" nat u64 bytes int
  | XRound
  | XReply "string option" u16 "bytes option" nat u64 bytes

record 's exchange_state =
  x_router :: vom_master_router_context
  x_transport :: vom_worker_transport_context
  x_sock :: 's

text \<open>What a step of the two modules over the socket dispatches, reports and puts on the wire, and the state after it.\<close>

fun exchange_step ::
  "'s zmq_recv \<Rightarrow> ('s \<Rightarrow> int \<times> int) \<Rightarrow> (bytes list \<Rightarrow> 's \<Rightarrow> 's) \<Rightarrow> ('s \<Rightarrow> int \<times> int \<times> int) \<Rightarrow> exchange
   \<Rightarrow> 's exchange_state \<Rightarrow> (nat \<times> 's exchange_state) option" where
  "exchange_step recv rcvmore arrive send_rcs (XTransport code payload len now_ms stale rc) x =
     (let (st, fr, w) = vom_worker_transport_send code payload len now_ms stale rc (x_transport x)
      in Some (0, x\<lparr>x_transport := w, x_sock := (if fr = [] then x_sock x else arrive (map fst fr) (x_sock x))\<rparr>))"
| "exchange_step recv rcvmore arrive send_rcs XRound x =
     (case vom_master_router_run_once recv rcvmore (x_router x) (x_sock x) of
        None \<Rightarrow> None
      | Some (out, s) \<Rightarrow> Some (length (out_events out) + length (out_dispatch out), x\<lparr>x_sock := s\<rparr>))"
| "exchange_step recv rcvmore arrive send_rcs (XReply wid code payload len now_ms stale) x =
     (let (st, fr, r) = vom_master_router_send_to_worker wid code payload len now_ms stale (send_rcs (x_sock x)) (x_router x)
      in Some (length fr, x\<lparr>x_router := r\<rparr>))"

fun exchange_run ::
  "'s zmq_recv \<Rightarrow> ('s \<Rightarrow> int \<times> int) \<Rightarrow> (bytes list \<Rightarrow> 's \<Rightarrow> 's) \<Rightarrow> ('s \<Rightarrow> int \<times> int \<times> int) \<Rightarrow> exchange list
   \<Rightarrow> 's exchange_state \<Rightarrow> (nat \<times> 's exchange_state) option" where
  "exchange_run recv rcvmore arrive send_rcs [] x = Some (0, x)"
| "exchange_run recv rcvmore arrive send_rcs (e # es) x =
     (case exchange_step recv rcvmore arrive send_rcs e x of
        None \<Rightarrow> None
      | Some (n, y) \<Rightarrow>
          (case exchange_run recv rcvmore arrive send_rcs es y of None \<Rightarrow> None | Some (m, z) \<Rightarrow> Some (n + m, z)))"

lemma transport_frames_nonempty:
  "vom_worker_transport_send code payload len now_ms stale rc ctx = (st, fr, w) \<Longrightarrow> [] \<notin> set (map fst fr)"
proof -
  have "encode_env env \<noteq> []" for env using length_encode_env [of env] by (auto simp: ENVELOPE_SIZE_def simp del: length_encode_env)
  then show "vom_worker_transport_send code payload len now_ms stale rc ctx = (st, fr, w) \<Longrightarrow> [] \<notin> set (map fst fr)"
    by (auto simp: vom_worker_transport_send_def Let_def split: if_splits option.splits)
qed

lemma exchange_step_silent:
  assumes "reply_socket recv arrive send_rcs waiting" "waiting (x_sock x)"
  shows "\<exists>y. exchange_step recv rcvmore arrive send_rcs e x = Some (0, y) \<and> waiting (x_sock y)"
proof (cases e)
  case (XTransport code payload len now_ms stale rc)
  obtain st fr w where t: "vom_worker_transport_send code payload len now_ms stale rc (x_transport x) = (st, fr, w)"
    by (metis prod_cases3)
  show ?thesis using transport_frames_nonempty [OF t] assms t XTransport by (auto simp: reply_socket_def)
next
  case XRound
  obtain n b s where r: "recv (ROUTER_ID_MAX_LEN - 1) (x_sock x) = (n, b, s)" by (metis prod_cases3)
  have "n < 0" "waiting s" using assms r unfolding reply_socket_def by (metis fst_conv snd_conv)+
  then show ?thesis using XRound r assms(2) by (auto simp: vom_master_router_run_once_def refuse_def)
next
  case (XReply wid code payload len now_ms stale)
  have "fst (send_rcs (x_sock x)) < 0" using assms by (simp add: reply_socket_def)
  then show ?thesis using XReply assms(2)
    by (auto simp: vom_master_router_send_to_worker_def Let_def split: option.split prod.split)
qed

text \<open>
  So the two modules cannot talk: once the router is started, however often the worker's transport sends, the
  router polls and the master sends, nothing is dispatched, no event is reported and no frame goes out.
\<close>

lemma reply_socket_silent:
  assumes "vom_master_router_start (Some endpoint) True True r = (ROUTER_STATUS_SUCCESS, x_router x)"
    and "Router.zmq_sock (x_router x) = Some 4 \<Longrightarrow> reply_socket recv arrive send_rcs waiting"
    and "waiting (x_sock x)"
  shows "\<exists>y. exchange_run recv rcvmore arrive send_rcs es x = Some (0, y) \<and> waiting (x_sock y)"
proof -
  have "x_router x = r\<lparr>vom_master_router_context.zmq_sock := Some 4, is_running := True\<rparr>"
    using assms(1) by (simp add: vom_master_router_start_def)
  then have z: "reply_socket recv arrive send_rcs waiting" by (intro assms(2)) simp
  from assms(3) show ?thesis
  proof (induction es arbitrary: x)
    case (Cons e es)
    obtain y where y: "exchange_step recv rcvmore arrive send_rcs e x = Some (0, y)" "waiting (x_sock y)"
      using exchange_step_silent [OF z Cons.prems] by blast
    with Cons.IH [OF y(2)] show ?case by auto
  qed auto
qed

section \<open>The test suites\<close>

fun router_event_number :: "VomRouterEvent \<Rightarrow> nat" where
  "router_event_number ROUTER_EVENT_WORKER_JOINED = 0"
| "router_event_number ROUTER_EVENT_WORKER_HEARTBEAT = 1"
| "router_event_number ROUTER_EVENT_CHUNK_PROGRESS = 2"
| "router_event_number ROUTER_EVENT_CHUNK_RESULT = 3"
| "router_event_number ROUTER_EVENT_WORKER_FAILURE = 4"
| "router_event_number ROUTER_EVENT_CLI_CONTROL_REQ = 5"
| "router_event_number ROUTER_EVENT_TRANSPORT_FAULT = 6"

definition vom_mock_router_msg_dispatch :: "string \<times> vom_router_envelope_t \<times> bytes \<Rightarrow> string" where
  "vom_mock_router_msg_dispatch m =
     (case m of (wid, env, payload) \<Rightarrow>
        ''[DISPATCH] Worker: '' @ wid @ '', MsgCode: '' @ c_decimal (unat (message_code env))
        @ '', Size: '' @ c_decimal (unat (payload_length env)) @ [CHR 0x0A])"

definition vom_mock_router_event_dispatch :: "string \<times> VomRouterEvent \<Rightarrow> string" where
  "vom_mock_router_event_dispatch m =
     ''[EVENT] Worker: '' @ fst m @ '', EventID: '' @ c_decimal (router_event_number (snd m)) @ [CHR 0x0A]"

definition verdict :: "string \<Rightarrow> bool \<Rightarrow> string" where
  "verdict name ok = name @ '': '' @ (if ok then ''PASS'' else ''FAIL'') @ [CHR 0x0A]"

text \<open>The lines printed and the socket calls; no result when the receiving round faults. \<open>giant\<close> is the uninitialised buffer.\<close>

definition execute_router_test_suite ::
  "bool \<Rightarrow> bool \<Rightarrow> bool \<Rightarrow> bool \<Rightarrow> bytes \<Rightarrow> 's zmq_recv \<Rightarrow> ('s \<Rightarrow> int \<times> int) \<Rightarrow> 's \<Rightarrow> (string list \<times> zmq_call list) option" where
  "execute_router_test_suite calloc_ok ctx_ok socket_ok bind_ok giant recv rcvmore s =
     (case vom_master_router_create calloc_ok ctx_ok of
        None \<Rightarrow> Some ([verdict ''Test Init'' False, verdict ''Test Limit'' False], vom_master_router_destroy None)
      | Some broker \<Rightarrow>
          (let start = RtStart (Some ''tcp://127.0.0.1:6555'') socket_ok bind_ok;
               (rc_start, b1) = vom_master_router_start (Some ''tcp://127.0.0.1:6555'') socket_ok bind_ok broker;
               (rc_size, fr, b2) = vom_master_router_send_to_worker (Some ''worker-node-01'') ROUTER_MSG_CHUNK_ASSIGN (Some giant)
                                     (ROUTER_PAYLOAD_MAX_LEN + 100) 0 [] (0, 0, 0) b1
           in case vom_master_router_run_once recv rcvmore b2 s of
                None \<Rightarrow> None
              | Some (out, s') \<Rightarrow>
                  Some ([verdict ''Test Init'' (rc_start = ROUTER_STATUS_SUCCESS), verdict ''Test Limit'' (rc_size = ROUTER_STATUS_ERR_SIZE)]
                        @ map vom_mock_router_event_dispatch (out_events out) @ map vom_mock_router_msg_dispatch (out_dispatch out),
                        router_calls start broker @ vom_master_router_destroy (Some (vom_master_router_stop b2)))))"

fun transport_event_number :: "VomTransportEvent \<Rightarrow> nat" where
  "transport_event_number TRANS_EVENT_CONNECTED = 0"
| "transport_event_number TRANS_EVENT_AUTHENTICATED = 1"
| "transport_event_number TRANS_EVENT_JOINED = 2"
| "transport_event_number TRANS_EVENT_HEARTBEAT_SENT = 3"
| "transport_event_number TRANS_EVENT_HEARTBEAT_ACKED = 4"
| "transport_event_number TRANS_EVENT_DISCONNECTED = 5"
| "transport_event_number TRANS_EVENT_RECONNECTING = 6"
| "transport_event_number TRANS_EVENT_ERROR = 7"

definition MSG_CODE_AUTH_REQ :: u16 where "MSG_CODE_AUTH_REQ = 1"
definition MSG_CODE_CHUNK_ASSIGN :: u16 where "MSG_CODE_CHUNK_ASSIGN = 6"

definition vom_mock_msg_dispatch :: "vom_router_envelope_t \<times> bytes \<Rightarrow> string list" where
  "vom_mock_msg_dispatch m =
     [''Mock Dispatch Code parsed: '' @ c_decimal (unat (message_code (fst m))) @ '', Length: ''
        @ c_decimal (unat (payload_length (fst m))) @ [CHR 0x0A]]
     @ (if message_code (fst m) = MSG_CODE_CHUNK_ASSIGN then [''Chunk processing stream assigned.'' @ [CHR 0x0A]] else [])"

definition vom_mock_event_dispatch :: "VomTransportEvent \<Rightarrow> string" where
  "vom_mock_event_dispatch e = ''Transport Event Fired: '' @ c_decimal (transport_event_number e) @ [CHR 0x0A]"

definition transport_test_config :: vom_transport_config_t where
  "transport_test_config = \<lparr>worker_id = c_strncpy (TRANSPORT_ID_MAX_LEN - 1) ''wrk-test-fingerprint-01'', server_public_key = [],
     client_public_key = [], client_secret_key = []\<rparr>"

text \<open>The lines printed, the frames sent and the socket calls. A failed create leaves the null context, which every operation refuses.\<close>

definition execute_transport_test_suite ::
  "bool \<Rightarrow> bool \<Rightarrow> bool \<Rightarrow> bool \<Rightarrow> u64 \<Rightarrow> int \<Rightarrow> 's zmq_recv \<Rightarrow> 's \<Rightarrow> string list \<times> (bytes \<times> bool) list \<times> zmq_call list" where
  "execute_transport_test_suite calloc_ok ctx_ok socket_ok connect_ok now_ms send_rc recv s =
     (case vom_worker_transport_create calloc_ok ctx_ok of
        None \<Rightarrow> ([], [], vom_worker_transport_destroy None)
      | Some c0 \<Rightarrow>
          (let connect = TpConnect (Some ''tcp://127.0.0.1:5555'') socket_ok connect_ok;
               (_, c1) = vom_worker_transport_configure (Some transport_test_config) c0;
               (_, _, c2) = vom_worker_transport_connect (Some ''tcp://127.0.0.1:5555'') socket_ok connect_ok c1;
               (_, fr, c3) = vom_worker_transport_send MSG_CODE_AUTH_REQ (Some (string_bytes ''credentials'')) 11 now_ms [] send_rc c2;
               (out, c4, s') = vom_worker_transport_poll recv c3 s;
               (_, c5) = vom_worker_transport_disconnect c4
           in (map vom_mock_event_dispatch (poll_events out) @ concat (map vom_mock_msg_dispatch (poll_dispatch out)), fr,
               transport_calls connect c1 @ transport_calls TpDisconnect c4 @ vom_worker_transport_destroy (Some c5))))"

text \<open>
  The router's suite passes when its socket can be bound: the oversized message is refused before anything is sent; without
  a socket both verdicts are failures. Both suites close the socket they opened, whatever fails.
\<close>

lemma router_suite:
  assumes "execute_router_test_suite ca cx so bo giant recv rcvmore s = Some (out, cs)"
  shows "take 2 out = [verdict ''Test Init'' (ca \<and> cx \<and> so \<and> bo), verdict ''Test Limit'' (ca \<and> cx \<and> so \<and> bo)]
    \<and> opens cs = closes cs"
  using assms
  by (auto simp: execute_router_test_suite_def router_has_sock_def vom_master_router_create_def vom_master_router_start_def vom_master_router_stop_def
      vom_master_router_send_to_worker_def vom_master_router_destroy_def destroy_calls_def router_sizes Let_def
      split: if_splits option.splits prod.splits)

lemma poll_keeps_sock: "Transport.zmq_sock (fst (snd (vom_worker_transport_poll recv c s))) = Transport.zmq_sock c"
  by (simp add: vom_worker_transport_poll_def session_event_def Let_def split_def)

lemma transport_suite:
  assumes "execute_transport_test_suite ca cx so co now_ms rc recv s = (out, fr, cs)"
  shows "opens cs = closes cs \<and> (fr \<noteq> [] \<longleftrightarrow> ca \<and> cx \<and> so \<and> co \<and> 0 \<le> rc)"
proof (cases "vom_worker_transport_create ca cx")
  case None
  with assms show ?thesis
    by (auto simp: execute_transport_test_suite_def vom_worker_transport_destroy_def vom_worker_transport_create_def split: if_splits)
next
  case (Some c0)
  have ok: "ca \<and> cx" using Some by (simp add: vom_worker_transport_create_def split: if_splits)
  obtain st opts c2 where c2: "vom_worker_transport_connect (Some ''tcp://127.0.0.1:5555'') so co (c0\<lparr>config := transport_test_config\<rparr>) = (st, opts, c2)"
    by (metis prod_cases3)
  obtain st3 fr3 c3 where c3: "vom_worker_transport_send MSG_CODE_AUTH_REQ (Some (string_bytes ''credentials'')) 11 now_ms [] rc c2 = (st3, fr3, c3)"
    by (metis prod_cases3)
  obtain po c4 s4 where c4: "vom_worker_transport_poll recv c3 s = (po, c4, s4)" by (metis prod_cases3)
  have sock: "Transport.zmq_sock c2 = (so \<and> co)" "is_connected c2 = (so \<and> co)"
    using c2 Some by (auto simp: vom_worker_transport_connect_def vom_worker_transport_create_def split: if_splits)
  have "Transport.zmq_sock c4 = Transport.zmq_sock c3" using poll_keeps_sock [of recv c3 s] c4 by simp
  moreover have "Transport.zmq_sock c3 = Transport.zmq_sock c2" "fr3 \<noteq> [] \<longleftrightarrow> so \<and> co \<and> 0 \<le> rc"
    using c3 sock by (auto simp: vom_worker_transport_send_def transport_sizes Let_def split: if_splits)
  ultimately show ?thesis
    using assms Some c2 c3 c4 sock ok
    by (auto simp: execute_transport_test_suite_def vom_worker_transport_configure_def vom_worker_transport_disconnect_def
        vom_worker_transport_destroy_def destroy_calls_def Let_def split: if_splits)
qed

end
