(* ===== verification/Agent_Caps.thy ===== *)
theory Agent_Caps
  imports Agent
begin

text \<open>
  The capability cache of the agent as a library (\<^verbatim>\<open>agent/src/capabilities.c\<close>), for any number of client
  threads that call its functions in any order, and the refresh threads these start.

  The state is one transition system, as in theory \<open>Agent\<close> (whose program has a single client and calls each function
  once): a structure copy is one transition for each field, a thread that waits for the mutex or for another thread has
  none. Tests and writes of the flag, which the code makes without the mutex, are transitions of their own. A join of a
  thread that was never created, or was joined before, is undefined in C and ends in \<open>C_Fault\<close>.

  Proved: no snapshot any client takes is ever torn, whatever the clients and the refresh threads do; the functions that
  start and stop the refresh thread are not safe against each other.
\<close>

section \<open>State\<close>

datatype caps_pc = C_Unborn | C_Idle
  | C_InitLock | C_Init | C_InitUnlock bool | C_Create
  | C_SnapLock | C_SnapCopy nat | C_SnapUnlock
  | C_Deinit | C_Clear | C_Join | C_Wait nat | C_Fault
  | R_Test | R_Collect | R_Lock | R_Copy nat | R_Unlock | R_Sleep nat | R_Done | R_Joined

record caps_sys =
  cache :: vom_worker_capabilities
  mutex :: "nat option"
  active :: bool
  probe :: "nat option"
  pcs :: "nat \<Rightarrow> caps_pc"
  local_caps :: "nat \<Rightarrow> vom_worker_capabilities"
  answers :: "vom_worker_capabilities list"

definition goto :: "nat \<Rightarrow> caps_pc \<Rightarrow> caps_sys \<Rightarrow> caps_sys" where
  "goto i pc s = s\<lparr>pcs := (pcs s)(i := pc)\<rparr>"

definition caps_sys_info_collect :: "vom_worker_capabilities \<Rightarrow> vom_worker_capabilities" where
  "caps_sys_info_collect out = out\<lparr> arch := VOM_ARCH_X86_64, cores_online := 8, cores_total := 8,
     ram_total_mb := 16384, ram_free_mb := 8192, battery_percent := 95, is_charging := True,
     is_ac_online := True, display_attached := True, display_width := 1920, display_height := 1080,
     touch_supported := True, network_link_type := VOM_LINK_ETH, network_bandwidth_kbps := 1000000 \<rparr>"

definition caps_initial :: "nat set \<Rightarrow> caps_sys" where
  "caps_initial clients = \<lparr>cache = zero_caps, mutex = None, active = False, probe = None,
     pcs = (\<lambda>i. if i \<in> clients then C_Idle else C_Unborn), local_caps = (\<lambda>_. zero_caps), answers = []\<rparr>"

section \<open>The functions\<close>

text \<open>Each function as the transitions of thread \<open>i\<close> in it; \<open>stack\<close> is what an uninitialised local holds.\<close>

definition caps_refresh_worker_loop :: "nat \<Rightarrow> vom_worker_capabilities \<Rightarrow> caps_sys \<Rightarrow> caps_sys option" where
  "caps_refresh_worker_loop i stack s =
     (case pcs s i of
        R_Test \<Rightarrow> Some (goto i (if active s then R_Collect else R_Done) s)
      | R_Collect \<Rightarrow> Some (goto i R_Lock (s\<lparr>local_caps := (local_caps s)(i := caps_sys_info_collect stack)\<rparr>))
      | R_Lock \<Rightarrow> if mutex s = None then Some (goto i (R_Copy 0) (s\<lparr>mutex := Some i\<rparr>)) else None
      | R_Copy k \<Rightarrow> if k < caps_fields
          then Some (goto i (R_Copy (Suc k)) (s\<lparr>cache := copy_field k (local_caps s i) (cache s)\<rparr>))
          else Some (goto i R_Unlock s)
      | R_Unlock \<Rightarrow> Some (goto i (R_Sleep 0) (s\<lparr>mutex := None\<rparr>))
      | R_Sleep k \<Rightarrow> Some (goto i (if k < 30 \<and> active s then R_Sleep (Suc k) else R_Test) s)
      | _ \<Rightarrow> None)"

text \<open>\<open>child\<close> is the identity the system gives the new thread.\<close>

definition caps_init :: "nat \<Rightarrow> bool \<Rightarrow> nat \<Rightarrow> caps_sys \<Rightarrow> caps_sys option" where
  "caps_init i create_ok child s =
     (case pcs s i of
        C_InitLock \<Rightarrow> if mutex s = None then Some (goto i C_Init (s\<lparr>mutex := Some i\<rparr>)) else None
      | C_Init \<Rightarrow> if active s then Some (goto i (C_InitUnlock True) s)
          else Some (goto i (C_InitUnlock False) (s\<lparr>cache := caps_sys_info_collect (cache s), active := True\<rparr>))
      | C_InitUnlock already \<Rightarrow> Some (goto i (if already then C_Idle else C_Create) (s\<lparr>mutex := None\<rparr>))
      | C_Create \<Rightarrow> if \<not> create_ok then Some (goto i C_Idle (s\<lparr>active := False\<rparr>))
          else if pcs s child = C_Unborn then Some (goto i C_Idle (goto child R_Test (s\<lparr>probe := Some child\<rparr>)))
          else None
      | _ \<Rightarrow> None)"

definition caps_snapshot :: "nat \<Rightarrow> vom_worker_capabilities \<Rightarrow> caps_sys \<Rightarrow> caps_sys option" where
  "caps_snapshot i stack s =
     (case pcs s i of
        C_SnapLock \<Rightarrow> if mutex s = None
          then Some (goto i (C_SnapCopy 0) (s\<lparr>mutex := Some i, local_caps := (local_caps s)(i := stack)\<rparr>)) else None
      | C_SnapCopy k \<Rightarrow> if k < caps_fields
          then Some (goto i (C_SnapCopy (Suc k)) (s\<lparr>local_caps := (local_caps s)(i := copy_field k (cache s) (local_caps s i))\<rparr>))
          else Some (goto i C_SnapUnlock s)
      | C_SnapUnlock \<Rightarrow> Some (goto i C_Idle (s\<lparr>mutex := None, answers := answers s @ [local_caps s i]\<rparr>))
      | _ \<Rightarrow> None)"

definition caps_deinit :: "nat \<Rightarrow> caps_sys \<Rightarrow> caps_sys option" where
  "caps_deinit i s =
     (case pcs s i of
        C_Deinit \<Rightarrow> Some (goto i (if active s then C_Clear else C_Idle) s)
      | C_Clear \<Rightarrow> Some (goto i C_Join (s\<lparr>active := False\<rparr>))
      | C_Join \<Rightarrow> Some (goto i (case probe s of None \<Rightarrow> C_Fault | Some h \<Rightarrow> C_Wait h) s)
      | C_Wait h \<Rightarrow> if pcs s h = R_Joined then Some (goto i C_Fault s)
          else if pcs s h = R_Done then Some (goto i C_Idle (goto h R_Joined s)) else None
      | _ \<Rightarrow> None)"

datatype caps_call = Call_Init | Call_Snapshot | Call_Deinit

fun entry :: "caps_call \<Rightarrow> caps_pc" where
  "entry Call_Init = C_InitLock"
| "entry Call_Snapshot = C_SnapLock"
| "entry Call_Deinit = C_Deinit"

inductive caps_step :: "caps_sys \<Rightarrow> caps_sys \<Rightarrow> bool" where
  cs_call: "pcs s i = C_Idle \<Longrightarrow> caps_step s (goto i (entry c) s)"
| cs_refresh: "caps_refresh_worker_loop i stack s = Some t \<Longrightarrow> caps_step s t"
| cs_init: "caps_init i create_ok child s = Some t \<Longrightarrow> caps_step s t"
| cs_snapshot: "caps_snapshot i stack s = Some t \<Longrightarrow> caps_step s t"
| cs_deinit: "caps_deinit i s = Some t \<Longrightarrow> caps_step s t"

inductive caps_reach :: "nat set \<Rightarrow> caps_sys \<Rightarrow> bool" for clients where
  cr_start: "caps_reach clients (caps_initial clients)"
| cr_step: "caps_reach clients s \<Longrightarrow> caps_step s t \<Longrightarrow> caps_reach clients t"

inductive_cases caps_stepE: "caps_step s t"

section \<open>The invariant\<close>

fun in_critical :: "caps_pc \<Rightarrow> bool" where
  "in_critical C_Init \<longleftrightarrow> True"
| "in_critical (C_InitUnlock b) \<longleftrightarrow> True"
| "in_critical (C_SnapCopy k) \<longleftrightarrow> True"
| "in_critical C_SnapUnlock \<longleftrightarrow> True"
| "in_critical (R_Copy k) \<longleftrightarrow> True"
| "in_critical R_Unlock \<longleftrightarrow> True"
| "in_critical _ \<longleftrightarrow> False"

definition whole :: "vom_worker_capabilities \<Rightarrow> bool" where
  "whole c \<longleftrightarrow> c = zero_caps \<or> collected c"

definition exclusive :: "caps_sys \<Rightarrow> bool" where
  "exclusive s \<longleftrightarrow> (\<forall>i. in_critical (pcs s i) \<longleftrightarrow> mutex s = Some i)"

text \<open>What a thread's locals and the cache are, by where the thread is.\<close>

definition local_ok :: "vom_worker_capabilities \<Rightarrow> vom_worker_capabilities \<Rightarrow> caps_pc \<Rightarrow> bool" where
  "local_ok ch loc pc =
     (case pc of
        R_Lock \<Rightarrow> collected loc
      | R_Copy k \<Rightarrow> collected loc \<and> k \<le> caps_fields \<and> (\<exists>old. ch = copied k loc old)
      | C_SnapCopy k \<Rightarrow> whole ch \<and> k \<le> caps_fields \<and> (\<exists>old. loc = copied k ch old)
      | C_SnapUnlock \<Rightarrow> whole ch \<and> loc = ch
      | C_Init \<Rightarrow> whole ch
      | C_InitUnlock b \<Rightarrow> whole ch
      | R_Unlock \<Rightarrow> whole ch
      | _ \<Rightarrow> True)"

definition caps_ok :: "caps_sys \<Rightarrow> bool" where
  "caps_ok s \<longleftrightarrow> exclusive s \<and> (\<forall>i. local_ok (cache s) (local_caps s i) (pcs s i))
     \<and> (mutex s = None \<longrightarrow> whole (cache s)) \<and> list_all whole (answers s)"

section \<open>Every transition keeps it\<close>

lemma caps_collect_eq: "caps_sys_info_collect = vom_sys_info_collect"
  by (simp add: fun_eq_iff caps_sys_info_collect_def vom_sys_info_collect_def)

lemma local_ok_outside: "\<not> in_critical pc \<Longrightarrow> local_ok ch loc pc = local_ok ch' loc pc"
  by (cases pc) (simp_all add: local_ok_def)

lemma goto_simps [simp]:
  "pcs (goto i pc s) = (pcs s)(i := pc)" "cache (goto i pc s) = cache s" "mutex (goto i pc s) = mutex s"
  "active (goto i pc s) = active s" "probe (goto i pc s) = probe s" "local_caps (goto i pc s) = local_caps s"
  "answers (goto i pc s) = answers s"
  by (simp_all add: goto_def)

definition lock_moves :: "nat \<Rightarrow> bool \<Rightarrow> bool \<Rightarrow> nat option \<Rightarrow> nat option \<Rightarrow> bool" where
  "lock_moves i before after m m' \<longleftrightarrow>
     m' = m \<and> before = after \<or> m = None \<and> m' = Some i \<and> after \<or> m = Some i \<and> m' = None \<and> \<not> after"

lemma caps_ok_move:
  assumes ok: "caps_ok s" and pcs: "pcs t = (pcs s)(i := pc)"
    and loc: "\<And>j. j \<noteq> i \<Longrightarrow> local_caps t j = local_caps s j"
    and new: "local_ok (cache t) (local_caps t i) pc"
    and cache: "cache t = cache s \<or> mutex s = Some i"
    and lock: "lock_moves i (in_critical (pcs s i)) (in_critical pc) (mutex s) (mutex t)"
    and free: "mutex t = None \<Longrightarrow> whole (cache t)" and ans: "list_all whole (answers t)"
  shows "caps_ok t"
proof -
  have ex: "in_critical (pcs s j) \<longleftrightarrow> mutex s = Some j" for j using ok by (simp add: caps_ok_def exclusive_def)
  have "in_critical (pcs t j) \<longleftrightarrow> mutex t = Some j" for j
    using lock ex [of j] ex [of i] by (cases "j = i") (auto simp: pcs lock_moves_def)
  then have "exclusive t" by (simp add: exclusive_def)
  moreover have "local_ok (cache t) (local_caps t j) (pcs t j)" for j
  proof (cases "j = i")
    case False
    have "local_ok (cache s) (local_caps s j) (pcs s j)" using ok by (simp add: caps_ok_def)
    moreover have "cache t = cache s \<or> \<not> in_critical (pcs s j)" using cache ex [of j] False by auto
    ultimately show ?thesis using False loc [OF False] local_ok_outside [of "pcs s j"] by (auto simp: pcs)
  qed (simp add: pcs new)
  ultimately show ?thesis using free ans by (simp add: caps_ok_def)
qed

lemma caps_ok_local: "caps_ok s \<Longrightarrow> pcs s i = pc \<Longrightarrow> local_ok (cache s) (local_caps s i) pc"
  by (auto simp: caps_ok_def)

lemma caps_ok_holder: "caps_ok s \<Longrightarrow> in_critical (pcs s i) \<longleftrightarrow> mutex s = Some i"
  by (simp add: caps_ok_def exclusive_def)

lemma caps_ok_free: "caps_ok s \<Longrightarrow> mutex s = None \<Longrightarrow> whole (cache s)"
  by (simp add: caps_ok_def)

lemma caps_ok_answers: "caps_ok s \<Longrightarrow> list_all whole (answers s)"
  by (simp add: caps_ok_def)

text \<open>A transition outside the critical sections that changes neither the cache nor a local of its thread.\<close>

lemma caps_ok_outside:
  assumes ok: "caps_ok s" and "pcs t = (pcs s)(i := pc)" "local_caps t = local_caps s" "cache t = cache s" "mutex t = mutex s"
    "answers t = answers s" "\<not> in_critical (pcs s i)" "\<not> in_critical pc" "pc \<noteq> R_Lock"
  shows "caps_ok t"
proof (rule caps_ok_move [OF ok assms(2)])
  show "local_ok (cache t) (local_caps t i) pc" using assms(8,9) by (cases pc) (simp_all add: local_ok_def)
qed (use assms caps_ok_free [OF ok] caps_ok_answers [OF ok] in \<open>simp_all add: lock_moves_def\<close>)

lemma refresh_keeps:
  assumes ok: "caps_ok s" and st: "caps_refresh_worker_loop i stack s = Some t"
  shows "caps_ok t"
proof (cases "pcs s i")
  case R_Test
  with st show ?thesis by (intro caps_ok_outside [OF ok, where i = i and pc = "if active s then R_Collect else R_Done"])
      (auto simp: caps_refresh_worker_loop_def)
next
  case (R_Sleep k)
  with st show ?thesis
    by (intro caps_ok_outside [OF ok, where i = i and pc = "if k < 30 \<and> active s then R_Sleep (Suc k) else R_Test"])
      (auto simp: caps_refresh_worker_loop_def)
next
  case R_Collect
  with st show ?thesis using caps_ok_free [OF ok] caps_ok_answers [OF ok]
    by (intro caps_ok_move [OF ok, where i = i and pc = R_Lock])
      (auto simp: caps_refresh_worker_loop_def local_ok_def caps_collect_eq lock_moves_def)
next
  case R_Lock
  have "\<exists>old. cache s = copied 0 (local_caps s i) old" by simp
  with R_Lock st caps_ok_local [OF ok R_Lock] caps_ok_answers [OF ok] show ?thesis
    by (intro caps_ok_move [OF ok, where i = i and pc = "R_Copy 0"])
      (auto simp: caps_refresh_worker_loop_def local_ok_def lock_moves_def split: if_splits)
next
  case (R_Copy k)
  have m: "mutex s = Some i" using caps_ok_holder [OF ok, of i] R_Copy by simp
  obtain old where l: "collected (local_caps s i)" "k \<le> caps_fields" "cache s = copied k (local_caps s i) old"
    using caps_ok_local [OF ok R_Copy] by (auto simp: local_ok_def)
  show ?thesis
  proof (cases "k < caps_fields")
    case True
    have "copy_field k (local_caps s i) (cache s) = copied (Suc k) (local_caps s i) old" using l(3) by simp
    with True R_Copy st l(1) m caps_ok_answers [OF ok] show ?thesis
      by (intro caps_ok_move [OF ok, where i = i and pc = "R_Copy (Suc k)"])
        (auto simp: caps_refresh_worker_loop_def local_ok_def lock_moves_def intro: exI [of _ old])
  next
    case False
    with l have "whole (cache s)" by (simp add: copied_end whole_def)
    with False R_Copy st m caps_ok_answers [OF ok] show ?thesis
      by (intro caps_ok_move [OF ok, where i = i and pc = R_Unlock])
        (auto simp: caps_refresh_worker_loop_def local_ok_def lock_moves_def)
  qed
next
  case R_Unlock
  with st caps_ok_local [OF ok R_Unlock] caps_ok_holder [OF ok, of i] caps_ok_answers [OF ok] show ?thesis
    by (intro caps_ok_move [OF ok, where i = i and pc = "R_Sleep 0"])
      (auto simp: caps_refresh_worker_loop_def local_ok_def lock_moves_def)
qed (use st in \<open>simp_all add: caps_refresh_worker_loop_def\<close>)

lemma init_keeps:
  assumes ok: "caps_ok s" and st: "caps_init i create_ok child s = Some t"
  shows "caps_ok t"
proof (cases "pcs s i")
  case C_InitLock
  with st caps_ok_free [OF ok] caps_ok_answers [OF ok] show ?thesis
    by (intro caps_ok_move [OF ok, where i = i and pc = C_Init])
      (auto simp: caps_init_def local_ok_def lock_moves_def split: if_splits)
next
  case C_Init
  have m: "mutex s = Some i" using caps_ok_holder [OF ok, of i] C_Init by simp
  from C_Init st m caps_ok_local [OF ok C_Init] caps_ok_answers [OF ok] show ?thesis
    by (intro caps_ok_move [OF ok, where i = i and pc = "C_InitUnlock (active s)"])
      (auto simp: caps_init_def local_ok_def lock_moves_def whole_def caps_collect_eq split: if_splits)
next
  case (C_InitUnlock b)
  with st caps_ok_local [OF ok C_InitUnlock] caps_ok_holder [OF ok, of i] caps_ok_answers [OF ok] show ?thesis
    by (intro caps_ok_move [OF ok, where i = i and pc = "if b then C_Idle else C_Create"])
      (auto simp: caps_init_def local_ok_def lock_moves_def)
next
  case C_Create
  show ?thesis
  proof (cases create_ok)
    case False
    with C_Create st show ?thesis
      by (intro caps_ok_outside [OF ok, where i = i and pc = C_Idle]) (auto simp: caps_init_def)
  next
    case True
    with C_Create st have c: "pcs s child = C_Unborn" "t = goto i C_Idle (goto child R_Test (s\<lparr>probe := Some child\<rparr>))"
      by (auto simp: caps_init_def split: if_splits)
    have "caps_ok (goto child R_Test (s\<lparr>probe := Some child\<rparr>))"
      using c(1) by (intro caps_ok_outside [OF ok, where i = child and pc = R_Test]) auto
    then show ?thesis
      unfolding c(2) by (rule caps_ok_outside [where i = i and pc = C_Idle]) (use C_Create c(1) in auto)
  qed
qed (use st in \<open>simp_all add: caps_init_def\<close>)

lemma snapshot_keeps:
  assumes ok: "caps_ok s" and st: "caps_snapshot i stack s = Some t"
  shows "caps_ok t"
proof (cases "pcs s i")
  case C_SnapLock
  have "\<exists>old. stack = copied 0 (cache s) old" by simp
  with C_SnapLock st caps_ok_free [OF ok] caps_ok_answers [OF ok] show ?thesis
    by (intro caps_ok_move [OF ok, where i = i and pc = "C_SnapCopy 0"])
      (auto simp: caps_snapshot_def local_ok_def lock_moves_def split: if_splits)
next
  case (C_SnapCopy k)
  have m: "mutex s = Some i" using caps_ok_holder [OF ok, of i] C_SnapCopy by simp
  obtain old where l: "whole (cache s)" "k \<le> caps_fields" "local_caps s i = copied k (cache s) old"
    using caps_ok_local [OF ok C_SnapCopy] by (auto simp: local_ok_def)
  show ?thesis
  proof (cases "k < caps_fields")
    case True
    have "copy_field k (cache s) (local_caps s i) = copied (Suc k) (cache s) old" using l(3) by simp
    with True C_SnapCopy st l(1) m caps_ok_answers [OF ok] show ?thesis
      by (intro caps_ok_move [OF ok, where i = i and pc = "C_SnapCopy (Suc k)"])
        (auto simp: caps_snapshot_def local_ok_def lock_moves_def intro: exI [of _ old])
  next
    case False
    with l have "local_caps s i = cache s" by (simp add: copied_end)
    with False C_SnapCopy st m l(1) caps_ok_answers [OF ok] show ?thesis
      by (intro caps_ok_move [OF ok, where i = i and pc = C_SnapUnlock])
        (auto simp: caps_snapshot_def local_ok_def lock_moves_def)
  qed
next
  case C_SnapUnlock
  with st caps_ok_local [OF ok C_SnapUnlock] caps_ok_holder [OF ok, of i] caps_ok_answers [OF ok] show ?thesis
    by (intro caps_ok_move [OF ok, where i = i and pc = C_Idle])
      (auto simp: caps_snapshot_def local_ok_def lock_moves_def)
qed (use st in \<open>simp_all add: caps_snapshot_def\<close>)

lemma deinit_keeps:
  assumes ok: "caps_ok s" and st: "caps_deinit i s = Some t"
  shows "caps_ok t"
proof (cases "pcs s i")
  case C_Deinit
  with st show ?thesis
    by (intro caps_ok_outside [OF ok, where i = i and pc = "if active s then C_Clear else C_Idle"]) (auto simp: caps_deinit_def)
next
  case C_Clear
  with st show ?thesis
    by (intro caps_ok_outside [OF ok, where i = i and pc = C_Join]) (auto simp: caps_deinit_def)
next
  case C_Join
  with st show ?thesis
    by (intro caps_ok_outside [OF ok, where i = i and pc = "case probe s of None \<Rightarrow> C_Fault | Some h \<Rightarrow> C_Wait h"])
      (auto simp: caps_deinit_def split: option.splits)
next
  case (C_Wait h)
  show ?thesis
  proof (cases "pcs s h = R_Joined")
    case True
    with C_Wait st show ?thesis
      by (intro caps_ok_outside [OF ok, where i = i and pc = C_Fault]) (auto simp: caps_deinit_def)
  next
    case False
    with C_Wait st have h: "pcs s h = R_Done" "t = goto i C_Idle (goto h R_Joined s)"
      by (auto simp: caps_deinit_def split: if_splits)
    have "caps_ok (goto h R_Joined s)"
      using h(1) by (intro caps_ok_outside [OF ok, where i = h and pc = R_Joined]) auto
    then show ?thesis
      unfolding h(2) by (rule caps_ok_outside [where i = i and pc = C_Idle]) (use C_Wait h(1) in auto)
  qed
qed (use st in \<open>simp_all add: caps_deinit_def\<close>)

lemma entry_outside [simp]: "\<not> in_critical (entry c)" "entry c \<noteq> R_Lock"
  by (cases c; simp)+

lemma call_keeps: "caps_ok s \<Longrightarrow> pcs s i = C_Idle \<Longrightarrow> caps_ok (goto i (entry c) s)"
  by (erule caps_ok_outside [where i = i and pc = "entry c"]) simp_all

lemma caps_ok_step: "caps_step s t \<Longrightarrow> caps_ok s \<Longrightarrow> caps_ok t"
  by (erule caps_stepE) (auto intro: call_keeps refresh_keeps init_keeps snapshot_keeps deinit_keeps)

lemma caps_ok_initial: "caps_ok (caps_initial clients)"
  by (simp add: caps_ok_def caps_initial_def exclusive_def local_ok_def whole_def)

lemma caps_reach_ok: "caps_reach clients s \<Longrightarrow> caps_ok s"
  by (induction rule: caps_reach.induct) (auto intro: caps_ok_initial caps_ok_step)

section \<open>Properties\<close>

text \<open>
  C15: With any number of client threads that initialise, read and stop the capability cache in any order, and any number
  of refresh threads, every snapshot a client was given is a whole record: one the collector produced, or the empty one from
  before the first initialisation; at most one thread is in a critical section, and whenever the mutex is free the
  cache holds a whole record.
\<close>

theorem client_snapshots_never_torn:
  assumes "caps_reach clients s"
  shows "list_all whole (answers s)
    \<and> (in_critical (pcs s i) \<and> in_critical (pcs s j) \<longrightarrow> i = j)
    \<and> (mutex s = None \<longrightarrow> whole (cache s))"
  using caps_reach_ok [OF assms] caps_ok_holder [OF caps_reach_ok [OF assms], of i]
    caps_ok_holder [OF caps_reach_ok [OF assms], of j] by (auto simp: caps_ok_def)

text \<open>The race: a client stops the cache between another one's setting of the flag and its creation of the thread.\<close>

datatype caps_move = MvCall nat caps_call | MvInit nat bool nat | MvSnapshot nat | MvDeinit nat | MvRefresh nat

fun caps_do :: "caps_move \<Rightarrow> caps_sys \<Rightarrow> caps_sys option" where
  "caps_do (MvCall i c) s = (if pcs s i = C_Idle then Some (goto i (entry c) s) else None)"
| "caps_do (MvInit i create_ok child) s = caps_init i create_ok child s"
| "caps_do (MvSnapshot i) s = caps_snapshot i zero_caps s"
| "caps_do (MvDeinit i) s = caps_deinit i s"
| "caps_do (MvRefresh i) s = caps_refresh_worker_loop i zero_caps s"

fun caps_run :: "caps_move list \<Rightarrow> caps_sys \<Rightarrow> caps_sys option" where
  "caps_run [] s = Some s"
| "caps_run (m # ms) s = (case caps_do m s of None \<Rightarrow> None | Some t \<Rightarrow> caps_run ms t)"

lemma caps_do_step: "caps_do m s = Some t \<Longrightarrow> caps_step s t"
  by (cases m) (auto split: if_splits intro: caps_step.intros)

lemma caps_run_reach: "caps_run ms s = Some t \<Longrightarrow> caps_reach clients s \<Longrightarrow> caps_reach clients t"
  by (induction ms arbitrary: s) (auto split: option.splits dest!: caps_do_step dest: cr_step)

definition race :: "caps_move list" where
  "race = [MvCall 0 Call_Init, MvInit 0 True 2, MvInit 0 True 2, MvInit 0 True 2,
     MvCall 1 Call_Deinit, MvDeinit 1, MvDeinit 1, MvDeinit 1]"

text \<open>
  Starting and stopping are not safe against each other: from the start a run of two clients reaches a state where
  the second joins a thread that was never created, while the first is about to create it, with the flag already cleared.
\<close>

lemma deinit_races_create:
  "\<exists>s. caps_reach {0, 1} s \<and> pcs s 1 = C_Fault \<and> pcs s 0 = C_Create \<and> \<not> active s"
proof -
  have "\<exists>s. caps_run race (caps_initial {0, 1}) = Some s \<and> pcs s 1 = C_Fault \<and> pcs s 0 = C_Create \<and> \<not> active s"
    by (simp add: race_def caps_initial_def caps_init_def caps_deinit_def)
  with caps_run_reach [OF _ cr_start] show ?thesis by blast
qed

definition one_snapshot :: "caps_move list" where
  "one_snapshot = [MvCall 0 Call_Init, MvInit 0 True 2, MvInit 0 True 2, MvInit 0 True 2, MvCall 1 Call_Snapshot]
     @ replicate 18 (MvSnapshot 1)"

theorem client_snapshots_never_torn_witness:
  "\<exists>s. caps_reach {0, 1} s \<and> length (answers s) = 1 \<and> list_all whole (answers s)"
proof -
  have "\<exists>s. caps_run one_snapshot (caps_initial {0, 1}) = Some s \<and> length (answers s) = 1"
    by (simp add: one_snapshot_def caps_initial_def caps_init_def caps_snapshot_def caps_fields_def numeral_eq_Suc)
  then obtain s where "caps_reach {0, 1} s" "length (answers s) = 1" using caps_run_reach [OF _ cr_start] by blast
  with client_snapshots_never_torn [OF this(1)] show ?thesis by blast
qed

end
