(* ===== verification/Spec2Isabelle.thy ===== *)
theory Spec2Isabelle
  imports Config Sys_Info Agent Capabilities Display_Bridge Discovery Ui_Model Ui_Coordinator Command_Lines
    Context_Life Test_Programs Compat Startup Cluster_Spec Chunk_Planner Scheduler Registry Master_Recovery Workload Worker_State
    Worker_Recovery Resource_Monitor Executor Router Transport Cluster_State Worker_Main Master_Main
    Registry_Spec Scheduler_Progress Interfaces Master_Run Worker_Run Endpoints Agent_Caps Result
begin

text \<open>
  A verification development for Void_OS-Merger: a cluster in which one master presents several workers as
  one logical device. Sources are named relative to \<^verbatim>\<open>src/\<close>.

  \<^bold>\<open>The program and its parts.\<close>
  The master keeps the authoritative cluster state (\<^verbatim>\<open>master/src/cluster_state.c\<close>), splits
  workloads into chunks (\<^verbatim>\<open>chunk_planner.c\<close>, \<^verbatim>\<open>workload.c\<close>), places chunks on workers
  (\<^verbatim>\<open>scheduler.c\<close>), knows the workers (\<^verbatim>\<open>registry.c\<close>), recovers from lost ones
  (\<^verbatim>\<open>recovery.c\<close>) and talks to them over a ZeroMQ ROUTER socket (\<^verbatim>\<open>main.c\<close>; the module
  \<^verbatim>\<open>router.c\<close>, which no program calls, opens a REP socket instead). A worker has a life cycle (\<^verbatim>\<open>worker/src/worker_state.c\<close>), measures itself
  (\<^verbatim>\<open>resource_monitor.c\<close>, \<^verbatim>\<open>capabilities.c\<close>), runs chunks as child processes
  (\<^verbatim>\<open>executor.c\<close>), remembers its leases (\<^verbatim>\<open>recovery.c\<close>), finds the master
  (\<^verbatim>\<open>discovery.c\<close>), drives displays (\<^verbatim>\<open>display_bridge.c\<close>) and talks over a DEALER socket
  (\<^verbatim>\<open>transport.c\<close>, \<^verbatim>\<open>main.c\<close>). Both use the common library (configuration, logging, hardware
  discovery, ZeroMQ helpers, a portability layer for Windows). A stand-alone agent sends heartbeats
  (\<^verbatim>\<open>agent/src\<close>), an administration tool parses commands (\<^verbatim>\<open>cli/src/main.c\<close>), and two view
  models prepare the state for display (\<^verbatim>\<open>ui/src/model.c\<close>, \<^verbatim>\<open>master/src/ui_coordinator.c\<close>). The sources
  do not include each other's headers; most files carry their own copies of the types, and so do the theories.

  \<^bold>\<open>Theories.\<close> Each models one part; definitions have the names of the functions and types they model.

  \<^item> \<open>Prelude\<close>: linear tables, C strings and numbers, rounded arithmetic, and the contracts \<open>bounded_table\<close>
    (update or append while there is room: the lease table, the two tables of the scheduler, the registry),
    \<open>snapshot_ring\<close> (reference-counted copies: cluster state, registry), \<open>guarded_simulation\<close> and its special case
    \<open>simulation\<close> (a component that refines a specification: registry, cluster state). Each is interpreted on the model's
    operations in their theories.
  \<^item> \<open>C_Scan\<close>: the \<open>fscanf\<close> directives that the probes use.
  \<^item> \<open>Cluster_State\<close>: worker and lease tables, aggregates, snapshot ring, write-ahead file. The invariant
    over all interleavings, what a save leaves in the file (also when its buffered bytes cannot be written), isolation of snapshots.
  \<^item> \<open>Cluster_Spec\<close>: the abstract directory that the cluster state refines, with every return code, and the totals it displays.
  \<^item> \<open>Chunk_Planner\<close>: identifiers, strategies, plans, and the queue-based check of the dependency graph, which
    accepts exactly the acyclic ones.
  \<^item> \<open>Scheduler\<close>: filters, scores, selection, one tick, release. No over-commitment, the choice of the first best worker.
  \<^item> \<open>Scheduler_Progress\<close>: bounds on scores in every rounding mode, so that a tick passes over no chunk that fits a
    worker; a chunk behind one whose lease keeps expiring is never scheduled.
  \<^item> \<open>Registry\<close>, \<open>Master_Recovery\<close>, \<open>Workload\<close>: records and sweeps, the lease machine and single acceptance of
    results, the life of a workload and the in-place release loop against a simultaneous one.
  \<^item> \<open>Registry_Spec\<close>: the roster that the registry refines; what it knows of a worker depends on that worker's history alone.
  \<^item> \<open>Worker_State\<close>, \<open>Worker_Recovery\<close>, \<open>Resource_Monitor\<close>: the life cycle, reconciliation of leases against a single pass,
    samples and what is left after reservations.
  \<^item> \<open>Executor\<close>: admission, reservations over any interleaving, the supervision loop and its end.
  \<^item> \<open>Wire\<close>, \<open>Router\<close>, \<open>Transport\<close>: the envelope's bytes and the socket as a source of frames, with waits that a
    signal can interrupt; what a router dispatches and sends, what the worker's transport sends and reads.
  \<^item> \<open>Worker_Main\<close>, \<open>Master_Main\<close>, \<open>Startup\<close>: the two programs, their message handling and loops, and their start and stop.
  \<^item> \<open>Master_Run\<close>, \<open>Worker_Run\<close>: both programs from start to exit code, with signals, also those that arrive while the program
    waits for a frame: what the master has saved when it stops and what a restarted one begins with, what the worker sends, when it keeps waiting
    and when it exits.
  \<^item> \<open>Endpoints\<close>: the sockets of router and transport over their whole life, and their test suites; the contract
    \<open>endpoint_lifetime\<close>; why the router's reply socket and the transport exchange nothing.
  \<^item> \<open>C_Layout\<close>, \<open>Header_Declarations\<close>, \<open>Source_Declarations\<close>, \<open>Interfaces\<close>: sizes, alignment and member offsets of C types,
    all structures, unions, enumerations and constants of the headers and of the sources, which of the
    repeated declarations agree and which differ. Where they agree, an object is read by one file as written by the other.
  \<^item> \<open>Context_Life\<close>: blocks and mutexes of the context objects, with the contract \<open>context_memory\<close>.
  \<^item> \<open>Result\<close>: the result record of the common header.
  \<^item> \<open>Test_Programs\<close>: the programs under \<^verbatim>\<open>tests\<close>, which pass on the models.
  \<^item> \<open>Config\<close>, \<open>Log\<close>, \<open>Sys_Info\<close>, \<open>Zmq\<close>: the common library.
  \<^item> \<open>Getopt\<close>, \<open>Compat\<close>: the Windows half of the portability layer (options, time, processes, threads, mutexes, signals);
    what the executor does on it.
  \<^item> \<open>Master_Cli\<close>, \<open>Command_Lines\<close>: the command lines of the master, the administration tool and the worker.
  \<^item> \<open>Agent\<close>: the two threads of the agent as a transition system (mutual exclusion, whole snapshots, shutdown), its load samples and its event loop.
  \<^item> \<open>Agent_Caps\<close>: the capability library with any number of client and refresh threads.
  \<^item> \<open>Capabilities\<close>, \<open>Display_Bridge\<close>, \<open>Discovery\<close>: the remaining parts of the worker.
  \<^item> \<open>Ui_Model\<close>, \<open>Ui_Coordinator\<close>: the view models.
  \<^item> This theory: the messages of both main programs put together: what becomes of the worker's join request at the
    master, which expects a delimiter frame that the worker does not send.

  \<^bold>\<open>Conventions.\<close>
  Structures are records, enumerations datatypes, integers words of their width where they can wrap and \<open>int\<close> or \<open>nat\<close>
  where the code compares them only. An array with its count is the list of its live entries. A character buffer is the string before its
  terminating zero. A function that fails returns its code or an option; writing or reading outside an
  object is a separate outcome. What a variable holds before it is set is an argument. Time, files, memory
  allocation, ZeroMQ, the operating system and floating-point rounding are parameters, with the documented behaviour
  a theorem needs as a named hypothesis and an instance in its witness. A mutex makes the operation under it one
  step; where the code copies a structure under a mutex between threads (\<open>Agent\<close>, \<open>Agent_Caps\<close>), the copy is one step for each
  field. A structure whose bytes other files read has a storage layout (\<open>C_Layout\<close>), that of 64-bit Linux.

  \<^bold>\<open>Loops.\<close>
  Loops over tables and files are structural or have a measure. Three loops have none and are \<open>partial_function (option)\<close>: the
  supervision loop of \<open>Executor\<close>, shown to end when the clock reaches the timeout; the graph check of
  \<open>Chunk_Planner\<close>, shown to return for every plan within its limits; and the option loop of \<open>Master_Cli\<close>, shown to return on the command lines
  of its round trip. Event loops run over the list of their rounds, each with the answers of the clock and the signals that arrive in it. No loop is cut off by a bound of the model.

  \<^bold>\<open>Not modelled.\<close>
  Printed texts apart from those a buffer or the log file receives, socket options of the two main functions, signal registration, and
  daemon mode, which the master's own argument parser never selects. The NULL checks on context pointers, which return a fixed code. Function prototypes and \<open>extern\<close> declarations,
  include directives and macros that only rename a function: they have no behaviour. \<^verbatim>\<open>worker/src/heartbeat.c\<close>, which
  is a comment. Code that is not C: the Cap'n Proto schemas, the web interface, cloud functions and scripts; the zipped
  third-party compiler; assets.
\<close>

section \<open>Messages between the parts\<close>

text \<open>
  The master's main program has a ROUTER socket, which puts the identity of the peer in front of each message it
  receives; the worker's DEALER socket adds nothing. \<open>at_router\<close> is what the master receives of a peer's frames.
\<close>

definition at_router :: "string \<Rightarrow> bytes list \<Rightarrow> bytes list" where
  "at_router wid frames = string_bytes wid # frames"

lemma join_sent:
  "send_join tm True 0 = (True, [encode_env \<lparr>protocol_version = 1, message_code = ROUTER_MSG_JOIN_REQ,
     payload_length = 12, sequence_id = 0, timestamp_ms = tm * 1000\<rparr> @ le_bytes 4 (4 :: u32)
     @ le_bytes 8 (4 * 1024 * 1024 * 1024 :: u64)])"
  by (simp add: send_join_def send_envelope_def join_payload_def Let_def)

definition demo_join_frame :: bytes where
  "demo_join_frame = hd (snd (send_join 5 True 0))"

lemma demo_join_sent: "send_join 5 True 0 = (True, [demo_join_frame])"
  by (simp add: demo_join_frame_def join_sent)

text \<open>A join request without the delimiter, alone on the socket, before another worker's message, and as the
  third of three.\<close>

lemma join_alone_blocks:
  assumes "zmq_stream recv frames" "zmq_waiting wrecv frames" "wid \<noteq> []" "length wid < 64"
    and s: "frames s = at_router wid [f]"
  shows "master_loop recv wrecv (t # ts) st s = Blocked"
proof -
  have len: "string_bytes wid \<noteq> []" "length (string_bytes wid) < 64"
    using assms(3,4) by (auto simp: string_bytes_def)
  obtain s1 where 1: "recv 63 s = (int (length (string_bytes wid)), take 63 (string_bytes wid), s1)"
    "frames s1 = [f]" using zmq_stream_next [OF assms(1) s [unfolded at_router_def]] by metis
  obtain s2 where 2: "wrecv (Suc 0) s1 = Some (int (length f), take (Suc 0) f, s2)" "frames s2 = []"
    using zmq_waiting_next [OF assms(2) 1(2)] by metis
  have "master_poll recv wrecv t c s = Blocked" for c
    using len assms(3) by (simp add: master_poll_def 1(1) 2(1) zmq_waiting_empty [OF assms(2) 2(2)] Let_def)
  then show ?thesis by (simp add: master_round_def)
qed

lemma join_pair_lost:
  assumes "zmq_stream recv frames" "zmq_waiting wrecv frames" "wid \<noteq> []" "length wid < 64" "length wid2 < 24"
    and "frames s = at_router wid [f] @ at_router wid2 rest"
  shows "\<exists>s'. master_poll recv wrecv t c s = Returned (c, [], s') \<and> frames s' = rest"
proof -
  have s: "frames s = string_bytes wid # f # string_bytes wid2 # rest" using assms(6) by (simp add: at_router_def)
  have len: "string_bytes wid \<noteq> []" "length (string_bytes wid) < 64"
    using assms(3,4) by (auto simp: string_bytes_def)
  have "deliver (string_bytes wid) (string_bytes wid2) t c = (c, [])"
    using assms(5) by (simp add: deliver_def ENVELOPE_SIZE_def)
  then show ?thesis using poll_three_frames [OF assms(1,2) s len, of t c] by (metis fst_conv snd_conv)
qed

lemma join_frame_bytes:
  assumes "send_join tm True 0 = (True, [f])"
  obtains env payload rest where "f = encode_env env @ payload" "length f = 36" "f = 1 # 0 # rest" "f ! 7 = 0"
    "protocol_version env = 1" "message_code env = ROUTER_MSG_JOIN_REQ"
proof -
  define env where "env = \<lparr>protocol_version = 1, message_code = ROUTER_MSG_JOIN_REQ,
     payload_length = 12, sequence_id = 0, timestamp_ms = tm * 1000\<rparr>"
  have f: "f = encode_env env @ le_bytes 4 (4 :: u32) @ le_bytes 8 (4 * 1024 * 1024 * 1024 :: u64)"
    using assms join_sent [of tm] by (simp add: env_def)
  have "le_bytes 2 (1 :: u16) = [1, 0]" "le_bytes 2 ROUTER_MSG_JOIN_REQ = [3, 0]" "le_bytes 4 (12 :: u32) = [12, 0, 0, 0]"
    by code_simp+
  then have bytes: "f = 1 # 0 # 3 # 0 # 12 # 0 # 0 # 0 # drop 8 f" by (simp add: f encode_env_def env_def)
  obtain g where g: "f = 1 # 0 # 3 # 0 # 12 # 0 # 0 # 0 # g" using bytes by blast
  have 1: "f = 1 # 0 # drop 2 f" and 2: "f ! 7 = 0" by (simp_all add: g)
  have "length f = 36" by (simp add: f ENVELOPE_SIZE_def)
  with f show thesis by (rule that [OF _ _ 1 2]) (simp_all add: env_def)
qed

lemma third_join_is_worker_one:
  assumes "zmq_stream recv frames" "zmq_waiting wrecv frames"
    and "send_join tm True 0 = (True, [f])" and s: "frames s = f # string_bytes wid3 # f # rest"
  shows "\<exists>c' answer s'. master_poll recv wrecv t c s = Returned (c', answer, s') \<and> frames s' = rest \<and> fst (hd answer) = [1]
    \<and> map WorkerMember.worker_id (active_workers (master_state c')) = map WorkerMember.worker_id (active_workers (master_state c))
        @ (if 1 \<in> WorkerMember.worker_id ` set (active_workers (master_state c))
              \<or> 32 \<le> length (active_workers (master_state c)) then [] else [1])"
proof -
  obtain env payload fr where f: "f = encode_env env @ payload" "length f = 36" "f = 1 # 0 # fr" "f ! 7 = 0"
    "protocol_version env = 1" "message_code env = ROUTER_MSG_JOIN_REQ" using join_frame_bytes [OF assms(3)] .
  have len: "f \<noteq> []" "length f < 64" using f(2) by auto
  obtain s' where s': "frames s' = rest" "master_poll recv wrecv t c s = Returned (fst (deliver f f t c), snd (deliver f f t c), s')"
    using poll_three_frames [OF assms(1,2) s len, of t c] by metis
  have "drop 7 f = 0 # drop 8 f" using Cons_nth_drop_Suc [of 7 f] f(2,4) by simp
  then have num: "worker_number (whole_id_buf f t) = 1"
    using f(2) by (simp add: worker_number_def whole_id_buf_def c_string_def c_atoi_def)
  let ?w = "join_member env (whole_id_buf f t) (whole_pbuf f t) (now t * 1000)"
  have dec: "decode_env f = env" "ENVELOPE_SIZE \<le> length f" using f(2) by (simp_all add: f(1) ENVELOPE_SIZE_def)
  have "deliver f f t c = (bump_generation (snd (cluster_state_register_worker ?w c)), join_response env (whole_id_buf f t) (now t * 1000))"
    unfolding deliver_def dec(1) using dec(2) f(5,6) by (simp add: handle_message_def)
  moreover have "fst (hd (join_response env (whole_id_buf f t) (now t * 1000))) = [1]"
    by (simp add: join_response_def whole_id_buf_def f(3))
  moreover have "WorkerMember.worker_id ?w = 1" by (simp add: join_member_def num Let_def split_def)
  ultimately show ?thesis using s' by (auto simp: register_workers)
qed

text \<open>
  C24: As the worker sends it, without the delimiter, a join request is never read as its sender's. Alone on
  the socket it makes the master wait for a third frame, and the event loop does not return (unless a signal interrupts the wait). When another worker's message
  follows, the master takes that worker's identity for the envelope: the round consumes both frames and the
  identity, registers nobody and answers nothing. Of three join requests in a row the third one is taken for one of the second
  envelope's bytes as identity: it registers a worker 1, whoever sent it, and answers to an identity nobody has.
\<close>

theorem worker_join_lost:
  assumes "zmq_stream recv frames" "zmq_waiting wrecv frames"
    and "wid \<noteq> []" "length wid < 64" "wid2 \<noteq> []" "length wid2 < 24"
    and "send_join tm True 0 = (True, [f])"
  shows "(frames s = at_router wid [f] \<longrightarrow> master_loop recv wrecv (t # ts) st s = Blocked)
    \<and> (frames s = at_router wid [f] @ at_router wid2 rest \<longrightarrow>
        (\<exists>s'. master_poll recv wrecv t c s = Returned (c, [], s') \<and> frames s' = rest))
    \<and> (frames s = at_router wid [f] @ at_router wid2 [f] @ at_router wid3 [f] \<longrightarrow>
        (\<exists>s1 c' answer s2. master_poll recv wrecv t c s = Returned (c, [], s1)
          \<and> master_poll recv wrecv t2 c s1 = Returned (c', answer, s2) \<and> fst (hd answer) = [1]
          \<and> map WorkerMember.worker_id (active_workers (master_state c')) = map WorkerMember.worker_id (active_workers (master_state c))
              @ (if 1 \<in> WorkerMember.worker_id ` set (active_workers (master_state c))
                    \<or> 32 \<le> length (active_workers (master_state c)) then [] else [1])))"
proof (intro conjI impI)
  show "master_loop recv wrecv (t # ts) st s = Blocked" if "frames s = at_router wid [f]"
    using assms(1-4) that by (rule join_alone_blocks)
  show "\<exists>s'. master_poll recv wrecv t c s = Returned (c, [], s') \<and> frames s' = rest"
    if "frames s = at_router wid [f] @ at_router wid2 rest"
    using assms(1-4,6) that by (rule join_pair_lost)
  assume "frames s = at_router wid [f] @ at_router wid2 [f] @ at_router wid3 [f]"
  then have "frames s = at_router wid [f] @ at_router wid2 (f # string_bytes wid3 # f # [])" by (simp add: at_router_def)
  from join_pair_lost [OF assms(1-4,6) this, of t c]
  obtain s1 where s1: "master_poll recv wrecv t c s = Returned (c, [], s1)" "frames s1 = f # string_bytes wid3 # f # []" by blast
  from third_join_is_worker_one [OF assms(1,2,7) s1(2), of t2 c] s1(1)
  show "\<exists>s1 c' answer s2. master_poll recv wrecv t c s = Returned (c, [], s1)
          \<and> master_poll recv wrecv t2 c s1 = Returned (c', answer, s2) \<and> fst (hd answer) = [1]
          \<and> map WorkerMember.worker_id (active_workers (master_state c')) = map WorkerMember.worker_id (active_workers (master_state c))
              @ (if 1 \<in> WorkerMember.worker_id ` set (active_workers (master_state c))
                    \<or> 32 \<le> length (active_workers (master_state c)) then [] else [1])" by blast
qed

theorem worker_join_lost_witness:
  "master_loop queue_recv queue_wait [demo_tick] (master_start \<lparr>sys_ctx = cluster_boot ''c'' 1, sys_wal = WAL_ABSENT\<rparr>)
      (at_router ''worker-7'' [demo_join_frame]) = Blocked
   \<and> (\<exists>s1 c' answer s2. master_poll queue_recv queue_wait demo_tick (cluster_boot ''c'' 1)
        (at_router ''worker-7'' [demo_join_frame] @ at_router ''worker-8'' [demo_join_frame] @ at_router ''worker-9'' [demo_join_frame])
          = Returned (cluster_boot ''c'' 1, [], s1)
       \<and> master_poll queue_recv queue_wait demo_tick (cluster_boot ''c'' 1) s1 = Returned (c', answer, s2)
       \<and> map WorkerMember.worker_id (active_workers (master_state c')) = [1])"
proof -
  let ?f = demo_join_frame and ?c = "cluster_boot ''c'' 1"
  let ?s = "at_router ''worker-7'' [?f] @ at_router ''worker-8'' [?f] @ at_router ''worker-9'' [?f]"
  have c: "active_workers (master_state ?c) = []"
    by (simp add: cluster_boot_def cluster_state_create_def zero_snapshot_def)
  note lost = worker_join_lost [where frames = "\<lambda>s. s" and wid = "''worker-7''" and ?wid2.0 = "''worker-8''" and ?wid3.0 = "''worker-9''"
      and t = demo_tick and ?t2.0 = demo_tick and c = ?c and ts = "[]", OF queue_stream queue_waiting _ _ _ _ demo_join_sent]
  from lost [where s = "at_router ''worker-7'' [?f]"]
  have "master_loop queue_recv queue_wait [demo_tick] st (at_router ''worker-7'' [?f]) = Blocked" for st by simp
  moreover from lost [where s = ?s, THEN conjunct2, THEN conjunct2]
  have "\<exists>s1 c' answer s2. master_poll queue_recv queue_wait demo_tick ?c ?s = Returned (?c, [], s1)
      \<and> master_poll queue_recv queue_wait demo_tick ?c s1 = Returned (c', answer, s2)
      \<and> map WorkerMember.worker_id (active_workers (master_state c')) = [1]" unfolding c by auto
  ultimately show ?thesis by blast
qed

lemma hex_letter:
  assumes "ch \<in> set ''abcdef''"
  shows "\<not> c_isspace ch \<and> \<not> c_isdigit ch \<and> ch \<noteq> CHR ''-'' \<and> ch \<noteq> CHR ''+''"
proof -
  have "list_all (\<lambda>ch. \<not> c_isspace ch \<and> \<not> c_isdigit ch \<and> ch \<noteq> CHR ''-'' \<and> ch \<noteq> CHR ''+'') ''abcdef''"
    by (simp add: c_isspace_def c_isdigit_def)
  with assms show ?thesis unfolding list_all_iff by blast
qed

text \<open>
  A worker that derives its identity from a hardware address whose fourth byte starts with a letter is
  worker 1 to the master. In a cluster that already has a worker 1, its join request (framed as the master
  expects it) registers nobody, but is answered like a successful one.
\<close>

theorem letter_addresses_collide:
  assumes "zmq_stream recv frames" "zmq_waiting wrecv frames"
    and "length mac = 17" "zero_free mac" "mac ! 9 \<in> set ''abcdef''"
    and "send_join tm True 0 = (True, [f])"
    and "frames s = at_router (generate_worker_id 64 (Some mac) pid tm2) [[], f]"
    and "1 \<in> WorkerMember.worker_id ` set (active_workers (master_state c))"
  shows "\<exists>c' s'. master_poll recv wrecv t c s = Returned (c',
      [(string_bytes (generate_worker_id 64 (Some mac) pid tm2), True), ([], True),
       (encode_env \<lparr>protocol_version = 1, message_code = ROUTER_MSG_JOIN_RESP, payload_length = 0,
                    sequence_id = 0, timestamp_ms = now t * 1000\<rparr>, False)], s')
    \<and> active_workers (master_state c') = active_workers (master_state c)"
proof -
  define wid where "wid = generate_worker_id 64 (Some mac) pid tm2"
  define env where "env = \<lparr>protocol_version = 1, message_code = ROUTER_MSG_JOIN_REQ,
     payload_length = 12, sequence_id = 0, timestamp_ms = tm * 1000\<rparr>"
  have wid: "wid = ''worker-'' @ drop 9 mac"
    using assms(3) by (simp add: wid_def generate_worker_id_def)
  have "drop 9 mac = mac ! 9 # drop 10 mac" using Cons_nth_drop_Suc [of 9 mac] assms(3) by simp
  with assms(5) obtain ch cs where ch: "drop 9 mac = ch # cs" "ch \<in> set ''abcdef''" by metis
  have "c_atoi (ch # cs) = 0" using hex_letter [OF ch(2)] by (simp add: c_atoi_def)
  moreover have zf: "zero_free (drop 9 mac)" using assms(4) by (auto simp: zero_free_def dest: in_set_dropD)
  ultimately have num: "worker_number (whole_id_buf (string_bytes wid) t) = 1"
    unfolding wid by (subst worker_number_suffix) (simp_all add: ch(1))
  obtain payload where f: "f = encode_env env @ payload" using assms(6) join_sent [of tm] by (auto simp: env_def)
  have s: "frames s = string_bytes wid # [] # f # []" using assms(7) by (simp add: at_router_def wid_def)
  have len: "string_bytes wid \<noteq> []" "length (string_bytes wid) < 64"
    using assms(3) by (auto simp: string_bytes_def wid)
  obtain s' where s': "master_poll recv wrecv t c s =
      Returned (fst (deliver (string_bytes wid) f t c), snd (deliver (string_bytes wid) f t c), s')"
    using poll_three_frames [OF assms(1,2) s len, of t c] by metis
  let ?w = "join_member env (whole_id_buf (string_bytes wid) t) (whole_pbuf f t) (now t * 1000)"
  have d: "deliver (string_bytes wid) f t c = (bump_generation (snd (cluster_state_register_worker ?w c)),
      join_response env (whole_id_buf (string_bytes wid) t) (now t * 1000))"
    unfolding f by (simp only: deliver_def decode_encode) (simp add: handle_message_def env_def)
  have "WorkerMember.worker_id ?w = 1" by (simp add: join_member_def num Let_def split_def)
  moreover have "zero_free wid" using zf by (simp add: wid zero_free_def)
  ultimately show ?thesis
    unfolding s' d wid_def [symmetric] using assms(8)
    by (simp add: register_workers join_response_def id_string_taken env_def)
qed

definition demo_member :: WorkerMember where
  "demo_member = \<lparr>WorkerMember.worker_id = 1, health = WORKER_HEALTH_ONLINE, last_seen_timestamp_ms = 0,
     resources = \<lparr>total_memory_bytes = 1, reserved_memory_bytes = 0, total_cores = 1, reserved_cores = 0\<rparr>\<rparr>"

theorem letter_addresses_collide_witness:
  "\<exists>c' fr s'. master_poll queue_recv queue_wait demo_tick
      (snd (cluster_state_register_worker demo_member (cluster_boot ''c'' 1)))
      (at_router (generate_worker_id 64 (Some ''00:11:22:ab:cd:ef'') 1 1) [[], demo_join_frame]) = Returned (c', fr, s')
    \<and> length fr = 3 \<and> active_workers (master_state c') = [demo_member]"
proof -
  have c: "active_workers (master_state (snd (cluster_state_register_worker demo_member (cluster_boot ''c'' 1)))) =
      [demo_member]"
    by (simp add: register_workers cluster_boot_def cluster_state_create_def zero_snapshot_def)
  have m: "length ''00:11:22:ab:cd:ef'' = 17" "zero_free ''00:11:22:ab:cd:ef''"
    "''00:11:22:ab:cd:ef'' ! 9 \<in> set ''abcdef''"
    by (simp_all add: zero_free_def)
  show ?thesis
    using letter_addresses_collide [where frames = "\<lambda>s. s" and pid = 1 and ?tm2.0 = 1 and t = demo_tick
        and c = "snd (cluster_state_register_worker demo_member (cluster_boot ''c'' 1))"
        and s = "at_router (generate_worker_id 64 (Some ''00:11:22:ab:cd:ef'') 1 1) [[], demo_join_frame]",
        OF queue_stream queue_waiting m demo_join_sent refl]
    unfolding c by (auto simp: demo_member_def)
qed

end
